(* ===== verification/Prelude.thy ===== *)
theory Prelude
  imports Main "HOL-Library.Word"
begin

text \<open>
  Shared vocabulary of the development: the C++ types the program computes with, the
  members of \<^verbatim>\<open>std::string\<close>, \<^verbatim>\<open>std::istream\<close> and
  \<^verbatim>\<open>std::map\<close> that it calls (the language's standard library, whose contract is
  the C++ standard), and the generic lemmas several components use.

  A \<^verbatim>\<open>char\<close> is a byte, so \<^verbatim>\<open>std::string\<close> and
  \<^verbatim>\<open>Glib::ustring\<close> (UTF-8) are both lists of bytes. Equality of ustrings is
  modelled as equality of their bytes.
\<close>

type_synonym ustring = string
type_synonym u64 = "64 word"
type_synonym u32 = "32 word"
type_synonym i32 = "32 word"
type_synonym f64 = "64 word"

named_theorems handler_defs \<open>definitions of the event handlers, unfolded together\<close>
named_theorems heap_simps \<open>how an update of the node heap is seen through the accessors\<close>

section \<open>std::string\<close>

datatype cpp_error = Out_of_range | Bson_error string

text \<open>
  \<^verbatim>\<open>std::string::substr(pos, n)\<close>: \<open>pos > size()\<close> throws
  \<^verbatim>\<open>std::out_of_range\<close>; otherwise at most \<open>n\<close> bytes from \<open>pos\<close>
  on. Both arguments are \<^verbatim>\<open>size_t\<close>.
\<close>

definition substr :: "string \<Rightarrow> u64 \<Rightarrow> u64 \<Rightarrow> cpp_error + string" where
  "substr s pos n =
     (if length s < unat pos then Inl Out_of_range else Inr (take (unat n) (drop (unat pos) s)))"

text \<open>\<^verbatim>\<open>std::replace(begin, end, a, b)\<close>.\<close>

definition replace_char :: "char \<Rightarrow> char \<Rightarrow> string \<Rightarrow> string" where
  "replace_char a b s = map (\<lambda>c. if c = a then b else c) s"

lemma length_replace_char [simp]: "length (replace_char a b s) = length s"
  by (simp add: replace_char_def)

lemma replace_char_gone: "a \<noteq> b \<Longrightarrow> a \<notin> set (replace_char a b s)"
  by (auto simp: replace_char_def)

lemma replace_char_id: "a \<notin> set s \<Longrightarrow> replace_char a b s = s"
  by (auto simp: replace_char_def intro!: map_idI)

section \<open>std::istream\<close>

text \<open>
  The unread bytes, the two state bits the program can see, and the count of the last
  unformatted read. \<open>good\<close> is \<open>rdstate() == 0\<close>; a stream converts to true
  while its failbit is clear.
\<close>

record istream =
  unread :: string
  eofbit :: bool
  failbit :: bool
  gcount :: nat

definition good :: "istream \<Rightarrow> bool" where
  "good is \<longleftrightarrow> \<not> eofbit is \<and> \<not> failbit is"

definition open_stream :: "string \<Rightarrow> istream" where
  "open_stream s = \<lparr>unread = s, eofbit = False, failbit = False, gcount = 0\<rparr>"

text \<open>\<^verbatim>\<open>std::ifstream(name)\<close>: a file that cannot be opened leaves the failbit set.\<close>

definition ifstream :: "string option \<Rightarrow> istream" where
  "ifstream f = (case f of
     Some s \<Rightarrow> open_stream s
   | None \<Rightarrow> \<lparr>unread = [], eofbit = False, failbit = True, gcount = 0\<rparr>)"

text \<open>
  \<^verbatim>\<open>is.read(buf, n)\<close>: the bytes stored in the buffer and the stream after it. A stream
  that is not good stores nothing and gets its failbit set; reaching the end before \<open>n\<close>
  bytes sets eofbit and failbit.
\<close>

definition is_read :: "nat \<Rightarrow> istream \<Rightarrow> string \<times> istream" where
  "is_read n is =
     (if \<not> good is then ([], is\<lparr>failbit := True, gcount := 0\<rparr>)
      else if length (unread is) < n
        then (unread is,
              is\<lparr>unread := [], eofbit := True, failbit := True, gcount := length (unread is)\<rparr>)
        else (take n (unread is), is\<lparr>unread := drop n (unread is), gcount := n\<rparr>))"

text \<open>
  \<^verbatim>\<open>std::getline(is, str, delim)\<close>: the string read, \<open>None\<close> where the stream
  converts to false afterwards (nothing was extracted). The delimiter is extracted and not
  stored; the end of the data sets eofbit.
\<close>

definition getline :: "char \<Rightarrow> istream \<Rightarrow> string option \<times> istream" where
  "getline d is =
     (if \<not> good is then (None, is\<lparr>failbit := True\<rparr>)
      else if unread is = [] then (None, is\<lparr>eofbit := True, failbit := True\<rparr>)
      else let line = takeWhile (\<lambda>c. c \<noteq> d) (unread is);
               rest = dropWhile (\<lambda>c. c \<noteq> d) (unread is)
           in case rest of
                [] \<Rightarrow> (Some line, is\<lparr>unread := [], eofbit := True\<rparr>)
              | _ # rest' \<Rightarrow> (Some line, is\<lparr>unread := rest'\<rparr>))"

lemma getline_shrinks:
  assumes "getline d is = (Some line, is')"
  shows "length (unread is') < length (unread is)"
proof -
  have "length (dropWhile (\<lambda>c. c \<noteq> d) (unread is)) \<le> length (unread is)"
    by (rule length_dropWhile_le)
  with assms show ?thesis
    by (auto simp: getline_def Let_def split: if_splits list.splits)
qed

lemma is_read_shrinks:
  assumes "is_read n is = (buf, is')" and "0 < n" and "\<not> failbit is'"
  shows "length (unread is') < length (unread is)"
  using assms by (auto simp: is_read_def split: if_splits)

lemma is_read_bytes: "is_read n is = (buf, is') \<Longrightarrow> good is \<Longrightarrow> buf @ unread is' = unread is"
  by (auto simp: is_read_def split: if_splits)

lemma is_read_gcount: "is_read n is = (buf, is') \<Longrightarrow> gcount is' = length buf"
  by (auto simp: is_read_def split: if_splits)

section \<open>Numbers as decimal strings\<close>

fun dec :: "nat \<Rightarrow> string" where
  "dec n = (if n < 10 then [char_of (48 + n)] else dec (n div 10) @ [char_of (48 + n mod 10)])"

declare dec.simps [simp del]

lemma dec_less_10: "n < 10 \<Longrightarrow> dec n = [char_of (48 + n)]"
  by (simp add: dec.simps)

lemma length_dec_pos [simp]: "0 < length (dec n)"
  by (subst dec.simps) simp

lemma length_dec_le: "n < 10 ^ k \<Longrightarrow> 0 < k \<Longrightarrow> length (dec n) \<le> k"
proof (induction k arbitrary: n)
  case 0
  then show ?case by simp
next
  case (Suc k)
  show ?case
  proof (cases "n < 10")
    case True
    then show ?thesis by (simp add: dec_less_10)
  next
    case False
    then have "n div 10 < 10 ^ k" and "0 < k"
      using Suc.prems by (auto simp: less_mult_imp_div_less) (cases k; simp)
    with Suc.IH have "length (dec (n div 10)) \<le> k" by blast
    with False show ?thesis by (subst dec.simps) simp
  qed
qed

section \<open>Lists\<close>

lemma concat_map_singleton [simp]: "concat (map (\<lambda>x. [f x]) xs) = map f xs"
  by (induction xs) auto

lemma last_write_wins: "fold (\<lambda>x _. Some x) xs acc = (if xs = [] then acc else Some (last xs))"
  by (induction xs arbitrary: acc) auto

end
