(* ===== verification/Offer_Node.thy ===== *)
theory Offer_Node
  imports Prelude
begin

text \<open>
  feed/offer_node.h and feed/offer_node.cpp: the nodes of an offer's element tree.

  A node is held by \<^verbatim>\<open>std::shared_ptr\<close> from its parent's child list and from the
  two pointers of the parser, and points back to its parent with a
  \<^verbatim>\<open>std::weak_ptr\<close>. The nodes therefore live in an explicit store, a list indexed
  by address in allocation order, so that aliasing between the parser's pointers and the child
  lists is visible. Nothing is removed from the store: a node whose last shared pointer is gone
  is one that \<open>live\<close> does not reach from the pointers that hold nodes (\<open>roots\<close>), and
  \<open>parent\<close>, which locks the weak pointer, returns null for it.

  The lemmas: \<open>heap_ok\<close> (the store is a forest whose child lists and parent pointers agree),
  which \<open>add_child\<close> keeps; the tree a node stands for, \<open>tree_of\<close>; and the frame
  lemmas the parser's proof needs.
\<close>

record offer_node =
  m_parent :: "nat option"
  m_children :: "nat list"
  m_name :: ustring
  m_data :: ustring

type_synonym heap = "offer_node list"

definition offer_node_init :: offer_node where
  "offer_node_init = \<lparr>m_parent = None, m_children = [], m_name = [], m_data = []\<rparr>"

text \<open>\<^verbatim>\<open>std::make_shared<offer_node>()\<close>: the new node's address and the store.\<close>

definition make_node :: "heap \<Rightarrow> nat \<times> heap" where
  "make_node h = (length h, h @ [offer_node_init])"

definition name_of :: "heap \<Rightarrow> nat \<Rightarrow> ustring" where
  "name_of h a = m_name (h ! a)"

definition data_of :: "heap \<Rightarrow> nat \<Rightarrow> ustring" where
  "data_of h a = m_data (h ! a)"

definition children :: "heap \<Rightarrow> nat \<Rightarrow> nat list" where
  "children h a = m_children (h ! a)"

definition has_children :: "heap \<Rightarrow> nat \<Rightarrow> bool" where
  "has_children h a \<longleftrightarrow> children h a \<noteq> []"

definition set_name :: "heap \<Rightarrow> nat \<Rightarrow> ustring \<Rightarrow> heap" where
  "set_name h a s = h[a := (h ! a)\<lparr>m_name := s\<rparr>]"

definition set_data :: "heap \<Rightarrow> nat \<Rightarrow> ustring \<Rightarrow> heap" where
  "set_data h a s = h[a := (h ! a)\<lparr>m_data := s\<rparr>]"

definition add_child :: "heap \<Rightarrow> nat \<Rightarrow> nat \<Rightarrow> heap" where
  "add_child h a c =
     (let h1 = h[c := (h ! c)\<lparr>m_parent := Some a\<rparr>]
      in h1[a := (h1 ! a)\<lparr>m_children := m_children (h1 ! a) @ [c]\<rparr>])"

text \<open>
  The nodes some shared pointer keeps alive: those of \<open>roots\<close>, and the children of live
  nodes. A child is always allocated after the node it is added to (\<open>heap_ok\<close>), so only
  lower addresses can own a node.
\<close>

fun live :: "heap \<Rightarrow> nat list \<Rightarrow> nat \<Rightarrow> bool" where
  "live h roots a \<longleftrightarrow>
     a \<in> set roots \<or> (\<exists>p \<in> set [0..<a]. a \<in> set (children h p) \<and> live h roots p)"

declare live.simps [simp del]

text \<open>\<^verbatim>\<open>m_parent.lock()\<close>.\<close>

definition parent :: "heap \<Rightarrow> nat list \<Rightarrow> nat \<Rightarrow> nat option" where
  "parent h roots a =
     (case m_parent (h ! a) of
        None \<Rightarrow> None
      | Some p \<Rightarrow> if live h roots p then Some p else None)"

section \<open>Well-formed stores\<close>

definition heap_ok :: "heap \<Rightarrow> bool" where
  "heap_ok h \<longleftrightarrow>
     (\<forall>p < length h. distinct (children h p)) \<and>
     (\<forall>p < length h. \<forall>c \<in> set (children h p).
        p < c \<and> c < length h \<and> m_parent (h ! c) = Some p) \<and>
     (\<forall>c < length h. \<forall>p. m_parent (h ! c) = Some p \<longrightarrow> p < c \<and> c \<in> set (children h p))"

lemma heap_ok_distinct: "heap_ok h \<Longrightarrow> p < length h \<Longrightarrow> distinct (children h p)"
  unfolding heap_ok_def by blast

lemma heap_ok_child:
  "heap_ok h \<Longrightarrow> p < length h \<Longrightarrow> c \<in> set (children h p) \<Longrightarrow>
   p < c \<and> c < length h \<and> m_parent (h ! c) = Some p"
  unfolding heap_ok_def by blast

lemma heap_ok_parent:
  "heap_ok h \<Longrightarrow> c < length h \<Longrightarrow> m_parent (h ! c) = Some p \<Longrightarrow> p < c \<and> c \<in> set (children h p)"
  unfolding heap_ok_def by blast

lemmas heap_okD = heap_ok_distinct heap_ok_child heap_ok_parent

lemma heap_ok_Nil [simp]: "heap_ok []"
  by (simp add: heap_ok_def)

lemma heap_length [heap_simps]:
  "length (set_name h a s) = length h" "length (set_data h a s) = length h"
  "length (add_child h a c) = length h" "length (h @ [offer_node_init]) = Suc (length h)"
  by (simp_all add: set_name_def set_data_def add_child_def Let_def)

lemma heap_at_alloc: "i < length h \<Longrightarrow> (h @ [offer_node_init]) ! i = h ! i"
  by (simp add: nth_append)

lemma heap_at_set_name:
  "a < length h \<Longrightarrow> set_name h a s ! i = (if i = a then (h ! a)\<lparr>m_name := s\<rparr> else h ! i)"
  by (simp add: set_name_def nth_list_update)

lemma heap_at_set_data:
  "a < length h \<Longrightarrow> set_data h a s ! i = (if i = a then (h ! a)\<lparr>m_data := s\<rparr> else h ! i)"
  by (simp add: set_data_def nth_list_update)

lemma heap_at_add_child:
  "a < length h \<Longrightarrow> c < length h \<Longrightarrow> a \<noteq> c \<Longrightarrow>
   add_child h a c ! i =
     (if i = a then (h ! a)\<lparr>m_children := m_children (h ! a) @ [c]\<rparr>
      else if i = c then (h ! c)\<lparr>m_parent := Some a\<rparr> else h ! i)"
  by (simp add: add_child_def Let_def nth_list_update)

lemma children_alloc [heap_simps]:
  "p \<le> length h \<Longrightarrow>
   children (h @ [offer_node_init]) p = (if p = length h then [] else children h p)"
  by (simp add: children_def nth_append offer_node_init_def)

lemma children_set_name [heap_simps]: "a < length h \<Longrightarrow> children (set_name h a s) p = children h p"
  by (simp add: children_def heap_at_set_name)

lemma children_set_data [heap_simps]: "a < length h \<Longrightarrow> children (set_data h a s) p = children h p"
  by (simp add: children_def heap_at_set_data)

lemma children_add_child [heap_simps]:
  "a < length h \<Longrightarrow> c < length h \<Longrightarrow> a \<noteq> c \<Longrightarrow>
   children (add_child h a c) p = (if p = a then children h a @ [c] else children h p)"
  by (simp add: children_def heap_at_add_child)

lemma parent_field_alloc [heap_simps]:
  "c \<le> length h \<Longrightarrow>
   m_parent ((h @ [offer_node_init]) ! c) = (if c = length h then None else m_parent (h ! c))"
  by (simp add: nth_append offer_node_init_def)

lemma parent_field_set_name [heap_simps]:
  "a < length h \<Longrightarrow> m_parent (set_name h a s ! c) = m_parent (h ! c)"
  by (simp add: heap_at_set_name)

lemma parent_field_set_data [heap_simps]:
  "a < length h \<Longrightarrow> m_parent (set_data h a s ! c) = m_parent (h ! c)"
  by (simp add: heap_at_set_data)

lemma parent_field_add_child [heap_simps]:
  "a < length h \<Longrightarrow> c < length h \<Longrightarrow> a \<noteq> c \<Longrightarrow>
   m_parent (add_child h a c ! i) = (if i = c then Some a else m_parent (h ! i))"
  by (simp add: heap_at_add_child)

lemma name_data_alloc [heap_simps]:
  "p < length h \<Longrightarrow> name_of (h @ [offer_node_init]) p = name_of h p"
  "p < length h \<Longrightarrow> data_of (h @ [offer_node_init]) p = data_of h p"
  by (simp_all add: name_of_def data_of_def heap_at_alloc)

lemma name_data_set_name [heap_simps]:
  "a < length h \<Longrightarrow> name_of (set_name h a s) p = (if p = a then s else name_of h p)"
  "a < length h \<Longrightarrow> data_of (set_name h a s) p = data_of h p"
  by (simp_all add: name_of_def data_of_def heap_at_set_name)

lemma name_data_set_data [heap_simps]:
  "a < length h \<Longrightarrow> name_of (set_data h a s) p = name_of h p"
  "a < length h \<Longrightarrow> data_of (set_data h a s) p = (if p = a then s else data_of h p)"
  by (simp_all add: name_of_def data_of_def heap_at_set_data)

lemma name_data_add_child [heap_simps]:
  "a < length h \<Longrightarrow> c < length h \<Longrightarrow> a \<noteq> c \<Longrightarrow> name_of (add_child h a c) p = name_of h p"
  "a < length h \<Longrightarrow> c < length h \<Longrightarrow> a \<noteq> c \<Longrightarrow> data_of (add_child h a c) p = data_of h p"
  by (simp_all add: name_of_def data_of_def heap_at_add_child)

lemma heap_okI:
  assumes "\<And>p. p < length h \<Longrightarrow> distinct (children h p)"
    and "\<And>p c. p < length h \<Longrightarrow> c \<in> set (children h p) \<Longrightarrow>
           p < c \<and> c < length h \<and> m_parent (h ! c) = Some p"
    and "\<And>c p. c < length h \<Longrightarrow> m_parent (h ! c) = Some p \<Longrightarrow> p < c \<and> c \<in> set (children h p)"
  shows "heap_ok h"
  unfolding heap_ok_def using assms by blast

lemma heap_ok_alloc:
  assumes ok: "heap_ok h"
  shows "heap_ok (h @ [offer_node_init])"
proof (rule heap_okI, goal_cases)
  case (1 p)
  then show ?case using heap_ok_distinct [OF ok, of p] by (simp add: heap_simps)
next
  case (2 p c)
  then show ?case
    using heap_ok_child [OF ok, of p c] by (simp add: heap_simps split: if_splits)
next
  case (3 c p)
  then show ?case
    using heap_ok_parent [OF ok, of c p] by (simp add: heap_simps split: if_splits)
qed

lemma heap_ok_set_name: "heap_ok h \<Longrightarrow> a < length h \<Longrightarrow> heap_ok (set_name h a s)"
  by (rule heap_okI) (auto simp: heap_simps dest: heap_okD)

lemma heap_ok_set_data: "heap_ok h \<Longrightarrow> a < length h \<Longrightarrow> heap_ok (set_data h a s)"
  by (rule heap_okI) (auto simp: heap_simps dest: heap_okD)

lemma heap_ok_add_child:
  assumes ok: "heap_ok h" and ac: "a < c" "c < length h" and fresh: "m_parent (h ! c) = None"
  shows "heap_ok (add_child h a c)"
proof (rule heap_okI, goal_cases)
  case (1 p)
  have "c \<notin> set (children h a)"
    using heap_ok_child [OF ok, of a c] ac fresh by auto
  with 1 ac heap_ok_distinct [OF ok, of p] show ?case by (auto simp: heap_simps)
next
  case (2 p d)
  then show ?case
    using heap_ok_child [OF ok, of p d] ac fresh by (auto simp: heap_simps split: if_splits)
next
  case (3 d p)
  then show ?case
    using heap_ok_parent [OF ok, of d p] ac by (auto simp: heap_simps split: if_splits)
qed

section \<open>Live nodes and weak parents\<close>

lemma live_root: "a \<in> set roots \<Longrightarrow> live h roots a"
  by (subst live.simps) simp

lemma live_child: "live h roots p \<Longrightarrow> c \<in> set (children h p) \<Longrightarrow> p < c \<Longrightarrow> live h roots c"
  by (subst live.simps, rule disjI2, rule bexI [of _ p]) simp_all

lemma live_mono:
  assumes "live h roots a" and "a < length h"
    and grow: "\<And>p. p < length h \<Longrightarrow> set (children h p) \<subseteq> set (children h' p)"
    and roots: "set roots \<subseteq> set roots'"
  shows "live h' roots' a"
  using assms(1,2)
proof (induction a rule: less_induct)
  case (less a)
  from less.prems(1) consider "a \<in> set roots"
    | p where "p < a" "a \<in> set (children h p)" "live h roots p"
    by (subst (asm) live.simps) auto
  then show ?case
  proof cases
    case 1
    with roots show ?thesis by (auto intro: live_root)
  next
    case 2
    with less have "live h' roots' p" by simp
    moreover have "a \<in> set (children h' p)" using 2 grow [of p] less.prems(2) by auto
    ultimately show ?thesis using \<open>p < a\<close> by (rule live_child)
  qed
qed

lemma parent_lock:
  assumes "heap_ok h" and "c < length h" and "m_parent (h ! c) = Some p" and "live h roots p"
  shows "parent h roots c = Some p"
  using assms by (simp add: parent_def)

lemma parent_None: "m_parent (h ! c) = None \<Longrightarrow> parent h roots c = None"
  by (simp add: parent_def)

section \<open>The tree of a node\<close>

datatype otree = Node (node_name: ustring) (node_data: ustring) (kids: "otree list")

text \<open>
  The abstraction of a node: its name, data and children. The filter makes the recursion
  terminate in every store; in a well-formed one it keeps all children (\<open>tree_of_eq\<close>).
\<close>

function tree_of :: "heap \<Rightarrow> nat \<Rightarrow> otree" where
  "tree_of h a =
     Node (name_of h a) (data_of h a)
       (map (tree_of h) (filter (\<lambda>c. a < c \<and> c < length h) (children h a)))"
  by pat_completeness auto
termination
  by (relation "measure (\<lambda>(h, a). length h - a)") auto

declare tree_of.simps [simp del]

lemma tree_of_eq:
  assumes "heap_ok h" and "a < length h"
  shows "tree_of h a = Node (name_of h a) (data_of h a) (map (tree_of h) (children h a))"
proof -
  have "filter (\<lambda>c. a < c \<and> c < length h) (children h a) = children h a"
    using heap_ok_child [OF assms] by (simp add: filter_id_conv)
  then show ?thesis by (subst tree_of.simps) simp
qed

lemma tree_of_frame:
  assumes "heap_ok h" and "heap_ok h'" and "length h \<le> length h'"
    and "\<And>i. b \<le> i \<Longrightarrow> i < length h \<Longrightarrow> h' ! i = h ! i" and "b \<le> a" and "a < length h"
  shows "tree_of h' a = tree_of h a"
  using assms(5,6)
proof (induction "length h - a" arbitrary: a rule: less_induct)
  case less
  from less.prems have same: "h' ! a = h ! a" and a': "a < length h'"
    using assms(3,4) by auto
  have "tree_of h' c = tree_of h c" if "c \<in> set (children h a)" for c
  proof (rule less.hyps)
    show "length h - c < length h - a" and "b \<le> c" and "c < length h"
      using heap_ok_child [OF assms(1) less.prems(2) that] less.prems by linarith+
  qed
  then have "map (tree_of h') (children h a) = map (tree_of h) (children h a)" by simp
  with same show ?case
    by (simp add: tree_of_eq [OF assms(1) less.prems(2)] tree_of_eq [OF assms(2) a']
          name_of_def data_of_def children_def)
qed

end
