(* ===== verification/Stream_Builder.thy ===== *)
theory Stream_Builder
  imports Prelude
begin

text \<open>
  The stream interface of the BSON builder, from the headers under
  feed/3pp/include/bsoncxx/v_noabi/bsoncxx/builder/stream: the contexts \<^verbatim>\<open>key_context\<close>,
  \<^verbatim>\<open>value_context\<close>, \<^verbatim>\<open>array_context\<close>,
  \<^verbatim>\<open>single_context\<close> and \<^verbatim>\<open>closed_context\<close>, and what each
  \<^verbatim>\<open>operator<<\<close> calls on the shared \<^verbatim>\<open>core\<close>. The core itself is
  compiled code: a document is the sequence of calls its core received, \<open>core_call list\<close>.

  A context is a C++ type, so \<open>shl\<close> is also the overload resolution: \<open>None\<close> is an
  expression that does not compile. \<open>core_step\<close> is the contract that the comments of
  core.hpp state for the calls (keys alternate with values, a close matches its open), and
  \<open>extracted\<close> reads the document off a call sequence. The lemmas: a document's own call sequence
  reads back as the document, and the types enforce the contract for every expression that does
  not close the root.
\<close>

section \<open>Values and calls\<close>

datatype scalar =
    B_double f64
  | B_utf8 string
  | B_bool bool
  | B_int32 i32
  | B_int64 u64

datatype bson = Scalar scalar | Doc "(string \<times> bson) list" | Arr "bson list"

datatype core_call =
    Key_view string
  | Key_owned string
  | Append scalar
  | Open_document
  | Close_document
  | Open_array
  | Close_array
  | Concatenate "(string \<times> bson) list"
  | Extract_document
  | Extract_array

text \<open>
  The right operands of \<open><<\<close>: a string literal, a \<^verbatim>\<open>std::string\<close> (also what
  a \<^verbatim>\<open>Glib::ustring\<close> converts to), a \<^verbatim>\<open>string_view\<close>, any other
  value, the manipulators, the concatenation wrappers, and callables (given by the expression
  their body streams into the context they receive).
\<close>

datatype token =
    Lit string
  | Str string
  | View string
  | Val scalar
  | Open_doc
  | Close_doc
  | Open_arr
  | Close_arr
  | Finalize
  | Concat_doc "(string \<times> bson) list"
  | Concat_arr "bson list"
  | Call_key "token list"
  | Call_array "token list"
  | Call_single "token list"

text \<open>The template argument \<^verbatim>\<open>base\<close> is the context a close returns to. \<open>Done\<close>
  stands for results that are not streams (\<^verbatim>\<open>void\<close>, an extracted value).\<close>

datatype ctx =
    Closed_context
  | Key_context ctx
  | Value_context ctx
  | Array_context ctx
  | Single_context
  | Done

text \<open>\<^verbatim>\<open>core::append(T*)\<close> makes a \<^verbatim>\<open>b_utf8\<close> from a C string, which
  ends at its first NUL.\<close>

definition append_cstr :: "string \<Rightarrow> core_call" where
  "append_cstr s = Append (B_utf8 (takeWhile (\<lambda>c. c \<noteq> CHR 0x00) s))"

text \<open>The keys an array is given as a document: its indices.\<close>

definition array_fields :: "bson list \<Rightarrow> (string \<times> bson) list" where
  "array_fields xs = zip (map dec [0..<length xs]) xs"

section \<open>operator<<\<close>

text \<open>The value overloads that \<^verbatim>\<open>value_context\<close>, \<^verbatim>\<open>array_context\<close> and
  \<^verbatim>\<open>single_context\<close> pass on to \<^verbatim>\<open>core::append\<close>.\<close>

fun append_call :: "token \<Rightarrow> core_call option" where
  "append_call (Lit s) = Some (append_cstr s)"
| "append_call (Str s) = Some (Append (B_utf8 s))"
| "append_call (View s) = Some (Append (B_utf8 s))"
| "append_call (Val v) = Some (Append v)"
| "append_call _ = None"

fun key_shl :: "ctx \<Rightarrow> token \<Rightarrow> (core_call list \<times> ctx) option" where
  "key_shl b (Lit s) = Some ([Key_view s], Value_context (Key_context b))"
| "key_shl b (Str s) = Some ([Key_owned s], Value_context (Key_context b))"
| "key_shl b (View s) = Some ([Key_view s], Value_context (Key_context b))"
| "key_shl b Finalize = (if b = Closed_context then Some ([Extract_document], Done) else None)"
| "key_shl b (Concat_doc d) = Some ([Concatenate d], Key_context b)"
| "key_shl b Close_doc = Some ([Close_document], b)"
| "key_shl b _ = None"

fun value_shl :: "ctx \<Rightarrow> token \<Rightarrow> (core_call list \<times> ctx) option" where
  "value_shl b Open_doc = Some ([Open_document], Key_context b)"
| "value_shl b Open_arr = Some ([Open_array], Array_context b)"
| "value_shl b t = (case append_call t of None \<Rightarrow> None | Some c \<Rightarrow> Some ([c], b))"

fun array_shl :: "ctx \<Rightarrow> token \<Rightarrow> (core_call list \<times> ctx) option" where
  "array_shl b Finalize = (if b = Closed_context then Some ([Extract_array], Done) else None)"
| "array_shl b Open_doc = Some ([Open_document], Key_context (Array_context b))"
| "array_shl b (Concat_arr xs) = Some ([Concatenate (array_fields xs)], Array_context b)"
| "array_shl b Open_arr = Some ([Open_array], Array_context (Array_context b))"
| "array_shl b Close_arr = Some ([Close_array], b)"
| "array_shl b t = (case append_call t of None \<Rightarrow> None | Some c \<Rightarrow> Some ([c], Array_context b))"

fun single_shl :: "token \<Rightarrow> (core_call list \<times> ctx) option" where
  "single_shl Open_doc = Some ([Open_document], Key_context Single_context)"
| "single_shl Open_arr = Some ([Open_array], Array_context Single_context)"
| "single_shl t = (case append_call t of None \<Rightarrow> None | Some c \<Rightarrow> Some ([c], Done))"

text \<open>
  One \<open><<\<close>, and an expression \<open>e << t1 << t2 ...\<close>. A callable is run on a context that
  forgets where it is nested (the conversions to \<^verbatim>\<open>key_context<>\<close>,
  \<^verbatim>\<open>array_context<>\<close> and \<^verbatim>\<open>single_context\<close>), and the stream goes on
  from the context the callable was given to.
\<close>

function shl :: "ctx \<Rightarrow> token \<Rightarrow> (core_call list \<times> ctx) option"
  and shls :: "ctx \<Rightarrow> token list \<Rightarrow> (core_call list \<times> ctx) option" where
  "shl c t =
     (case (c, t) of
        (Key_context b, Call_key ts) \<Rightarrow>
          map_option (\<lambda>(cs, _). (cs, Key_context b)) (shls (Key_context Closed_context) ts)
      | (Value_context b, Call_single ts) \<Rightarrow>
          map_option (\<lambda>(cs, _). (cs, b)) (shls Single_context ts)
      | (Array_context b, Call_array ts) \<Rightarrow>
          map_option (\<lambda>(cs, _). (cs, Array_context b)) (shls (Array_context Closed_context) ts)
      | (Array_context b, Call_single ts) \<Rightarrow>
          map_option (\<lambda>(cs, _). (cs, Array_context b)) (shls Single_context ts)
      | (Key_context b, _) \<Rightarrow> key_shl b t
      | (Value_context b, _) \<Rightarrow> value_shl b t
      | (Array_context b, _) \<Rightarrow> array_shl b t
      | (Single_context, _) \<Rightarrow> single_shl t
      | (Closed_context, _) \<Rightarrow> None
      | (Done, _) \<Rightarrow> None)"
| "shls c [] = Some ([], c)"
| "shls c (t # ts) =
     (case shl c t of
        None \<Rightarrow> None
      | Some (cs, c') \<Rightarrow> map_option (\<lambda>(ds, d). (cs @ ds, d)) (shls c' ts))"
  by pat_completeness auto
termination
  by (relation "measure (\<lambda>x. case x of Inl (c, t) \<Rightarrow> size t | Inr (c, ts) \<Rightarrow> size_list size ts)")
    auto

declare shl.simps [simp del]

text \<open>
  A statement \<open>doc_stream << t1 << t2 ...;\<close> on a \<^verbatim>\<open>document\<close>, which is a
  \<^verbatim>\<open>key_context<closed_context>\<close>: the calls it adds to the document's core.
\<close>

definition stream_stmt :: "core_call list \<Rightarrow> token list \<Rightarrow> core_call list" where
  "stream_stmt log ts =
     (case shls (Key_context Closed_context) ts of None \<Rightarrow> log | Some (cs, _) \<Rightarrow> log @ cs)"

section \<open>The contract of the core\<close>

text \<open>The open datums, innermost first: a document with a key that may wait for its value, or an
  array.\<close>

datatype frame = Doc_frame "(string \<times> bson) list" "string option" | Arr_frame "bson list"

fun put_key :: "string \<Rightarrow> frame list \<Rightarrow> frame list option" where
  "put_key k (Doc_frame fs None # st) = Some (Doc_frame fs (Some k) # st)"
| "put_key k _ = None"

fun put_value :: "bson \<Rightarrow> frame list \<Rightarrow> frame list option" where
  "put_value x (Doc_frame fs (Some k) # st) = Some (Doc_frame (fs @ [(k, x)]) None # st)"
| "put_value x (Arr_frame xs # st) = Some (Arr_frame (xs @ [x]) # st)"
| "put_value x _ = None"

fun takes_value :: "frame list \<Rightarrow> bool" where
  "takes_value (Doc_frame fs (Some k) # st) = True"
| "takes_value (Arr_frame xs # st) = True"
| "takes_value _ = False"

fun core_step :: "frame list \<Rightarrow> core_call \<Rightarrow> frame list option" where
  "core_step st (Key_view k) = put_key k st"
| "core_step st (Key_owned k) = put_key k st"
| "core_step st (Append v) = put_value (Scalar v) st"
| "core_step st Open_document = (if takes_value st then Some (Doc_frame [] None # st) else None)"
| "core_step st Open_array = (if takes_value st then Some (Arr_frame [] # st) else None)"
| "core_step (Doc_frame fs None # st) Close_document = put_value (Doc fs) st"
| "core_step (Arr_frame xs # st) Close_array = put_value (Arr xs) st"
| "core_step (Doc_frame fs None # st) (Concatenate d) = Some (Doc_frame (fs @ d) None # st)"
| "core_step (Arr_frame xs # st) (Concatenate d) = Some (Arr_frame (xs @ map snd d) # st)"
| "core_step [Doc_frame fs None] Extract_document = Some [Doc_frame fs None]"
| "core_step [Arr_frame xs] Extract_array = Some [Arr_frame xs]"
| "core_step st _ = None"

fun core_run :: "frame list \<Rightarrow> core_call list \<Rightarrow> frame list option" where
  "core_run st [] = Some st"
| "core_run st (c # cs) = (case core_step st c of None \<Rightarrow> None | Some st' \<Rightarrow> core_run st' cs)"

definition doc_start :: "frame list" where
  "doc_start = [Doc_frame [] None]"

text \<open>The document that a \<^verbatim>\<open>document\<close> object's calls describe.\<close>

definition extracted :: "core_call list \<Rightarrow> (string \<times> bson) list option" where
  "extracted log =
     (case core_run doc_start log of Some [Doc_frame fs None] \<Rightarrow> Some fs | _ \<Rightarrow> None)"

lemma core_run_append:
  "core_run st (cs @ ds) = (case core_run st cs of None \<Rightarrow> None | Some st' \<Rightarrow> core_run st' ds)"
  by (induction cs arbitrary: st) (auto split: option.splits)

lemma put_value_takes: "takes_value st \<longleftrightarrow> (\<exists>st'. put_value x st = Some st')"
  by (cases "(x, st)" rule: put_value.cases) auto

section \<open>A document's calls read back as the document\<close>

fun value_calls :: "bson \<Rightarrow> core_call list" and field_calls :: "(string \<times> bson) list \<Rightarrow> core_call list"
  and element_calls :: "bson list \<Rightarrow> core_call list" where
  "value_calls (Scalar v) = [Append v]"
| "value_calls (Doc fs) = Open_document # field_calls fs @ [Close_document]"
| "value_calls (Arr xs) = Open_array # element_calls xs @ [Close_array]"
| "field_calls [] = []"
| "field_calls ((k, x) # fs) = Key_owned k # value_calls x @ field_calls fs"
| "element_calls [] = []"
| "element_calls (x # xs) = value_calls x @ element_calls xs"

lemma core_run_value_calls: "takes_value st \<Longrightarrow> core_run st (value_calls x) = put_value x st"
  and core_run_field_calls: "core_run (Doc_frame gs None # st) (field_calls fs) = Some (Doc_frame (gs @ fs) None # st)"
  and core_run_element_calls: "core_run (Arr_frame ys # st) (element_calls xs) = Some (Arr_frame (ys @ xs) # st)"
proof (induction x and fs and xs arbitrary: st and gs st and ys st
    rule: value_calls_field_calls_element_calls.induct)
  case (1 v)
  then show ?case by (auto split: option.splits)
next
  case (2 fs)
  then show ?case by (auto simp: core_run_append split: option.splits)
next
  case (3 xs)
  then show ?case by (auto simp: core_run_append split: option.splits)
next
  case (5 k x fs)
  then show ?case by (simp add: core_run_append)
next
  case (7 x xs)
  then show ?case by (simp add: core_run_append)
qed auto

lemma field_calls_append: "field_calls (fs @ gs) = field_calls fs @ field_calls gs"
  by (induction fs rule: list.induct) auto

section \<open>The types enforce the contract\<close>

text \<open>
  The comment on \<^verbatim>\<open>key_context\<close> claims that contextual parsing and depth are
  enforced by the type system. \<open>fits\<close> relates a context to the datums that are open; a
  base context waits for the value of the datum nested in it.
\<close>

fun first_order :: "token \<Rightarrow> bool" where
  "first_order (Call_key ts) = False"
| "first_order (Call_array ts) = False"
| "first_order (Call_single ts) = False"
| "first_order _ = True"

fun fits_base :: "ctx \<Rightarrow> frame list \<Rightarrow> bool" where
  "fits_base Closed_context st = (st = [])"
| "fits_base (Key_context b) (Doc_frame fs (Some k) # st) = fits_base b st"
| "fits_base (Array_context b) (Arr_frame xs # st) = fits_base b st"
| "fits_base _ _ = False"

fun fits :: "ctx \<Rightarrow> frame list \<Rightarrow> bool" where
  "fits (Key_context b) (Doc_frame fs None # st) = fits_base b st"
| "fits (Value_context (Key_context b)) (Doc_frame fs (Some k) # st) = fits_base b st"
| "fits (Array_context b) (Arr_frame xs # st) = fits_base b st"
| "fits Done st = True"
| "fits _ _ = False"

lemma fits_append: "append_call t = Some c \<Longrightarrow> core_step st c = put_value (Scalar (case c of Append v \<Rightarrow> v)) st"
  by (cases t) (auto simp: append_cstr_def)

lemma closing_value:
  assumes "fits_base b st"
  shows "(b = Closed_context \<and> put_value x st = None) \<or>
         (b \<noteq> Closed_context \<and> (\<exists>st'. put_value x st = Some st' \<and> fits b st'))"
  using assms by (cases "(b, st)" rule: fits_base.cases) auto

lemma shl_fits:
  assumes "fits c st" and "first_order t" and "shl c t = Some (cs, c')"
  shows "(c' = Closed_context \<and> core_run st cs = None) \<or>
         (c' \<noteq> Closed_context \<and> (\<exists>st'. core_run st cs = Some st' \<and> fits c' st'))"
proof (cases "(c, st)" rule: fits.cases)
  case (1 b fs st0)
  with assms closing_value [of b st0 "Doc fs"] show ?thesis
    by (cases t) (auto simp: shl.simps split: if_splits)
next
  case (2 b fs k st0)
  with assms show ?thesis
    by (cases t) (auto simp: shl.simps append_cstr_def)
next
  case (3 b xs st0)
  with assms closing_value [of b st0 "Arr xs"] show ?thesis
    by (cases t) (auto simp: shl.simps append_cstr_def split: if_splits)
qed (use assms in \<open>auto simp: shl.simps\<close>)

lemma shls_Closed: "shls Closed_context ts = Some (cs, c) \<Longrightarrow> ts = [] \<and> cs = [] \<and> c = Closed_context"
  by (cases ts) (auto simp: shl.simps)

lemma shls_fits:
  assumes "fits c st" and "list_all first_order ts" and "shls c ts = Some (cs, c')"
    and "c \<noteq> Closed_context"
  shows "if c' = Closed_context then core_run st cs = None
         else \<exists>st'. core_run st cs = Some st' \<and> fits c' st'"
  using assms
proof (induction ts arbitrary: c st cs)
  case Nil
  then show ?case by auto
next
  case (Cons t ts)
  from Cons.prems(3) obtain ds d es where
    t: "shl c t = Some (ds, d)" and ts: "shls d ts = Some (es, c')" and cs: "cs = ds @ es"
    by (auto split: option.splits)
  from Cons.prems t have step: "(d = Closed_context \<and> core_run st ds = None) \<or>
      (d \<noteq> Closed_context \<and> (\<exists>st'. core_run st ds = Some st' \<and> fits d st'))"
    by (intro shl_fits) auto
  show ?case
  proof (cases "d = Closed_context")
    case True
    with ts step show ?thesis by (auto dest: shls_Closed simp: cs core_run_append)
  next
    case False
    with step obtain st' where st': "core_run st ds = Some st'" "fits d st'" by blast
    from Cons.IH [OF st'(2) _ ts False] Cons.prems(2) st'(1) show ?thesis
      by (auto simp: cs core_run_append split: if_splits)
  qed
qed

section \<open>Writing a document statement by statement\<close>

text \<open>
  What a client relies on when it writes a document with statements on the stream: \<open>view\<close> is the
  contract's reading of the document so far. The client's lemma: a statement for each leaf, and an
  opening and a closing statement around each nested document, append exactly the fields.
\<close>

fun field_stmts :: "string \<Rightarrow> bson \<Rightarrow> token list list" and fields_stmts :: "(string \<times> bson) list \<Rightarrow> token list list" where
  "field_stmts k (Scalar v) = [[Str k, Val v]]"
| "field_stmts k (Doc fs) = [Str k, Open_doc] # fields_stmts fs @ [[Close_doc]]"
| "field_stmts k (Arr xs) = []"
| "fields_stmts [] = []"
| "fields_stmts ((k, x) # fs) = field_stmts k x @ fields_stmts fs"

fun array_free :: "bson \<Rightarrow> bool" where
  "array_free (Scalar v) = True"
| "array_free (Doc fs) = list_all (\<lambda>(k, x). array_free x) fs"
| "array_free (Arr xs) = False"

locale document_writer =
  fixes stmt :: "'b \<Rightarrow> token list \<Rightarrow> 'b"
    and view :: "'b \<Rightarrow> frame list option"
  assumes leaf: "view b = Some (Doc_frame fs None # st) \<Longrightarrow>
      view (stmt b [Str k, Val v]) = Some (Doc_frame (fs @ [(k, Scalar v)]) None # st)"
    and nested: "view b = Some (Doc_frame fs None # st) \<Longrightarrow>
      view (stmt b [Str k, Open_doc]) = Some (Doc_frame [] None # Doc_frame fs (Some k) # st)"
    and closed: "view b = Some (Doc_frame gs None # Doc_frame fs (Some k) # st) \<Longrightarrow>
      view (stmt b [Close_doc]) = Some (Doc_frame (fs @ [(k, Doc gs)]) None # st)"
begin

lemma writes_field:
  "array_free x \<Longrightarrow> view b = Some (Doc_frame fs None # st) \<Longrightarrow>
   view (foldl stmt b (field_stmts k x)) = Some (Doc_frame (fs @ [(k, x)]) None # st)"
  and writes_fields:
  "list_all (\<lambda>(k, x). array_free x) gs \<Longrightarrow> view b = Some (Doc_frame fs None # st) \<Longrightarrow>
   view (foldl stmt b (fields_stmts gs)) = Some (Doc_frame (fs @ gs) None # st)"
proof (induction k x and gs arbitrary: b fs st and b fs st rule: field_stmts_fields_stmts.induct)
  case (1 k v)
  then show ?case by (simp add: leaf)
next
  case (2 k gs)
  then have "view (stmt b [Str k, Open_doc]) = Some (Doc_frame [] None # Doc_frame fs (Some k) # st)"
    by (simp add: nested)
  with 2 have "view (foldl stmt (stmt b [Str k, Open_doc]) (fields_stmts gs)) =
      Some (Doc_frame ([] @ gs) None # Doc_frame fs (Some k) # st)"
    by (intro "2.IH") (simp_all add: list_all_iff)
  then show ?case by (simp add: closed)
next
  case (5 k x gs)
  then have "view (foldl stmt b (field_stmts k x)) = Some (Doc_frame (fs @ [(k, x)]) None # st)"
    by (intro "5.IH") auto
  with 5 show ?case by (auto dest: "5.IH"(2))
qed auto

end

lemma stream_stmt_eqs:
  "stream_stmt log [Str k, Val v] = log @ [Key_owned k, Append v]"
  "stream_stmt log [Str k, Open_doc] = log @ [Key_owned k, Open_document]"
  "stream_stmt log [Close_doc] = log @ [Close_document]"
  "stream_stmt log [Finalize] = log @ [Extract_document]"
  "stream_stmt log [Str k] = log @ [Key_owned k]"
  by (simp_all add: stream_stmt_def shl.simps)

interpretation log_writer: document_writer stream_stmt "core_run doc_start"
  by unfold_locales (simp_all add: stream_stmt_eqs core_run_append)

end
