(* ===== verification/Offer_Builder.thy ===== *)
theory Offer_Builder
  imports Offer_Node Stream_Builder
begin

text \<open>
  feed/offer_parser.cpp up to \<^verbatim>\<open>bson_from_offer\<close>: the walk over an offer's nodes
  that filters it and streams its BSON document.

  \<^verbatim>\<open>boost::lexical_cast\<close> is a library the sources only call: a parameter, the record
  \<open>caster\<close>. \<^verbatim>\<open>doc_stream << name << lexical_cast<T>(data)\<close> leaves the order of
  the key and the conversion to the compiler (the build asks for gnu++11, which does not order the
  operands of an overloaded operator), so the order is a parameter as well.

  The walk recurses through the store; \<open>fuel\<close> bounds its depth, and the number of nodes is
  enough in every well-formed store (\<open>parse_offer_tree\<close>). A thrown
  \<^verbatim>\<open>std::exception\<close> is its \<^verbatim>\<open>what()\<close> string.

  The specification is on trees: \<open>tree_error\<close> is the first offence in document order and
  \<open>tree_fields\<close> the document of an offer without one.
\<close>

record caster =
  lexical_int :: "ustring \<Rightarrow> i32 option"
  lexical_double :: "ustring \<Rightarrow> f64 option"

datatype eval_order = Operand_first | Key_first

record build_env =
  casts :: caster
  order :: eval_order

text \<open>The UTF-8 bytes of the two Russian words the filters compare with: "sale" and "flat".\<close>

definition prodazha :: ustring where
  "prodazha = [CHR 0xD0, CHR 0xBF, CHR 0xD1, CHR 0x80, CHR 0xD0, CHR 0xBE, CHR 0xD0, CHR 0xB4,
    CHR 0xD0, CHR 0xB0, CHR 0xD0, CHR 0xB6, CHR 0xD0, CHR 0xB0]"

definition kvartira :: ustring where
  "kvartira = [CHR 0xD0, CHR 0xBA, CHR 0xD0, CHR 0xB2, CHR 0xD0, CHR 0xB0, CHR 0xD1, CHR 0x80,
    CHR 0xD1, CHR 0x82, CHR 0xD0, CHR 0xB8, CHR 0xD1, CHR 0x80, CHR 0xD0, CHR 0xB0]"

definition underscore :: "ustring \<Rightarrow> string" where
  "underscore name = replace_char CHR ''-'' CHR ''_'' name"

definition cast_int :: "build_env \<Rightarrow> ustring \<Rightarrow> scalar option" where
  "cast_int e data = map_option B_int32 (lexical_int (casts e) data)"

definition cast_double :: "build_env \<Rightarrow> ustring \<Rightarrow> scalar option" where
  "cast_double e data = map_option B_double (lexical_double (casts e) data)"

text \<open>\<^verbatim>\<open>try_add<T>\<close>; the conversion is its first argument.\<close>

definition try_add ::
    "(ustring \<Rightarrow> scalar option) \<Rightarrow> eval_order \<Rightarrow> string \<Rightarrow> ustring \<Rightarrow> core_call list \<Rightarrow> bool \<times> core_call list" where
  "try_add cast ord name data log =
     (case cast data of
        Some v \<Rightarrow> (True, stream_stmt log [Str name, Val v])
      | None \<Rightarrow> (False, case ord of Operand_first \<Rightarrow> log | Key_first \<Rightarrow> stream_stmt log [Str name]))"

text \<open>The part of \<^verbatim>\<open>parse_offer\<close> for a node without children.\<close>

definition parse_leaf :: "build_env \<Rightarrow> string \<Rightarrow> ustring \<Rightarrow> core_call list \<Rightarrow> core_call list" where
  "parse_leaf e name data log =
     (case try_add (cast_int e) (order e) name data log of
        (True, log1) \<Rightarrow> log1
      | (False, log1) \<Rightarrow>
          (case try_add (cast_double e) (order e) name data log1 of
             (True, log2) \<Rightarrow> log2
           | (False, log2) \<Rightarrow>
               if data = ''true'' then stream_stmt log2 [Str name, Val (B_bool True)]
               else if data = ''false'' then stream_stmt log2 [Str name, Val (B_bool False)]
               else stream_stmt log2 [Str name, Str data]))"

text \<open>The two filters at the top of \<^verbatim>\<open>parse_offer\<close>: what they throw.\<close>

definition reject :: "heap \<Rightarrow> nat list \<Rightarrow> bool \<Rightarrow> bool \<Rightarrow> nat \<Rightarrow> string option" where
  "reject h roots only_sales only_flats a =
     (if only_sales \<and> name_of h a = ''type'' \<and> data_of h a \<noteq> prodazha
        then Some (''invalid type: '' @ data_of h a)
      else if only_flats \<and> name_of h a = ''category'' \<and> data_of h a \<noteq> kvartira \<and>
          (case parent h roots a of None \<Rightarrow> False | Some p \<Rightarrow> name_of h p = ''offer'')
        then Some (''invalid category: '' @ data_of h a)
      else None)"

text \<open>The statements around the loop over a node's children; the offer itself has none.\<close>

definition open_element :: "heap \<Rightarrow> nat \<Rightarrow> core_call list \<Rightarrow> core_call list" where
  "open_element h a log =
     (if name_of h a \<noteq> ''offer'' then stream_stmt log [Str (underscore (name_of h a)), Open_doc]
      else log)"

definition close_element :: "heap \<Rightarrow> nat \<Rightarrow> core_call list \<Rightarrow> core_call list" where
  "close_element h a log = (if name_of h a \<noteq> ''offer'' then stream_stmt log [Close_doc] else log)"

fun parse_offer ::
    "nat \<Rightarrow> build_env \<Rightarrow> heap \<Rightarrow> nat list \<Rightarrow> bool \<Rightarrow> bool \<Rightarrow> nat \<Rightarrow> core_call list
     \<Rightarrow> (string option \<times> core_call list) option"
  and parse_children ::
    "nat \<Rightarrow> build_env \<Rightarrow> heap \<Rightarrow> nat list \<Rightarrow> bool \<Rightarrow> bool \<Rightarrow> nat list \<Rightarrow> core_call list
     \<Rightarrow> (string option \<times> core_call list) option" where
  "parse_offer 0 e h roots only_sales only_flats a log = None"
| "parse_offer (Suc fuel) e h roots only_sales only_flats a log =
     (case reject h roots only_sales only_flats a of
        Some err \<Rightarrow> Some (Some err, log)
      | None \<Rightarrow>
          if has_children h a then
            case parse_children fuel e h roots only_sales only_flats (children h a)
                (open_element h a log) of
              None \<Rightarrow> None
            | Some (Some err, log2) \<Rightarrow> Some (Some err, log2)
            | Some (None, log2) \<Rightarrow> Some (None, close_element h a log2)
          else Some (None, parse_leaf e (underscore (name_of h a)) (data_of h a) log))"
| "parse_children fuel e h roots only_sales only_flats [] log = Some (None, log)"
| "parse_children fuel e h roots only_sales only_flats (c # cs) log =
     (case parse_offer fuel e h roots only_sales only_flats c log of
        None \<Rightarrow> None
      | Some (Some err, log1) \<Rightarrow> Some (Some err, log1)
      | Some (None, log1) \<Rightarrow> parse_children fuel e h roots only_sales only_flats cs log1)"

text \<open>
  \<^verbatim>\<open>bson_from_offer\<close>: the exception, or the calls of the finished document.
  The number of nodes of the store is the fuel.
\<close>

definition bson_from_offer ::
    "build_env \<Rightarrow> heap \<Rightarrow> nat list \<Rightarrow> nat \<Rightarrow> bool \<Rightarrow> bool \<Rightarrow> (string + core_call list) option" where
  "bson_from_offer e h roots a only_sales only_flats =
     (case parse_offer (Suc (length h)) e h roots only_sales only_flats a [] of
        None \<Rightarrow> None
      | Some (Some err, _) \<Rightarrow> Some (Inl err)
      | Some (None, log) \<Rightarrow> Some (Inr (stream_stmt log [Finalize])))"

section \<open>The specification on trees\<close>

definition leaf_value :: "build_env \<Rightarrow> ustring \<Rightarrow> scalar" where
  "leaf_value e data =
     (case cast_int e data of Some v \<Rightarrow> v | None \<Rightarrow>
      case cast_double e data of Some v \<Rightarrow> v | None \<Rightarrow>
      if data = ''true'' then B_bool True else if data = ''false'' then B_bool False
      else B_utf8 data)"

fun tree_fields :: "build_env \<Rightarrow> otree \<Rightarrow> (string \<times> bson) list" where
  "tree_fields e (Node n d ks) =
     (if ks = [] then [(underscore n, Scalar (leaf_value e d))]
      else if n = ''offer'' then concat (map (tree_fields e) ks)
      else [(underscore n, Doc (concat (map (tree_fields e) ks)))])"

definition node_error :: "bool \<Rightarrow> bool \<Rightarrow> ustring option \<Rightarrow> ustring \<Rightarrow> ustring \<Rightarrow> string option" where
  "node_error only_sales only_flats up n d =
     (if only_sales \<and> n = ''type'' \<and> d \<noteq> prodazha then Some (''invalid type: '' @ d)
      else if only_flats \<and> n = ''category'' \<and> d \<noteq> kvartira \<and> up = Some ''offer''
        then Some (''invalid category: '' @ d)
      else None)"

fun first_error :: "('a \<Rightarrow> string option) \<Rightarrow> 'a list \<Rightarrow> string option" where
  "first_error f [] = None"
| "first_error f (x # xs) = (case f x of Some err \<Rightarrow> Some err | None \<Rightarrow> first_error f xs)"

lemma first_error_cong [fundef_cong]:
  "xs = ys \<Longrightarrow> (\<And>x. x \<in> set ys \<Longrightarrow> f x = g x) \<Longrightarrow> first_error f xs = first_error g ys"
  by (induction ys arbitrary: xs) (auto split: option.splits)

lemma first_error_map: "first_error f (map g xs) = first_error (\<lambda>x. f (g x)) xs"
  by (induction xs) (auto split: option.splits)

lemma first_error_None: "first_error f xs = None \<longleftrightarrow> (\<forall>x \<in> set xs. f x = None)"
  by (induction xs) (auto split: option.splits)

fun tree_error :: "bool \<Rightarrow> bool \<Rightarrow> ustring option \<Rightarrow> otree \<Rightarrow> string option" where
  "tree_error only_sales only_flats up (Node n d ks) =
     (case node_error only_sales only_flats up n d of
        Some err \<Rightarrow> Some err
      | None \<Rightarrow> first_error (tree_error only_sales only_flats (Some n)) ks)"

text \<open>The calls the walk makes for a tree without offence, for either order of evaluation.\<close>

definition leaf_calls :: "build_env \<Rightarrow> string \<Rightarrow> ustring \<Rightarrow> core_call list" where
  "leaf_calls e name data =
     (case order e of
        Operand_first \<Rightarrow> []
      | Key_first \<Rightarrow> (if cast_int e data \<noteq> None then []
                      else if cast_double e data \<noteq> None then [Key_owned name]
                      else [Key_owned name, Key_owned name])) @
     [Key_owned name, Append (leaf_value e data)]"

fun tree_calls :: "build_env \<Rightarrow> otree \<Rightarrow> core_call list" where
  "tree_calls e (Node n d ks) =
     (if ks = [] then leaf_calls e (underscore n) d
      else if n = ''offer'' then concat (map (tree_calls e) ks)
      else [Key_owned (underscore n), Open_document] @ concat (map (tree_calls e) ks) @
        [Close_document])"

text \<open>The walk's result for a tree with first offence \<open>err\<close> and calls \<open>cs\<close>.\<close>

definition outcome ::
    "string option \<Rightarrow> core_call list \<Rightarrow> core_call list \<Rightarrow> (string option \<times> core_call list) option \<Rightarrow> bool" where
  "outcome err log cs r \<longleftrightarrow>
     (case err of None \<Rightarrow> r = Some (None, log @ cs) | Some x \<Rightarrow> \<exists>log'. r = Some (Some x, log'))"

lemma outcome_simps [simp]:
  "outcome None log cs r \<longleftrightarrow> r = Some (None, log @ cs)"
  "outcome (Some x) log cs r \<longleftrightarrow> (\<exists>log'. r = Some (Some x, log'))"
  by (simp_all add: outcome_def)

lemma outcome_shift: "outcome err log (cs @ ds) r = outcome err (log @ cs) ds r"
  by (cases err) simp_all

section \<open>The walk computes the specification\<close>

lemma parse_leaf_calls: "parse_leaf e name d log = log @ leaf_calls e name d"
  by (simp add: parse_leaf_def try_add_def leaf_calls_def leaf_value_def stream_stmt_eqs
      stream_stmt_def shl.simps split: option.splits eval_order.splits)

lemma reject_node_error:
  assumes "\<And>p. m_parent (h ! a) = Some p \<Longrightarrow> live h roots p"
  shows "reject h roots s f a =
    node_error s f (map_option (name_of h) (m_parent (h ! a))) (name_of h a) (data_of h a)"
  using assms by (cases "m_parent (h ! a)") (simp_all add: reject_def node_error_def parent_def)

lemma parse_children_outcome:
  assumes "\<And>c log. c \<in> set cs \<Longrightarrow>
      outcome (err c) log (calls c) (parse_offer fuel e h roots s f c log)"
  shows "outcome (first_error err cs) log (concat (map calls cs))
    (parse_children fuel e h roots s f cs log)"
  using assms
proof (induction cs arbitrary: log)
  case (Cons c cs)
  from Cons.prems have "outcome (err c) log (calls c) (parse_offer fuel e h roots s f c log)"
    by simp
  with Cons show ?case by (cases "err c") (auto simp: outcome_shift)
qed simp

lemma parse_offer_outcome:
  assumes ok: "heap_ok h"
  shows "a < length h \<Longrightarrow> length h - a \<le> fuel \<Longrightarrow> live h roots a \<Longrightarrow>
    (\<And>p. m_parent (h ! a) = Some p \<Longrightarrow> live h roots p) \<Longrightarrow>
    outcome (tree_error s f (map_option (name_of h) (m_parent (h ! a))) (tree_of h a)) log
      (tree_calls e (tree_of h a)) (parse_offer fuel e h roots s f a log)"
proof (induction fuel arbitrary: a log)
  case 0
  then show ?case by simp
next
  case (Suc fuel)
  let ?up = "map_option (name_of h) (m_parent (h ! a))"
  have rej: "reject h roots s f a = node_error s f ?up (name_of h a) (data_of h a)"
    using Suc.prems(4) by (rule reject_node_error)
  have tree: "tree_of h a = Node (name_of h a) (data_of h a) (map (tree_of h) (children h a))"
    using ok Suc.prems(1) by (rule tree_of_eq)
  have kids: "outcome (tree_error s f (Some (name_of h a)) (tree_of h c)) log
      (tree_calls e (tree_of h c)) (parse_offer fuel e h roots s f c log)"
    if "c \<in> set (children h a)" for c log
  proof -
    have c: "a < c" "c < length h" "m_parent (h ! c) = Some a"
      using heap_ok_child [OF ok Suc.prems(1) that] by auto
    moreover have "live h roots c" using Suc.prems(3) that c(1) by (rule live_child)
    ultimately show ?thesis
      using Suc.IH [of c log] Suc.prems(2,3) by simp
  qed
  have "outcome (first_error (\<lambda>c. tree_error s f (Some (name_of h a)) (tree_of h c)) (children h a))
      log (concat (map (\<lambda>c. tree_calls e (tree_of h c)) (children h a)))
      (parse_children fuel e h roots s f (children h a) log)" for log
    by (rule parse_children_outcome) (rule kids)
  then have loop: "outcome (first_error (tree_error s f (Some (name_of h a)))
      (map (tree_of h) (children h a))) log (concat (map (tree_calls e) (map (tree_of h) (children h a))))
      (parse_children fuel e h roots s f (children h a) log)" for log
    by (simp add: comp_def first_error_map)
  show ?case
  proof (cases "node_error s f ?up (name_of h a) (data_of h a)")
    case (Some err)
    then show ?thesis by (simp add: rej tree)
  next
    case None
    with loop [of "open_element h a log"] show ?thesis
      by (cases "first_error (tree_error s f (Some (name_of h a))) (map (tree_of h) (children h a))")
        (auto simp: rej tree has_children_def parse_leaf_calls open_element_def close_element_def
          stream_stmt_eqs)
  qed
qed

text \<open>
  Termination and result together: with the store's size as fuel the walk of a live node returns,
  and it returns what the tree says.
\<close>

lemma bson_from_offer_tree:
  assumes "heap_ok h" and "a < length h" and "live h roots a" and "m_parent (h ! a) = None"
  shows "bson_from_offer e h roots a s f =
    Some (case tree_error s f None (tree_of h a) of
            Some err \<Rightarrow> Inl err
          | None \<Rightarrow> Inr (tree_calls e (tree_of h a) @ [Extract_document]))"
proof -
  have "outcome (tree_error s f None (tree_of h a)) [] (tree_calls e (tree_of h a))
      (parse_offer (Suc (length h)) e h roots s f a [])"
    using parse_offer_outcome [OF assms(1,2) _ assms(3), of "Suc (length h)" s f "[]" e] assms(4)
    by simp
  then show ?thesis
    by (cases "tree_error s f None (tree_of h a)")
      (auto simp: bson_from_offer_def stream_stmt_eqs simp del: parse_offer.simps)
qed

section \<open>The document\<close>

lemma tree_calls_fields:
  assumes "order e = Operand_first"
  shows "tree_calls e t = field_calls (tree_fields e t)"
proof (induction t)
  case (Node n d ks)
  then have "concat (map (tree_calls e) ks) = field_calls (concat (map (tree_fields e) ks))"
    by (induction ks) (auto simp: field_calls_append)
  with assms show ?case by (simp add: leaf_calls_def)
qed

lemma extracted_field_calls: "extracted (field_calls fs @ [Extract_document]) = Some fs"
  by (simp add: extracted_def core_run_append doc_start_def core_run_field_calls)

text \<open>Two keys in a row break the contract, whatever comes before and after.\<close>

lemma core_run_two_keys: "core_run st (cs @ [Key_owned k, Key_owned k'] @ ds) = None"
proof -
  have "core_run st' ([Key_owned k, Key_owned k'] @ ds) = None" for st'
    by (cases "(k, st')" rule: put_key.cases) (auto split: option.splits)
  then show ?thesis by (auto simp: core_run_append [of st cs] split: option.splits)
qed

fun leaves :: "otree \<Rightarrow> ustring list" where
  "leaves (Node n d ks) = (if ks = [] then [d] else concat (map leaves ks))"

lemma tree_calls_key_first:
  assumes "order e = Key_first" and "d \<in> set (leaves t)" and "cast_int e d = None"
  shows "\<exists>cs k k' ds. tree_calls e t = cs @ [Key_owned k, Key_owned k'] @ ds"
  using assms(2)
proof (induction t)
  case (Node n d' ks)
  show ?case
  proof (cases "ks = []")
    case True
    with Node.prems assms(1,3) have "tree_calls e (Node n d' ks) =
        [] @ [Key_owned (underscore n), Key_owned (underscore n)] @
        (if cast_double e d = None then [Key_owned (underscore n)] else []) @
        [Append (leaf_value e d)]"
      by (auto simp: leaf_calls_def)
    then show ?thesis by blast
  next
    case False
    with Node.prems obtain t where t: "t \<in> set ks" "d \<in> set (leaves t)" by auto
    then obtain as bs where ks: "ks = as @ t # bs" by (meson split_list)
    from Node.IH t obtain cs k k' ds where
      calls: "tree_calls e t = cs @ [Key_owned k, Key_owned k'] @ ds" by blast
    let ?pre = "concat (map (tree_calls e) as) @ cs"
    let ?post = "ds @ concat (map (tree_calls e) bs)"
    have loop: "concat (map (tree_calls e) ks) = ?pre @ [Key_owned k, Key_owned k'] @ ?post"
      by (simp add: ks calls)
    show ?thesis
    proof (cases "n = ''offer''")
      case True
      with loop False have "tree_calls e (Node n d' ks) =
          ?pre @ [Key_owned k, Key_owned k'] @ ?post" by simp
      then show ?thesis by blast
    next
      case noffer: False
      have "tree_calls e (Node n d' ks) = ([Key_owned (underscore n), Open_document] @ ?pre) @
          [Key_owned k, Key_owned k'] @ (?post @ [Close_document])"
        using noffer False loop by simp
      then show ?thesis by blast
    qed
  qed
qed

section \<open>Which offers are rejected\<close>

fun nodes_under :: "ustring option \<Rightarrow> otree \<Rightarrow> (ustring option \<times> ustring \<times> ustring) list" where
  "nodes_under up (Node n d ks) = (up, n, d) # concat (map (nodes_under (Some n)) ks)"

lemma tree_error_None:
  "tree_error s f up t = None \<longleftrightarrow>
     (\<forall>(p, n, d) \<in> set (nodes_under up t). node_error s f p n d = None)"
proof (induction t arbitrary: up)
  case (Node n d ks)
  have "(first_error (tree_error s f (Some n)) ks = None) \<longleftrightarrow>
      (\<forall>t \<in> set ks. \<forall>(p, n, d) \<in> set (nodes_under (Some n) t). node_error s f p n d = None)"
    using Node.IH by (simp add: first_error_None)
  then show ?case by (auto split: option.splits)
qed

end
