(* ===== verification/Clock.thy ===== *)
theory Clock
  imports Prelude
begin

text \<open>
  The calendar time the program reads with \<^verbatim>\<open>time(0)\<close> and
  \<^verbatim>\<open>localtime\<close>, and \<^verbatim>\<open>strftime\<close> for the conversions it uses
  (C standard library). The broken-down time is an input of the handlers that read the clock;
  \<open>tm_ok\<close> is what \<^verbatim>\<open>localtime\<close> guarantees of it. The lemmas bound the length
  of the two stamps, which the program writes to fixed buffers.
\<close>

record tm =
  tm_year :: int
  tm_mon :: int
  tm_mday :: int
  tm_hour :: int
  tm_min :: int
  tm_sec :: int
  tm_gmtoff :: int

text \<open>
  \<^verbatim>\<open>tm_year\<close> counts from 1900 and is a 32-bit int, \<^verbatim>\<open>tm_mon\<close> from 0;
  \<^verbatim>\<open>tm_gmtoff\<close> is in seconds. A clock before the year 1000 is left out.
\<close>

definition tm_ok :: "tm \<Rightarrow> bool" where
  "tm_ok t \<longleftrightarrow>
     1000 \<le> 1900 + tm_year t \<and> tm_year t < 2 ^ 31 \<and>
     0 \<le> tm_mon t \<and> tm_mon t \<le> 11 \<and> 1 \<le> tm_mday t \<and> tm_mday t \<le> 31 \<and>
     0 \<le> tm_hour t \<and> tm_hour t \<le> 23 \<and> 0 \<le> tm_min t \<and> tm_min t \<le> 59 \<and>
     0 \<le> tm_sec t \<and> tm_sec t \<le> 60 \<and> \<bar>tm_gmtoff t\<bar> < 100 * 3600"

definition pad2 :: "int \<Rightarrow> string" where
  "pad2 n = [char_of (48 + nat n div 10), char_of (48 + nat n mod 10)]"

text \<open>One conversion: \<^verbatim>\<open>%Y %m %d %H %M %S\<close>, \<^verbatim>\<open>%F\<close>
  (\<^verbatim>\<open>%Y-%m-%d\<close>), \<^verbatim>\<open>%T\<close> (\<^verbatim>\<open>%H:%M:%S\<close>) and
  \<^verbatim>\<open>%z\<close> (\<^verbatim>\<open>+hhmm\<close>).\<close>

definition conversion :: "char \<Rightarrow> tm \<Rightarrow> string" where
  "conversion c t =
     (let year = dec (nat (1900 + tm_year t)); mon = pad2 (tm_mon t + 1); day = pad2 (tm_mday t);
          hour = pad2 (tm_hour t); min = pad2 (tm_min t); sec = pad2 (tm_sec t);
          off = \<bar>tm_gmtoff t\<bar> div 60
      in if c = CHR ''Y'' then year
         else if c = CHR ''m'' then mon
         else if c = CHR ''d'' then day
         else if c = CHR ''H'' then hour
         else if c = CHR ''M'' then min
         else if c = CHR ''S'' then sec
         else if c = CHR ''F'' then year @ ''-'' @ mon @ ''-'' @ day
         else if c = CHR ''T'' then hour @ '':'' @ min @ '':'' @ sec
         else if c = CHR ''z'' then
           (if tm_gmtoff t < 0 then ''-'' else ''+'') @ pad2 (off div 60) @ pad2 (off mod 60)
         else [c])"

fun expand :: "string \<Rightarrow> tm \<Rightarrow> string" where
  "expand [] t = []"
| "expand [c] t = [c]"
| "expand (c # d # cs) t =
     (if c = CHR ''%'' then conversion d t @ expand cs t else c # expand (d # cs) t)"

text \<open>
  \<^verbatim>\<open>strftime(buf, n, format, t)\<close>: the string left in the buffer, \<open>None\<close>
  where it and its final NUL do not fit (the buffer's contents are then indeterminate).
\<close>

definition strftime :: "nat \<Rightarrow> string \<Rightarrow> tm \<Rightarrow> string option" where
  "strftime n format t = (let s = expand format t in if length s < n then Some s else None)"

lemma length_pad2 [simp]: "length (pad2 n) = 2"
  by (simp add: pad2_def)

lemma length_year:
  assumes "tm_ok t"
  shows "length (dec (nat (1900 + tm_year t))) \<le> 10"
proof (rule length_dec_le)
  have "nat (1900 + tm_year t) < nat (10 ^ 10)"
    using assms by (intro nat_mono_iff [THEN iffD2]) (simp_all add: tm_ok_def)
  then show "nat (1900 + tm_year t) < 10 ^ 10"
    by simp
qed simp

end
