(* ===== verification/Sax_Parser.thy ===== *)
theory Sax_Parser
  imports Offer_Node Clock "HOL-Library.Monad_Syntax"
begin

text \<open>
  feed/parser.h and feed/parser.cpp: the SAX handlers that build one offer's nodes at a time and
  hand the finished offer to the callback.

  The handlers take the parser object and return it updated; \<open>None\<close> is undefined behaviour (a
  null \<^verbatim>\<open>m_offer_root\<close> dereferenced, a buffer that
  \<^verbatim>\<open>strftime\<close> left indeterminate). A start event carries the local time at which
  it is handled. The callback is a parameter with a state of its own; it gets the store, the
  addresses the parser's pointers hold and the offer's address, and its contract is the locale
  \<open>offer_sink\<close>.

  The specification is on elements: \<open>offers_in\<close> lists the offers of a document with the tree
  of each, and the main lemma (\<open>run_feed\<close>) is that the handlers deliver exactly those, in
  order, for every document in which offers are not nested and images not nested in images.
\<close>

type_synonym attribute_list = "(ustring \<times> ustring) list"

record parser =
  m_nodes :: heap
  m_offer_root :: "nat option"
  m_current_offer_node :: "nat option"
  m_feed_id :: string
  m_has_image :: bool

definition parser_init :: "string \<Rightarrow> parser" where
  "parser_init feed_id = \<lparr>m_nodes = [], m_offer_root = None, m_current_offer_node = None,
     m_feed_id = feed_id, m_has_image = False\<rparr>"

text \<open>The addresses that the parser's two shared pointers hold.\<close>

definition held :: "parser \<Rightarrow> nat list" where
  "held p =
     (case m_offer_root p of None \<Rightarrow> [] | Some r \<Rightarrow> [r]) @
     (case m_current_offer_node p of None \<Rightarrow> [] | Some c \<Rightarrow> [c])"

definition add_offer_child :: "parser \<Rightarrow> ustring \<Rightarrow> ustring \<Rightarrow> parser option" where
  "add_offer_child p name data =
     (case m_offer_root p of
        None \<Rightarrow> None
      | Some r \<Rightarrow>
          (let (child, h1) = make_node (m_nodes p);
               h2 = set_name h1 child name;
               h3 = set_data h2 child data
           in Some (p\<lparr>m_nodes := add_child h3 r child\<rparr>)))"

definition time_format :: string where
  "time_format = ''%FT%T%z''"

definition start_offer :: "tm \<Rightarrow> ustring \<Rightarrow> attribute_list \<Rightarrow> parser \<Rightarrow> parser option" where
  "start_offer now name attributes p =
     (let (root, h1) = make_node (m_nodes p);
          p1 = p\<lparr>m_nodes := set_name h1 root name, m_offer_root := Some root\<rparr>
      in do {
        p2 \<leftarrow> (case find (\<lambda>(n, v). n = ''internal-id'') attributes of
                 None \<Rightarrow> Some p1
               | Some (n, v) \<Rightarrow> add_offer_child p1 n v);
        p3 \<leftarrow> add_offer_child p2 ''feed_id'' (m_feed_id p2);
        buf \<leftarrow> strftime 1024 time_format now;
        p4 \<leftarrow> add_offer_child p3 ''last_modified'' buf;
        Some (p4\<lparr>m_current_offer_node := m_offer_root p4\<rparr>)
      })"

definition start_child :: "ustring \<Rightarrow> nat \<Rightarrow> parser \<Rightarrow> parser" where
  "start_child name cur p =
     (let (node, h1) = make_node (m_nodes p)
      in p\<lparr>m_nodes := add_child (set_name h1 node name) cur node, m_current_offer_node := Some node\<rparr>)"

definition on_start_element :: "tm \<Rightarrow> ustring \<Rightarrow> attribute_list \<Rightarrow> parser \<Rightarrow> parser option" where
  "on_start_element now name attributes p =
     (if name = ''offer'' then start_offer now name attributes p
      else case m_current_offer_node p of
        None \<Rightarrow> Some p
      | Some cur \<Rightarrow>
          if name = ''image'' \<and> m_has_image p then Some p else Some (start_child name cur p))"

type_synonym 's callback = "heap \<Rightarrow> nat list \<Rightarrow> nat \<Rightarrow> 's \<Rightarrow> 's option"

definition on_end_element :: "'s callback \<Rightarrow> ustring \<Rightarrow> parser \<Rightarrow> 's \<Rightarrow> (parser \<times> 's) option" where
  "on_end_element cb name p s =
     (if name = ''offer'' then
        case m_offer_root p of
          None \<Rightarrow> None
        | Some r \<Rightarrow>
            (case cb (m_nodes p) (held p) r s of
               None \<Rightarrow> None
             | Some s' \<Rightarrow> Some (p\<lparr>m_current_offer_node := None, m_has_image := False\<rparr>, s'))
      else case m_current_offer_node p of
        None \<Rightarrow> Some (p, s)
      | Some cur \<Rightarrow>
          if name = ''image'' \<and> m_has_image p then Some (p, s)
          else Some (p\<lparr>m_has_image := (m_has_image p \<or> name = ''image''),
                       m_current_offer_node := parent (m_nodes p) (held p) cur\<rparr>, s))"

definition on_characters :: "ustring \<Rightarrow> parser \<Rightarrow> parser" where
  "on_characters text p =
     (case m_current_offer_node p of
        None \<Rightarrow> p
      | Some cur \<Rightarrow>
          if name_of (m_nodes p) cur \<noteq> ''offer'' then p\<lparr>m_nodes := set_data (m_nodes p) cur text\<rparr>
          else p)"

text \<open>What the XML library reports; the last six are handled by empty bodies.\<close>

datatype sax_event =
    Start_element tm ustring attribute_list
  | End_element ustring
  | Characters ustring
  | Start_document
  | End_document
  | Comment ustring
  | Warning ustring
  | Error_report ustring
  | Fatal_error ustring

fun sax_step :: "'s callback \<Rightarrow> sax_event \<Rightarrow> parser \<times> 's \<Rightarrow> (parser \<times> 's) option" where
  "sax_step cb (Start_element now name as) (p, s) =
     map_option (\<lambda>p'. (p', s)) (on_start_element now name as p)"
| "sax_step cb (End_element name) (p, s) = on_end_element cb name p s"
| "sax_step cb (Characters text) (p, s) = Some (on_characters text p, s)"
| "sax_step cb _ (p, s) = Some (p, s)"

fun sax_run :: "'s callback \<Rightarrow> sax_event list \<Rightarrow> parser \<times> 's \<Rightarrow> (parser \<times> 's) option" where
  "sax_run cb [] ps = Some ps"
| "sax_run cb (ev # evs) ps = (case sax_step cb ev ps of None \<Rightarrow> None | Some ps' \<Rightarrow> sax_run cb evs ps')"

lemma sax_run_append:
  "sax_run cb (xs @ ys) ps = (case sax_run cb xs ps of None \<Rightarrow> None | Some ps' \<Rightarrow> sax_run cb ys ps')"
  by (induction xs arbitrary: ps) (auto split: option.splits)

section \<open>Documents and their events\<close>

text \<open>An element carries the local time at which its start tag is handled.\<close>

datatype xml = Elem tm ustring attribute_list "xml list" | Text ustring

fun sax_of :: "xml \<Rightarrow> sax_event list" where
  "sax_of (Text s) = [Characters s]"
| "sax_of (Elem t n as xs) = Start_element t n as # concat (map sax_of xs) @ [End_element n]"

section \<open>The specification: the offers of a document\<close>

text \<open>
  The nodes that content adds to the node it stands in, the text that node is left with (the last
  piece of text wins), and whether the offer has an image now. The second and later images leave
  no node; what stands in them goes to the node around them.
\<close>

fun build :: "bool \<Rightarrow> xml \<Rightarrow> otree list \<times> ustring option \<times> bool"
  and builds :: "bool \<Rightarrow> xml list \<Rightarrow> otree list \<times> ustring option \<times> bool" where
  "build img (Text s) = ([], Some s, img)"
| "build img (Elem t n as xs) =
     (case builds img xs of (ks, d, img') \<Rightarrow>
        if n = ''image'' \<and> img then (ks, d, img')
        else ([Node n (case d of None \<Rightarrow> [] | Some s \<Rightarrow> s) ks], None, img' \<or> n = ''image''))"
| "builds img [] = ([], None, img)"
| "builds img (x # xs) =
     (case build img x of (k1, d1, img1) \<Rightarrow>
      case builds img1 xs of (k2, d2, img2) \<Rightarrow>
        (k1 @ k2, case d2 of None \<Rightarrow> d1 | Some s \<Rightarrow> Some s, img2))"

definition offer_header :: "string \<Rightarrow> tm \<Rightarrow> attribute_list \<Rightarrow> (ustring \<times> ustring) list" where
  "offer_header feed_id now as =
     (case find (\<lambda>(n, v). n = ''internal-id'') as of None \<Rightarrow> [] | Some nv \<Rightarrow> [nv]) @
     [(''feed_id'', feed_id), (''last_modified'', expand time_format now)]"

definition offer_tree :: "string \<Rightarrow> tm \<Rightarrow> attribute_list \<Rightarrow> xml list \<Rightarrow> otree" where
  "offer_tree feed_id now as xs =
     Node ''offer'' []
       (map (\<lambda>(n, v). Node n v []) (offer_header feed_id now as) @ fst (builds False xs))"

fun offers_in :: "string \<Rightarrow> xml \<Rightarrow> otree list" where
  "offers_in feed_id (Text s) = []"
| "offers_in feed_id (Elem t n as xs) =
     (if n = ''offer'' then [offer_tree feed_id t as xs] else concat (map (offers_in feed_id) xs))"

fun has_element :: "ustring \<Rightarrow> xml \<Rightarrow> bool" where
  "has_element m (Text s) = False"
| "has_element m (Elem t n as xs) \<longleftrightarrow> n = m \<or> list_ex (has_element m) xs"

text \<open>Content of an offer: no offer in it, no image in an image.\<close>

fun content_ok :: "xml \<Rightarrow> bool" where
  "content_ok (Text s) = True"
| "content_ok (Elem t n as xs) \<longleftrightarrow>
     n \<noteq> ''offer'' \<and> (n = ''image'' \<longrightarrow> \<not> list_ex (has_element ''image'') xs) \<and> list_all content_ok xs"

fun feed_ok :: "xml \<Rightarrow> bool" where
  "feed_ok (Text s) = True"
| "feed_ok (Elem t n as xs) =
     (if n = ''offer'' then tm_ok t \<and> list_all content_ok xs else list_all feed_ok xs)"

section \<open>What content does to the store\<close>

text \<open>
  From \<open>h\<close> to \<open>h'\<close> only the node \<open>a\<close> changed among the old ones: it got new children with
  the trees \<open>ks\<close> and, unless it is the offer itself, the text \<open>d\<close>.
\<close>

definition grown :: "heap \<Rightarrow> nat \<Rightarrow> heap \<Rightarrow> otree list \<Rightarrow> ustring option \<Rightarrow> bool" where
  "grown h a h' ks d \<longleftrightarrow>
     heap_ok h' \<and> length h \<le> length h' \<and>
     (\<forall>i < length h. i \<noteq> a \<longrightarrow> h' ! i = h ! i) \<and>
     m_parent (h' ! a) = m_parent (h ! a) \<and> name_of h' a = name_of h a \<and>
     (\<exists>cs. children h' a = children h a @ cs \<and> (\<forall>c \<in> set cs. length h \<le> c \<and> c < length h') \<and>
        map (tree_of h') cs = ks) \<and>
     data_of h' a =
       (if name_of h a = ''offer'' then data_of h a
        else case d of None \<Rightarrow> data_of h a | Some s \<Rightarrow> s)"

lemma grownD:
  assumes "grown h a h' ks d"
  shows "heap_ok h'" and "length h \<le> length h'"
    and "i < length h \<Longrightarrow> i \<noteq> a \<Longrightarrow> h' ! i = h ! i"
    and "m_parent (h' ! a) = m_parent (h ! a)" and "name_of h' a = name_of h a"
    and "data_of h' a = (if name_of h a = ''offer'' then data_of h a
           else case d of None \<Rightarrow> data_of h a | Some s \<Rightarrow> s)"
  using assms by (auto simp: grown_def)

lemma grown_children:
  assumes "grown h a h' ks d"
  obtains cs where "children h' a = children h a @ cs"
    and "\<forall>c \<in> set cs. length h \<le> c \<and> c < length h'" and "map (tree_of h') cs = ks"
  using assms unfolding grown_def by blast

lemma grown_refl: "heap_ok h \<Longrightarrow> grown h a h [] None"
  by (simp add: grown_def)

lemma grown_text:
  assumes "heap_ok h" and "a < length h"
  shows "grown h a (if name_of h a \<noteq> ''offer'' then set_data h a s else h) [] (Some s)"
  using assms by (simp add: grown_def heap_ok_set_data heap_simps heap_at_set_data)

lemma grown_live:
  assumes "grown h a h' ks d" and "live h roots b" and "b < length h" and "set roots \<subseteq> set roots'"
  shows "live h' roots' b"
proof (rule live_mono [OF assms(2,3) _ assms(4)])
  fix p assume p: "p < length h"
  obtain cs where "children h' a = children h a @ cs"
    using assms(1) by (rule grown_children)
  with grownD(3) [OF assms(1) p] show "set (children h p) \<subseteq> set (children h' p)"
    by (cases "p = a") (auto simp: children_def)
qed

lemma grown_trans:
  assumes ok: "heap_ok h" and a: "a < length h"
    and g1: "grown h a h1 ks1 d1" and g2: "grown h1 a h2 ks2 d2"
  shows "grown h a h2 (ks1 @ ks2) (case d2 of None \<Rightarrow> d1 | Some s \<Rightarrow> Some s)"
proof -
  obtain cs1 where cs1: "children h1 a = children h a @ cs1"
    "\<forall>c \<in> set cs1. length h \<le> c \<and> c < length h1" "map (tree_of h1) cs1 = ks1"
    using g1 by (rule grown_children)
  obtain cs2 where cs2: "children h2 a = children h1 a @ cs2"
    "\<forall>c \<in> set cs2. length h1 \<le> c \<and> c < length h2" "map (tree_of h2) cs2 = ks2"
    using g2 by (rule grown_children)
  note D1 = grownD [OF g1] and D2 = grownD [OF g2]
  have "tree_of h2 c = tree_of h1 c" if "c \<in> set cs1" for c
    using D1(1) D2(1,2,3) cs1(2) that a
    by (intro tree_of_frame [where b = "Suc a"]) auto
  then have "map (tree_of h2) cs1 = map (tree_of h1) cs1" by simp
  then have "map (tree_of h2) (cs1 @ cs2) = ks1 @ ks2"
    using cs1(3) cs2(3) by simp
  moreover have "\<forall>c \<in> set (cs1 @ cs2). length h \<le> c \<and> c < length h2"
    using cs1(2) cs2(2) D1(2) D2(2) by auto
  moreover have "children h2 a = children h a @ (cs1 @ cs2)"
    using cs1(1) cs2(1) by simp
  ultimately have "\<exists>cs. children h2 a = children h a @ cs \<and>
      (\<forall>c \<in> set cs. length h \<le> c \<and> c < length h2) \<and> map (tree_of h2) cs = ks1 @ ks2"
    by blast
  moreover have "\<forall>i < length h. i \<noteq> a \<longrightarrow> h2 ! i = h ! i"
    using D1(2,3) D2(3) by (metis order_less_le_trans)
  ultimately show ?thesis
    using D1 D2 by (auto simp: grown_def split: option.splits)
qed

text \<open>A new child: its store, and the growth of its parent once the child's content is in.\<close>

definition with_child :: "heap \<Rightarrow> nat \<Rightarrow> ustring \<Rightarrow> heap" where
  "with_child h a n = add_child (set_name (h @ [offer_node_init]) (length h) n) a (length h)"

lemma with_child:
  assumes ok: "heap_ok h" and a: "a < length h"
  shows "heap_ok (with_child h a n)" and "length (with_child h a n) = Suc (length h)"
    and "i < length h \<Longrightarrow> i \<noteq> a \<Longrightarrow> with_child h a n ! i = h ! i"
    and "children (with_child h a n) a = children h a @ [length h]"
    and "m_parent (with_child h a n ! a) = m_parent (h ! a)"
    and "name_of (with_child h a n) a = name_of h a"
    and "data_of (with_child h a n) a = data_of h a"
    and "with_child h a n ! length h =
           \<lparr>m_parent = Some a, m_children = [], m_name = n, m_data = []\<rparr>"
proof -
  show "heap_ok (with_child h a n)"
    unfolding with_child_def using ok a
    by (intro heap_ok_add_child heap_ok_set_name heap_ok_alloc)
      (simp_all add: heap_simps nth_append offer_node_init_def)
  show "with_child h a n ! length h =
      \<lparr>m_parent = Some a, m_children = [], m_name = n, m_data = []\<rparr>"
    using a by (simp add: with_child_def heap_at_add_child heap_at_set_name heap_simps
        nth_append offer_node_init_def)
  show "i < length h \<Longrightarrow> i \<noteq> a \<Longrightarrow> with_child h a n ! i = h ! i"
    using a by (simp add: with_child_def heap_at_add_child heap_at_set_name heap_simps nth_append)
qed (use a in \<open>simp_all add: with_child_def heap_simps\<close>)

lemma grown_element:
  assumes ok: "heap_ok h" and a: "a < length h" and n: "n \<noteq> ''offer''"
    and g: "grown (with_child h a n) (length h) h' ks d"
  shows "grown h a h' [Node n (case d of None \<Rightarrow> [] | Some s \<Rightarrow> s) ks] None"
proof -
  note W = with_child [OF ok a, where n = n]
  note D = grownD [OF g]
  obtain cs where cs: "children h' (length h) = children (with_child h a n) (length h) @ cs"
    "map (tree_of h') cs = ks"
    using g by (rule grown_children)
  have len: "Suc (length h) \<le> length h'" using D(2) W(2) by simp
  have ha: "h' ! a = with_child h a n ! a" using a W(2) by (intro D(3)) auto
  have "tree_of h' (length h) = Node n (case d of None \<Rightarrow> [] | Some s \<Rightarrow> s) ks"
  proof -
    have "name_of (with_child h a n) (length h) = n" "data_of (with_child h a n) (length h) = []"
      "children (with_child h a n) (length h) = []"
      by (simp_all add: W(8) name_of_def data_of_def children_def)
    then show ?thesis
      using n cs D(5,6) len by (simp add: tree_of_eq [OF D(1)] split: option.split)
  qed
  then show ?thesis
    using D(1) len W(4,5,6,7) ha D(3) W(2,3) a
    by (auto simp: grown_def children_def name_of_def data_of_def)
qed

section \<open>Running the handlers over content\<close>

lemma build_image:
  "build img x = (ks, d, img') \<Longrightarrow>
     (img \<longrightarrow> img') \<and> (\<not> img \<longrightarrow> \<not> has_element ''image'' x \<longrightarrow> \<not> img')"
  and builds_image:
  "builds img xs = (ks, d, img') \<Longrightarrow>
     (img \<longrightarrow> img') \<and> (\<not> img \<longrightarrow> \<not> list_ex (has_element ''image'') xs \<longrightarrow> \<not> img')"
proof (induction img x and img xs arbitrary: ks d img' and ks d img' rule: build_builds.induct)
  case (2 img t n atts xs)
  obtain ks0 d0 img0 where b: "builds img xs = (ks0, d0, img0)" by (cases "builds img xs")
  from "2.IH" [OF b] "2.prems" b show ?case by (auto split: if_splits)
next
  case (4 img x xs)
  obtain k1 d1 img1 where b1: "build img x = (k1, d1, img1)" by (cases "build img x")
  obtain k2 d2 img2 where b2: "builds img1 xs = (k2, d2, img2)" by (cases "builds img1 xs")
  from "4.IH"(1) [OF b1] "4.IH"(2) [OF b1 [symmetric] refl b2] "4.prems" b1 b2
  show ?case by auto
qed auto

text \<open>The parser inside an offer: the root \<open>r\<close>, the current node \<open>a\<close>.\<close>

definition inside :: "nat \<Rightarrow> nat \<Rightarrow> parser \<Rightarrow> bool" where
  "inside r a p \<longleftrightarrow>
     m_offer_root p = Some r \<and> m_current_offer_node p = Some a \<and> heap_ok (m_nodes p) \<and>
     a < length (m_nodes p) \<and> r < length (m_nodes p) \<and> live (m_nodes p) [r] a"

lemma inside_grown:
  assumes "inside r a p" and "grown (m_nodes p) a h' ks d"
  shows "inside r a (p\<lparr>m_nodes := h', m_has_image := img\<rparr>)"
  using assms grownD(1,2) [OF assms(2)] grown_live [OF assms(2), of "[r]" a "[r]"]
  by (auto simp: inside_def)

lemma start_child_eq:
  "start_child n a p =
     p\<lparr>m_nodes := with_child (m_nodes p) a n, m_current_offer_node := Some (length (m_nodes p))\<rparr>"
  by (simp add: start_child_def make_node_def with_child_def)

lemma with_child_live:
  assumes "heap_ok h" and "a < length h" and "live h roots a"
  shows "live (with_child h a n) roots a" and "live (with_child h a n) roots (length h)"
proof -
  note W = with_child [OF assms(1,2), where n = n]
  show la: "live (with_child h a n) roots a"
  proof (rule live_mono [OF assms(3,2)])
    fix p assume "p < length h"
    then show "set (children h p) \<subseteq> set (children (with_child h a n) p)"
      using W(3,4) by (cases "p = a") (auto simp: children_def)
  qed simp
  show "live (with_child h a n) roots (length h)"
    by (rule live_child [OF la]) (simp_all add: W(4) assms(2))
qed

lemma inside_start_child:
  assumes "inside r a p"
  shows "inside r (length (m_nodes p)) (start_child n a p)"
  using assms with_child(1,2) [of "m_nodes p" a n] with_child_live(2) [of "m_nodes p" a "[r]" n]
  by (auto simp: inside_def start_child_eq)

text \<open>The end tag of a child goes back to its parent: the weak pointer still locks.\<close>

lemma end_child:
  assumes i: "inside r a p" and g: "grown (with_child (m_nodes p) a n) (length (m_nodes p)) h' ks d"
  shows "parent h' [r, length (m_nodes p)] (length (m_nodes p)) = Some a"
proof (rule parent_lock)
  let ?h = "m_nodes p"
  from i have h: "heap_ok ?h" "a < length ?h" "live ?h [r] a" by (simp_all add: inside_def)
  note W = with_child [OF h(1,2), where n = n]
  show "heap_ok h'" and "length ?h < length h'"
    using grownD(1,2) [OF g] W(2) by auto
  show "m_parent (h' ! length ?h) = Some a"
    using grownD(4) [OF g] by (simp add: W(8))
  show "live h' [r, length ?h] a"
    using grown_live [OF g with_child_live(1) [OF h, of n]] h(2) W(2) by simp
qed

lemma run_content:
  "build img x = (ks, d, img') \<Longrightarrow> content_ok x \<Longrightarrow> inside r a p \<Longrightarrow> m_has_image p = img \<Longrightarrow>
   \<exists>h'. sax_run cb (sax_of x) (p, s) = Some (p\<lparr>m_nodes := h', m_has_image := img'\<rparr>, s) \<and>
        grown (m_nodes p) a h' ks d"
  and run_contents:
  "builds img xs = (ks, d, img') \<Longrightarrow> list_all content_ok xs \<Longrightarrow> inside r a p \<Longrightarrow>
   m_has_image p = img \<Longrightarrow>
   \<exists>h'. sax_run cb (concat (map sax_of xs)) (p, s) =
          Some (p\<lparr>m_nodes := h', m_has_image := img'\<rparr>, s) \<and>
        grown (m_nodes p) a h' ks d"
proof (induction img x and img xs arbitrary: ks d img' a p and ks d img' a p rule: build_builds.induct)
  case (1 img w)
  from 1 have "sax_run cb (sax_of (Text w)) (p, s) = Some (p\<lparr>m_nodes :=
      if name_of (m_nodes p) a \<noteq> ''offer'' then set_data (m_nodes p) a w else m_nodes p,
      m_has_image := img'\<rparr>, s)"
    by (auto simp: inside_def on_characters_def)
  moreover have "grown (m_nodes p) a
      (if name_of (m_nodes p) a \<noteq> ''offer'' then set_data (m_nodes p) a w else m_nodes p) ks d"
    using 1 grown_text [of "m_nodes p" a w] by (simp add: inside_def)
  ultimately show ?case by blast
next
  case (2 img t n atts xs)
  obtain ks0 d0 img0 where b: "builds img xs = (ks0, d0, img0)" by (cases "builds img xs")
  have ok: "n \<noteq> ''offer''" "list_all content_ok xs"
    and cur: "m_offer_root p = Some r" "m_current_offer_node p = Some a"
    and h: "heap_ok (m_nodes p)" "a < length (m_nodes p)"
    using 2 by (simp_all add: inside_def)
  show ?case
  proof (cases "n = ''image'' \<and> img")
    case True
    obtain h' where h': "sax_run cb (concat (map sax_of xs)) (p, s) =
        Some (p\<lparr>m_nodes := h', m_has_image := img0\<rparr>, s)" "grown (m_nodes p) a h' ks0 d0"
      using "2.IH" [OF b ok(2) "2.prems"(3,4)] by blast
    moreover have "img0" using builds_image [OF b] True by simp
    moreover have "(ks, d, img') = (ks0, d0, img0)" using "2.prems"(1) b True by simp
    ultimately show ?thesis
      using True cur "2.prems"(4)
      by (auto simp: on_start_element_def on_end_element_def sax_run_append)
  next
    case False
    let ?b = "length (m_nodes p)"
    have img0: "n = ''image'' \<longrightarrow> \<not> img0"
      using builds_image [OF b] False "2.prems"(2) by auto
    obtain h' where h': "sax_run cb (concat (map sax_of xs)) (start_child n a p, s) =
        Some ((start_child n a p)\<lparr>m_nodes := h', m_has_image := img0\<rparr>, s)"
        "grown (with_child (m_nodes p) a n) ?b h' ks0 d0"
      using "2.IH" [OF b ok(2) inside_start_child [OF "2.prems"(3)], of n] "2.prems"(4)
      by (auto simp: start_child_eq)
    moreover have "parent h' [r, ?b] ?b = Some a"
      using "2.prems"(3) h'(2) by (rule end_child)
    moreover have "grown (m_nodes p) a h' [Node n (case d0 of None \<Rightarrow> [] | Some s \<Rightarrow> s) ks0] None"
      using h ok(1) h'(2) by (rule grown_element)
    moreover have "ks = [Node n (case d0 of None \<Rightarrow> [] | Some s \<Rightarrow> s) ks0]" "d = None"
      "img' = (img0 \<or> n = ''image'')"
      using "2.prems"(1) b False by auto
    ultimately show ?thesis
      using False cur ok(1) img0 "2.prems"(4)
      by (auto simp: on_start_element_def on_end_element_def sax_run_append start_child_eq held_def
          intro!: exI [of _ h'])
  qed
next
  case (3 img)
  then show ?case by (auto simp: inside_def grown_refl intro!: exI [of _ "m_nodes p"])
next
  case (4 img x xs)
  obtain k1 d1 img1 where b1: "build img x = (k1, d1, img1)" by (cases "build img x")
  obtain k2 d2 img2 where b2: "builds img1 xs = (k2, d2, img2)" by (cases "builds img1 xs")
  obtain h1 where h1: "sax_run cb (sax_of x) (p, s) =
      Some (p\<lparr>m_nodes := h1, m_has_image := img1\<rparr>, s)" "grown (m_nodes p) a h1 k1 d1"
    using "4.IH"(1) [OF b1] "4.prems" by auto
  let ?p1 = "p\<lparr>m_nodes := h1, m_has_image := img1\<rparr>"
  obtain h2 where h2: "sax_run cb (concat (map sax_of xs)) (?p1, s) =
      Some (?p1\<lparr>m_nodes := h2, m_has_image := img2\<rparr>, s)" "grown h1 a h2 k2 d2"
    using "4.IH"(2) [OF b1 [symmetric] refl b2 _ inside_grown [OF "4.prems"(3) h1(2)]] "4.prems"(2)
    by auto
  have "grown (m_nodes p) a h2 (k1 @ k2) (case d2 of None \<Rightarrow> d1 | Some s \<Rightarrow> Some s)"
    using grown_trans h1(2) h2(2) "4.prems"(3) by (simp add: inside_def)
  then show ?case
    using h1(1) h2(1) b1 b2 "4.prems"(1) by (auto simp: sax_run_append intro!: exI [of _ h2])
qed

section \<open>Starting and finishing an offer\<close>

lemma add_child_set_data:
  assumes "r < length h" and "c < length h" and "r \<noteq> c"
  shows "add_child (set_data h c v) r c = set_data (add_child h r c) c v"
  by (rule nth_equalityI)
    (use assms in \<open>simp_all add: heap_simps heap_at_add_child heap_at_set_data\<close>)

lemma add_offer_child_grown:
  assumes "m_offer_root p = Some r" and ok: "heap_ok (m_nodes p)" and r: "r < length (m_nodes p)"
    and n: "n \<noteq> ''offer''"
  shows "\<exists>h'. add_offer_child p n v = Some (p\<lparr>m_nodes := h'\<rparr>) \<and>
    grown (m_nodes p) r h' [Node n v []] None"
proof -
  let ?h = "m_nodes p"
  let ?h' = "set_data (with_child ?h r n) (length ?h) v"
  note W = with_child [OF ok r, where n = n]
  have "add_offer_child p n v = Some (p\<lparr>m_nodes := ?h'\<rparr>)"
    using assms(1) r by (simp add: add_offer_child_def make_node_def with_child_def
        add_child_set_data heap_simps)
  moreover have "name_of (with_child ?h r n) (length ?h) = n"
    by (simp add: W(8) name_of_def)
  then have "grown (with_child ?h r n) (length ?h) ?h' [] (Some v)"
    using grown_text [OF W(1), of "length ?h" v] n W(2) by simp
  from grown_element [OF ok r n this] have "grown ?h r ?h' [Node n v []] None" by simp
  ultimately show ?thesis by blast
qed

definition header_nodes :: "string \<Rightarrow> tm \<Rightarrow> attribute_list \<Rightarrow> otree list" where
  "header_nodes feed_id now atts = map (\<lambda>(n, v). Node n v []) (offer_header feed_id now atts)"

lemma strftime_last_modified: "tm_ok now \<Longrightarrow> strftime 1024 time_format now = Some (expand time_format now)"
  using length_year [of now]
  by (simp add: strftime_def time_format_def conversion_def Let_def)

lemma find_first_attribute:
  "find (\<lambda>(n, v). n = m) atts = Some (n, v) \<Longrightarrow> n = m"
  by (induction atts) (auto split: if_splits)

definition offer_begun :: "parser \<Rightarrow> string \<Rightarrow> tm \<Rightarrow> attribute_list \<Rightarrow> parser \<Rightarrow> bool" where
  "offer_begun p feed_id now atts p' \<longleftrightarrow>
     (let r = length (m_nodes p); h0 = set_name (m_nodes p @ [offer_node_init]) r ''offer''
      in inside r r p' \<and> m_feed_id p' = m_feed_id p \<and> m_has_image p' = m_has_image p \<and>
         grown h0 r (m_nodes p') (header_nodes feed_id now atts) None)"

lemma start_offer_begun:
  assumes ok: "heap_ok (m_nodes p)" and now: "tm_ok now"
  shows "\<exists>p'. start_offer now ''offer'' atts p = Some p' \<and>
    offer_begun p (m_feed_id p) now atts p'"
proof -
  let ?r = "length (m_nodes p)"
  let ?h0 = "set_name (m_nodes p @ [offer_node_init]) ?r ''offer''"
  let ?p1 = "p\<lparr>m_nodes := ?h0, m_offer_root := Some ?r\<rparr>"
  let ?fs = "case find (\<lambda>(n, v). n = ''internal-id'') atts of None \<Rightarrow> [] | Some nv \<Rightarrow> [nv]"
  have h0: "heap_ok ?h0" "?r < length ?h0"
    using ok by (simp_all add: heap_ok_set_name heap_ok_alloc heap_simps)
  have "\<exists>h2. (case find (\<lambda>(n, v). n = ''internal-id'') atts of None \<Rightarrow> Some ?p1
        | Some (n, v) \<Rightarrow> add_offer_child ?p1 n v) = Some (?p1\<lparr>m_nodes := h2\<rparr>) \<and>
      grown ?h0 ?r h2 (map (\<lambda>(n, v). Node n v []) ?fs) None"
  proof (cases "find (\<lambda>(n, v). n = ''internal-id'') atts")
    case None
    then show ?thesis using h0(1) grown_refl by (intro exI [of _ ?h0]) simp
  next
    case (Some nv)
    with find_first_attribute [of "''internal-id''" atts "fst nv" "snd nv"]
    have "fst nv \<noteq> ''offer''" by auto
    from add_offer_child_grown [of ?p1 ?r "fst nv" "snd nv"] h0 this Some show ?thesis
      by (auto simp: split_beta)
  qed
  then obtain h2 where h2: "(case find (\<lambda>(n, v). n = ''internal-id'') atts of None \<Rightarrow> Some ?p1
        | Some (n, v) \<Rightarrow> add_offer_child ?p1 n v) = Some (?p1\<lparr>m_nodes := h2\<rparr>)"
      "grown ?h0 ?r h2 (map (\<lambda>(n, v). Node n v []) ?fs) None" by blast
  have r2: "heap_ok h2" "?r < length h2" using grownD(1,2) [OF h2(2)] h0 by auto
  from add_offer_child_grown [of "?p1\<lparr>m_nodes := h2\<rparr>" ?r "''feed_id''" "m_feed_id p"] r2
  obtain h3 where h3: "add_offer_child (?p1\<lparr>m_nodes := h2\<rparr>) ''feed_id'' (m_feed_id p) =
      Some (?p1\<lparr>m_nodes := h3\<rparr>)" "grown h2 ?r h3 [Node ''feed_id'' (m_feed_id p) []] None" by auto
  have r3: "heap_ok h3" "?r < length h3" using grownD(1,2) [OF h3(2)] r2 by auto
  let ?stamp = "expand time_format now"
  from add_offer_child_grown [of "?p1\<lparr>m_nodes := h3\<rparr>" ?r "''last_modified''" ?stamp] r3
  obtain h4 where h4: "add_offer_child (?p1\<lparr>m_nodes := h3\<rparr>) ''last_modified'' ?stamp =
      Some (?p1\<lparr>m_nodes := h4\<rparr>)" "grown h3 ?r h4 [Node ''last_modified'' ?stamp []] None" by auto
  have "grown ?h0 ?r h4 (header_nodes (m_feed_id p) now atts) None"
    using grown_trans [OF h0 grown_trans [OF h0 h2(2) h3(2)] h4(2)]
    by (simp add: header_nodes_def offer_header_def)
  moreover have "?r < length h4" "heap_ok h4" using grownD(1,2) [OF h4(2)] r3 by auto
  moreover have "live h4 [?r] ?r" by (simp add: live_root)
  moreover have "start_offer now ''offer'' atts p =
      Some (?p1\<lparr>m_nodes := h4, m_current_offer_node := Some ?r\<rparr>)"
    using h2(1) h3(1) h4(1) strftime_last_modified [OF now]
    by (simp add: start_offer_def make_node_def)
  ultimately show ?thesis
    by (simp add: offer_begun_def inside_def Let_def)
qed

text \<open>The whole offer, content included, as it stands when the end tag arrives.\<close>

lemma offer_complete:
  assumes b: "offer_begun p feed_id now atts p1" and ok: "heap_ok (m_nodes p)"
    and g: "grown (m_nodes p1) (length (m_nodes p)) h' (fst (builds False xs)) d"
  shows "tree_of h' (length (m_nodes p)) = offer_tree feed_id now atts xs"
    and "m_parent (h' ! length (m_nodes p)) = None"
proof -
  let ?r = "length (m_nodes p)"
  let ?h0 = "set_name (m_nodes p @ [offer_node_init]) ?r ''offer''"
  have h0: "heap_ok ?h0" "?r < length ?h0"
    using ok by (simp_all add: heap_ok_set_name heap_ok_alloc heap_simps)
  have fields: "name_of ?h0 ?r = ''offer''" "data_of ?h0 ?r = []" "children ?h0 ?r = []"
    "m_parent (?h0 ! ?r) = None"
    by (simp_all add: set_name_def name_of_def data_of_def children_def offer_node_init_def)
  have b': "grown ?h0 ?r (m_nodes p1) (header_nodes feed_id now atts) None"
    using b by (simp add: offer_begun_def Let_def)
  have all: "grown ?h0 ?r h' (header_nodes feed_id now atts @ fst (builds False xs))
      (case d of None \<Rightarrow> None | Some s \<Rightarrow> Some s)"
    using h0 b' g by (rule grown_trans)
  obtain cs where "children h' ?r = children ?h0 ?r @ cs"
    "map (tree_of h') cs = header_nodes feed_id now atts @ fst (builds False xs)"
    using all by (rule grown_children)
  with grownD [OF all] fields h0(2) show "tree_of h' ?r = offer_tree feed_id now atts xs"
    by (simp add: tree_of_eq offer_tree_def header_nodes_def)
  show "m_parent (h' ! ?r) = None" using grownD(4) [OF all] fields(4) by simp
qed

section \<open>The callback's contract and the whole feed\<close>

text \<open>
  What the parser relies on: given a finished offer (a live node without parent in a well-formed
  store) the callback returns, and what it does depends on the offer's tree alone.
\<close>

locale offer_sink =
  fixes cb :: "'s callback"
    and deliver :: "otree \<Rightarrow> 's \<Rightarrow> 's"
  assumes sink: "heap_ok h \<Longrightarrow> r < length h \<Longrightarrow> live h roots r \<Longrightarrow> m_parent (h ! r) = None \<Longrightarrow>
      cb h roots r s = Some (deliver (tree_of h r) s)"

text \<open>The parser between offers.\<close>

definition idle :: "string \<Rightarrow> parser \<Rightarrow> bool" where
  "idle feed_id p \<longleftrightarrow>
     heap_ok (m_nodes p) \<and> m_current_offer_node p = None \<and> \<not> m_has_image p \<and> m_feed_id p = feed_id"

lemma idle_init: "idle feed_id (parser_init feed_id)"
  by (simp add: idle_def parser_init_def)

context offer_sink
begin

text \<open>The start tag of an offer does not look at the current node, so an offer in an offer runs as
  any other; afterwards the parser still holds it.\<close>

lemma run_offer:
  assumes h: "heap_ok (m_nodes p)" and fid: "m_feed_id p = feed_id" and img: "\<not> m_has_image p"
    and ok: "tm_ok now" "list_all content_ok xs"
  shows "\<exists>p' r. sax_run cb (sax_of (Elem now ''offer'' atts xs)) (p, s) =
      Some (p', deliver (offer_tree feed_id now atts xs) s) \<and> idle feed_id p' \<and>
      m_offer_root p' = Some r \<and> r < length (m_nodes p') \<and> m_parent (m_nodes p' ! r) = None \<and>
      tree_of (m_nodes p') r = offer_tree feed_id now atts xs"
proof -
  let ?r = "length (m_nodes p)"
  obtain p1 where p1: "start_offer now ''offer'' atts p = Some p1"
    "offer_begun p feed_id now atts p1"
    using start_offer_begun [OF h ok(1), of atts] fid by auto
  have ins: "inside ?r ?r p1" and img1: "m_has_image p1 = False" and fid1: "m_feed_id p1 = feed_id"
    using p1(2) img fid by (simp_all add: offer_begun_def Let_def)
  obtain ks d img' where b: "builds False xs = (ks, d, img')" by (cases "builds False xs")
  obtain h' where h': "sax_run cb (concat (map sax_of xs)) (p1, s) =
      Some (p1\<lparr>m_nodes := h', m_has_image := img'\<rparr>, s)" "grown (m_nodes p1) ?r h' ks d"
    using run_contents [OF b ok(2) ins img1, of cb s] by blast
  note C = offer_complete [OF p1(2) h, of h' xs d]
  have g: "grown (m_nodes p1) ?r h' (fst (builds False xs)) d" using h'(2) b by simp
  let ?p2 = "p1\<lparr>m_nodes := h', m_has_image := img'\<rparr>"
  have ins2: "inside ?r ?r ?p2" using ins h'(2) by (rule inside_grown)
  have "live h' (held ?p2) ?r" using ins2 by (auto simp: inside_def held_def intro: live_root)
  then have "cb h' (held ?p2) ?r s = Some (deliver (offer_tree feed_id now atts xs) s)"
    using sink [of h' ?r "held ?p2" s] ins2 C [OF g] by (simp add: inside_def)
  then show ?thesis
    using p1(1) h'(1) ins2 fid1 C [OF g]
    by (simp add: on_start_element_def on_end_element_def sax_run_append inside_def idle_def)
qed

lemma run_feed:
  assumes "idle feed_id p" and "feed_ok x"
  shows "\<exists>p'. sax_run cb (sax_of x) (p, s) = Some (p', fold deliver (offers_in feed_id x) s) \<and>
    idle feed_id p'"
  using assms
proof (induction x arbitrary: p s)
  case (Text w)
  then show ?case by (simp add: idle_def on_characters_def)
next
  case (Elem now n atts xs)
  show ?case
  proof (cases "n = ''offer''")
    case True
    with Elem.prems run_offer [of p feed_id now xs atts s] show ?thesis by (auto simp: idle_def)
  next
    case False
    have "\<exists>p'. sax_run cb (concat (map sax_of ys)) (p, s) =
        Some (p', fold deliver (concat (map (offers_in feed_id) ys)) s) \<and> idle feed_id p'"
      if "set ys \<subseteq> set xs" for ys
      using that Elem.prems(1)
    proof (induction ys arbitrary: p s)
      case (Cons y ys)
      have "feed_ok y" using Elem.prems(2) Cons.prems(1) False by (auto simp: list_all_iff)
      with Elem.IH [of y p s] Cons.prems obtain p1 where
        p1: "sax_run cb (sax_of y) (p, s) = Some (p1, fold deliver (offers_in feed_id y) s)"
        "idle feed_id p1" by auto
      from Cons.IH [OF _ p1(2), of "fold deliver (offers_in feed_id y) s"] Cons.prems(1) p1(1)
      show ?case by (auto simp: sax_run_append)
    qed simp
    from this [of xs] obtain p1 where p1: "sax_run cb (concat (map sax_of xs)) (p, s) =
        Some (p1, fold deliver (concat (map (offers_in feed_id) xs)) s)" "idle feed_id p1"
      by blast
    moreover have "m_current_offer_node p = None" "m_current_offer_node p1 = None"
      using Elem.prems(1) p1(2) by (simp_all add: idle_def)
    ultimately show ?thesis
      using False by (simp add: sax_run_append on_start_element_def on_end_element_def)
  qed
qed

end

end
