(* ===== verification/Parser_Safety.thy ===== *)
theory Parser_Safety
  imports Sax_Parser
begin

text \<open>
  What the handlers of feed/parser.cpp do on event sequences that are not a well-formed feed: the
  invariant \<open>parser_ok\<close> that every event keeps, the only way to undefined behaviour (an offer's
  end tag before any start tag), and the two documents the handlers do not treat as their author
  meant: an offer in an offer, and text that arrives in two pieces. The last section counts the
  images of a delivered offer.
\<close>

section \<open>The parser's invariant\<close>

definition parser_ok :: "parser \<Rightarrow> bool" where
  "parser_ok p \<longleftrightarrow>
     heap_ok (m_nodes p) \<and>
     (case m_offer_root p of
        None \<Rightarrow> m_current_offer_node p = None
      | Some r \<Rightarrow> r < length (m_nodes p) \<and> m_parent (m_nodes p ! r) = None) \<and>
     (case m_current_offer_node p of None \<Rightarrow> True | Some c \<Rightarrow> c < length (m_nodes p))"

fun clock_ok :: "sax_event \<Rightarrow> bool" where
  "clock_ok (Start_element now name as) = tm_ok now"
| "clock_ok _ = True"

lemma parser_ok_init: "parser_ok (parser_init feed_id)"
  by (simp add: parser_ok_def parser_init_def)

lemma parser_okD:
  assumes "parser_ok p"
  shows "heap_ok (m_nodes p)"
    and "m_offer_root p = Some r \<Longrightarrow> r < length (m_nodes p)"
    and "m_offer_root p = Some r \<Longrightarrow> m_parent (m_nodes p ! r) = None"
    and "m_current_offer_node p = Some c \<Longrightarrow> c < length (m_nodes p)"
    and "m_offer_root p = None \<Longrightarrow> m_current_offer_node p = None"
  using assms by (auto simp: parser_ok_def)

lemma parser_ok_start_child:
  assumes ok: "parser_ok p" and cur: "m_current_offer_node p = Some c"
  shows "parser_ok (start_child n c p)" and "m_offer_root (start_child n c p) = m_offer_root p"
proof -
  note P = parser_okD [OF ok]
  have c: "c < length (m_nodes p)" using P(4) cur .
  note W = with_child [OF P(1) c, where n = n]
  obtain r where r: "m_offer_root p = Some r" using P(5) cur by fastforce
  have "m_parent (with_child (m_nodes p) c n ! r) = m_parent (m_nodes p ! r)"
    using W(3) [of r] W(5) P(2) [OF r] by (cases "r = c") auto
  then show "parser_ok (start_child n c p)"
    using W(1,2) P(2,3) r by (simp add: parser_ok_def start_child_eq)
  show "m_offer_root (start_child n c p) = m_offer_root p"
    by (simp add: start_child_eq)
qed

lemma parser_ok_start_offer:
  assumes ok: "parser_ok p" and now: "tm_ok now"
  shows "\<exists>p'. start_offer now ''offer'' atts p = Some p' \<and> parser_ok p' \<and> m_offer_root p' \<noteq> None"
proof -
  let ?r = "length (m_nodes p)"
  let ?h0 = "set_name (m_nodes p @ [offer_node_init]) ?r ''offer''"
  obtain p' where p': "start_offer now ''offer'' atts p = Some p'"
      "offer_begun p (m_feed_id p) now atts p'"
    using start_offer_begun [OF parser_okD(1) [OF ok] now] by blast
  then have i: "inside ?r ?r p'" and g: "grown ?h0 ?r (m_nodes p') (header_nodes (m_feed_id p) now atts) None"
    by (simp_all add: offer_begun_def Let_def)
  have "m_parent (?h0 ! ?r) = None" by (simp add: set_name_def offer_node_init_def)
  then have "m_parent (m_nodes p' ! ?r) = None" using grownD(4) [OF g] by simp
  with i have "parser_ok p'" by (simp add: inside_def parser_ok_def)
  with p'(1) i show ?thesis by (simp add: inside_def)
qed

lemma parser_ok_characters:
  assumes "parser_ok p"
  shows "parser_ok (on_characters text p)" and "m_offer_root (on_characters text p) = m_offer_root p"
proof -
  note P = parser_okD [OF assms]
  have "m_offer_root p = Some r \<Longrightarrow> c < length (m_nodes p) \<Longrightarrow>
      m_parent (set_data (m_nodes p) c text ! r) = None" for c r
    using P(2,3) by (simp add: heap_simps)
  moreover have "m_current_offer_node p = Some c \<Longrightarrow> \<exists>r. m_offer_root p = Some r" for c
    using P(5) by fastforce
  ultimately show "parser_ok (on_characters text p)"
    using assms P(1,4) unfolding parser_ok_def on_characters_def
    by (auto simp: heap_ok_set_data heap_simps split: option.splits)
  show "m_offer_root (on_characters text p) = m_offer_root p"
    by (simp add: on_characters_def split: option.split)
qed

lemma parser_ok_parent:
  assumes "parser_ok p" and "m_current_offer_node p = Some c"
  shows "parser_ok (p\<lparr>m_has_image := b, m_current_offer_node := parent (m_nodes p) (held p) c\<rparr>)"
proof (cases "parent (m_nodes p) (held p) c")
  case None
  with assms show ?thesis by (auto simp: parser_ok_def split: option.splits)
next
  case (Some d)
  then have "m_parent (m_nodes p ! c) = Some d" by (auto simp: parent_def split: option.splits if_splits)
  with heap_ok_parent [OF parser_okD(1) [OF assms(1)] parser_okD(4) [OF assms]]
  have "d < c" by blast
  with Some assms parser_okD(4) [OF assms] show ?thesis
    by (auto simp: parser_ok_def split: option.splits)
qed

context offer_sink
begin

lemma step_ok:
  assumes ok: "parser_ok p" and now: "clock_ok ev"
    and root: "ev = End_element ''offer'' \<longrightarrow> m_offer_root p \<noteq> None"
  shows "\<exists>p' s'. sax_step cb ev (p, s) = Some (p', s') \<and> parser_ok p' \<and>
    (m_offer_root p' \<noteq> None \<longleftrightarrow> m_offer_root p \<noteq> None \<or> (\<exists>t as. ev = Start_element t ''offer'' as))"
proof (cases ev)
  case (Start_element t n as)
  show ?thesis
  proof (cases "n = ''offer''")
    case True
    with parser_ok_start_offer [OF ok, of t as] now Start_element show ?thesis
      by (auto simp: on_start_element_def)
  next
    case False
    with parser_ok_start_child [OF ok, of _ n] ok Start_element show ?thesis
      by (cases "m_current_offer_node p") (auto simp: on_start_element_def)
  qed
next
  case (End_element n)
  show ?thesis
  proof (cases "n = ''offer''")
    case True
    with root End_element obtain r where r: "m_offer_root p = Some r" by auto
    have "live (m_nodes p) (held p) r" using r by (auto simp: held_def intro: live_root)
    then have "cb (m_nodes p) (held p) r s = Some (deliver (tree_of (m_nodes p) r) s)"
      by (intro sink parser_okD(1) [OF ok] parser_okD(2) [OF ok r] parser_okD(3) [OF ok r])
    with True End_element r ok show ?thesis
      by (auto simp: on_end_element_def parser_ok_def)
  next
    case False
    with parser_ok_parent [OF ok] ok End_element show ?thesis
      by (cases "m_current_offer_node p") (auto simp: on_end_element_def)
  qed
next
  case (Characters w)
  with parser_ok_characters [OF ok] show ?thesis by auto
qed (use ok in auto)

text \<open>An offer's end tag only after an offer's start tag: the sequences without a null dereference.\<close>

end

fun offers_started :: "bool \<Rightarrow> sax_event list \<Rightarrow> bool" where
  "offers_started b [] = True"
| "offers_started b (Start_element t n as # evs) = offers_started (b \<or> n = ''offer'') evs"
| "offers_started b (End_element n # evs) \<longleftrightarrow> (n = ''offer'' \<longrightarrow> b) \<and> offers_started b evs"
| "offers_started b (_ # evs) = offers_started b evs"

lemma offers_started_step:
  "offers_started b (ev # evs) \<longleftrightarrow>
     (ev = End_element ''offer'' \<longrightarrow> b) \<and>
     offers_started (b \<or> (\<exists>t as. ev = Start_element t ''offer'' as)) evs"
  by (cases ev) auto

context offer_sink
begin

lemma run_ok:
  assumes "parser_ok p" and "list_all clock_ok evs"
  shows "(\<exists>p' s'. sax_run cb evs (p, s) = Some (p', s') \<and> parser_ok p') \<longleftrightarrow>
    offers_started (m_offer_root p \<noteq> None) evs"
  using assms
proof (induction evs arbitrary: p s)
  case (Cons ev evs)
  show ?case
  proof (cases "ev = End_element ''offer'' \<and> m_offer_root p = None")
    case True
    then show ?thesis by (simp add: on_end_element_def)
  next
    case False
    with Cons.prems step_ok [of p ev s] obtain p1 s1 where
      p1: "sax_step cb ev (p, s) = Some (p1, s1)" "parser_ok p1"
        "m_offer_root p1 \<noteq> None \<longleftrightarrow> m_offer_root p \<noteq> None \<or> (\<exists>t as. ev = Start_element t ''offer'' as)"
      by auto
    have "m_offer_root p \<noteq> None \<or> ev \<noteq> End_element ''offer''" using False by argo
    then have "offers_started (m_offer_root p \<noteq> None) (ev # evs) \<longleftrightarrow>
        offers_started (m_offer_root p1 \<noteq> None) evs"
      by (simp only: offers_started_step p1(3)) blast
    with Cons.IH [of p1 s1] Cons.prems(2) p1(1,2) show ?thesis by simp
  qed
qed simp

section \<open>An offer in an offer\<close>

text \<open>
  The inner start tag replaces \<^verbatim>\<open>m_offer_root\<close>, so the outer offer is lost and its end
  tag delivers the inner one again.
\<close>

lemma run_nested_offer:
  assumes "idle feed_id p" and "tm_ok now" and "tm_ok now'" and "list_all content_ok xs"
  shows "\<exists>p'. sax_run cb (sax_of (Elem now ''offer'' atts [Elem now' ''offer'' atts' xs])) (p, s) =
    Some (p', deliver (offer_tree feed_id now' atts' xs) (deliver (offer_tree feed_id now' atts' xs) s))"
proof -
  let ?t = "offer_tree feed_id now' atts' xs"
  have p: "heap_ok (m_nodes p)" "m_feed_id p = feed_id" "\<not> m_has_image p"
    using assms(1) by (simp_all add: idle_def)
  obtain p1 where p1: "start_offer now ''offer'' atts p = Some p1"
      "offer_begun p (m_feed_id p) now atts p1"
    using start_offer_begun [OF p(1) assms(2)] by blast
  then have "heap_ok (m_nodes p1)" "m_feed_id p1 = feed_id" "\<not> m_has_image p1"
    using p by (simp_all add: offer_begun_def inside_def Let_def)
  from run_offer [OF this assms(3,4), of atts' s] obtain p2 r where
    p2: "sax_run cb (sax_of (Elem now' ''offer'' atts' xs)) (p1, s) = Some (p2, deliver ?t s)"
      "idle feed_id p2" "m_offer_root p2 = Some r" "r < length (m_nodes p2)"
      "m_parent (m_nodes p2 ! r) = None" "tree_of (m_nodes p2) r = ?t" by blast
  have "live (m_nodes p2) (held p2) r" using p2(3) by (auto simp: held_def intro: live_root)
  with sink [of "m_nodes p2" r "held p2" "deliver ?t s"] p2
  have "cb (m_nodes p2) (held p2) r (deliver ?t s) = Some (deliver ?t (deliver ?t s))"
    by (simp add: idle_def)
  then have "on_end_element cb ''offer'' p2 (deliver ?t s) =
      Some (p2\<lparr>m_current_offer_node := None, m_has_image := False\<rparr>, deliver ?t (deliver ?t s))"
    using p2(3) by (simp add: on_end_element_def)
  moreover have "sax_of (Elem now ''offer'' atts [Elem now' ''offer'' atts' xs]) =
      Start_element now ''offer'' atts # sax_of (Elem now' ''offer'' atts' xs) @ [End_element ''offer'']"
    by simp
  moreover have "on_start_element now ''offer'' atts p = Some p1"
    using p1(1) by (simp add: on_start_element_def)
  ultimately show ?thesis
    using p2(1) by (simp del: sax_of.simps add: sax_run_append)
qed

end

section \<open>Text in two pieces\<close>

lemma on_characters_overwrites: "on_characters b (on_characters a p) = on_characters b p"
proof (cases "m_current_offer_node p")
  case (Some c)
  have "name_of (set_data h c a) c = name_of h c" for h
    by (cases "c < length h") (simp_all add: set_data_def name_of_def list_update_beyond)
  moreover have "set_data (set_data h c a) c b = set_data h c b" for h
    by (cases "c < length h") (simp_all add: set_data_def list_update_beyond)
  ultimately show ?thesis using Some by (simp add: on_characters_def)
qed (simp add: on_characters_def)

section \<open>At most one image\<close>

fun images :: "otree \<Rightarrow> nat" where
  "images (Node n d ks) = (if n = ''image'' then 1 else 0) + sum_list (map images ks)"

lemma build_images:
  "build img x = (ks, d, img') \<Longrightarrow> content_ok x \<Longrightarrow>
     sum_list (map images ks) + of_bool img = of_bool img'"
  and builds_images:
  "builds img xs = (ks, d, img') \<Longrightarrow> list_all content_ok xs \<Longrightarrow>
     sum_list (map images ks) + of_bool img = of_bool img'"
proof (induction img x and img xs arbitrary: ks d img' and ks d img' rule: build_builds.induct)
  case (2 img t n atts xs)
  obtain ks0 d0 img0 where b: "builds img xs = (ks0, d0, img0)" by (cases "builds img xs")
  from "2.IH" [OF b] "2.prems"(2) have IH: "sum_list (map images ks0) + of_bool img = of_bool img0" by simp
  show ?case
  proof (cases "n = ''image''")
    case True
    with builds_image [OF b] "2.prems"(2) have "\<not> img \<longrightarrow> \<not> img0" by simp
    with True IH "2.prems"(1) b show ?thesis by (auto split: if_splits)
  next
    case False
    with IH "2.prems"(1) b show ?thesis by auto
  qed
next
  case (4 img x xs)
  obtain k1 d1 img1 where b1: "build img x = (k1, d1, img1)" by (cases "build img x")
  obtain k2 d2 img2 where b2: "builds img1 xs = (k2, d2, img2)" by (cases "builds img1 xs")
  from "4.IH"(1) [OF b1] "4.prems"(2)
  have "sum_list (map images k1) + of_bool img = of_bool img1" by simp
  moreover from "4.IH"(2) [OF b1 [symmetric] refl b2] "4.prems"(2)
  have "sum_list (map images k2) + of_bool img1 = of_bool img2" by simp
  moreover have "ks = k1 @ k2" "img' = img2" using "4.prems"(1) b1 b2 by simp_all
  ultimately show ?case by simp
qed auto

lemma images_header: "sum_list (map images (header_nodes feed_id now atts)) = 0"
proof (cases "find (\<lambda>(n, v). n = ''internal-id'') atts")
  case None
  then show ?thesis by (simp add: header_nodes_def offer_header_def)
next
  case (Some nv)
  with find_first_attribute [of "''internal-id''" atts "fst nv" "snd nv"] show ?thesis
    by (cases nv) (simp add: header_nodes_def offer_header_def)
qed

lemma images_offer_tree:
  assumes "list_all content_ok xs"
  shows "images (offer_tree feed_id now atts xs) \<le> 1"
proof -
  obtain ks d img where b: "builds False xs = (ks, d, img)" by (cases "builds False xs")
  from builds_images [OF b assms] have "sum_list (map images ks) \<le> 1" by simp
  moreover have "images (offer_tree feed_id now atts xs) = sum_list (map images ks)"
    using b images_header [of feed_id now atts]
    by (simp add: offer_tree_def header_nodes_def del: sum_list_eq_0_iff)
  ultimately show ?thesis by simp
qed

lemma images_offers_in: "feed_ok x \<Longrightarrow> t \<in> set (offers_in feed_id x) \<Longrightarrow> images t \<le> 1"
proof (induction x)
  case (Elem now n atts xs)
  then show ?case
    using images_offer_tree [of xs feed_id now atts]
    by (cases "n = ''offer''") (auto simp: list_all_iff simp del: images.simps)
qed simp

end
