(* ===== verification/Feed.thy ===== *)
theory Feed
  imports Parser_Safety
begin

text \<open>
  feed/feed.cpp: the two drivers that push a feed's bytes into the parser. \<open>parse_feed_stream\<close>
  reads a stream in blocks; \<open>parse_feed_url\<close> creates the storage directory, opens the mirror
  file and lets libcurl call \<open>with_parse_write_data\<close> for every block it receives.

  The XML library's push parser and libcurl are parameters: \<open>'l lexer\<close> turns a chunk into the
  events it reports and possibly an exception, and a transfer is the list of blocks that reach the
  write callback. A block is the memory from \<^verbatim>\<open>ptr\<close> on, so that what the callback
  reads past the \<open>size * nmemb\<close> bytes is in the model.

  Results: \<open>None\<close> is undefined behaviour, \<open>Inl\<close> an exception that leaves the function.
\<close>

type_synonym 'l lexer = "'l \<Rightarrow> string \<Rightarrow> 'l \<times> sax_event list \<times> string option"

type_synonym ('l, 's) feed_state = "'l \<times> parser \<times> 's"

text \<open>\<^verbatim>\<open>parser.parse_chunk(input)\<close>: the library reports the chunk's events to the handlers,
  then throws if the chunk is not well-formed.\<close>

definition parse_chunk ::
    "'l lexer \<Rightarrow> 's callback \<Rightarrow> string \<Rightarrow> ('l, 's) feed_state \<Rightarrow> (string + ('l, 's) feed_state) option" where
  "parse_chunk lxr cb input st =
     (case st of (l, p, s) \<Rightarrow>
        (case lxr l input of (l', evs, err) \<Rightarrow>
           (case sax_run cb evs (p, s) of
              None \<Rightarrow> None
            | Some (p', s') \<Rightarrow> Some (case err of Some e \<Rightarrow> Inl e | None \<Rightarrow> Inr (l', p', s')))))"

section \<open>Reading a stream\<close>

definition PARSE_FEED_BUFFER_SIZE :: nat where
  "PARSE_FEED_BUFFER_SIZE = 4096"

text \<open>The do-while loop; \<open>put\<close> is what it does with a block.\<close>

function read_loop :: "(string \<Rightarrow> 'x \<Rightarrow> (string + 'x) option) \<Rightarrow> istream \<Rightarrow> 'x \<Rightarrow> (string + 'x) option" where
  "read_loop put is x =
     (let (buffer, is') = is_read (PARSE_FEED_BUFFER_SIZE - 1) is
      in case (if gcount is' \<noteq> 0 then put buffer x else Some (Inr x)) of
           None \<Rightarrow> None
         | Some (Inl e) \<Rightarrow> Some (Inl e)
         | Some (Inr x') \<Rightarrow> if \<not> failbit is' then read_loop put is' x' else Some (Inr x'))"
  by pat_completeness auto
termination
proof (relation "measure (\<lambda>(put, is, x). length (unread is))", goal_cases)
  case 2
  then show ?case
    by (auto simp: PARSE_FEED_BUFFER_SIZE_def intro: is_read_shrinks [OF sym])
qed simp

declare read_loop.simps [simp del]

definition parse_feed_stream ::
    "'l lexer \<Rightarrow> 'l \<Rightarrow> istream \<Rightarrow> 's callback \<Rightarrow> 's \<Rightarrow> (string + ('l, 's) feed_state) option" where
  "parse_feed_stream lxr l is cb s = read_loop (parse_chunk lxr cb) is (l, parser_init ''unknown'', s)"

definition parse_feed_file ::
    "'l lexer \<Rightarrow> 'l \<Rightarrow> (string \<Rightarrow> string option) \<Rightarrow> string \<Rightarrow> 's callback \<Rightarrow> 's
     \<Rightarrow> (string + ('l, 's) feed_state) option" where
  "parse_feed_file lxr l files filename cb s = parse_feed_stream lxr l (ifstream (files filename)) cb s"

section \<open>Receiving a feed over HTTP\<close>

text \<open>The write callback's arguments: the memory from \<^verbatim>\<open>ptr\<close> on, \<open>size\<close>,
  \<open>nmemb\<close>.\<close>

type_synonym block = "string \<times> u64 \<times> u64"

text \<open>A \<^verbatim>\<open>char*\<close> streamed to an ostream: the bytes up to the first NUL, undefined if the
  memory has none.\<close>

definition c_string :: "string \<Rightarrow> string option" where
  "c_string mem = (if CHR 0x00 \<in> set mem then Some (takeWhile (\<lambda>c. c \<noteq> CHR 0x00) mem) else None)"

text \<open>The bytes are mirrored before they are parsed, so they stay in the file when the parser throws.\<close>

definition with_parse_write_data ::
    "'l lexer \<Rightarrow> 's callback \<Rightarrow> block \<Rightarrow> string \<Rightarrow> ('l, 's) feed_state
     \<Rightarrow> (string \<times> (string + u64 \<times> ('l, 's) feed_state)) option" where
  "with_parse_write_data lxr cb blk ofs st =
     (case blk of (mem, sz, nmemb) \<Rightarrow>
        (case c_string mem of
           None \<Rightarrow> None
         | Some str \<Rightarrow>
             if length mem < unat (sz * nmemb) then None
             else case parse_chunk lxr cb (take (unat (sz * nmemb)) mem) st of
                    None \<Rightarrow> None
                  | Some (Inl e) \<Rightarrow> Some (ofs @ str, Inl e)
                  | Some (Inr st') \<Rightarrow> Some (ofs @ str, Inr (sz * nmemb, st'))))"

text \<open>libcurl's transfer: a callback that does not return the number of bytes it was given ends it.\<close>

fun curl_easy_perform ::
    "'l lexer \<Rightarrow> 's callback \<Rightarrow> block list \<Rightarrow> string \<Rightarrow> ('l, 's) feed_state
     \<Rightarrow> (string \<times> (string + ('l, 's) feed_state)) option" where
  "curl_easy_perform lxr cb [] ofs st = Some (ofs, Inr st)"
| "curl_easy_perform lxr cb (b # bs) ofs st =
     (case with_parse_write_data lxr cb b ofs st of
        None \<Rightarrow> None
      | Some (ofs', Inl e) \<Rightarrow> Some (ofs', Inl e)
      | Some (ofs', Inr (n, st')) \<Rightarrow>
          if n = fst (snd b) * snd (snd b) then curl_easy_perform lxr cb bs ofs' st'
          else Some (ofs', Inr st'))"

definition get_feed_path_postfix :: "tm \<Rightarrow> string option" where
  "get_feed_path_postfix now = strftime 32 ''_feed_%Y_%m_%d_%H'' now"

definition feed_path :: "string \<Rightarrow> string \<Rightarrow> string" where
  "feed_path storage_path feed_name = storage_path @ ''/feed/'' @ take 2 feed_name @ ''/''"

text \<open>
  What the operating system and libcurl answer: the clock, whether the mirror file can be opened,
  whether \<^verbatim>\<open>curl_easy_init\<close> gives a handle, and the blocks a URL sends.
\<close>

record feed_env =
  local_time :: tm
  can_open :: "string \<Rightarrow> bool"
  curl_handle :: bool
  transfer :: "string \<Rightarrow> block list"

text \<open>What the function leaves behind: the shell command it ran, the file it opened with what was
  written to it (\<open>None\<close>: it could not be opened), and the state of the parser and the callback.\<close>

record ('l, 's) feed_result =
  shell_command :: string
  mirror_name :: string
  mirror :: "string option"
  feed_outcome :: "string + ('l, 's) feed_state"

definition parse_feed_url ::
    "feed_env \<Rightarrow> 'l lexer \<Rightarrow> 'l \<Rightarrow> string \<Rightarrow> string \<Rightarrow> string \<Rightarrow> string \<Rightarrow> 's callback \<Rightarrow> 's
     \<Rightarrow> ('l, 's) feed_result option" where
  "parse_feed_url env lxr l url feed_id feed_name storage_path cb s =
     (let path = feed_path storage_path feed_name;
          cmd = ''mkdir -p '' @ path
      in case get_feed_path_postfix (local_time env) of
           None \<Rightarrow> None
         | Some postfix \<Rightarrow>
             (let feed_filename = path @ feed_name @ postfix;
                  st = (l, parser_init feed_id, s)
              in case (if curl_handle env then curl_easy_perform lxr cb (transfer env url) [] st
                       else Some ([], Inr st)) of
                   None \<Rightarrow> None
                 | Some (ofs, r) \<Rightarrow>
                     Some \<lparr>shell_command = cmd, mirror_name = feed_filename,
                       mirror = (if can_open env feed_filename then Some ofs else None),
                       feed_outcome = r\<rparr>))"

section \<open>The loop hands over the bytes in blocks\<close>

fun put_all :: "(string \<Rightarrow> 'x \<Rightarrow> (string + 'x) option) \<Rightarrow> string list \<Rightarrow> 'x \<Rightarrow> (string + 'x) option" where
  "put_all put [] x = Some (Inr x)"
| "put_all put (c # cs) x =
     (case put c x of
        None \<Rightarrow> None
      | Some (Inl e) \<Rightarrow> Some (Inl e)
      | Some (Inr x') \<Rightarrow> put_all put cs x')"

fun chunks :: "nat \<Rightarrow> string \<Rightarrow> string list" where
  "chunks n s = (if s = [] \<or> n = 0 then [] else take n s # chunks n (drop n s))"

declare chunks.simps [simp del]

lemma chunks_Nil [simp]: "chunks n [] = []"
  by (simp add: chunks.simps)

lemma concat_chunks: "0 < n \<Longrightarrow> concat (chunks n s) = s"
proof (induction n s rule: chunks.induct)
  case (1 n s)
  then show ?case by (subst chunks.simps) auto
qed

lemma chunks_bounds: "c \<in> set (chunks n s) \<Longrightarrow> c \<noteq> [] \<and> length c \<le> n"
proof (induction n s rule: chunks.induct)
  case (1 n s)
  then show ?case by (subst (asm) (2) chunks.simps) (auto split: if_splits)
qed

lemma block_size: "PARSE_FEED_BUFFER_SIZE - 1 = 4095"
  by (simp add: PARSE_FEED_BUFFER_SIZE_def)

lemma read_loop_short:
  assumes "good is" and "length (unread is) < 4095"
  shows "read_loop put is x = put_all put (chunks 4095 (unread is)) x"
  using assms by (subst read_loop.simps, subst chunks.simps)
    (auto simp: block_size is_read_def good_def simp del: One_nat_def split: option.splits sum.splits)

lemma read_loop_full:
  assumes "good is" and "\<not> length (unread is) < 4095"
  shows "read_loop put is x =
    (case put (take 4095 (unread is)) x of
       None \<Rightarrow> None
     | Some (Inl e) \<Rightarrow> Some (Inl e)
     | Some (Inr y) \<Rightarrow> read_loop put (is\<lparr>unread := drop 4095 (unread is), gcount := 4095\<rparr>) y)"
  using assms by (subst read_loop.simps)
    (simp add: block_size is_read_def good_def del: One_nat_def split: option.split sum.split)

lemma read_loop_chunks:
  assumes "good is"
  shows "read_loop put is x = put_all put (chunks (PARSE_FEED_BUFFER_SIZE - 1) (unread is)) x"
  unfolding block_size
  using assms
proof (induction "length (unread is)" arbitrary: "is" x rule: less_induct)
  case less
  show ?case
  proof (cases "length (unread is) < 4095")
    case True
    with less.prems show ?thesis by (rule read_loop_short)
  next
    case False
    let ?is' = "is\<lparr>unread := drop 4095 (unread is), gcount := 4095\<rparr>"
    have "read_loop put ?is' y = put_all put (chunks 4095 (drop 4095 (unread is))) y" for y
      using less.hyps [of ?is'] less.prems False by (simp add: good_def)
    moreover have "chunks 4095 (unread is) = take 4095 (unread is) # chunks 4095 (drop 4095 (unread is))"
      using False by (subst chunks.simps) auto
    ultimately show ?thesis
      using less.prems False by (simp add: read_loop_full split: option.split sum.split)
  qed
qed

lemma read_loop_failed: "failbit is \<Longrightarrow> read_loop put is x = Some (Inr x)"
  by (subst read_loop.simps) (simp add: is_read_def good_def)

section \<open>Chunks, events, offers\<close>

fun lex_all :: "'l lexer \<Rightarrow> 'l \<Rightarrow> string list \<Rightarrow> 'l \<times> sax_event list \<times> string option" where
  "lex_all lxr l [] = (l, [], None)"
| "lex_all lxr l (c # cs) =
     (case lxr l c of
        (l1, evs, Some e) \<Rightarrow> (l1, evs, Some e)
      | (l1, evs, None) \<Rightarrow> (case lex_all lxr l1 cs of (l2, evs', err) \<Rightarrow> (l2, evs @ evs', err)))"

lemma put_all_parse_chunk:
  assumes "lex_all lxr l cs = (l', evs, err)" and "sax_run cb evs (p, s) = Some (p', s')"
  shows "put_all (parse_chunk lxr cb) cs (l, p, s) =
    Some (case err of Some e \<Rightarrow> Inl e | None \<Rightarrow> Inr (l', p', s'))"
  using assms
proof (induction cs arbitrary: l p s evs)
  case (Cons c cs)
  obtain l1 evs1 err1 where c: "lxr l c = (l1, evs1, err1)" by (cases "lxr l c")
  show ?case
  proof (cases err1)
    case (Some e)
    with c Cons.prems show ?thesis by (auto simp: parse_chunk_def)
  next
    case None
    obtain l2 evs2 err2 where cs: "lex_all lxr l1 cs = (l2, evs2, err2)" by (cases "lex_all lxr l1 cs")
    with c None Cons.prems(1) have evs: "evs = evs1 @ evs2" "l2 = l'" "err2 = err" by auto
    from Cons.prems(2) obtain p1 s1 where
      run: "sax_run cb evs1 (p, s) = Some (p1, s1)" "sax_run cb evs2 (p1, s1) = Some (p', s')"
      by (auto simp: evs(1) sax_run_append split: option.splits)
    with Cons.IH [of l1 evs2 p1 s1] cs evs c None show ?thesis by (simp add: parse_chunk_def)
  qed
qed simp

context offer_sink
begin

lemma chunks_deliver:
  assumes "lex_all lxr l cs = (l', sax_of doc, err)" and "feed_ok doc" and "idle feed_id p"
  shows "\<exists>p'. put_all (parse_chunk lxr cb) cs (l, p, s) =
    Some (case err of Some e \<Rightarrow> Inl e
      | None \<Rightarrow> Inr (l', p', fold deliver (offers_in feed_id doc) s))"
proof -
  obtain p' where "sax_run cb (sax_of doc) (p, s) = Some (p', fold deliver (offers_in feed_id doc) s)"
    using run_feed [OF assms(3,2), of s] by blast
  from put_all_parse_chunk [OF assms(1) this] show ?thesis by blast
qed

end

section \<open>The write callback\<close>

definition block_data :: "block \<Rightarrow> string" where
  "block_data b = (case b of (mem, sz, nmemb) \<Rightarrow> take (unat (sz * nmemb)) mem)"

definition block_text :: "block \<Rightarrow> string" where
  "block_text b = takeWhile (\<lambda>c. c \<noteq> CHR 0x00) (fst b)"

text \<open>Blocks whose memory holds the \<open>size * nmemb\<close> bytes and a NUL somewhere: no undefined
  behaviour.\<close>

definition readable :: "block \<Rightarrow> bool" where
  "readable b \<longleftrightarrow> unat (fst (snd b) * snd (snd b)) \<le> length (fst b) \<and> CHR 0x00 \<in> set (fst b)"

lemma with_parse_write_data_readable:
  assumes "readable b"
  shows "with_parse_write_data lxr cb b ofs st =
    (case parse_chunk lxr cb (block_data b) st of
       None \<Rightarrow> None
     | Some (Inl e) \<Rightarrow> Some (ofs @ block_text b, Inl e)
     | Some (Inr st') \<Rightarrow> Some (ofs @ block_text b, Inr (fst (snd b) * snd (snd b), st')))"
  using assms
  by (cases b) (simp add: with_parse_write_data_def readable_def c_string_def block_data_def block_text_def
      split: option.split sum.split)

lemma curl_easy_perform_readable:
  assumes "\<forall>b \<in> set bs. readable b"
    and "put_all (parse_chunk lxr cb) (map block_data bs) st = Some (Inr st')"
  shows "curl_easy_perform lxr cb bs ofs st = Some (ofs @ concat (map block_text bs), Inr st')"
  using assms
proof (induction bs arbitrary: ofs st)
  case (Cons b bs)
  then show ?case
    by (auto simp: with_parse_write_data_readable split: option.splits sum.splits)
qed simp

lemma takeWhile_eq_take_iff:
  "n \<le> length xs \<Longrightarrow>
   takeWhile P xs = take n xs \<longleftrightarrow> (\<forall>x \<in> set (take n xs). P x) \<and> (n < length xs \<longrightarrow> \<not> P (xs ! n))"
proof (induction xs arbitrary: n)
  case (Cons x xs)
  then show ?case by (cases n) auto
qed simp

end
