(* ===== verification/Offer_Collector.thy ===== *)
theory Offer_Collector
  imports Offer_Builder Feed
begin

text \<open>
  The class \<^verbatim>\<open>offer_parser\<close> of feed/offer_parser.h and feed/offer_parser.cpp: the
  callback that filters an offer, stores it and counts it, called from one thread per feed.

  The MongoDB collection is a parameter: its state and \<^verbatim>\<open>insert_one\<close>, which returns the
  new state or the \<^verbatim>\<open>what()\<close> of its exception. \<open>offer_parser_parse\<close> is one call,
  \<open>parse_tree\<close> its specification on the offer's tree, and the interpretation of \<open>offer_sink\<close>
  connects them to the SAX handlers. The second half is the interleaving of the calls of several
  threads: the statements of \<^verbatim>\<open>parse\<close> are the steps of a relation in which
  \<^verbatim>\<open>m_count++\<close> is a load and a store, and the invariant says that every run is equivalent to
  some sequence of whole calls.
\<close>

record 'c offer_parser =
  m_count :: u64
  m_collection :: 'c
  m_only_sales :: bool
  m_only_flats :: bool
  m_cout :: "string list"

type_synonym 'c insert_one = "'c \<Rightarrow> core_call list \<Rightarrow> string + 'c"

definition offer_parser_init :: "'c \<Rightarrow> bool \<Rightarrow> bool \<Rightarrow> 'c offer_parser" where
  "offer_parser_init collection only_sales only_flats =
     \<lparr>m_count = 0, m_collection = collection, m_only_sales = only_sales,
      m_only_flats = only_flats, m_cout = []\<rparr>"

text \<open>The line the catch clause prints, and the progress report.\<close>

definition print_line :: "string \<Rightarrow> 'c offer_parser \<Rightarrow> 'c offer_parser" where
  "print_line s op = op\<lparr>m_cout := m_cout op @ [s]\<rparr>"

definition report_progress :: "'c offer_parser \<Rightarrow> 'c offer_parser" where
  "report_progress op =
     (if m_count op mod 10000 = 0 \<and> m_count op \<noteq> 0
      then print_line (''Handeled '' @ dec (unat (m_count op)) @ '' offers'') op else op)"

definition store_offer :: "'c insert_one \<Rightarrow> core_call list \<Rightarrow> 'c offer_parser \<Rightarrow> 'c offer_parser" where
  "store_offer ins doc op =
     (case ins (m_collection op) doc of
        Inl err \<Rightarrow> print_line err op
      | Inr c \<Rightarrow>
          (let op1 = report_progress (op\<lparr>m_collection := c\<rparr>)
           in op1\<lparr>m_count := m_count op1 + 1\<rparr>))"

definition offer_parser_parse ::
    "'c insert_one \<Rightarrow> build_env \<Rightarrow> heap \<Rightarrow> nat list \<Rightarrow> nat \<Rightarrow> 'c offer_parser \<Rightarrow> 'c offer_parser option" where
  "offer_parser_parse ins e h roots offer op =
     (case bson_from_offer e h roots offer (m_only_sales op) (m_only_flats op) of
        None \<Rightarrow> None
      | Some (Inl err) \<Rightarrow> Some (print_line err op)
      | Some (Inr doc) \<Rightarrow> Some (store_offer ins doc op))"

section \<open>One call on the offer's tree\<close>

definition offer_doc :: "build_env \<Rightarrow> otree \<Rightarrow> core_call list" where
  "offer_doc e t = tree_calls e t @ [Extract_document]"

definition parse_tree :: "'c insert_one \<Rightarrow> build_env \<Rightarrow> otree \<Rightarrow> 'c offer_parser \<Rightarrow> 'c offer_parser" where
  "parse_tree ins e t op =
     (case tree_error (m_only_sales op) (m_only_flats op) None t of
        Some err \<Rightarrow> print_line err op
      | None \<Rightarrow> store_offer ins (offer_doc e t) op)"

lemma offer_parser_parse_tree:
  assumes "heap_ok h" and "r < length h" and "live h roots r" and "m_parent (h ! r) = None"
  shows "offer_parser_parse ins e h roots r op = Some (parse_tree ins e (tree_of h r) op)"
  using bson_from_offer_tree [OF assms, of e "m_only_sales op" "m_only_flats op"]
  by (simp add: offer_parser_parse_def parse_tree_def offer_doc_def split: option.splits)

interpretation collector: offer_sink "offer_parser_parse ins e" "parse_tree ins e" for ins e
  by unfold_locales (rule offer_parser_parse_tree)

lemma print_line_simps [simp]:
  "m_count (print_line s op) = m_count op" "m_collection (print_line s op) = m_collection op"
  "m_only_sales (print_line s op) = m_only_sales op" "m_only_flats (print_line s op) = m_only_flats op"
  "m_cout (print_line s op) = m_cout op @ [s]"
  by (simp_all add: print_line_def)

lemma report_progress_simps [simp]:
  "m_count (report_progress op) = m_count op" "m_collection (report_progress op) = m_collection op"
  "m_only_sales (report_progress op) = m_only_sales op"
  "m_only_flats (report_progress op) = m_only_flats op"
  by (simp_all add: report_progress_def)

lemma parse_tree_flags [simp]:
  "m_only_sales (parse_tree ins e t op) = m_only_sales op"
  "m_only_flats (parse_tree ins e t op) = m_only_flats op"
  by (simp_all add: parse_tree_def store_offer_def Let_def split: option.splits sum.splits)

section \<open>Calls from several threads\<close>

text \<open>
  Where a thread is in \<^verbatim>\<open>parse\<close>: outside; behind the lock with the offer; after
  \<^verbatim>\<open>insert_one\<close> returned; after the progress report; with \<^verbatim>\<open>m_count\<close>
  loaded; with it stored; or in the catch clause, which runs after the lock guard is destroyed.
\<close>

datatype pc =
    Outside
  | Locked otree
  | Inserted otree
  | Reported otree
  | Loaded otree u64
  | Counted otree
  | Caught string

record 'c threads =
  object :: "'c offer_parser"
  mutex :: "nat option"
  pcs :: "nat \<Rightarrow> pc"
  todo :: "nat \<Rightarrow> otree list"
  history :: "(nat \<times> otree) list"

definition threads_init :: "'c offer_parser \<Rightarrow> (nat \<Rightarrow> otree list) \<Rightarrow> 'c threads" where
  "threads_init op jobs =
     \<lparr>object = op, mutex = None, pcs = (\<lambda>_. Outside), todo = jobs, history = []\<rparr>"

text \<open>
  \<open>history\<close> is a ghost: the calls in the order in which they gave the lock back.
\<close>

inductive thread_step :: "'c insert_one \<Rightarrow> build_env \<Rightarrow> 'c threads \<Rightarrow> 'c threads \<Rightarrow> bool"
  for ins :: "'c insert_one" and e :: build_env where
  lock: "pcs s i = Outside \<Longrightarrow> todo s i = t # ts \<Longrightarrow> mutex s = None \<Longrightarrow>
    thread_step ins e s (s\<lparr>mutex := Some i, pcs := (pcs s)(i := Locked t), todo := (todo s)(i := ts)\<rparr>)"
| reject: "pcs s i = Locked t \<Longrightarrow>
    tree_error (m_only_sales (object s)) (m_only_flats (object s)) None t = Some err \<Longrightarrow>
    thread_step ins e s (s\<lparr>mutex := None, pcs := (pcs s)(i := Caught err),
      history := history s @ [(i, t)]\<rparr>)"
| insert_fails: "pcs s i = Locked t \<Longrightarrow>
    tree_error (m_only_sales (object s)) (m_only_flats (object s)) None t = None \<Longrightarrow>
    ins (m_collection (object s)) (offer_doc e t) = Inl err \<Longrightarrow>
    thread_step ins e s (s\<lparr>mutex := None, pcs := (pcs s)(i := Caught err),
      history := history s @ [(i, t)]\<rparr>)"
| stored: "pcs s i = Locked t \<Longrightarrow>
    tree_error (m_only_sales (object s)) (m_only_flats (object s)) None t = None \<Longrightarrow>
    ins (m_collection (object s)) (offer_doc e t) = Inr c \<Longrightarrow>
    thread_step ins e s (s\<lparr>object := (object s)\<lparr>m_collection := c\<rparr>, pcs := (pcs s)(i := Inserted t)\<rparr>)"
| report: "pcs s i = Inserted t \<Longrightarrow>
    thread_step ins e s (s\<lparr>object := report_progress (object s), pcs := (pcs s)(i := Reported t)\<rparr>)"
| load: "pcs s i = Reported t \<Longrightarrow>
    thread_step ins e s (s\<lparr>pcs := (pcs s)(i := Loaded t (m_count (object s)))\<rparr>)"
| save: "pcs s i = Loaded t v \<Longrightarrow>
    thread_step ins e s (s\<lparr>object := (object s)\<lparr>m_count := v + 1\<rparr>, pcs := (pcs s)(i := Counted t)\<rparr>)"
| unlock: "pcs s i = Counted t \<Longrightarrow>
    thread_step ins e s (s\<lparr>mutex := None, pcs := (pcs s)(i := Outside),
      history := history s @ [(i, t)]\<rparr>)"
| catch: "pcs s i = Caught err \<Longrightarrow>
    thread_step ins e s (s\<lparr>object := print_line err (object s), pcs := (pcs s)(i := Outside)\<rparr>)"

inductive reachable :: "'c insert_one \<Rightarrow> build_env \<Rightarrow> 'c threads \<Rightarrow> 'c threads \<Rightarrow> bool"
  for ins :: "'c insert_one" and e :: build_env and s0 :: "'c threads" where
  start: "reachable ins e s0 s0"
| step: "reachable ins e s0 s \<Longrightarrow> thread_step ins e s s' \<Longrightarrow> reachable ins e s0 s'"

section \<open>Every interleaving is some sequence of whole calls\<close>

text \<open>The fields the calls share, without the output.\<close>

definition core :: "'c offer_parser \<Rightarrow> u64 \<times> 'c \<times> bool \<times> bool" where
  "core op = (m_count op, m_collection op, m_only_sales op, m_only_flats op)"

definition in_sequence ::
    "'c insert_one \<Rightarrow> build_env \<Rightarrow> (nat \<times> otree) list \<Rightarrow> 'c offer_parser \<Rightarrow> 'c offer_parser" where
  "in_sequence ins e calls op = fold (\<lambda>(_, t). parse_tree ins e t) calls op"

fun busy :: "pc \<Rightarrow> otree option" where
  "busy (Locked t) = Some t"
| "busy (Inserted t) = Some t"
| "busy (Reported t) = Some t"
| "busy (Loaded t v) = Some t"
| "busy (Counted t) = Some t"
| "busy _ = None"

fun section_ok :: "'c insert_one \<Rightarrow> build_env \<Rightarrow> 'c offer_parser \<Rightarrow> 'c offer_parser \<Rightarrow> pc \<Rightarrow> bool" where
  "section_ok ins e b op (Locked t) \<longleftrightarrow> core op = core b"
| "section_ok ins e b op (Inserted t) \<longleftrightarrow>
     tree_error (m_only_sales b) (m_only_flats b) None t = None \<and> m_count op = m_count b \<and>
     ins (m_collection b) (offer_doc e t) = Inr (m_collection op)"
| "section_ok ins e b op (Reported t) \<longleftrightarrow>
     tree_error (m_only_sales b) (m_only_flats b) None t = None \<and> m_count op = m_count b \<and>
     ins (m_collection b) (offer_doc e t) = Inr (m_collection op)"
| "section_ok ins e b op (Loaded t v) \<longleftrightarrow>
     tree_error (m_only_sales b) (m_only_flats b) None t = None \<and> v = m_count b \<and>
     ins (m_collection b) (offer_doc e t) = Inr (m_collection op)"
| "section_ok ins e b op (Counted t) \<longleftrightarrow> core op = core (parse_tree ins e t b)"
| "section_ok ins e b op _ \<longleftrightarrow> False"

lemma section_ok_print [simp]:
  "section_ok ins e b (print_line err op) pc = section_ok ins e b op pc"
  by (cases pc) (simp_all add: core_def print_line_def)

definition calls_of_thread :: "nat \<Rightarrow> (nat \<times> otree) list \<Rightarrow> otree list" where
  "calls_of_thread i calls = map snd (filter (\<lambda>(j, _). j = i) calls)"

definition locking_inv :: "'c threads \<Rightarrow> bool" where
  "locking_inv s \<longleftrightarrow> (\<forall>i. busy (pcs s i) \<noteq> None \<longleftrightarrow> mutex s = Some i)"

definition jobs_inv :: "(nat \<Rightarrow> otree list) \<Rightarrow> 'c threads \<Rightarrow> bool" where
  "jobs_inv jobs s \<longleftrightarrow>
     (\<forall>i. calls_of_thread i (history s) @ (case busy (pcs s i) of None \<Rightarrow> [] | Some t \<Rightarrow> [t]) @ todo s i
        = jobs i)"

definition object_inv :: "'c insert_one \<Rightarrow> build_env \<Rightarrow> 'c offer_parser \<Rightarrow> 'c threads \<Rightarrow> bool" where
  "object_inv ins e op0 s \<longleftrightarrow>
     m_only_sales (object s) = m_only_sales op0 \<and> m_only_flats (object s) = m_only_flats op0 \<and>
     (case mutex s of
        None \<Rightarrow> core (object s) = core (in_sequence ins e (history s) op0)
      | Some i \<Rightarrow> section_ok ins e (in_sequence ins e (history s) op0) (object s) (pcs s i))"

lemma core_print_line [simp]: "core (print_line err op) = core op"
  by (simp add: core_def)

lemma core_report_progress [simp]: "core (report_progress op) = core op"
  by (simp add: core_def)

lemma core_set_count:
  "core (op\<lparr>m_count := v\<rparr>) = (v, m_collection op, m_only_sales op, m_only_flats op)"
  by (simp add: core_def)

lemma core_parse_tree:
  "core (parse_tree ins e t op) =
     (case tree_error (m_only_sales op) (m_only_flats op) None t of
        Some err \<Rightarrow> core op
      | None \<Rightarrow>
          (case ins (m_collection op) (offer_doc e t) of
             Inl err \<Rightarrow> core op
           | Inr c \<Rightarrow> (m_count op + 1, c, m_only_sales op, m_only_flats op)))"
  by (auto simp: parse_tree_def store_offer_def core_def Let_def split: option.splits sum.splits)

lemma coreD: "core op = core b \<Longrightarrow> m_count op = m_count b \<and> m_collection op = m_collection b"
  by (simp add: core_def)

lemma in_sequence_flags [simp]:
  "m_only_sales (in_sequence ins e calls op) = m_only_sales op"
  "m_only_flats (in_sequence ins e calls op) = m_only_flats op"
  unfolding in_sequence_def by (induction calls arbitrary: op) auto

lemma in_sequence_snoc [simp]:
  "in_sequence ins e (calls @ [(i, t)]) op = parse_tree ins e t (in_sequence ins e calls op)"
  by (simp add: in_sequence_def)

lemma calls_of_thread_snoc [simp]:
  "calls_of_thread i (calls @ [(j, t)]) = calls_of_thread i calls @ (if j = i then [t] else [])"
  by (simp add: calls_of_thread_def)

lemma locking_step:
  assumes "thread_step ins e s s'" and "locking_inv s"
  shows "locking_inv s'"
proof -
  have busy: "mutex s = Some j \<longleftrightarrow> busy (pcs s j) \<noteq> None" for j
    using assms(2) by (simp add: locking_inv_def)
  have other: "busy (pcs s j) = None" if "busy (pcs s i) \<noteq> None" and "j \<noteq> i" for i j
    using busy [of i] busy [of j] that by auto
  have idle: "mutex s = None \<Longrightarrow> busy (pcs s j) = None" for j
    using busy [of j] by simp
  from assms(1) show ?thesis
  proof cases
    case (reject i t err)
    with other [of i] show ?thesis by (simp add: locking_inv_def)
  next
    case (insert_fails i t err)
    with other [of i] show ?thesis by (simp add: locking_inv_def)
  next
    case (unlock i t)
    with other [of i] show ?thesis by (simp add: locking_inv_def)
  qed (auto simp: locking_inv_def busy dest: idle)
qed

lemma jobs_step:
  assumes "thread_step ins e s s'" and "jobs_inv jobs s"
  shows "jobs_inv jobs s'"
proof -
  have jobs: "calls_of_thread i (history s) @ (case busy (pcs s i) of None \<Rightarrow> [] | Some t \<Rightarrow> [t]) @
      todo s i = jobs i" for i
    using assms(2) by (simp add: jobs_inv_def)
  from assms(1) show ?thesis
  proof cases
    case (lock i t ts)
    with jobs [of i] show ?thesis using jobs by (auto simp: jobs_inv_def)
  next
    case (reject i t err)
    with jobs [of i] show ?thesis using jobs by (auto simp: jobs_inv_def)
  next
    case (insert_fails i t err)
    with jobs [of i] show ?thesis using jobs by (auto simp: jobs_inv_def)
  next
    case (unlock i t)
    with jobs [of i] show ?thesis using jobs by (auto simp: jobs_inv_def)
  next
    case (stored i t c)
    with jobs [of i] show ?thesis using jobs by (auto simp: jobs_inv_def)
  next
    case (report i t)
    with jobs [of i] show ?thesis using jobs by (auto simp: jobs_inv_def)
  next
    case (load i t)
    with jobs [of i] show ?thesis using jobs by (auto simp: jobs_inv_def)
  next
    case (save i t v)
    with jobs [of i] show ?thesis using jobs by (auto simp: jobs_inv_def)
  next
    case (catch i err)
    with jobs [of i] show ?thesis using jobs by (auto simp: jobs_inv_def)
  qed
qed

lemma object_step:
  assumes "thread_step ins e s s'" and "locking_inv s" and "object_inv ins e op0 s"
  shows "object_inv ins e op0 s'"
proof -
  let ?b = "in_sequence ins e (history s) op0"
  have holder: "busy (pcs s i) \<noteq> None \<Longrightarrow> mutex s = Some i" for i
    using assms(2) by (auto simp: locking_inv_def)
  have flags: "m_only_sales (object s) = m_only_sales op0" "m_only_flats (object s) = m_only_flats op0"
    and free: "mutex s = None \<Longrightarrow> core (object s) = core ?b"
    and held: "mutex s = Some i \<Longrightarrow> section_ok ins e ?b (object s) (pcs s i)" for i
    using assms(3) by (auto simp: object_inv_def)
  from assms(1) show ?thesis
  proof cases
    case (lock i t ts)
    with flags free show ?thesis by (simp add: object_inv_def)
  next
    case (reject i t err)
    with flags holder [of i] held [of i] show ?thesis by (simp add: object_inv_def core_parse_tree)
  next
    case (insert_fails i t err)
    with flags holder [of i] held [of i] show ?thesis
      by (auto simp: object_inv_def core_parse_tree dest: coreD)
  next
    case (stored i t c)
    with flags holder [of i] held [of i] show ?thesis
      by (auto simp: object_inv_def dest: coreD)
  next
    case (report i t)
    with flags holder [of i] held [of i] show ?thesis by (simp add: object_inv_def)
  next
    case (load i t)
    with flags holder [of i] held [of i] show ?thesis by (simp add: object_inv_def)
  next
    case (save i t v)
    with flags holder [of i] held [of i] show ?thesis
      by (simp add: object_inv_def core_parse_tree core_set_count)
  next
    case (unlock i t)
    with flags holder [of i] held [of i] show ?thesis by (simp add: object_inv_def)
  next
    case (catch i err)
    moreover have "busy (pcs s i) \<noteq> None \<longleftrightarrow> mutex s = Some i"
      using assms(2) unfolding locking_inv_def by blast
    ultimately have "mutex s \<noteq> Some i" by simp
    with catch flags free held show ?thesis
      by (auto simp: object_inv_def core_def split: option.splits)
  qed
qed

lemma reachable_invs:
  assumes "reachable ins e (threads_init op0 jobs) s"
  shows "locking_inv s \<and> jobs_inv jobs s \<and> object_inv ins e op0 s"
  using assms
proof (induction rule: reachable.induct)
  case start
  show ?case
    by (simp add: threads_init_def locking_inv_def jobs_inv_def object_inv_def calls_of_thread_def
        in_sequence_def)
next
  case (step s s')
  then show ?case by (blast intro: locking_step jobs_step object_step)
qed

end
