(* ===== verification/Worker_Threads.thy ===== *)
theory Worker_Threads
  imports Offer_Collector
begin

text \<open>
  What app/main.cpp relies on when it starts a thread per feed and joins them: from every reachable
  state a thread can go on (no deadlock), every step makes the remaining work smaller (the joins
  return under every schedule), and the count after the joins does not depend on the schedule.
\<close>

section \<open>Progress\<close>

definition all_done :: "'c threads \<Rightarrow> bool" where
  "all_done s \<longleftrightarrow> (\<forall>i. pcs s i = Outside \<and> todo s i = [])"

text \<open>A thread inside the section or in its catch clause can always go on.\<close>

lemma thread_can_step:
  assumes "pcs s i \<noteq> Outside"
  shows "\<exists>s'. thread_step ins e s s'"
proof (cases "pcs s i")
  case (Locked t)
  then show ?thesis
    by (cases "tree_error (m_only_sales (object s)) (m_only_flats (object s)) None t";
        cases "ins (m_collection (object s)) (offer_doc e t)")
      (blast intro: thread_step.intros)+
qed (use assms in \<open>blast intro: thread_step.intros\<close>)+

lemma some_thread_steps:
  assumes "locking_inv s" and "\<not> all_done s"
  shows "\<exists>s'. thread_step ins e s s'"
proof (cases "\<exists>i. pcs s i \<noteq> Outside")
  case True
  then show ?thesis using thread_can_step by blast
next
  case False
  then have "mutex s = None"
    using assms(1) by (cases "mutex s") (fastforce simp: locking_inv_def)+
  moreover obtain i where "todo s i \<noteq> []"
    using False assms(2) by (auto simp: all_done_def)
  ultimately show ?thesis
    using False by (cases "todo s i") (blast intro: thread_step.lock)+
qed

section \<open>Termination\<close>

fun pc_rank :: "pc \<Rightarrow> nat" where
  "pc_rank Outside = 0"
| "pc_rank (Caught err) = 1"
| "pc_rank (Counted t) = 1"
| "pc_rank (Loaded t v) = 2"
| "pc_rank (Reported t) = 3"
| "pc_rank (Inserted t) = 4"
| "pc_rank (Locked t) = 5"

definition thread_work :: "'c threads \<Rightarrow> nat \<Rightarrow> nat" where
  "thread_work s i = 6 * length (todo s i) + pc_rank (pcs s i)"

definition total_work :: "nat \<Rightarrow> 'c threads \<Rightarrow> nat" where
  "total_work n s = (\<Sum>i<n. thread_work s i)"

definition only_threads :: "nat \<Rightarrow> 'c threads \<Rightarrow> bool" where
  "only_threads n s \<longleftrightarrow> (\<forall>i \<ge> n. pcs s i = Outside \<and> todo s i = [])"

lemma one_thread_steps:
  assumes "thread_step ins e s s'"
  shows "\<exists>i. thread_work s' i < thread_work s i \<and> (\<forall>j. j \<noteq> i \<longrightarrow> pcs s' j = pcs s j \<and> todo s' j = todo s j) \<and>
    (pcs s i \<noteq> Outside \<or> todo s i \<noteq> [])"
  using assms
proof cases
  case (lock i t ts)
  then show ?thesis by (intro exI [of _ i]) (simp add: thread_work_def)
next
  case (reject i t err)
  then show ?thesis by (intro exI [of _ i]) (simp add: thread_work_def)
next
  case (insert_fails i t err)
  then show ?thesis by (intro exI [of _ i]) (simp add: thread_work_def)
next
  case (stored i t c)
  then show ?thesis by (intro exI [of _ i]) (simp add: thread_work_def)
next
  case (report i t)
  then show ?thesis by (intro exI [of _ i]) (simp add: thread_work_def)
next
  case (load i t)
  then show ?thesis by (intro exI [of _ i]) (simp add: thread_work_def)
next
  case (save i t v)
  then show ?thesis by (intro exI [of _ i]) (simp add: thread_work_def)
next
  case (unlock i t)
  then show ?thesis by (intro exI [of _ i]) (simp add: thread_work_def)
next
  case (catch i err)
  then show ?thesis by (intro exI [of _ i]) (simp add: thread_work_def)
qed

lemma step_only_threads:
  assumes "thread_step ins e s s'" and "only_threads n s"
  shows "only_threads n s'" and "total_work n s' < total_work n s"
proof -
  obtain i where i: "thread_work s' i < thread_work s i"
      "\<And>j. j \<noteq> i \<Longrightarrow> pcs s' j = pcs s j \<and> todo s' j = todo s j"
      "pcs s i \<noteq> Outside \<or> todo s i \<noteq> []"
    using one_thread_steps [OF assms(1)] by blast
  then have n: "i < n" using assms(2) by (meson not_le only_threads_def)
  then show "only_threads n s'"
    using assms(2) i(2) by (metis not_less only_threads_def)
  have "thread_work s' j \<le> thread_work s j" for j
    using i(1,2) by (cases "j = i") (simp_all add: thread_work_def)
  then show "total_work n s' < total_work n s"
    unfolding total_work_def using n i(1) by (intro sum_strict_mono_ex1) auto
qed

lemma only_threads_reachable:
  assumes "reachable ins e s0 s" and "only_threads n s0"
  shows "only_threads n s"
  using assms by (induction rule: reachable.induct) (auto intro: step_only_threads(1))

text \<open>A run of \<open>k\<close> steps.\<close>

inductive run_steps :: "'c insert_one \<Rightarrow> build_env \<Rightarrow> nat \<Rightarrow> 'c threads \<Rightarrow> 'c threads \<Rightarrow> bool"
  for ins :: "'c insert_one" and e :: build_env where
  none: "run_steps ins e 0 s s"
| more_steps: "run_steps ins e k s s' \<Longrightarrow> thread_step ins e s' s'' \<Longrightarrow> run_steps ins e (Suc k) s s''"

lemma run_steps_reachable: "run_steps ins e k s s' \<Longrightarrow> reachable ins e s s'"
  by (induction rule: run_steps.induct) (auto intro: reachable.intros)

lemma run_steps_bound:
  assumes "run_steps ins e k s s'" and "only_threads n s"
  shows "only_threads n s' \<and> k + total_work n s' \<le> total_work n s"
  using assms
proof (induction rule: run_steps.induct)
  case (more_steps k s s' s'')
  then show ?case using step_only_threads [of ins e s' s'' n] by force
qed simp

section \<open>The number of offers\<close>

definition accepted :: "bool \<Rightarrow> bool \<Rightarrow> otree \<Rightarrow> bool" where
  "accepted only_sales only_flats t \<longleftrightarrow> tree_error only_sales only_flats None t = None"

lemma parse_tree_count:
  assumes "\<And>c d. \<exists>c'. ins c d = Inr c'"
  shows "m_count (parse_tree ins e t op) =
    m_count op + (if accepted (m_only_sales op) (m_only_flats op) t then 1 else 0)"
  using assms [of "m_collection op" "offer_doc e t"]
  by (auto simp: parse_tree_def store_offer_def accepted_def Let_def split: option.split)

lemma in_sequence_count:
  assumes "\<And>c d. \<exists>c'. ins c d = Inr c'"
  shows "m_count (in_sequence ins e calls op) = m_count op +
    of_nat (length (filter (accepted (m_only_sales op) (m_only_flats op)) (map snd calls)))"
proof (induction calls rule: rev_induct)
  case Nil
  then show ?case by (simp add: in_sequence_def)
next
  case (snoc call calls)
  then show ?case by (cases call) (simp add: parse_tree_count [OF assms])
qed

lemma length_filter_by_thread:
  assumes "\<forall>call \<in> set calls. fst call < n"
  shows "length (filter P (map snd calls)) = (\<Sum>i<n. length (filter P (calls_of_thread i calls)))"
  using assms
proof (induction calls rule: rev_induct)
  case Nil
  then show ?case by (simp add: calls_of_thread_def)
next
  case (snoc call calls)
  obtain j t where call: "call = (j, t)" by (cases call)
  with snoc.prems have "j < n" by simp
  moreover have "length (filter P (calls_of_thread i (calls @ [(j, t)]))) =
      length (filter P (calls_of_thread i calls)) + (if i = j then if P t then 1 else 0 else 0)" for i
    by auto
  ultimately show ?case using snoc call by (simp add: sum.distrib sum.delta)
qed

lemma call_of_thread:
  assumes "(i, t) \<in> set calls"
  shows "calls_of_thread i calls \<noteq> []"
  using assms by (auto simp: calls_of_thread_def filter_empty_conv)

lemma done_history:
  assumes "jobs_inv jobs s" and "all_done s"
  shows "calls_of_thread i (history s) = jobs i"
proof -
  have "calls_of_thread i (history s) @ (case busy (pcs s i) of None \<Rightarrow> [] | Some t \<Rightarrow> [t]) @ todo s i = jobs i"
    using assms(1) unfolding jobs_inv_def by blast
  with assms(2) show ?thesis by (simp add: all_done_def)
qed

lemma done_core:
  assumes "locking_inv s" and "object_inv ins e op s" and "all_done s"
  shows "core (object s) = core (in_sequence ins e (history s) op)"
proof -
  have "mutex s = None"
    using assms(1,3) by (cases "mutex s") (auto simp: locking_inv_def all_done_def)
  with assms(2) show ?thesis by (simp add: object_inv_def)
qed

lemma done_count:
  assumes "reachable ins e (threads_init op jobs) s" and "all_done s"
    and total: "\<And>c d. \<exists>c'. ins c d = Inr c'" and threads: "\<And>i. n \<le> i \<Longrightarrow> jobs i = []"
  shows "m_count (object s) = m_count op +
    of_nat (\<Sum>i<n. length (filter (accepted (m_only_sales op) (m_only_flats op)) (jobs i)))"
proof -
  note inv = reachable_invs [OF assms(1)]
  have calls: "calls_of_thread i (history s) = jobs i" for i
    using inv assms(2) by (intro done_history) auto
  have "\<forall>call \<in> set (history s). fst call < n"
  proof
    fix call assume "call \<in> set (history s)"
    then have "calls_of_thread (fst call) (history s) \<noteq> []" 
      using call_of_thread [of "fst call" "snd call" "history s"] by simp
    with calls threads show "fst call < n" by (metis not_less)
  qed
  then have "length (filter P (map snd (history s))) = (\<Sum>i<n. length (filter P (jobs i)))" for P
    using length_filter_by_thread [of "history s" n P] by (simp add: calls)
  moreover have "m_count (object s) = m_count (in_sequence ins e (history s) op)"
    using inv assms(2) by (intro coreD [THEN conjunct1] done_core) auto
  ultimately show ?thesis by (simp add: in_sequence_count [OF total])
qed

section \<open>A whole call\<close>

text \<open>A thread that finds the mutex free can run one accepted call through.\<close>

lemma whole_call:
  assumes "reachable ins e s0 s" and "mutex s = None" and "pcs s i = Outside" and "todo s i = t # ts"
    and acc: "accepted (m_only_sales (object s)) (m_only_flats (object s)) t"
    and ins: "ins (m_collection (object s)) (offer_doc e t) = Inr c"
  shows "\<exists>s'. reachable ins e s0 s' \<and> mutex s' = None \<and> pcs s' = pcs s \<and> todo s' = (todo s)(i := ts)"
proof -
  let ?at = "\<lambda>s1 pc. reachable ins e s0 s1 \<and> mutex s1 = Some i \<and> pcs s1 = (pcs s)(i := pc) \<and>
    todo s1 = (todo s)(i := ts)"
  have moves: "\<exists>s2. ?at s2 pc' \<and> object s2 = object s1\<lparr>m_collection := m_collection ob, m_count := m_count ob,
      m_cout := m_cout ob\<rparr>"
    if "?at s1 pc" "thread_step ins e s1 (s1\<lparr>object := ob, pcs := (pcs s1)(i := pc')\<rparr>)"
      "m_only_sales ob = m_only_sales (object s1)" "m_only_flats ob = m_only_flats (object s1)"
    for s1 ob pc pc'
    using that by (intro exI [of _ "s1\<lparr>object := ob, pcs := (pcs s1)(i := pc')\<rparr>"])
      (auto intro: reachable.step)
  obtain s1 where s1: "?at s1 (Locked t)" "object s1 = object s"
    using reachable.step [OF assms(1) thread_step.lock [OF assms(3,4,2)]] by fastforce
  have "thread_step ins e s1 (s1\<lparr>object := (object s1)\<lparr>m_collection := c\<rparr>, pcs := (pcs s1)(i := Inserted t)\<rparr>)"
    by (rule thread_step.stored) (use s1 acc ins in \<open>simp_all add: accepted_def\<close>)
  from moves [OF s1(1) this] obtain s2 where s2: "?at s2 (Inserted t)" by auto
  have "thread_step ins e s2 (s2\<lparr>object := report_progress (object s2), pcs := (pcs s2)(i := Reported t)\<rparr>)"
    by (rule thread_step.report) (use s2 in simp)
  from moves [OF s2 this] obtain s3 where s3: "?at s3 (Reported t)" by auto
  have "thread_step ins e s3 (s3\<lparr>pcs := (pcs s3)(i := Loaded t (m_count (object s3)))\<rparr>)"
    by (rule thread_step.load) (use s3 in simp)
  with s3 have "?at (s3\<lparr>pcs := (pcs s3)(i := Loaded t (m_count (object s3)))\<rparr>) (Loaded t (m_count (object s3)))"
    by (auto intro: reachable.step)
  then obtain s4 v where s4: "?at s4 (Loaded t v)" by blast
  have "thread_step ins e s4 (s4\<lparr>object := (object s4)\<lparr>m_count := v + 1\<rparr>, pcs := (pcs s4)(i := Counted t)\<rparr>)"
    by (rule thread_step.save) (use s4 in simp)
  from moves [OF s4 this] obtain s5 where s5: "?at s5 (Counted t)" by auto
  have "thread_step ins e s5 (s5\<lparr>mutex := None, pcs := (pcs s5)(i := Outside), history := history s5 @ [(i, t)]\<rparr>)"
    by (rule thread_step.unlock) (use s5 in simp)
  with s5 assms(3) show ?thesis
    by (intro exI [of _ "s5\<lparr>mutex := None, pcs := (pcs s5)(i := Outside), history := history s5 @ [(i, t)]\<rparr>"])
      (auto intro: reachable.step)
qed

end
