(* ===== verification/App_Main.thy ===== *)
theory App_Main
  imports Worker_Threads "HOL-Library.Char_ord" "HOL-Library.List_Lexorder"
begin

text \<open>
  app/main.cpp: reading the configuration, the query for the agents' feeds, and the loop that
  starts one thread per feed.

  \<^verbatim>\<open>std::map<std::string, std::string>\<close> is a list of pairs sorted by key, so that the
  program's printing loop sees it in order. What MongoDB and the compiled driver answer is a
  parameter, the record \<open>db_env\<close>. \<open>main_start\<close> is \<^verbatim>\<open>main\<close> up to the loop
  that joins the threads: it exits, dies with an exception, or leaves jobs and an offer_parser;
  \<open>main_finish\<close> is what follows the joins. The specification of the configuration file is
  \<open>setting_of\<close>, line by line, and the last assignment to a key wins.
\<close>

section \<open>std::map\<close>

type_synonym config_info = "(string \<times> string) list"

fun map_put :: "'k::linorder \<Rightarrow> 'v \<Rightarrow> ('k \<times> 'v) list \<Rightarrow> ('k \<times> 'v) list" where
  "map_put k v [] = [(k, v)]"
| "map_put k v ((k', v') # m) =
     (if k < k' then (k, v) # (k', v') # m
      else if k = k' then (k, v) # m
      else (k', v') # map_put k v m)"

text \<open>\<^verbatim>\<open>operator[]\<close> of a key that is not there inserts the default value.\<close>

definition map_at :: "config_info \<Rightarrow> string \<Rightarrow> string \<times> config_info" where
  "map_at m k = (case map_of m k of Some v \<Rightarrow> (v, m) | None \<Rightarrow> ([], map_put k [] m))"

definition map_ok :: "('k::linorder \<times> 'v) list \<Rightarrow> bool" where
  "map_ok m \<longleftrightarrow> sorted (map fst m) \<and> distinct (map fst m)"

lemma keys_map_put [simp]: "set (map fst (map_put k v m)) = insert k (set (map fst m))"
proof (induction m)
  case (Cons p m)
  then show ?case by (cases p) (simp add: insert_commute)
qed simp

lemma map_ok_Cons: "map_ok ((k, v) # m) \<longleftrightarrow> (\<forall>k' \<in> set (map fst m). k < k') \<and> map_ok m"
  by (auto simp: map_ok_def less_le)

lemma map_ok_put: "map_ok m \<Longrightarrow> map_ok (map_put k v m)"
proof (induction m)
  case Nil
  then show ?case by (simp add: map_ok_def)
next
  case (Cons p m)
  obtain k' v' where p: "p = (k', v')" by (cases p)
  consider "k < k'" | "k = k'" | "k' < k" by (rule linorder_cases)
  then show ?case
  proof cases
    case 1
    with Cons show ?thesis unfolding p by (fastforce simp: map_ok_Cons)
  next
    case 2
    with Cons show ?thesis unfolding p by (simp add: map_ok_Cons)
  next
    case 3
    have "\<forall>j \<in> set (map fst (map_put k v m)). k' < j"
      using 3 Cons.prems unfolding p keys_map_put by (auto simp: map_ok_Cons)
    with 3 Cons have "map_ok ((k', v') # map_put k v m)"
      unfolding p by (simp add: map_ok_Cons del: set_map)
    with 3 show ?thesis unfolding p by auto
  qed
qed

lemma map_of_put: "map_of (map_put k v m) = (map_of m)(k \<mapsto> v)"
  by (induction m) auto

section \<open>The configuration file\<close>

abbreviation newline :: char where
  "newline \<equiv> CHR 0x0A"

text \<open>One line. \<^verbatim>\<open>key[0]\<close> of an empty string is the terminating NUL.\<close>

definition config_line :: "string \<Rightarrow> config_info \<Rightarrow> config_info" where
  "config_line line settings =
     (case getline CHR ''='' (open_stream line) of
        (None, _) \<Rightarrow> settings
      | (Some key, is_line) \<Rightarrow>
          if (case key of [] \<Rightarrow> CHR 0x00 | c # _ \<Rightarrow> c) = CHR ''#'' then settings
          else case getline newline is_line of
                 (None, _) \<Rightarrow> settings
               | (Some value, _) \<Rightarrow> map_put key value settings)"

function config_loop :: "istream \<Rightarrow> config_info \<Rightarrow> config_info" where
  "config_loop ifs settings =
     (case getline newline ifs of
        (None, _) \<Rightarrow> settings
      | (Some line, ifs') \<Rightarrow> config_loop ifs' (config_line line settings))"
  by pat_completeness auto
termination
  by (relation "measure (\<lambda>(ifs, settings). length (unread ifs))")
    (auto intro: getline_shrinks [OF sym])

declare config_loop.simps [simp del]

section \<open>The agents\<close>

text \<open>\<^verbatim>\<open>get_str_value\<close> after \<^verbatim>\<open>to_json\<close> gave \<open>value\<close>.\<close>

definition get_str_value :: "string \<Rightarrow> cpp_error + string" where
  "get_str_value value = substr value 1 (word_of_nat (length value) - 2)"

definition filter_tokens :: "token list" where
  "filter_tokens =
     [Lit ''$and'', Open_arr,
      Open_doc, Lit ''feed_url'', Open_doc, Lit ''$ne'', Lit [], Close_doc, Close_doc,
      Open_doc, Lit ''ignore_feed'', Val (B_bool False), Close_doc,
      Close_arr]"

text \<open>
  What is not the program's: \<open>connects\<close> is the exception of building the URI and the client;
  \<open>drops\<close> that of dropping the collection; \<open>agents\<close> the documents the cursor yields for a
  filter and the exception it may end with; \<open>field_json\<close> the value
  \<^verbatim>\<open>to_json(doc[key].get_value())\<close> or its exception.
\<close>

record 'c db_env =
  connects :: "string \<Rightarrow> string option"
  offers_collection :: "'c"
  drops :: "'c \<Rightarrow> string + 'c"
  agents :: "core_call list \<Rightarrow> nat list \<times> string option"
  field_json :: "nat \<Rightarrow> string \<Rightarrow> string + string"

record job =
  job_url :: string
  job_id :: string
  job_name :: string
  job_storage :: string

text \<open>One round of the loop over the cursor: the job of the thread it starts, and the line it prints.\<close>

definition agent_string :: "'c db_env \<Rightarrow> nat \<Rightarrow> string \<Rightarrow> string + string" where
  "agent_string db doc key =
     (case field_json db doc key of
        Inl err \<Rightarrow> Inl err
      | Inr json \<Rightarrow> (case get_str_value json of Inl _ \<Rightarrow> Inl ''out_of_range'' | Inr s \<Rightarrow> Inr s))"

definition agent_job :: "'c db_env \<Rightarrow> string \<Rightarrow> nat \<Rightarrow> string + job \<times> string" where
  "agent_job db storage doc =
     (case agent_string db doc ''feed_url'' of
        Inl err \<Rightarrow> Inl err
      | Inr feed_url \<Rightarrow>
          (case field_json db doc ''_id'' of
             Inl err \<Rightarrow> Inl err
           | Inr feed_id \<Rightarrow>
               (case agent_string db doc ''identifier'' of
                  Inl err \<Rightarrow> Inl err
                | Inr feed_name \<Rightarrow>
                    Inr (\<lparr>job_url = feed_url, job_id = feed_id, job_name = feed_name,
                          job_storage = storage\<rparr>,
                         ''Parsing feed from '' @ feed_name @ '' id: '' @ feed_id))))"

text \<open>The loop: the jobs started and the lines printed, also when a round or the cursor throws.\<close>

fun start_jobs ::
    "'c db_env \<Rightarrow> string \<Rightarrow> nat list \<Rightarrow> string option \<Rightarrow> string option \<times> job list \<times> string list" where
  "start_jobs db storage [] err = (err, [], [])"
| "start_jobs db storage (doc # docs) err =
     (case agent_job db storage doc of
        Inl err' \<Rightarrow> (Some err', [], [])
      | Inr (job, line) \<Rightarrow>
          (case start_jobs db storage docs err of
             (r, jobs, lines) \<Rightarrow> (r, job # jobs, line # lines)))"

section \<open>main\<close>

text \<open>
  \<open>Terminated\<close> is \<^verbatim>\<open>std::terminate\<close>: an exception left \<^verbatim>\<open>main\<close>
  while \<open>running\<close> threads may be running.
\<close>

datatype 'c main_state =
    Exited (exit_code: i32) (out_lines: "string list") (err_lines: "string list")
  | Terminated (running: "job list") (out_lines: "string list")
  | Joining (running: "job list") (out_lines: "string list") (shared: "'c offer_parser")

definition print_settings :: "config_info \<Rightarrow> string list" where
  "print_settings settings = map (\<lambda>(k, v). k @ '': '' @ v) settings"

text \<open>\<^verbatim>\<open>"mongodb://" + settings["host"] + ":" + settings["port"]\<close>\<close>

definition conn_str :: "config_info \<Rightarrow> string \<times> config_info" where
  "conn_str settings =
     (case map_at settings ''host'' of
        (host, settings1) \<Rightarrow>
          (case map_at settings1 ''port'' of
             (port, settings2) \<Rightarrow> (''mongodb://'' @ host @ '':'' @ port, settings2)))"

definition flag :: "config_info \<Rightarrow> string \<Rightarrow> bool \<times> config_info" where
  "flag settings key =
     (case map_at settings key of (v, settings') \<Rightarrow> (v \<noteq> ''false'', settings'))"

definition offers_after_drop :: "'c db_env \<Rightarrow> 'c \<times> string list" where
  "offers_after_drop db =
     (case drops db (offers_collection db) of
        Inl _ \<Rightarrow> (offers_collection db, [''Nothing to drop: there is no offers collection''])
      | Inr c \<Rightarrow> (c, []))"

text \<open>\<^verbatim>\<open>main\<close> from the drop of the collection to the end of the loop over the cursor.\<close>

definition main_feeds :: "'c db_env \<Rightarrow> config_info \<Rightarrow> string list \<Rightarrow> 'c main_state" where
  "main_feeds db settings lines =
     (case offers_after_drop db of (offers, dropped) \<Rightarrow>
      case flag settings ''only_sales'' of (only_sales, settings1) \<Rightarrow>
      case flag settings1 ''only_flats'' of (only_flats, settings2) \<Rightarrow>
      case agents db (stream_stmt [] filter_tokens) of (docs, err) \<Rightarrow>
      case start_jobs db (fst (map_at settings2 ''storage'')) docs err of (r, jobs, printed) \<Rightarrow>
        let out = lines @ dropped @ [''Started feeds handling''] @ printed
        in if r = None then Joining jobs out (offer_parser_init offers only_sales only_flats)
           else Terminated jobs out)"

definition main_start :: "'c db_env \<Rightarrow> (string \<Rightarrow> string option) \<Rightarrow> string list \<Rightarrow> 'c main_state" where
  "main_start db files argv =
     (if length argv \<noteq> 2 then Exited 1 [] [''invalid config file name'']
      else let settings = config_loop (ifstream (files (argv ! 1))) []
           in case map_at settings ''storage'' of (storage, settings1) \<Rightarrow>
              if storage = [] then Exited 1 [] [''invalid storage path'']
              else case conn_str settings1 of (conn, settings2) \<Rightarrow>
                case connects db conn of
                  Some _ \<Rightarrow> Terminated [] (print_settings settings1)
                | None \<Rightarrow> main_feeds db settings2 (print_settings settings1))"

definition main_finish :: "string list \<Rightarrow> 'c offer_parser \<Rightarrow> 'c main_state" where
  "main_finish lines op =
     Exited 0 (lines @ m_cout op @ [''Finished, handled '' @ dec (unat (m_count op)) @ '' offers'']) []"

section \<open>What the configuration loop computes\<close>

text \<open>The assignment a line makes, if it makes one.\<close>

definition setting_of :: "string \<Rightarrow> (string \<times> string) option" where
  "setting_of line =
     (let key = takeWhile (\<lambda>c. c \<noteq> CHR ''='') line; rest = dropWhile (\<lambda>c. c \<noteq> CHR ''='') line
      in if take 1 line = ''#'' \<or> length rest < 2 then None else Some (key, tl rest))"

lemma rest_shorter: "s \<noteq> [] \<Longrightarrow> length (tl (dropWhile P s)) < length s"
  using length_dropWhile_le [of P s] by (cases s) (auto simp: less_Suc_eq_le)

function lines_of :: "string \<Rightarrow> string list" where
  "lines_of s =
     (if s = [] then []
      else takeWhile (\<lambda>c. c \<noteq> newline) s # lines_of (tl (dropWhile (\<lambda>c. c \<noteq> newline) s)))"
  by pat_completeness auto
termination
  by (relation "measure length") (use rest_shorter in auto)

declare lines_of.simps [simp del]

definition assign :: "string \<Rightarrow> config_info \<Rightarrow> config_info" where
  "assign line settings =
     (case setting_of line of None \<Rightarrow> settings | Some (k, v) \<Rightarrow> map_put k v settings)"

lemma getline_open: "getline d (open_stream s) =
    (if s = [] then (None, (open_stream s)\<lparr>eofbit := True, failbit := True\<rparr>)
     else case dropWhile (\<lambda>c. c \<noteq> d) s of
            [] \<Rightarrow> (Some (takeWhile (\<lambda>c. c \<noteq> d) s), (open_stream s)\<lparr>unread := [], eofbit := True\<rparr>)
          | _ # rest \<Rightarrow> (Some (takeWhile (\<lambda>c. c \<noteq> d) s), open_stream rest))"
  unfolding getline_def open_stream_def good_def Let_def by (simp split: list.split del: dropWhile_eq_Nil_conv)

lemma getline_eof: "eofbit st \<Longrightarrow> getline d st = (None, st\<lparr>failbit := True\<rparr>)"
  by (simp add: getline_def good_def)

lemma config_line_eq:
  assumes "newline \<notin> set line"
  shows "config_line line settings = assign line settings"
proof (cases "line = []")
  case True
  then show ?thesis by (simp add: config_line_def assign_def setting_of_def getline_open)
next
  case False
  define key rest where "key = takeWhile (\<lambda>c. c \<noteq> CHR ''='') line"
    and "rest = dropWhile (\<lambda>c. c \<noteq> CHR ''='') line"
  have comment: "(case key of [] \<Rightarrow> CHR 0x00 | c # _ \<Rightarrow> c) = CHR ''#'' \<longleftrightarrow> take 1 line = ''#''"
    using False by (cases line) (auto simp: key_def)
  have spec: "setting_of line = (if take 1 line = ''#'' \<or> length rest < 2 then None else Some (key, tl rest))"
    by (simp add: setting_of_def key_def rest_def Let_def)
  have read: "getline CHR ''='' (open_stream line) =
      (case rest of [] \<Rightarrow> (Some key, (open_stream line)\<lparr>unread := [], eofbit := True\<rparr>)
       | _ # v \<Rightarrow> (Some key, open_stream v))"
    using False unfolding key_def rest_def by (simp add: getline_open)
  show ?thesis
  proof (cases rest)
    case Nil
    then show ?thesis
      by (simp add: config_line_def assign_def spec read comment getline_eof)
  next
    case (Cons d v)
    have "set rest \<subseteq> set line" unfolding rest_def using set_dropWhileD by fast
    with assms Cons have "newline \<notin> set v" by auto
    then have tw: "takeWhile (\<lambda>c. c \<noteq> newline) v = v" and dw: "dropWhile (\<lambda>c. c \<noteq> newline) v = []"
      by (auto simp: takeWhile_eq_all_conv dropWhile_eq_Nil_conv)
    have "getline newline (open_stream v) =
        (if v = [] then (None, (open_stream v)\<lparr>eofbit := True, failbit := True\<rparr>)
         else (Some v, (open_stream v)\<lparr>unread := [], eofbit := True\<rparr>))"
      unfolding getline_open tw dw by simp
    with Cons show ?thesis
      by (cases "v = []") (simp_all add: config_line_def assign_def spec read comment Suc_le_eq)
  qed
qed

lemma config_loop_eq: "config_loop (open_stream s) settings = fold assign (lines_of s) settings"
proof (induction s arbitrary: settings rule: lines_of.induct)
  case (1 s)
  show ?case
  proof (cases "s = []")
    case True
    have "config_loop (open_stream []) settings = settings" for settings
      by (subst config_loop.simps) (simp add: getline_open)
    with True show ?thesis by (simp add: lines_of.simps)
  next
    case False
    define line rest where "line = takeWhile (\<lambda>c. c \<noteq> newline) s"
      and "rest = dropWhile (\<lambda>c. c \<noteq> newline) s"
    have "newline \<notin> set line" unfolding line_def using set_takeWhileD by fast
    note line = config_line_eq [OF this]
    have lines: "lines_of s = line # lines_of (tl rest)"
      using False by (subst lines_of.simps) (simp add: line_def rest_def)
    have IH: "config_loop (open_stream (tl rest)) settings = fold assign (lines_of (tl rest)) settings"
      for settings using 1 False by (simp add: rest_def)
    have last: "config_loop st settings = settings" if "eofbit st" for st settings
      by (subst config_loop.simps) (simp add: getline_eof [OF that])
    have read: "getline newline (open_stream s) =
      (case rest of [] \<Rightarrow> (Some line, (open_stream s)\<lparr>unread := [], eofbit := True\<rparr>)
       | _ # r \<Rightarrow> (Some line, open_stream r))"
      using False unfolding line_def rest_def by (simp add: getline_open)
    show ?thesis
    proof (cases rest)
      case Nil
      with lines show ?thesis
        by (subst config_loop.simps) (simp add: read line last lines_of.simps [of "[]"])
    next
      case (Cons c r)
      with IH lines show ?thesis by (subst config_loop.simps) (simp add: read line)
    qed
  qed
qed

text \<open>Every key of a printed configuration gets the value of its last line.\<close>

definition print_config :: "(string \<times> string) list \<Rightarrow> string" where
  "print_config kvs = concat (map (\<lambda>(k, v). k @ ''='' @ v @ [newline]) kvs)"

definition writable :: "string \<times> string \<Rightarrow> bool" where
  "writable kv \<longleftrightarrow> newline \<notin> set (fst kv) \<and> CHR ''='' \<notin> set (fst kv) \<and> take 1 (fst kv) \<noteq> ''#'' \<and>
     newline \<notin> set (snd kv) \<and> snd kv \<noteq> []"

lemma takeWhile_to: "d \<notin> set k \<Longrightarrow> takeWhile (\<lambda>c. c \<noteq> d) (k @ d # v) = k"
  by (simp add: takeWhile_tail) (induction k; auto)

lemma dropWhile_to: "d \<notin> set k \<Longrightarrow> dropWhile (\<lambda>c. c \<noteq> d) (k @ d # v) = d # v"
  by (induction k) auto

lemma setting_of_writable: "writable (k, v) \<Longrightarrow> setting_of (k @ ''='' @ v) = Some (k, v)"
  using takeWhile_to [of "CHR ''=''" k v] dropWhile_to [of "CHR ''=''" k v]
  by (cases k; cases v) (simp_all add: setting_of_def writable_def Let_def del: takeWhile.simps dropWhile.simps)

lemma lines_of_line: "newline \<notin> set l \<Longrightarrow> lines_of (l @ newline # s) = l # lines_of s"
  by (subst lines_of.simps) (simp add: takeWhile_to dropWhile_to)

lemma lines_of_print_config:
  "\<forall>kv \<in> set kvs. writable kv \<Longrightarrow> lines_of (print_config kvs) = map (\<lambda>(k, v). k @ ''='' @ v) kvs"
proof (induction kvs)
  case Nil
  then show ?case by (simp add: print_config_def lines_of.simps)
next
  case (Cons kv kvs)
  obtain k v where kv: "kv = (k, v)" by (cases kv)
  with Cons.prems have "newline \<notin> set (k @ ''='' @ v)" by (simp add: writable_def)
  from lines_of_line [OF this] Cons kv show ?case by (simp add: print_config_def)
qed

lemma fold_assign_writable:
  "\<forall>kv \<in> set kvs. writable kv \<Longrightarrow>
   fold assign (map (\<lambda>(k, v). k @ ''='' @ v) kvs) m = fold (\<lambda>(k, v). map_put k v) kvs m"
proof (induction kvs arbitrary: m)
  case (Cons kv kvs)
  then show ?case
    using setting_of_writable [of "fst kv" "snd kv"] by (cases kv) (simp add: assign_def)
qed simp

lemma map_of_fold_put: "map_of (fold (\<lambda>(k, v). map_put k v) kvs m) = map_of m ++ map_of (rev kvs)"
  by (induction kvs arbitrary: m) (auto simp: map_of_put)

lemma map_ok_fold_put: "map_ok m \<Longrightarrow> map_ok (fold (\<lambda>(k, v). map_put k v) kvs m)"
  by (induction kvs arbitrary: m) (auto simp: map_ok_put)

lemma map_ok_assign: "map_ok m \<Longrightarrow> map_ok (fold assign ls m)"
  by (induction ls arbitrary: m) (auto simp: assign_def map_ok_put split: option.split)

lemma map_of_fold_assign:
  "map_of (fold assign ls m) = map_of m ++ map_of (rev (List.map_filter setting_of ls))"
  by (induction ls arbitrary: m)
    (auto simp: assign_def map_of_put map_filter_simps split: option.split)

text \<open>Reading a setting changes no other one.\<close>

lemma map_at_value: "fst (map_at m k) = (case map_of m k of None \<Rightarrow> [] | Some v \<Rightarrow> v)"
  by (simp add: map_at_def split: option.split)

lemma map_at_keeps: "fst (map_at (snd (map_at m k)) k') = fst (map_at m k')"
  by (auto simp: map_at_def map_of_put split: option.splits)

lemma map_ok_at: "map_ok m \<Longrightarrow> map_ok (snd (map_at m k))"
  by (simp add: map_at_def map_ok_put split: option.split)

lemma map_put_last: "map_ok (m @ [(k, v)]) \<Longrightarrow> map_put k v m = m @ [(k, v)]"
proof (induction m)
  case (Cons p m)
  then show ?case by (cases p) (auto simp: map_ok_Cons)
qed simp

lemma map_ok_butlast: "map_ok (m @ [kv]) \<Longrightarrow> map_ok m"
  by (simp add: map_ok_def sorted_append)

lemma fold_put_sorted: "map_ok m \<Longrightarrow> fold (\<lambda>(k, v). map_put k v) m [] = m"
proof (induction m rule: rev_induct)
  case (snoc kv m)
  then show ?case
    using map_put_last [of m "fst kv" "snd kv"] map_ok_butlast [of m kv] by (cases kv) simp
qed simp

lemma config_loop_print:
  assumes "map_ok m" and "\<forall>kv \<in> set m. writable kv"
  shows "config_loop (open_stream (print_config m)) [] = m"
  unfolding config_loop_eq lines_of_print_config [OF assms(2)] fold_assign_writable [OF assms(2)]
  by (rule fold_put_sorted [OF assms(1)])

text \<open>The loop over the cursor when no round throws.\<close>

lemma start_jobs_all:
  "\<forall>doc \<in> set docs. agent_job db storage doc = Inr (job_of doc, line_of doc) \<Longrightarrow>
   start_jobs db storage docs None = (None, map job_of docs, map line_of docs)"
  by (induction docs) auto

lemma flag_value: "flag m k = (fst (map_at m k) \<noteq> ''false'', snd (map_at m k))"
  by (simp add: flag_def split: prod.split)

lemma conn_str_value:
  "conn_str m = (''mongodb://'' @ fst (map_at m ''host'') @ '':'' @ fst (map_at m ''port''),
     snd (map_at (snd (map_at m ''host'')) ''port''))"
proof -
  have "fst (map_at (snd (map_at m ''host'')) ''port'') = fst (map_at m ''port'')" by (rule map_at_keeps)
  then show ?thesis by (simp add: conn_str_def split_beta)
qed

section \<open>main up to the joins\<close>

text \<open>What reading the settings one after another does to them is not seen by later reads.\<close>

lemma settings_after_conn:
  "fst (map_at (snd (conn_str (snd (map_at m k)))) k') = fst (map_at m k')"
  by (simp add: conn_str_value map_at_keeps)

lemma main_feeds_value:
  "main_feeds db settings lines =
    (case agents db (stream_stmt [] filter_tokens) of (docs, err) \<Rightarrow>
     case start_jobs db (fst (map_at settings ''storage'')) docs err of (r, jobs, printed) \<Rightarrow>
       let out = lines @ snd (offers_after_drop db) @ [''Started feeds handling''] @ printed
       in if r = None
          then Joining jobs out (offer_parser_init (fst (offers_after_drop db))
            (fst (map_at settings ''only_sales'') \<noteq> ''false'')
            (fst (map_at settings ''only_flats'') \<noteq> ''false''))
          else Terminated jobs out)"
  by (simp add: main_feeds_def flag_value split_beta map_at_keeps Let_def cong: if_cong)

lemma main_start_value:
  assumes "settings = config_loop (ifstream (files (argv ! 1))) []" and "length argv = 2"
    and "fst (map_at settings ''storage'') \<noteq> []"
  shows "main_start db files argv =
    (let lines = print_settings (snd (map_at settings ''storage''))
     in case connects db (''mongodb://'' @ fst (map_at settings ''host'') @ '':'' @ fst (map_at settings ''port'')) of
          Some _ \<Rightarrow> Terminated [] lines
        | None \<Rightarrow> main_feeds db (snd (conn_str (snd (map_at settings ''storage'')))) lines)"
proof -
  have "fst (conn_str (snd (map_at settings ''storage''))) =
      ''mongodb://'' @ fst (map_at settings ''host'') @ '':'' @ fst (map_at settings ''port'')"
    by (simp add: conn_str_value map_at_keeps)
  then show ?thesis
    using assms(2,3) unfolding main_start_def assms(1) [symmetric] Let_def by (simp add: split_beta)
qed

lemma main_start_all:
  assumes "length argv = 2" and "settings = config_loop (ifstream (files (argv ! 1))) []"
    and "fst (map_at settings ''storage'') \<noteq> []"
    and "connects db (''mongodb://'' @ fst (map_at settings ''host'') @ '':'' @ fst (map_at settings ''port'')) = None"
    and "agents db (stream_stmt [] filter_tokens) = (docs, None)"
    and "\<forall>doc \<in> set docs. agent_job db (fst (map_at settings ''storage'')) doc = Inr (job_of doc, line_of doc)"
  shows "\<exists>out. main_start db files argv = Joining (map job_of docs) out
    (offer_parser_init (fst (offers_after_drop db))
      (fst (map_at settings ''only_sales'') \<noteq> ''false'') (fst (map_at settings ''only_flats'') \<noteq> ''false''))"
  using start_jobs_all [OF assms(6)] assms(4)
  by (simp add: main_start_value [of settings files argv, OF assms(2,1,3)] assms(5) main_feeds_value settings_after_conn Let_def)

text \<open>Conversely, at the joins the shared object is the fresh one of the settings.\<close>

lemma joining_object:
  assumes "main_start db files argv = Joining jobs out op"
    and "settings = config_loop (ifstream (files (argv ! 1))) []"
  shows "op = offer_parser_init (fst (offers_after_drop db))
    (fst (map_at settings ''only_sales'') \<noteq> ''false'') (fst (map_at settings ''only_flats'') \<noteq> ''false'')"
proof -
  have two: "length argv = 2"
    using assms(1) by (simp add: main_start_def split: if_splits)
  have storage: "fst (map_at settings ''storage'') \<noteq> []"
    using assms(1) two unfolding main_start_def assms(2) [symmetric] Let_def
    by (simp add: split_beta split: if_splits)
  from assms(1) show ?thesis
    by (simp add: main_start_value [of settings files argv, OF assms(2) two storage] main_feeds_value settings_after_conn Let_def
      split: option.splits prod.splits if_splits)
qed

text \<open>The query for the agents.\<close>

lemma agents_query:
  "extracted (stream_stmt [] filter_tokens) =
    Some [(''$and'', Arr [Doc [(''feed_url'', Doc [(''$ne'', Scalar (B_utf8 []))])],
                          Doc [(''ignore_feed'', Scalar (B_bool False))]])]"
  by (simp add: filter_tokens_def stream_stmt_def shl.simps append_cstr_def extracted_def doc_start_def)

end
