(* ===== verification/Whole_Program.thy ===== *)
theory Whole_Program
  imports App_Main
begin

text \<open>
  The parts put together: \<^verbatim>\<open>main\<close> starts the jobs, each job's thread runs
  \<^verbatim>\<open>parse_feed_url\<close>, whose handlers call the shared object. \<open>thread_calls\<close> is what
  the threads do to that object: \<^verbatim>\<open>parse_feed_url\<close> itself, run with a callback that only
  writes down what it is called with. Since the handlers never look at what the callback leaves
  behind, these calls are the same in every interleaving, so that \<open>thread_calls\<close> is the work list
  of the step relation of \<open>Offer_Collector\<close>.
\<close>

section \<open>What a thread calls\<close>

definition recorder :: "otree list callback" where
  "recorder h roots r ts = Some (ts @ [tree_of h r])"

interpretation recorded: offer_sink recorder "\<lambda>t ts. ts @ [t]"
  by unfold_locales (simp add: recorder_def)

definition job_calls :: "feed_env \<Rightarrow> 'l lexer \<Rightarrow> 'l \<Rightarrow> job \<Rightarrow> otree list option" where
  "job_calls env lxr l job =
     (case parse_feed_url env lxr l (job_url job) (job_id job) (job_name job) (job_storage job) recorder [] of
        None \<Rightarrow> None
      | Some r \<Rightarrow> (case feed_outcome r of Inl e \<Rightarrow> None | Inr (l', p, ts) \<Rightarrow> Some ts))"

definition thread_calls :: "(nat \<Rightarrow> feed_env) \<Rightarrow> 'l lexer \<Rightarrow> 'l \<Rightarrow> job list \<Rightarrow> nat \<Rightarrow> otree list" where
  "thread_calls envs lxr l jobs i =
     (if i < length jobs
      then case job_calls (envs i) lxr l (jobs ! i) of None \<Rightarrow> [] | Some ts \<Rightarrow> ts
      else [])"

text \<open>A transfer that brings a feed: a handle, readable blocks, and the XML library reports the feed's
  events for them.\<close>

definition feed_arrives :: "feed_env \<Rightarrow> 'l lexer \<Rightarrow> 'l \<Rightarrow> string \<Rightarrow> xml \<Rightarrow> bool" where
  "feed_arrives env lxr l url doc \<longleftrightarrow>
     curl_handle env \<and> (\<forall>b \<in> set (transfer env url). readable b) \<and> tm_ok (local_time env) \<and> feed_ok doc \<and>
     (case lex_all lxr l (map block_data (transfer env url)) of (l', evs, err) \<Rightarrow> evs = sax_of doc \<and> err = None)"

lemma path_postfix_fits:
  "tm_ok now \<Longrightarrow> \<exists>postfix. get_feed_path_postfix now = Some postfix"
  using length_year [of now]
  by (simp add: get_feed_path_postfix_def strftime_def conversion_def Let_def)

context offer_sink
begin

lemma arriving_feed:
  assumes "feed_arrives env lxr l url doc"
  shows "\<exists>r l' p'. parse_feed_url env lxr l url feed_id feed_name storage cb s = Some r \<and>
    feed_outcome r = Inr (l', p', fold deliver (offers_in feed_id doc) s)"
proof -
  obtain l' where lex: "lex_all lxr l (map block_data (transfer env url)) = (l', sax_of doc, None)"
    using assms by (auto simp: feed_arrives_def)
  obtain postfix where postfix: "get_feed_path_postfix (local_time env) = Some postfix"
    using assms path_postfix_fits by (auto simp: feed_arrives_def)
  obtain p' where "put_all (parse_chunk lxr cb) (map block_data (transfer env url)) (l, parser_init feed_id, s) =
      Some (Inr (l', p', fold deliver (offers_in feed_id doc) s))"
    using chunks_deliver [OF lex _ idle_init, where s = s and feed_id = feed_id] assms by (auto simp: feed_arrives_def)
  then show ?thesis
    using assms curl_easy_perform_readable [where lxr = lxr and cb = cb and st = "(l, parser_init feed_id, s)"
        and bs = "transfer env url"]
    by (simp add: parse_feed_url_def postfix feed_arrives_def Let_def)
qed

end

lemma fold_snoc: "fold (\<lambda>t ts. ts @ [t]) us ts = ts @ us"
  by (induction us arbitrary: ts) auto

lemma job_calls_offers:
  assumes "feed_arrives env lxr l (job_url job) doc"
  shows "job_calls env lxr l job = Some (offers_in (job_id job) doc)"
  using recorded.arriving_feed [OF assms, of "job_id job" "job_name job" "job_storage job" "[]"]
  by (auto simp: job_calls_def fold_snoc)

text \<open>A thread alone does to the shared object what the calls written down do to it.\<close>

lemma job_calls_explain:
  assumes "feed_arrives env lxr l (job_url job) doc"
  shows "\<exists>r l' p' ts. parse_feed_url env lxr l (job_url job) (job_id job) (job_name job) (job_storage job)
      (offer_parser_parse ins e) op = Some r \<and>
    job_calls env lxr l job = Some ts \<and> feed_outcome r = Inr (l', p', fold (parse_tree ins e) ts op)"
  using collector.arriving_feed [OF assms] job_calls_offers [OF assms] by blast

section \<open>What the collection holds\<close>

text \<open>A collection that keeps every document it is given.\<close>

definition keeps_documents :: "'c insert_one \<Rightarrow> ('c \<Rightarrow> core_call list list) \<Rightarrow> bool" where
  "keeps_documents ins contents \<longleftrightarrow> (\<forall>c d. \<exists>c'. ins c d = Inr c' \<and> contents c' = contents c @ [d])"

definition stored_calls :: "'c offer_parser \<Rightarrow> (nat \<times> otree) list \<Rightarrow> (nat \<times> otree) list" where
  "stored_calls op calls = filter (\<lambda>(i, t). accepted (m_only_sales op) (m_only_flats op) t) calls"

lemma keeps_documents_total: "keeps_documents ins contents \<Longrightarrow> \<exists>c'. ins c d = Inr c'"
  unfolding keeps_documents_def by blast

lemma parse_tree_contents:
  assumes "keeps_documents ins contents"
  shows "contents (m_collection (parse_tree ins e t op)) = contents (m_collection op) @
    (if accepted (m_only_sales op) (m_only_flats op) t then [offer_doc e t] else [])"
proof -
  obtain c' where "ins (m_collection op) (offer_doc e t) = Inr c'"
      "contents c' = contents (m_collection op) @ [offer_doc e t]"
    using assms unfolding keeps_documents_def by blast
  then show ?thesis
    by (auto simp: parse_tree_def store_offer_def accepted_def Let_def split: option.split)
qed

lemma in_sequence_contents:
  assumes "keeps_documents ins contents"
  shows "contents (m_collection (in_sequence ins e calls op)) =
    contents (m_collection op) @ map (\<lambda>(i, t). offer_doc e t) (stored_calls op calls)"
proof (induction calls rule: rev_induct)
  case Nil
  then show ?case by (simp add: in_sequence_def stored_calls_def)
next
  case (snoc call calls)
  then show ?case
    by (cases call) (simp add: parse_tree_contents [OF assms] stored_calls_def)
qed

lemma length_stored_calls:
  "length (stored_calls op calls) =
    length (filter (accepted (m_only_sales op) (m_only_flats op)) (map snd calls))"
  unfolding stored_calls_def by (induction calls) auto

lemma stored_calls_of_thread:
  "calls_of_thread i (stored_calls op calls) =
    filter (accepted (m_only_sales op) (m_only_flats op)) (calls_of_thread i calls)"
  unfolding stored_calls_def calls_of_thread_def by (induction calls) auto

section \<open>Every run comes to an end\<close>

lemma reachable_trans: "reachable ins e s0 s \<Longrightarrow> reachable ins e s s' \<Longrightarrow> reachable ins e s0 s'"
  by (rotate_tac, induction rule: reachable.induct) (auto intro: reachable.step)

text \<open>From every reachable state the threads can go on until all are done.\<close>

lemma can_finish:
  assumes "reachable ins e (threads_init op jobs) s" and "only_threads n s"
  shows "\<exists>s'. reachable ins e s s' \<and> all_done s'"
  using assms
proof (induction "total_work n s" arbitrary: s rule: less_induct)
  case less
  show ?case
  proof (cases "all_done s")
    case True
    then show ?thesis by (blast intro: reachable.start)
  next
    case False
    then obtain s1 where s1: "thread_step ins e s s1"
      using some_thread_steps [of s ins e] reachable_invs [OF less.prems(1)] by blast
    note after = step_only_threads [OF s1 less.prems(2)]
    obtain s' where "reachable ins e s1 s'" "all_done s'"
      using less.hyps [OF after(2) reachable.step [OF less.prems(1) s1] after(1)] by blast
    with s1 show ?thesis
      by (blast intro: reachable_trans reachable.intros)
  qed
qed

section \<open>From the start to the end\<close>

text \<open>After the joins: what the calls that were accepted, in the order of the history, left.\<close>

lemma done_contents:
  assumes "reachable ins e (threads_init op jobs) s" and "all_done s" and "keeps_documents ins contents"
  shows "contents (m_collection (object s)) =
      contents (m_collection op) @ map (\<lambda>(i, t). offer_doc e t) (stored_calls op (history s))"
    and "m_count (object s) = m_count op + of_nat (length (stored_calls op (history s)))"
    and "calls_of_thread i (stored_calls op (history s)) =
      filter (accepted (m_only_sales op) (m_only_flats op)) (jobs i)"
proof -
  note inv = reachable_invs [OF assms(1)]
  have core: "core (object s) = core (in_sequence ins e (history s) op)"
    using inv assms(2) by (intro done_core) auto
  show "contents (m_collection (object s)) =
      contents (m_collection op) @ map (\<lambda>(i, t). offer_doc e t) (stored_calls op (history s))"
    using coreD [OF core] in_sequence_contents [OF assms(3), of e "history s" op] by simp
  show "m_count (object s) = m_count op + of_nat (length (stored_calls op (history s)))"
    using coreD [OF core] in_sequence_count [OF keeps_documents_total [OF assms(3)], where e = e and calls = "history s" and op = op]
    by (simp add: length_stored_calls)
  show "calls_of_thread i (stored_calls op (history s)) =
      filter (accepted (m_only_sales op) (m_only_flats op)) (jobs i)"
    using done_history [of jobs s i] inv assms(2) by (simp add: stored_calls_of_thread)
qed

lemma thread_calls_offers:
  assumes "\<And>i. i < length jobs \<Longrightarrow> feed_arrives (envs i) lxr l (job_url (jobs ! i)) (doc i)"
  shows "thread_calls envs lxr l jobs i =
    (if i < length jobs then offers_in (job_id (jobs ! i)) (doc i) else [])"
  using job_calls_offers [OF assms] by (simp add: thread_calls_def)

lemma offer_doc_extracted: "order e = Operand_first \<Longrightarrow> extracted (offer_doc e t) = Some (tree_fields e t)"
  by (simp add: offer_doc_def tree_calls_fields extracted_field_calls)

text \<open>Once \<^verbatim>\<open>main\<close> waits for the threads, they can finish, and when they have, the
  collection has one more document per accepted offer.\<close>

lemma run_can_finish:
  assumes "reachable ins e (threads_init op (thread_calls envs lxr l jobs)) s"
  shows "\<exists>s'. reachable ins e s s' \<and> all_done s'"
proof (rule can_finish [OF assms])
  show "only_threads (length jobs) s"
    using assms by (rule only_threads_reachable) (simp add: only_threads_def threads_init_def thread_calls_def)
qed

lemma run_stores:
  assumes "main_start db files argv = Joining jobs out op"
    and "settings = config_loop (ifstream (files (argv ! 1))) []"
    and "\<And>i. i < length jobs \<Longrightarrow> feed_arrives (envs i) lxr l (job_url (jobs ! i)) (doc i)"
    and "keeps_documents ins contents" and "order e = Operand_first"
    and "reachable ins e (threads_init op (thread_calls envs lxr l jobs)) s" and "all_done s"
  shows "\<exists>stored.
    (\<forall>i. calls_of_thread i stored =
      (if i < length jobs
       then filter (accepted (fst (map_at settings ''only_sales'') \<noteq> ''false'')
                             (fst (map_at settings ''only_flats'') \<noteq> ''false''))
              (offers_in (job_id (jobs ! i)) (doc i))
       else [])) \<and>
    map extracted (contents (m_collection (object s))) =
      map extracted (contents (fst (offers_after_drop db))) @ map (\<lambda>(i, t). Some (tree_fields e t)) stored \<and>
    (length stored < 2 ^ 64 \<longrightarrow>
       main_finish out (object s) =
         Exited 0 (out @ m_cout (object s) @ [''Finished, handled '' @ dec (length stored) @ '' offers'']) [])"
proof (intro exI [of _ "stored_calls op (history s)"] conjI allI impI)
  note finished = done_contents [OF assms(6,7,4)]
  have op: "op = offer_parser_init (fst (offers_after_drop db))
      (fst (map_at settings ''only_sales'') \<noteq> ''false'') (fst (map_at settings ''only_flats'') \<noteq> ''false'')"
    using assms(1,2) by (rule joining_object)
  then have fresh: "m_collection op = fst (offers_after_drop db)" "m_count op = 0"
      "m_only_sales op = (fst (map_at settings ''only_sales'') \<noteq> ''false'')"
      "m_only_flats op = (fst (map_at settings ''only_flats'') \<noteq> ''false'')"
    by (simp_all add: offer_parser_init_def)
  show "calls_of_thread i (stored_calls op (history s)) =
      (if i < length jobs
       then filter (accepted (fst (map_at settings ''only_sales'') \<noteq> ''false'')
                             (fst (map_at settings ''only_flats'') \<noteq> ''false''))
              (offers_in (job_id (jobs ! i)) (doc i))
       else [])" for i
    using thread_calls_offers [of jobs envs lxr l doc i, OF assms(3)] by (simp add: finished(3) fresh)
  show "map extracted (contents (m_collection (object s))) =
      map extracted (contents (fst (offers_after_drop db))) @
      map (\<lambda>(i, t). Some (tree_fields e t)) (stored_calls op (history s))"
    unfolding finished(1) fresh by (simp add: split_beta comp_def offer_doc_extracted [OF assms(5)])
  assume "length (stored_calls op (history s)) < 2 ^ 64"
  then have "unat (m_count (object s)) = length (stored_calls op (history s))"
    unfolding finished(2) fresh by (simp add: unat_of_nat)
  then show "main_finish out (object s) = Exited 0 (out @ m_cout (object s) @
      [''Finished, handled '' @ dec (length (stored_calls op (history s))) @ '' offers'']) []"
    by (simp add: main_finish_def)
qed

end
