(* ===== verification/Utlist.thy ===== *)
theory Utlist
  imports Main "HOL-Library.Monad_Syntax"
begin

text \<open>
  feed/3pp/include/libmongoc-1.0/utlist.h: the list macros the MongoDB C driver's structures are
  chained with. \<open>LL_\<close> lists are singly linked, \<open>DL_\<close> lists end in NULL and their head's
  \<^verbatim>\<open>prev\<close> is the tail, \<open>CDL_\<close> lists are circular both ways.

  The store maps every address to its two link fields; a pointer is an address or NULL. A macro takes
  the store and the head variable and returns both; \<open>None\<close> is a dereferenced NULL or a failed
  assertion, and for the loops (\<^verbatim>\<open>partial_function\<close>) also not returning. The element's
  data is not in the store: searches and counts take the test as an argument.

  \<open>ll\<close>, \<open>dl\<close> and \<open>cdl\<close> say which list of addresses a head stands for, and every macro is
  proved against the list operation it is named after. The locale \<open>list_macros\<close> is what the three
  families have in common.
\<close>

type_synonym ptr = "nat option"

record link =
  next_of :: ptr
  prev_of :: ptr

type_synonym store = "nat \<Rightarrow> link"

definition set_next :: "nat \<Rightarrow> ptr \<Rightarrow> store \<Rightarrow> store" where
  "set_next a p h = h(a := (h a)\<lparr>next_of := p\<rparr>)"

definition set_prev :: "nat \<Rightarrow> ptr \<Rightarrow> store \<Rightarrow> store" where
  "set_prev a p h = h(a := (h a)\<lparr>prev_of := p\<rparr>)"

lemma links_after_set [simp]:
  "next_of (set_next a p h b) = (if b = a then p else next_of (h b))"
  "prev_of (set_next a p h b) = prev_of (h b)"
  "next_of (set_prev a p h b) = next_of (h b)"
  "prev_of (set_prev a p h b) = (if b = a then p else prev_of (h b))"
  by (simp_all add: set_next_def set_prev_def)

lemma set_next_twice [simp]: "set_next a p (set_next a q h) = set_next a p h"
  by (simp add: set_next_def)

lemma set_next_commute: "a \<noteq> b \<Longrightarrow> set_next a p (set_next b q h) = set_next b q (set_next a p h)"
  by (simp add: set_next_def fun_upd_twist)

section \<open>Singly linked lists\<close>

definition LL_PREPEND2 :: "store \<Rightarrow> ptr \<Rightarrow> nat \<Rightarrow> (store \<times> ptr) option" where
  "LL_PREPEND2 h head add = Some (set_next add head h, Some add)"

text \<open>\<^verbatim>\<open>while (_tmp->next) { _tmp = _tmp->next; }\<close>\<close>

partial_function (option) to_tail :: "store \<Rightarrow> nat \<Rightarrow> nat option" where
  "to_tail h tmp = (case next_of (h tmp) of None \<Rightarrow> Some tmp | Some n \<Rightarrow> to_tail h n)"

definition LL_CONCAT2 :: "store \<Rightarrow> ptr \<Rightarrow> ptr \<Rightarrow> (store \<times> ptr) option" where
  "LL_CONCAT2 h head1 head2 =
     (case head1 of
        Some a \<Rightarrow> do { tmp \<leftarrow> to_tail h a; Some (set_next tmp head2 h, head1) }
      | None \<Rightarrow> Some (h, head2))"

definition LL_APPEND2 :: "store \<Rightarrow> ptr \<Rightarrow> nat \<Rightarrow> (store \<times> ptr) option" where
  "LL_APPEND2 h head add =
     (let h1 = set_next add None h
      in case head of
           Some a \<Rightarrow> do { tmp \<leftarrow> to_tail h1 a; Some (set_next tmp (Some add) h1, head) }
         | None \<Rightarrow> Some (h1, Some add))"

text \<open>\<^verbatim>\<open>while (_tmp->next && (_tmp->next != (el))) { _tmp = _tmp->next; }\<close>\<close>

partial_function (option) to_before :: "nat \<Rightarrow> store \<Rightarrow> nat \<Rightarrow> nat option" where
  "to_before el h tmp =
     (case next_of (h tmp) of
        None \<Rightarrow> Some tmp
      | Some n \<Rightarrow> if n \<noteq> el then to_before el h n else Some tmp)"

definition LL_DELETE2 :: "store \<Rightarrow> ptr \<Rightarrow> nat \<Rightarrow> (store \<times> ptr) option" where
  "LL_DELETE2 h head del =
     (if head = Some del then Some (h, next_of (h del))
      else do {
        a \<leftarrow> head;
        tmp \<leftarrow> to_before del h a;
        if next_of (h tmp) \<noteq> None then Some (set_next tmp (next_of (h del)) h, head)
        else Some (h, head)
      })"

text \<open>The replacements for a compiler without \<^verbatim>\<open>decltype\<close>: the new element's own next
  field is the loop variable, respectively the head variable is.\<close>

partial_function (option) chase_next :: "nat \<Rightarrow> store \<Rightarrow> store option" where
  "chase_next add h =
     (case next_of (h add) of
        None \<Rightarrow> None
      | Some n \<Rightarrow>
          (case next_of (h n) of
             None \<Rightarrow> Some h
           | Some m \<Rightarrow> chase_next add (set_next add (Some m) h)))"

definition LL_APPEND2_VS2008 :: "store \<Rightarrow> ptr \<Rightarrow> nat \<Rightarrow> (store \<times> ptr) option" where
  "LL_APPEND2_VS2008 h head add =
     (case head of
        Some a \<Rightarrow> do {
          h1 \<leftarrow> chase_next add (set_next add head h);
          n \<leftarrow> next_of (h1 add);
          Some (set_next add None (set_next n (Some add) h1), head)
        }
      | None \<Rightarrow> Some (set_next add None h, Some add))"

definition LL_DELETE2_VS2008 :: "store \<Rightarrow> ptr \<Rightarrow> nat \<Rightarrow> (store \<times> ptr) option" where
  "LL_DELETE2_VS2008 h head del =
     (if head = Some del then Some (h, next_of (h del))
      else do {
        a \<leftarrow> head;
        moved \<leftarrow> to_before del h a;
        let h1 = (if next_of (h moved) \<noteq> None then set_next moved (next_of (h del)) h else h);
        Some (h1, Some a)
      })"

text \<open>\<^verbatim>\<open>LL_FOREACH2\<close>: the elements the loop variable takes; \<^verbatim>\<open>LL_COUNT2\<close>.\<close>

partial_function (option) LL_FOREACH2 :: "store \<Rightarrow> ptr \<Rightarrow> nat list option" where
  "LL_FOREACH2 h el =
     (case el of
        None \<Rightarrow> Some []
      | Some a \<Rightarrow> do { rest \<leftarrow> LL_FOREACH2 h (next_of (h a)); Some (a # rest) })"

definition LL_COUNT2 :: "store \<Rightarrow> ptr \<Rightarrow> nat option" where
  "LL_COUNT2 h head = map_option length (LL_FOREACH2 h head)"

text \<open>\<^verbatim>\<open>LL_FOREACH_SAFE2\<close>: the successor is read before the body runs, which may change
  the store.\<close>

partial_function (option) LL_FOREACH_SAFE2 ::
    "(nat \<Rightarrow> store \<Rightarrow> store) \<Rightarrow> store \<Rightarrow> ptr \<Rightarrow> (store \<times> nat list) option" where
  "LL_FOREACH_SAFE2 body h el =
     (case el of
        None \<Rightarrow> Some (h, [])
      | Some a \<Rightarrow> do {
          (h', rest) \<leftarrow> LL_FOREACH_SAFE2 body (body a h) (next_of (h a));
          Some (h', a # rest)
        })"

text \<open>\<^verbatim>\<open>LL_SEARCH2\<close> and \<^verbatim>\<open>LL_SEARCH_SCALAR2\<close>: the loop breaks at the first
  element that passes; otherwise the variable ends as NULL.\<close>

partial_function (option) LL_SEARCH2 :: "(nat \<Rightarrow> bool) \<Rightarrow> store \<Rightarrow> ptr \<Rightarrow> ptr option" where
  "LL_SEARCH2 found h out =
     (case out of
        None \<Rightarrow> Some None
      | Some a \<Rightarrow> if found a then Some (Some a) else LL_SEARCH2 found h (next_of (h a)))"

definition LL_SEARCH_SCALAR2 :: "(nat \<Rightarrow> 'v) \<Rightarrow> 'v \<Rightarrow> store \<Rightarrow> ptr \<Rightarrow> ptr option" where
  "LL_SEARCH_SCALAR2 field val h head = LL_SEARCH2 (\<lambda>a. field a = val) h head"

definition LL_REPLACE_ELEM :: "store \<Rightarrow> ptr \<Rightarrow> nat \<Rightarrow> nat \<Rightarrow> (store \<times> ptr) option" where
  "LL_REPLACE_ELEM h head el add =
     do {
       a \<leftarrow> head;
       let h1 = set_next add (next_of (h el)) h;
       if head = Some el then Some (h1, Some add)
       else do {
         tmp \<leftarrow> to_before el h1 a;
         if next_of (h1 tmp) \<noteq> None then Some (set_next tmp (Some add) h1, head) else Some (h1, head)
       }
     }"

definition LL_PREPEND_ELEM :: "store \<Rightarrow> ptr \<Rightarrow> nat \<Rightarrow> nat \<Rightarrow> (store \<times> ptr) option" where
  "LL_PREPEND_ELEM h head el add =
     do {
       a \<leftarrow> head;
       let h1 = set_next add (Some el) h;
       if head = Some el then Some (h1, Some add)
       else do {
         tmp \<leftarrow> to_before el h1 a;
         if next_of (h1 tmp) \<noteq> None then Some (set_next tmp (Some add) h1, head) else Some (h1, head)
       }
     }"

section \<open>Doubly linked lists\<close>

definition DL_PREPEND2 :: "store \<Rightarrow> ptr \<Rightarrow> nat \<Rightarrow> (store \<times> ptr) option" where
  "DL_PREPEND2 h head add =
     (let h1 = set_next add head h
      in case head of
           Some a \<Rightarrow> Some (set_prev a (Some add) (set_prev add (prev_of (h1 a)) h1), Some add)
         | None \<Rightarrow> Some (set_prev add (Some add) h1, Some add))"

definition DL_APPEND2 :: "store \<Rightarrow> ptr \<Rightarrow> nat \<Rightarrow> (store \<times> ptr) option" where
  "DL_APPEND2 h head add =
     (case head of
        Some a \<Rightarrow> do {
          let h1 = set_prev add (prev_of (h a)) h;
          tail \<leftarrow> prev_of (h1 a);
          let h2 = set_next tail (Some add) h1;
          Some (set_next add None (set_prev a (Some add) h2), head)
        }
      | None \<Rightarrow> Some (set_next add None (set_prev add (Some add) h), Some add))"

definition DL_CONCAT2 :: "store \<Rightarrow> ptr \<Rightarrow> ptr \<Rightarrow> (store \<times> ptr) option" where
  "DL_CONCAT2 h head1 head2 =
     (case head2 of
        None \<Rightarrow> Some (h, head1)
      | Some b \<Rightarrow>
          (case head1 of
             Some a \<Rightarrow> do {
               let tmp = prev_of (h b);
               let h1 = set_prev b (prev_of (h a)) h;
               tail \<leftarrow> prev_of (h1 a);
               Some (set_prev a tmp (set_next tail head2 h1), head1)
             }
           | None \<Rightarrow> Some (h, head2)))"

definition DL_DELETE2 :: "store \<Rightarrow> ptr \<Rightarrow> nat \<Rightarrow> (store \<times> ptr) option" where
  "DL_DELETE2 h head del =
     do {
       p \<leftarrow> prev_of (h del);
       if p = del then Some (h, None)
       else if head = Some del then do {
         n \<leftarrow> next_of (h del);
         let h1 = set_prev n (prev_of (h del)) h;
         Some (h1, next_of (h1 del))
       }
       else do {
         let h1 = set_next p (next_of (h del)) h;
         case next_of (h1 del) of
           Some n \<Rightarrow> Some (set_prev n (prev_of (h1 del)) h1, head)
         | None \<Rightarrow> do { a \<leftarrow> head; Some (set_prev a (prev_of (h1 del)) h1, head) }
       }
     }"

definition DL_COUNT2 :: "store \<Rightarrow> ptr \<Rightarrow> nat option" where
  "DL_COUNT2 h head = map_option length (LL_FOREACH2 h head)"

text \<open>The loops and searches are those of the singly linked macros.\<close>

definition DL_FOREACH2 :: "store \<Rightarrow> ptr \<Rightarrow> nat list option" where
  "DL_FOREACH2 = LL_FOREACH2"

definition DL_FOREACH_SAFE2 ::
    "(nat \<Rightarrow> store \<Rightarrow> store) \<Rightarrow> store \<Rightarrow> ptr \<Rightarrow> (store \<times> nat list) option" where
  "DL_FOREACH_SAFE2 = LL_FOREACH_SAFE2"

definition DL_SEARCH2 :: "(nat \<Rightarrow> bool) \<Rightarrow> store \<Rightarrow> ptr \<Rightarrow> ptr option" where
  "DL_SEARCH2 = LL_SEARCH2"

definition DL_SEARCH_SCALAR2 :: "(nat \<Rightarrow> 'v) \<Rightarrow> 'v \<Rightarrow> store \<Rightarrow> ptr \<Rightarrow> ptr option" where
  "DL_SEARCH_SCALAR2 = LL_SEARCH_SCALAR2"

definition DL_REPLACE_ELEM :: "store \<Rightarrow> ptr \<Rightarrow> nat \<Rightarrow> nat \<Rightarrow> (store \<times> ptr) option" where
  "DL_REPLACE_ELEM h head el add =
     do {
       a \<leftarrow> head;
       if a = el then do {
         let h1 = set_next add (next_of (h el)) h;
         if next_of (h1 el) = None then Some (set_prev add (Some add) h1, Some add)
         else do {
           let h2 = set_prev add (prev_of (h1 el)) h1;
           n \<leftarrow> next_of (h2 add);
           Some (set_prev n (Some add) h2, Some add)
         }
       }
       else do {
         let h1 = set_next add (next_of (h el)) h;
         let h2 = set_prev add (prev_of (h1 el)) h1;
         p \<leftarrow> prev_of (h2 add);
         let h3 = set_next p (Some add) h2;
         if next_of (h3 el) = None then Some (set_prev a (Some add) h3, head)
         else do { n \<leftarrow> next_of (h3 add); Some (set_prev n (Some add) h3, head) }
       }
     }"

definition DL_PREPEND_ELEM :: "store \<Rightarrow> ptr \<Rightarrow> nat \<Rightarrow> nat \<Rightarrow> (store \<times> ptr) option" where
  "DL_PREPEND_ELEM h head el add =
     do {
       a \<leftarrow> head;
       let h1 = set_next add (Some el) h;
       let h2 = set_prev add (prev_of (h1 el)) h1;
       let h3 = set_prev el (Some add) h2;
       if a = el then Some (h3, Some add)
       else do { p \<leftarrow> prev_of (h3 add); Some (set_next p (Some add) h3, head) }
     }"

section \<open>Circular lists\<close>

definition CDL_PREPEND2 :: "store \<Rightarrow> ptr \<Rightarrow> nat \<Rightarrow> (store \<times> ptr) option" where
  "CDL_PREPEND2 h head add =
     (case head of
        Some a \<Rightarrow> do {
          let h1 = set_prev add (prev_of (h a)) h;
          let h2 = set_next add head h1;
          let h3 = set_prev a (Some add) h2;
          p \<leftarrow> prev_of (h3 add);
          Some (set_next p (Some add) h3, Some add)
        }
      | None \<Rightarrow> Some (set_next add (Some add) (set_prev add (Some add) h), Some add))"

definition CDL_DELETE2 :: "store \<Rightarrow> ptr \<Rightarrow> nat \<Rightarrow> (store \<times> ptr) option" where
  "CDL_DELETE2 h head del =
     (if head = Some del \<and> next_of (h del) = head then Some (h, None)
      else do {
        n \<leftarrow> next_of (h del);
        let h1 = set_prev n (prev_of (h del)) h;
        p \<leftarrow> prev_of (h1 del);
        let h2 = set_next p (next_of (h1 del)) h1;
        Some (h2, if head = Some del then next_of (h2 del) else head)
      })"

text \<open>\<^verbatim>\<open>((el)->next==head ? 0L : (el)->next)\<close>\<close>

definition cdl_next :: "store \<Rightarrow> ptr \<Rightarrow> nat \<Rightarrow> ptr" where
  "cdl_next h head a = (if next_of (h a) = head then None else next_of (h a))"

partial_function (option) CDL_FOREACH2 :: "store \<Rightarrow> ptr \<Rightarrow> ptr \<Rightarrow> nat list option" where
  "CDL_FOREACH2 h head el =
     (case el of
        None \<Rightarrow> Some []
      | Some a \<Rightarrow> do {
          rest \<leftarrow> CDL_FOREACH2 h head (cdl_next h head a);
          Some (a # rest)
        })"

definition CDL_COUNT2 :: "store \<Rightarrow> ptr \<Rightarrow> nat option" where
  "CDL_COUNT2 h head = map_option length (CDL_FOREACH2 h head head)"

text \<open>\<^verbatim>\<open>CDL_FOREACH_SAFE2\<close>: \<open>tmp1\<close> is the tail, read before the loop; \<open>tmp2\<close>
  the successor, read before the body.\<close>

partial_function (option) cdl_foreach_safe ::
    "(nat \<Rightarrow> store \<Rightarrow> store) \<Rightarrow> ptr \<Rightarrow> store \<Rightarrow> ptr \<Rightarrow> (store \<times> nat list) option" where
  "cdl_foreach_safe body tmp1 h el =
     (case el of
        None \<Rightarrow> Some (h, [])
      | Some a \<Rightarrow> do {
          (h', rest) \<leftarrow> cdl_foreach_safe body tmp1 (body a h) (if el = tmp1 then None else next_of (h a));
          Some (h', a # rest)
        })"

definition CDL_FOREACH_SAFE2 ::
    "(nat \<Rightarrow> store \<Rightarrow> store) \<Rightarrow> store \<Rightarrow> ptr \<Rightarrow> (store \<times> nat list) option" where
  "CDL_FOREACH_SAFE2 body h head =
     cdl_foreach_safe body (case head of None \<Rightarrow> None | Some a \<Rightarrow> prev_of (h a)) h head"

partial_function (option) cdl_search :: "(nat \<Rightarrow> bool) \<Rightarrow> store \<Rightarrow> ptr \<Rightarrow> ptr \<Rightarrow> ptr option" where
  "cdl_search found h head out =
     (if out = None then Some None
      else if found (the out) then Some out
      else cdl_search found h head (cdl_next h head (the out)))"

definition CDL_SEARCH2 :: "(nat \<Rightarrow> bool) \<Rightarrow> store \<Rightarrow> ptr \<Rightarrow> ptr option" where
  "CDL_SEARCH2 found h head = cdl_search found h head head"

definition CDL_SEARCH_SCALAR2 :: "(nat \<Rightarrow> 'v) \<Rightarrow> 'v \<Rightarrow> store \<Rightarrow> ptr \<Rightarrow> ptr option" where
  "CDL_SEARCH_SCALAR2 field val h head = CDL_SEARCH2 (\<lambda>a. field a = val) h head"

definition CDL_REPLACE_ELEM :: "store \<Rightarrow> ptr \<Rightarrow> nat \<Rightarrow> nat \<Rightarrow> (store \<times> ptr) option" where
  "CDL_REPLACE_ELEM h head el add =
     do {
       _ \<leftarrow> head;
       if next_of (h el) = Some el then Some (set_prev add (Some add) (set_next add (Some add) h), Some add)
       else do {
         let h1 = set_next add (next_of (h el)) h;
         let h2 = set_prev add (prev_of (h1 el)) h1;
         n \<leftarrow> next_of (h2 add);
         let h3 = set_prev n (Some add) h2;
         p \<leftarrow> prev_of (h3 add);
         let h4 = set_next p (Some add) h3;
         Some (h4, if head = Some el then Some add else head)
       }
     }"

definition CDL_PREPEND_ELEM :: "store \<Rightarrow> ptr \<Rightarrow> nat \<Rightarrow> nat \<Rightarrow> (store \<times> ptr) option" where
  "CDL_PREPEND_ELEM h head el add =
     do {
       _ \<leftarrow> head;
       let h1 = set_next add (Some el) h;
       let h2 = set_prev add (prev_of (h1 el)) h1;
       let h3 = set_prev el (Some add) h2;
       p \<leftarrow> prev_of (h3 add);
       let h4 = set_next p (Some add) h3;
       Some (h4, if head = Some el then Some add else head)
     }"

section \<open>What a head stands for\<close>

text \<open>Following \<^verbatim>\<open>next\<close> from \<open>p\<close> through \<open>xs\<close> leads to \<open>q\<close>;
  the \<^verbatim>\<open>prev\<close> fields of \<open>xs\<close> lead back, the first one to \<open>q\<close>.\<close>

fun seg :: "store \<Rightarrow> ptr \<Rightarrow> nat list \<Rightarrow> ptr \<Rightarrow> bool" where
  "seg h p [] q \<longleftrightarrow> p = q"
| "seg h p (a # as) q \<longleftrightarrow> p = Some a \<and> seg h (next_of (h a)) as q"

fun prevs :: "store \<Rightarrow> ptr \<Rightarrow> nat list \<Rightarrow> bool" where
  "prevs h q [] \<longleftrightarrow> True"
| "prevs h q (a # as) \<longleftrightarrow> prev_of (h a) = q \<and> prevs h (Some a) as"

definition ll :: "store \<Rightarrow> ptr \<Rightarrow> nat list \<Rightarrow> bool" where
  "ll h p xs \<longleftrightarrow> seg h p xs None"

lemma seg_append [simp]: "seg h p (xs @ ys) q \<longleftrightarrow> (\<exists>r. seg h p xs r \<and> seg h r ys q)"
  by (induction xs arbitrary: p) auto

lemma seg_frame: "(\<And>a. a \<in> set xs \<Longrightarrow> next_of (h' a) = next_of (h a)) \<Longrightarrow> seg h' p xs q = seg h p xs q"
  by (induction xs arbitrary: p) auto

lemma seg_set_next [simp]: "b \<notin> set xs \<Longrightarrow> seg (set_next b r h) p xs q = seg h p xs q"
  by (rule seg_frame) auto

lemma seg_set_prev [simp]: "seg (set_prev b r h) p xs q = seg h p xs q"
  by (rule seg_frame) auto

lemma prevs_append [simp]:
  "prevs h q (xs @ ys) \<longleftrightarrow> prevs h q xs \<and> prevs h (if xs = [] then q else Some (last xs)) ys"
  by (induction xs arbitrary: q) auto

lemma prevs_frame: "(\<And>a. a \<in> set xs \<Longrightarrow> prev_of (h' a) = prev_of (h a)) \<Longrightarrow> prevs h' q xs = prevs h q xs"
  by (induction xs arbitrary: q) auto

lemma prevs_set_prev [simp]: "b \<notin> set xs \<Longrightarrow> prevs (set_prev b r h) q xs = prevs h q xs"
  by (rule prevs_frame) auto

lemma prevs_set_next [simp]: "prevs (set_next b r h) q xs = prevs h q xs"
  by (rule prevs_frame) auto

lemma seg_unique: "seg h p xs None \<Longrightarrow> seg h p ys None \<Longrightarrow> xs = ys"
proof (induction xs arbitrary: p ys)
  case Nil
  then show ?case by (cases ys) auto
next
  case (Cons a xs)
  then show ?case by (cases ys) auto
qed

lemma ll_distinct: "ll h p xs \<Longrightarrow> distinct xs"
  unfolding ll_def
proof (induction xs arbitrary: p)
  case (Cons a xs)
  have "a \<notin> set xs"
  proof
    assume "a \<in> set xs"
    then obtain us vs where xs: "xs = us @ a # vs" by (meson split_list)
    from Cons.prems have "seg h (Some a) (a # xs) None" by simp
    moreover have "seg h (Some a) (a # vs) None" using Cons.prems by (auto simp: xs)
    ultimately have "a # xs = a # vs" by (rule seg_unique)
    then show False by (simp add: xs)
  qed
  with Cons show ?case by auto
qed simp

lemma ll_Nil [simp]: "ll h p [] \<longleftrightarrow> p = None"
  by (simp add: ll_def)

section \<open>The loops of the singly linked macros\<close>

lemma to_tail_last: "seg h (Some a) (ws @ [b]) None \<Longrightarrow> to_tail h a = Some b"
proof (induction ws arbitrary: a)
  case Nil
  then show ?case by (subst to_tail.simps) simp
next
  case (Cons c ws)
  then obtain n where n: "next_of (h a) = Some n" "seg h (Some n) (ws @ [b]) None"
    by (cases ws) auto
  with Cons.IH [OF n(2)] show ?case by (subst to_tail.simps) simp
qed

lemma to_before_last:
  "seg h (Some a) (ws @ [b]) q \<Longrightarrow> q = Some el \<or> q = None \<Longrightarrow> el \<notin> set (ws @ [b]) \<Longrightarrow> to_before el h a = Some b"
proof (induction ws arbitrary: a)
  case Nil
  then show ?case by (subst to_before.simps) auto
next
  case (Cons c ws)
  then obtain n where n: "next_of (h a) = Some n" "seg h (Some n) (ws @ [b]) q" "n \<noteq> el"
    by (cases ws) auto
  moreover have "el \<notin> set (ws @ [b])" using Cons.prems(3) by simp
  ultimately show ?case using Cons.IH [OF n(2) Cons.prems(2)] by (subst to_before.simps) simp
qed

lemma seg_head: "seg h p (ws @ [b]) q \<Longrightarrow> \<exists>a. p = Some a \<and> a \<in> set (ws @ [b])"
  by (cases ws) auto

lemma seg_foreach: "seg h p xs None \<Longrightarrow> LL_FOREACH2 h p = Some xs"
  by (induction xs arbitrary: p) (subst LL_FOREACH2.simps; simp)+

lemma seg_search: "seg h p xs None \<Longrightarrow> LL_SEARCH2 P h p = Some (find P xs)"
  by (induction xs arbitrary: p) (subst LL_SEARCH2.simps; simp)+

text \<open>A body that leaves the links of the later elements alone, for instance one that frees its
  element, sees every element.\<close>

lemma seg_foreach_safe:
  assumes "\<And>a h b. b \<noteq> a \<Longrightarrow> next_of (body a h b) = next_of (h b)"
  shows "seg h p xs None \<Longrightarrow> distinct xs \<Longrightarrow> LL_FOREACH_SAFE2 body h p = Some (fold body xs h, xs)"
proof (induction xs arbitrary: h p)
  case Nil
  then show ?case by (subst LL_FOREACH_SAFE2.simps) simp
next
  case (Cons a as)
  have "next_of (body a h b) = next_of (h b)" if "b \<in> set as" for b
    using that Cons.prems(2) by (intro assms) auto
  then have "seg (body a h) (next_of (h a)) as None"
    using Cons.prems by (subst seg_frame [of as _ h]) simp_all
  with Cons show ?case by (subst LL_FOREACH_SAFE2.simps) simp
qed

section \<open>The singly linked macros are the list operations\<close>

lemma LL_PREPEND2_correct:
  assumes "ll h head xs" and "add \<notin> set xs"
  shows "\<exists>h' head'. LL_PREPEND2 h head add = Some (h', head') \<and> ll h' head' (add # xs)"
  using assms by (simp add: LL_PREPEND2_def ll_def)

lemma LL_CONCAT2_correct:
  assumes "ll h head1 xs" and "ll h head2 ys" and "set xs \<inter> set ys = {}"
  shows "\<exists>h' head'. LL_CONCAT2 h head1 head2 = Some (h', head') \<and> ll h' head' (xs @ ys)"
proof (cases xs rule: rev_cases)
  case Nil
  with assms show ?thesis by (simp add: LL_CONCAT2_def)
next
  case (snoc us b)
  then obtain a where a: "head1 = Some a" using assms(1) seg_head [of h head1 us b None] by (auto simp: ll_def)
  with assms(1) snoc have "to_tail h a = Some b" by (intro to_tail_last [of h a us b]) (simp add: ll_def)
  moreover have "b \<notin> set us" "b \<notin> set ys"
    using ll_distinct [OF assms(1)] assms(3) snoc by auto
  ultimately show ?thesis
    using assms(1,2) snoc a by (auto simp: LL_CONCAT2_def ll_def)
qed

lemma LL_APPEND2_correct:
  assumes "ll h head xs" and "add \<notin> set xs"
  shows "\<exists>h' head'. LL_APPEND2 h head add = Some (h', head') \<and> ll h' head' (xs @ [add])"
proof -
  have "LL_APPEND2 h head add = LL_CONCAT2 (set_next add None h) head (Some add)"
    by (simp add: LL_APPEND2_def LL_CONCAT2_def Let_def split: option.split)
  moreover have "ll (set_next add None h) head xs" "ll (set_next add None h) (Some add) [add]"
    using assms by (simp_all add: ll_def)
  ultimately show ?thesis using LL_CONCAT2_correct [of _ head xs "Some add" "[add]"] assms(2) by simp
qed

lemma LL_DELETE2_correct:
  assumes "ll h head (us @ del # vs)"
  shows "\<exists>h' head'. LL_DELETE2 h head del = Some (h', head') \<and> ll h' head' (us @ vs)"
proof (cases us rule: rev_cases)
  case Nil
  with assms show ?thesis by (simp add: LL_DELETE2_def ll_def)
next
  case (snoc ws b)
  have d: "distinct (us @ del # vs)" using assms by (rule ll_distinct)
  have s: "seg h head (ws @ [b]) (Some del)" using assms snoc by (auto simp: ll_def)
  then obtain a where a: "head = Some a" "a \<noteq> del" using seg_head [OF s] d snoc by auto
  have "to_before del h a = Some b"
    using s a d snoc by (intro to_before_last [of h a ws b "Some del"]) auto
  moreover have "b \<notin> set ws" "b \<notin> set vs" using d by (auto simp: snoc)
  ultimately show ?thesis
    using assms a by (auto simp: snoc LL_DELETE2_def ll_def)
qed

lemma LL_DELETE2_missing:
  assumes "ll h head xs" and "del \<notin> set xs" and "xs \<noteq> []"
  shows "LL_DELETE2 h head del = Some (h, head)"
proof -
  obtain ws b where xs: "xs = ws @ [b]" using assms(3) rev_exhaust by blast
  then have s: "seg h head (ws @ [b]) None" using assms(1) by (simp add: ll_def)
  then obtain a where a: "head = Some a" "a \<noteq> del" using seg_head [OF s] assms(2) xs by auto
  have "to_before del h a = Some b"
    using s a assms(2) xs by (intro to_before_last [of h a ws b None]) auto
  moreover have "next_of (h b) = None" using s by auto
  ultimately show ?thesis using a by (simp add: LL_DELETE2_def)
qed

text \<open>The compiler workarounds do what the plain macros do.\<close>

lemma chase_next_tail:
  assumes "seg h (Some a) (ws @ [b]) None" and "add \<notin> set (ws @ [b])"
  shows "chase_next add (set_next add (Some a) h) = Some (set_next add (Some b) h)"
  using assms
proof (induction ws arbitrary: a)
  case Nil
  then show ?case by (subst chase_next.simps) simp
next
  case (Cons c ws)
  then obtain n where n: "next_of (h a) = Some n" "seg h (Some n) (ws @ [b]) None" "a \<noteq> add"
    by (cases ws) auto
  moreover have "add \<notin> set (ws @ [b])" using Cons.prems(2) by simp
  ultimately show ?case using Cons.IH [OF n(2)] by (subst chase_next.simps) simp
qed

lemma LL_APPEND2_VS2008_eq:
  assumes "ll h head xs" and "add \<notin> set xs"
  shows "LL_APPEND2_VS2008 h head add = LL_APPEND2 h head add"
proof (cases xs rule: rev_cases)
  case Nil
  with assms show ?thesis by (simp add: LL_APPEND2_VS2008_def LL_APPEND2_def)
next
  case (snoc ws b)
  with assms have s: "seg h head (ws @ [b]) None" and add: "add \<notin> set (ws @ [b])"
    by (simp_all add: ll_def)
  obtain a where a: "head = Some a" using seg_head [OF s] by blast
  have "seg (set_next add None h) (Some a) (ws @ [b]) None" using s add a by simp
  then have "to_tail (set_next add None h) a = Some b" by (rule to_tail_last)
  moreover have "b \<noteq> add" using add by auto
  moreover have "chase_next add (set_next add (Some a) h) = Some (set_next add (Some b) h)"
    using s a add by (intro chase_next_tail) auto
  ultimately show ?thesis
    using a by (simp add: LL_APPEND2_VS2008_def LL_APPEND2_def Let_def set_next_commute)
qed

lemma LL_DELETE2_VS2008_eq: "LL_DELETE2_VS2008 h head del = LL_DELETE2 h head del"
  by (cases head) (auto simp: LL_DELETE2_VS2008_def LL_DELETE2_def Let_def split: Option.bind_split)

lemma LL_PREPEND_ELEM_correct:
  assumes "ll h head (us @ el # vs)" and "add \<notin> set (us @ el # vs)"
  shows "\<exists>h' head'. LL_PREPEND_ELEM h head el add = Some (h', head') \<and> ll h' head' (us @ add # el # vs)"
proof (cases us rule: rev_cases)
  case Nil
  with assms show ?thesis by (simp add: LL_PREPEND_ELEM_def ll_def)
next
  case (snoc ws b)
  let ?h1 = "set_next add (Some el) h"
  have d: "distinct (us @ el # vs)" using assms(1) by (rule ll_distinct)
  have s: "seg ?h1 head (ws @ [b]) (Some el)" using assms snoc by (auto simp: ll_def)
  then obtain a where a: "head = Some a" "a \<noteq> el" using seg_head [OF s] d snoc by auto
  have "to_before el ?h1 a = Some b"
    using s a d snoc by (intro to_before_last [of ?h1 a ws b "Some el"]) (auto simp del: seg_append)
  moreover have "b \<notin> set ws" "b \<notin> set vs" "b \<noteq> el" "b \<noteq> add"
    using d assms(2) by (auto simp: snoc)
  ultimately show ?thesis
    using assms a by (auto simp: snoc LL_PREPEND_ELEM_def ll_def Let_def)
qed

lemma LL_REPLACE_ELEM_correct:
  assumes "ll h head (us @ el # vs)" and "add \<notin> set (us @ el # vs)"
  shows "\<exists>h' head'. LL_REPLACE_ELEM h head el add = Some (h', head') \<and> ll h' head' (us @ add # vs)"
proof (cases us rule: rev_cases)
  case Nil
  with assms show ?thesis by (simp add: LL_REPLACE_ELEM_def ll_def)
next
  case (snoc ws b)
  let ?h1 = "set_next add (next_of (h el)) h"
  have d: "distinct (us @ el # vs)" using assms(1) by (rule ll_distinct)
  have s: "seg ?h1 head (ws @ [b]) (Some el)" using assms snoc by (auto simp: ll_def)
  then obtain a where a: "head = Some a" "a \<noteq> el" using seg_head [OF s] d snoc by auto
  have "to_before el ?h1 a = Some b"
    using s a d snoc by (intro to_before_last [of ?h1 a ws b "Some el"]) (auto simp del: seg_append)
  moreover have "b \<notin> set ws" "b \<notin> set vs" "b \<noteq> el" "b \<noteq> add"
    using d assms(2) by (auto simp: snoc)
  ultimately show ?thesis
    using assms a by (auto simp: snoc LL_REPLACE_ELEM_def ll_def Let_def)
qed

section \<open>The doubly linked macros are the list operations\<close>

text \<open>Both ends of a list in sight.\<close>

lemma ends_cases:
  obtains "xs = []" | a where "xs = [a]" | a ws b where "xs = a # ws @ [b]"
proof (cases xs)
  case (Cons a as)
  then show ?thesis using that by (cases as rule: rev_cases) auto
qed (rule that)

definition dl :: "store \<Rightarrow> ptr \<Rightarrow> nat list \<Rightarrow> bool" where
  "dl h p xs \<longleftrightarrow> seg h p xs None \<and> (xs \<noteq> [] \<longrightarrow> prevs h (Some (last xs)) xs)"

lemma dl_ll: "dl h p xs \<Longrightarrow> ll h p xs"
  by (simp add: dl_def ll_def)

lemmas dl_distinct = ll_distinct [OF dl_ll]

lemma DL_PREPEND2_correct:
  assumes "dl h head xs" and "add \<notin> set xs"
  shows "\<exists>h' head'. DL_PREPEND2 h head add = Some (h', head') \<and> dl h' head' (add # xs)"
  using assms dl_distinct [OF assms(1)]
  by (cases xs) (auto simp: DL_PREPEND2_def dl_def)

lemma DL_APPEND2_correct:
  assumes "dl h head xs" and "add \<notin> set xs"
  shows "\<exists>h' head'. DL_APPEND2 h head add = Some (h', head') \<and> dl h' head' (xs @ [add])"
proof (cases xs)
  case Nil
  with assms show ?thesis by (simp add: DL_APPEND2_def dl_def)
next
  case (Cons a as)
  then show ?thesis
    using assms dl_distinct [OF assms(1)]
    by (cases as rule: rev_cases) (auto simp: DL_APPEND2_def dl_def)
qed

lemma DL_CONCAT2_correct:
  assumes "dl h head1 xs" and "dl h head2 ys" and "set xs \<inter> set ys = {}"
  shows "\<exists>h' head'. DL_CONCAT2 h head1 head2 = Some (h', head') \<and> dl h' head' (xs @ ys)"
proof (cases "xs = [] \<or> ys = []")
  case True
  with assms show ?thesis
    by (cases ys) (auto simp: DL_CONCAT2_def dl_def split: option.split)
next
  case False
  then obtain a as b bs where xs: "xs = a # as" and ys: "ys = b # bs" by (meson neq_Nil_conv)
  show ?thesis
    using assms dl_distinct [OF assms(1)] dl_distinct [OF assms(2)]
    by (cases as rule: rev_cases; cases bs rule: rev_cases)
      (auto simp: DL_CONCAT2_def dl_def xs ys)
qed

lemma DL_DELETE2_correct:
  assumes "dl h head (us @ del # vs)"
  shows "\<exists>h' head'. DL_DELETE2 h head del = Some (h', head') \<and> dl h' head' (us @ vs)"
  using assms dl_distinct [OF assms]
  by (cases us rule: ends_cases; cases vs rule: ends_cases)
    (auto simp: DL_DELETE2_def dl_def)

lemma DL_REPLACE_ELEM_correct:
  assumes "dl h head (us @ el # vs)" and "add \<notin> set (us @ el # vs)"
  shows "\<exists>h' head'. DL_REPLACE_ELEM h head el add = Some (h', head') \<and> dl h' head' (us @ add # vs)"
  using assms dl_distinct [OF assms(1)]
  by (cases us rule: ends_cases; cases vs rule: ends_cases)
    (auto simp: DL_REPLACE_ELEM_def dl_def)

lemma DL_PREPEND_ELEM_correct:
  assumes "dl h head (us @ el # vs)" and "add \<notin> set (us @ el # vs)"
  shows "\<exists>h' head'. DL_PREPEND_ELEM h head el add = Some (h', head') \<and> dl h' head' (us @ add # el # vs)"
  using assms dl_distinct [OF assms(1)]
  by (cases us rule: ends_cases; cases vs rule: ends_cases)
    (auto simp: DL_PREPEND_ELEM_def dl_def)

section \<open>The circular macros are the list operations\<close>

definition cdl :: "store \<Rightarrow> ptr \<Rightarrow> nat list \<Rightarrow> bool" where
  "cdl h p xs \<longleftrightarrow>
     (if xs = [] then p = None
      else distinct xs \<and> seg h p xs (Some (hd xs)) \<and> prevs h (Some (last xs)) xs)"

lemma CDL_PREPEND2_correct:
  assumes "cdl h head xs" and "add \<notin> set xs"
  shows "\<exists>h' head'. CDL_PREPEND2 h head add = Some (h', head') \<and> cdl h' head' (add # xs)"
proof (cases xs)
  case Nil
  with assms show ?thesis by (simp add: CDL_PREPEND2_def cdl_def)
next
  case (Cons a as)
  with assms show ?thesis
    by (cases as rule: rev_cases) (auto simp: CDL_PREPEND2_def cdl_def)
qed

lemma CDL_DELETE2_correct:
  assumes "cdl h head (us @ del # vs)"
  shows "\<exists>h' head'. CDL_DELETE2 h head del = Some (h', head') \<and> cdl h' head' (us @ vs)"
  using assms
  by (cases us rule: ends_cases; cases vs rule: ends_cases)
    (auto simp: CDL_DELETE2_def cdl_def)

lemma CDL_REPLACE_ELEM_correct:
  assumes "cdl h head (us @ el # vs)" and "add \<notin> set (us @ el # vs)"
  shows "\<exists>h' head'. CDL_REPLACE_ELEM h head el add = Some (h', head') \<and> cdl h' head' (us @ add # vs)"
  using assms
  by (cases us rule: ends_cases; cases vs rule: ends_cases)
    (auto simp: CDL_REPLACE_ELEM_def cdl_def)

lemma CDL_PREPEND_ELEM_correct:
  assumes "cdl h head (us @ el # vs)" and "add \<notin> set (us @ el # vs)"
  shows "\<exists>h' head'. CDL_PREPEND_ELEM h head el add = Some (h', head') \<and> cdl h' head' (us @ add # el # vs)"
  using assms
  by (cases us rule: ends_cases; cases vs rule: ends_cases)
    (auto simp: CDL_PREPEND_ELEM_def cdl_def)

lemma cdl_foreach_seg:
  "seg h p as head \<Longrightarrow> as \<noteq> [] \<Longrightarrow> head = Some b \<Longrightarrow> b \<notin> set (tl as) \<Longrightarrow> CDL_FOREACH2 h head p = Some as"
proof (induction as arbitrary: p)
  case (Cons a as)
  have "CDL_FOREACH2 h head None = Some []" by (subst CDL_FOREACH2.simps) simp
  with Cons show ?case
    by (subst CDL_FOREACH2.simps) (cases as; auto simp: cdl_next_def)
qed simp

lemma CDL_FOREACH2_correct:
  assumes "cdl h head xs"
  shows "CDL_FOREACH2 h head head = Some xs"
proof (cases xs)
  case Nil
  with assms show ?thesis by (subst CDL_FOREACH2.simps) (simp add: cdl_def)
next
  case (Cons a as)
  with assms have "seg h head xs head" "head = Some a" "a \<notin> set as" by (auto simp: cdl_def)
  with Cons show ?thesis by (intro cdl_foreach_seg [of h head xs head a]) auto
qed

lemma cdl_search_seg:
  "seg h p as head \<Longrightarrow> as \<noteq> [] \<Longrightarrow> head = Some b \<Longrightarrow> b \<notin> set (tl as) \<Longrightarrow> cdl_search P h head p = Some (find P as)"
proof (induction as arbitrary: p)
  case (Cons a as)
  have "cdl_search P h head None = Some None" by (subst cdl_search.simps) simp
  with Cons show ?case
    by (subst cdl_search.simps) (cases as; auto simp: cdl_next_def)
qed simp

lemma CDL_SEARCH2_correct:
  assumes "cdl h head xs"
  shows "CDL_SEARCH2 P h head = Some (find P xs)"
proof (cases xs)
  case Nil
  with assms show ?thesis unfolding CDL_SEARCH2_def by (subst cdl_search.simps) (simp add: cdl_def)
next
  case (Cons a as)
  with assms have "seg h head xs head" "head = Some a" "a \<notin> set as" by (auto simp: cdl_def)
  with Cons show ?thesis
    unfolding CDL_SEARCH2_def by (intro cdl_search_seg [of h head xs head a]) auto
qed

lemma cdl_foreach_safe_seg:
  assumes "\<And>a h b. b \<noteq> a \<Longrightarrow> next_of (body a h b) = next_of (h b)"
  shows "seg h p (as @ [b]) q \<Longrightarrow> distinct (as @ [b]) \<Longrightarrow>
    cdl_foreach_safe body (Some b) h p = Some (fold body (as @ [b]) h, as @ [b])"
proof (induction as arbitrary: h p)
  case Nil
  have "cdl_foreach_safe body (Some b) h None = Some (h, [])" for h
    by (subst cdl_foreach_safe.simps) simp
  with Nil show ?case by (subst cdl_foreach_safe.simps) simp
next
  case (Cons a as)
  have "next_of (body a h c) = next_of (h c)" if "c \<in> set (as @ [b])" for c
    using that Cons.prems(2) by (intro assms) auto
  then have "seg (body a h) (next_of (h a)) (as @ [b]) q"
    using Cons.prems(1) by (subst seg_frame [of "as @ [b]" _ h]) simp_all
  with Cons show ?case by (subst cdl_foreach_safe.simps) simp
qed

lemma CDL_FOREACH_SAFE2_correct:
  assumes "cdl h head xs" and "\<And>a h b. b \<noteq> a \<Longrightarrow> next_of (body a h b) = next_of (h b)"
  shows "CDL_FOREACH_SAFE2 body h head = Some (fold body xs h, xs)"
proof (cases xs rule: rev_cases)
  case Nil
  with assms(1) show ?thesis
    unfolding CDL_FOREACH_SAFE2_def by (subst cdl_foreach_safe.simps) (simp add: cdl_def)
next
  case (snoc as b)
  with assms(1) have s: "seg h head (as @ [b]) (Some (hd xs))" "distinct (as @ [b])"
    and "prevs h (Some b) (as @ [b])" by (simp_all add: cdl_def)
  moreover obtain a where "head = Some a" "prev_of (h a) = Some b"
    using s(1) calculation(3) by (cases as) auto
  ultimately show ?thesis
    using cdl_foreach_safe_seg [of body h head as b, OF assms(2) s] snoc by (simp add: CDL_FOREACH_SAFE2_def)
qed

end
