(* ===== verification/Utlist_Sort.thy ===== *)
theory Utlist_Sort
  imports Utlist "HOL-Library.Multiset"
begin

text \<open>
  The sort macros of utlist.h, bottom-up merge sorts that relink the elements in passes over runs of
  doubling length. The lemmas relate a pass to \<open>merge_pass\<close> on the list the pointers stand for;
  the result is the library's stable \<open>sort_key\<close>, for each of the three kinds of list.

  \<^verbatim>\<open>LL_SORT2\<close>, \<^verbatim>\<open>DL_SORT2\<close> and \<^verbatim>\<open>CDL_SORT2\<close> are one text with
  the same variables; they differ in how the successor of an element is read (in a circular list the
  old head stands for NULL), in whether \<^verbatim>\<open>prev\<close> is set, and in how the list is closed after a
  pass. \<open>cmp\<close> reads the elements' data, which no macro changes.
\<close>

datatype list_kind = LL | DL | CDL

definition advance :: "list_kind \<Rightarrow> ptr \<Rightarrow> store \<Rightarrow> nat \<Rightarrow> ptr" where
  "advance k oldhead h a = (if k = CDL \<and> next_of (h a) = oldhead then None else next_of (h a))"

text \<open>The for loop that moves \<^verbatim>\<open>_ls_q\<close> past the first run.\<close>

fun step_q :: "list_kind \<Rightarrow> ptr \<Rightarrow> store \<Rightarrow> nat \<Rightarrow> ptr \<Rightarrow> nat \<Rightarrow> (ptr \<times> nat) option" where
  "step_q k oldhead h 0 q psize = Some (q, psize)"
| "step_q k oldhead h (Suc i) q psize =
     do {
       a \<leftarrow> q;
       let q' = advance k oldhead h a;
       if q' = None then Some (q', psize + 1) else step_q k oldhead h i q' (psize + 1)
     }"

text \<open>Linking \<^verbatim>\<open>_ls_e\<close> behind \<^verbatim>\<open>_ls_tail\<close>.\<close>

definition emit :: "list_kind \<Rightarrow> nat \<Rightarrow> store \<times> ptr \<times> ptr \<Rightarrow> store \<times> ptr \<times> ptr" where
  "emit k e out =
     (case out of (h, list, tail) \<Rightarrow>
        let (h1, list1) = (case tail of Some t \<Rightarrow> (set_next t (Some e) h, list) | None \<Rightarrow> (h, Some e));
            h2 = (if k = LL then h1 else set_prev e tail h1)
        in (h2, list1, Some e))"

text \<open>The loop that merges two runs; it leaves \<^verbatim>\<open>_ls_q\<close> behind the second.\<close>

function merge_runs ::
    "list_kind \<Rightarrow> (nat \<Rightarrow> nat \<Rightarrow> int) \<Rightarrow> ptr \<Rightarrow> store \<times> ptr \<times> ptr \<Rightarrow> ptr \<Rightarrow> ptr \<Rightarrow> nat \<Rightarrow> nat
     \<Rightarrow> ((store \<times> ptr \<times> ptr) \<times> ptr) option" where
  "merge_runs k cmp oldhead out p q psize qsize =
     (if \<not> (psize > 0 \<or> (qsize > 0 \<and> q \<noteq> None)) then Some (out, q)
      else if psize = 0 \<or>
          (\<not> (qsize = 0 \<or> q = None) \<and> p \<noteq> None \<and> \<not> cmp (the p) (the q) \<le> 0)
        then (case q of
                None \<Rightarrow> None
              | Some e \<Rightarrow> merge_runs k cmp oldhead (emit k e out) p (advance k oldhead (fst out) e) psize (qsize - 1))
      else (case p of
              None \<Rightarrow> None
            | Some e \<Rightarrow> merge_runs k cmp oldhead (emit k e out) (advance k oldhead (fst out) e) q (psize - 1) qsize))"
  by pat_completeness auto
termination
  by (relation "measure (\<lambda>(k, cmp, oldhead, out, p, q, psize, qsize). psize + qsize)") auto

declare merge_runs.simps [simp del]

text \<open>One pass over the list, and what closes it.\<close>

partial_function (option) sort_pass ::
    "list_kind \<Rightarrow> (nat \<Rightarrow> nat \<Rightarrow> int) \<Rightarrow> ptr \<Rightarrow> nat \<Rightarrow> store \<times> ptr \<times> ptr \<Rightarrow> ptr \<Rightarrow> nat
     \<Rightarrow> ((store \<times> ptr \<times> ptr) \<times> nat) option" where
  "sort_pass k cmp oldhead insize out p nmerges =
     (if p = None then Some (out, nmerges)
      else do {
        (q, psize) \<leftarrow> step_q k oldhead (fst out) insize p 0;
        (out', q') \<leftarrow> merge_runs k cmp oldhead out p q psize insize;
        sort_pass k cmp oldhead insize out' q' (nmerges + 1)
      })"

definition close_list :: "list_kind \<Rightarrow> store \<times> ptr \<times> ptr \<Rightarrow> store option" where
  "close_list k out =
     (case out of (h, list, tail) \<Rightarrow>
        (case k of
           LL \<Rightarrow> Some (case tail of None \<Rightarrow> h | Some t \<Rightarrow> set_next t None h)
         | DL \<Rightarrow> do { a \<leftarrow> list; t \<leftarrow> tail; Some (set_next t None (set_prev a tail h)) }
         | CDL \<Rightarrow> do { a \<leftarrow> list; t \<leftarrow> tail; Some (set_next t list (set_prev a tail h)) }))"

partial_function (option) sort_loop ::
    "list_kind \<Rightarrow> (nat \<Rightarrow> nat \<Rightarrow> int) \<Rightarrow> nat \<Rightarrow> store \<Rightarrow> ptr \<Rightarrow> (store \<times> ptr) option" where
  "sort_loop k cmp insize h list =
     do {
       (out, nmerges) \<leftarrow> sort_pass k cmp list insize (h, None, None) list 0;
       h' \<leftarrow> close_list k out;
       if nmerges \<le> 1 then Some (h', fst (snd out)) else sort_loop k cmp (insize * 2) h' (fst (snd out))
     }"

definition sort2 :: "list_kind \<Rightarrow> (nat \<Rightarrow> nat \<Rightarrow> int) \<Rightarrow> store \<Rightarrow> ptr \<Rightarrow> (store \<times> ptr) option" where
  "sort2 k cmp h list = (if list = None then Some (h, None) else sort_loop k cmp 1 h list)"

definition LL_SORT2 :: "(nat \<Rightarrow> nat \<Rightarrow> int) \<Rightarrow> store \<Rightarrow> ptr \<Rightarrow> (store \<times> ptr) option" where
  "LL_SORT2 cmp h list = sort2 LL cmp h list"

definition DL_SORT2 :: "(nat \<Rightarrow> nat \<Rightarrow> int) \<Rightarrow> store \<Rightarrow> ptr \<Rightarrow> (store \<times> ptr) option" where
  "DL_SORT2 cmp h list = sort2 DL cmp h list"

definition CDL_SORT2 :: "(nat \<Rightarrow> nat \<Rightarrow> int) \<Rightarrow> store \<Rightarrow> ptr \<Rightarrow> (store \<times> ptr) option" where
  "CDL_SORT2 cmp h list = sort2 CDL cmp h list"

section \<open>Following a run\<close>

fun walk :: "(nat \<Rightarrow> ptr) \<Rightarrow> ptr \<Rightarrow> nat list \<Rightarrow> ptr \<Rightarrow> bool" where
  "walk adv p [] q \<longleftrightarrow> p = q"
| "walk adv p (a # as) q \<longleftrightarrow> p = Some a \<and> walk adv (adv a) as q"

lemma walk_append [simp]: "walk adv p (xs @ ys) q \<longleftrightarrow> (\<exists>r. walk adv p xs r \<and> walk adv r ys q)"
  by (induction xs arbitrary: p) auto

lemma walk_frame: "(\<And>a. a \<in> set xs \<Longrightarrow> adv' a = adv a) \<Longrightarrow> walk adv' p xs q = walk adv p xs q"
  by (induction xs arbitrary: p) auto

lemma advance_cong: "next_of (h' a) = next_of (h a) \<Longrightarrow> advance k oh h' a = advance k oh h a"
  by (simp add: advance_def)

lemma walk_store:
  "(\<And>a. a \<in> set xs \<Longrightarrow> next_of (h' a) = next_of (h a)) \<Longrightarrow>
   walk (advance k oh h') p xs q = walk (advance k oh h) p xs q"
  by (intro walk_frame advance_cong)

lemma step_q_walk:
  assumes "walk (advance k oh h) p xs None" and "xs \<noteq> []" and "0 < n"
  shows "\<exists>q. step_q k oh h n p m = Some (q, m + length (take n xs)) \<and>
    walk (advance k oh h) p (take n xs) q \<and> walk (advance k oh h) q (drop n xs) None"
  using assms
proof (induction n arbitrary: p xs m)
  case (Suc n)
  then obtain a as where xs: "xs = a # as" by (cases xs) auto
  with Suc.prems have p: "p = Some a" "walk (advance k oh h) (advance k oh h a) as None" by auto
  show ?case
  proof (cases "n = 0 \<or> as = []")
    case True
    with p xs show ?thesis by (auto simp: Let_def)
  next
    case False
    then obtain b where "advance k oh h a = Some b" using p(2) by (cases as) auto
    with Suc.IH [OF p(2), of "Suc m"] False p xs show ?thesis by (auto simp: Let_def)
  qed
qed simp

section \<open>Merging two runs\<close>

fun merge_by :: "('a \<Rightarrow> 'a \<Rightarrow> int) \<Rightarrow> 'a list \<Rightarrow> 'a list \<Rightarrow> 'a list" where
  "merge_by cmp [] ys = ys"
| "merge_by cmp (x # xs) [] = x # xs"
| "merge_by cmp (x # xs) (y # ys) =
     (if cmp x y \<le> 0 then x # merge_by cmp xs (y # ys) else y # merge_by cmp (x # xs) ys)"

lemma merge_by_Nil2 [simp]: "merge_by cmp xs [] = xs"
  by (cases xs) auto

text \<open>What has been linked so far.\<close>

definition emitted :: "list_kind \<Rightarrow> store \<times> ptr \<times> ptr \<Rightarrow> nat list \<Rightarrow> bool" where
  "emitted k out xs \<longleftrightarrow>
     (case out of (h, list, tail) \<Rightarrow>
        (\<exists>r. seg h list xs (if xs = [] then None else r)) \<and>
        tail = (if xs = [] then None else Some (last xs)) \<and> (k = LL \<or> prevs h None xs))"

lemma emitted_start: "emitted k (h, None, None) []"
  by (simp add: emitted_def)

lemma emit_emitted:
  assumes "emitted k out xs" and "e \<notin> set xs" and "distinct xs"
  shows "emitted k (emit k e out) (xs @ [e])"
  using assms
  by (cases out; cases xs rule: rev_cases) (auto simp: emitted_def emit_def)

lemma emit_frame:
  assumes "emitted k out xs" and "a \<notin> set xs"
  shows "next_of (fst (emit k e out) a) = next_of (fst out a)"
  using assms
  by (cases out; cases xs rule: rev_cases) (auto simp: emitted_def emit_def)

lemma emit_walk:
  assumes "emitted k out os" and "set os \<inter> set xs = {}"
  shows "walk (advance k oh (fst (emit k e out))) p xs q = walk (advance k oh (fst out)) p xs q"
  using assms by (intro walk_store emit_frame) auto

lemma merge_runs_correct:
  assumes "walk (advance k oh (fst out)) p xs r" and "walk (advance k oh (fst out)) q (ys @ zs) None"
    and "qsize = length ys \<or> (length ys < qsize \<and> zs = [])" and "psize = length xs"
    and "emitted k out os" and "distinct (os @ xs @ ys @ zs)"
  shows "\<exists>out' q'. merge_runs k cmp oh out p q psize qsize = Some (out', q') \<and>
    emitted k out' (os @ merge_by cmp xs ys) \<and> walk (advance k oh (fst out')) q' zs None"
  using assms
proof (induction k cmp oh out p q psize qsize arbitrary: xs ys os rule: merge_runs.induct)
  case (1 k cmp oh out p q psize qsize)
  note step = merge_runs.simps [of k cmp oh out p q psize qsize]
  have left: "qsize > 0 \<and> q \<noteq> None \<longleftrightarrow> ys \<noteq> []"
    using "1.prems"(2,3) by (cases ys) auto
  show ?case
  proof (cases "xs = [] \<and> ys = []")
    case True
    with left "1.prems" show ?thesis by (subst step) auto
  next
    case False
    show ?thesis
    proof (cases "xs = [] \<or> (ys \<noteq> [] \<and> \<not> cmp (hd xs) (hd ys) \<le> 0)")
      case True
      with False obtain y ys' where ys: "ys = y # ys'" by (cases ys) auto
      then have q: "q = Some y" using "1.prems"(2) by simp
      have p: "xs \<noteq> [] \<longrightarrow> p = Some (hd xs)" using "1.prems"(1) by (cases xs) auto
      have cond: "psize = 0 \<or> (\<not> (qsize = 0 \<or> q = None) \<and> p \<noteq> None \<and> \<not> cmp (the p) (the q) \<le> 0)"
        using True p q left "1.prems"(4) by (auto simp: ys)
      have "\<exists>out' q'. merge_runs k cmp oh (emit k y out) p (advance k oh (fst out) y) psize (qsize - 1) =
          Some (out', q') \<and> emitted k out' ((os @ [y]) @ merge_by cmp xs ys') \<and>
          walk (advance k oh (fst out')) q' zs None"
      proof (rule "1.IH"(1))
        show "\<not> \<not> (psize > 0 \<or> (qsize > 0 \<and> q \<noteq> None))" using left by (simp add: ys)
        show "emitted k (emit k y out) (os @ [y])"
          using "1.prems"(5,6) by (intro emit_emitted) (auto simp: ys)
        show "walk (advance k oh (fst (emit k y out))) p xs r"
          using "1.prems"(1,6) by (subst emit_walk [OF "1.prems"(5)]) auto
        show "walk (advance k oh (fst (emit k y out))) (advance k oh (fst out) y) (ys' @ zs) None"
          using "1.prems"(2,6) by (subst emit_walk [OF "1.prems"(5)]) (auto simp: ys simp del: walk_append)
      qed (use "1.prems"(3,4,6) cond q in \<open>auto simp: ys\<close>)
      moreover have "merge_by cmp xs ys = y # merge_by cmp xs ys'"
        using True by (cases xs) (auto simp: ys)
      ultimately show ?thesis using cond q left by (subst step) (auto simp: ys)
    next
      case False
      then obtain x xs' where xs: "xs = x # xs'" by (cases xs) auto
      then have p: "p = Some x" using "1.prems"(1) by simp
      have cond: "\<not> (psize = 0 \<or> (\<not> (qsize = 0 \<or> q = None) \<and> p \<noteq> None \<and> \<not> cmp (the p) (the q) \<le> 0))"
        using False p left "1.prems"(2,4) by (cases ys) (auto simp: xs)
      have "\<exists>out' q'. merge_runs k cmp oh (emit k x out) (advance k oh (fst out) x) q (psize - 1) qsize =
          Some (out', q') \<and> emitted k out' ((os @ [x]) @ merge_by cmp xs' ys) \<and>
          walk (advance k oh (fst out')) q' zs None"
      proof (rule "1.IH"(2))
        show "\<not> \<not> (psize > 0 \<or> (qsize > 0 \<and> q \<noteq> None))" using "1.prems"(4) by (simp add: xs)
        show "emitted k (emit k x out) (os @ [x])"
          using "1.prems"(5,6) by (intro emit_emitted) (auto simp: xs)
        show "walk (advance k oh (fst (emit k x out))) (advance k oh (fst out) x) xs' r"
          using "1.prems"(1,6) by (subst emit_walk [OF "1.prems"(5)]) (auto simp: xs)
        show "walk (advance k oh (fst (emit k x out))) q (ys @ zs) None"
          using "1.prems"(2,6) by (subst emit_walk [OF "1.prems"(5)]) (auto simp del: walk_append)
      qed (use "1.prems"(3,4,6) cond p in \<open>auto simp: xs\<close>)
      moreover have "merge_by cmp xs ys = x # merge_by cmp xs' ys"
        using False by (cases ys) (auto simp: xs)
      ultimately show ?thesis using cond p "1.prems"(4) by (subst step) (auto simp: xs)
    qed
  qed
qed

section \<open>A pass\<close>

function merge_pass :: "('a \<Rightarrow> 'a \<Rightarrow> int) \<Rightarrow> nat \<Rightarrow> 'a list \<Rightarrow> 'a list" where
  "merge_pass cmp n xs =
     (if xs = [] \<or> n = 0 then []
      else merge_by cmp (take n xs) (take n (drop n xs)) @ merge_pass cmp n (drop n (drop n xs)))"
  by pat_completeness auto
termination
  by (relation "measure (\<lambda>(cmp, n, xs). length xs)") auto

declare merge_pass.simps [simp del]

lemma set_merge_by: "set (merge_by cmp xs ys) = set xs \<union> set ys"
  by (induction cmp xs ys rule: merge_by.induct) auto

lemma distinct_merge_by: "distinct xs \<Longrightarrow> distinct ys \<Longrightarrow> set xs \<inter> set ys = {} \<Longrightarrow> distinct (merge_by cmp xs ys)"
  by (induction cmp xs ys rule: merge_by.induct) (auto simp: set_merge_by)

text \<open>The number of merges of a pass.\<close>

definition merges :: "nat \<Rightarrow> nat \<Rightarrow> nat" where
  "merges n len = (len + 2 * n - 1) div (2 * n)"

lemma merges_Nil: "0 < n \<Longrightarrow> merges n 0 = 0"
  by (simp add: merges_def)

lemma merges_step: "0 < n \<Longrightarrow> 0 < len \<Longrightarrow> merges n len = Suc (merges n (len - n - n))"
  by (cases "len \<le> 2 * n") (auto simp: merges_def le_div_geq div_eq_dividend_iff not_le)

lemma sort_pass_correct:
  assumes "walk (advance k oh (fst out)) p xs None" and "emitted k out os" and "distinct (os @ xs)" and "0 < n"
  shows "\<exists>out'. sort_pass k cmp oh n out p m = Some (out', m + merges n (length xs)) \<and>
    emitted k out' (os @ merge_pass cmp n xs)"
  using assms
proof (induction "length xs" arbitrary: xs os out p m rule: less_induct)
  case less
  show ?case
  proof (cases "xs = []")
    case True
    with less.prems show ?thesis
      by (subst sort_pass.simps) (simp add: merge_pass.simps merges_Nil)
  next
    case False
    let ?xs = "take n xs" and ?ys = "take n (drop n xs)" and ?zs = "drop n (drop n xs)"
    obtain q where q: "step_q k oh (fst out) n p 0 = Some (q, length ?xs)"
        "walk (advance k oh (fst out)) p ?xs q" "walk (advance k oh (fst out)) q (drop n xs) None"
      using step_q_walk [OF less.prems(1) False less.prems(4), of 0] by auto
    have dist: "distinct (os @ ?xs @ ?ys @ ?zs)" using less.prems(3) by (simp only: append_take_drop_id)
    have len: "n = length ?ys \<or> length ?ys < n \<and> ?zs = []" by auto
    have "walk (advance k oh (fst out)) q (?ys @ ?zs) None" using q(3) by (simp only: append_take_drop_id)
    from merge_runs_correct [OF q(2) this len refl less.prems(2) dist, of cmp]
    obtain out' q' where m: "merge_runs k cmp oh out p q (length ?xs) n = Some (out', q')"
        "emitted k out' (os @ merge_by cmp ?xs ?ys)" "walk (advance k oh (fst out')) q' ?zs None"
      by blast
    have d: "distinct ((os @ merge_by cmp ?xs ?ys) @ ?zs)"
      using dist by (auto simp: distinct_merge_by set_merge_by Int_Un_distrib)
    have "length ?zs < length xs" using False less.prems(4) by (cases xs) auto
    from less.hyps [OF this m(3,2) d less.prems(4), of "m + 1"]
    obtain out'' where "sort_pass k cmp oh n out' q' (m + 1) = Some (out'', m + 1 + merges n (length ?zs))"
        "emitted k out'' ((os @ merge_by cmp ?xs ?ys) @ merge_pass cmp n ?zs)" by auto
    moreover have "p \<noteq> None" using less.prems(1) False by (cases xs) auto
    moreover have "merges n (length xs) = Suc (merges n (length ?zs))"
      using merges_step [of n "length xs"] False less.prems(4) by simp
    ultimately show ?thesis
      using False less.prems(4) q(1) m(1)
      by (subst sort_pass.simps) (cases out''; simp add: merge_pass.simps [of cmp n xs])
  qed
qed

section \<open>Starting and closing a pass\<close>

definition stands_for :: "list_kind \<Rightarrow> store \<Rightarrow> ptr \<Rightarrow> nat list \<Rightarrow> bool" where
  "stands_for k = (case k of LL \<Rightarrow> ll | DL \<Rightarrow> dl | CDL \<Rightarrow> cdl)"

lemma stands_for_distinct: "stands_for k h p xs \<Longrightarrow> distinct xs"
  by (cases k) (auto simp: stands_for_def cdl_def split: if_splits intro: ll_distinct dl_distinct)

lemma walk_plain: "k \<noteq> CDL \<Longrightarrow> walk (advance k oh h) p xs q = seg h p xs q"
  by (induction xs arbitrary: p) (auto simp: advance_def)

lemma walk_circular:
  "seg h p xs oh \<Longrightarrow> xs \<noteq> [] \<Longrightarrow> oh = Some b \<Longrightarrow> b \<notin> set (tl xs) \<Longrightarrow> walk (advance CDL oh h) p xs None"
proof (induction xs arbitrary: p)
  case (Cons a as)
  then show ?case by (cases as) (auto simp: advance_def)
qed simp

lemma stands_for_walk: "stands_for k h p xs \<Longrightarrow> walk (advance k p h) p xs None"
proof (cases k)
  case CDL
  assume "stands_for k h p xs"
  with CDL walk_circular [of h p xs p "hd xs"] show ?thesis
    by (cases xs) (auto simp: stands_for_def cdl_def)
qed (simp_all add: stands_for_def walk_plain ll_def dl_def)

lemma close_list_correct:
  assumes "emitted k out xs" and "distinct xs" and "xs \<noteq> []"
  shows "\<exists>h'. close_list k out = Some h' \<and> stands_for k h' (fst (snd out)) xs"
  using assms
  by (cases out; cases k; cases xs rule: ends_cases)
    (auto simp: emitted_def close_list_def stands_for_def ll_def dl_def cdl_def)

section \<open>The passes sort\<close>

lemma merge_pass_set: "0 < n \<Longrightarrow> set (merge_pass cmp n xs) = set xs"
proof (induction cmp n xs rule: merge_pass.induct)
  case (1 cmp n xs)
  show ?case
  proof (cases "xs = []")
    case False
    with 1 have "set (merge_pass cmp n xs) = set (take n xs) \<union> set (take n (drop n xs)) \<union> set (drop n (drop n xs))"
      by (subst merge_pass.simps) (auto simp: set_merge_by)
    then show ?thesis by (metis append_take_drop_id set_append Un_assoc)
  qed (simp add: merge_pass.simps)
qed

lemma length_merge_by: "length (merge_by cmp xs ys) = length xs + length ys"
  by (induction cmp xs ys rule: merge_by.induct) auto

lemma length_merge_pass: "0 < n \<Longrightarrow> length (merge_pass cmp n xs) = length xs"
proof (induction cmp n xs rule: merge_pass.induct)
  case (1 cmp n xs)
  then show ?case by (subst merge_pass.simps) (auto simp: length_merge_by min_def)
qed

lemma distinct_merge_pass: "0 < n \<Longrightarrow> distinct xs \<Longrightarrow> distinct (merge_pass cmp n xs)"
proof (induction cmp n xs rule: merge_pass.induct)
  case (1 cmp n xs)
  let ?xs = "take n xs" and ?ys = "take n (drop n xs)" and ?zs = "drop n (drop n xs)"
  have "distinct (?xs @ ?ys @ ?zs)" using "1.prems"(2) by (simp only: append_take_drop_id)
  with 1 show ?case
    by (subst merge_pass.simps) (auto simp: distinct_merge_by set_merge_by merge_pass_set Int_Un_distrib)
qed

text \<open>A comparison that orders the elements by a key.\<close>

definition compares :: "(nat \<Rightarrow> nat \<Rightarrow> int) \<Rightarrow> (nat \<Rightarrow> 'k::linorder) \<Rightarrow> bool" where
  "compares cmp key \<longleftrightarrow> (\<forall>a b. cmp a b \<le> 0 \<longleftrightarrow> key a \<le> key b)"

definition runs_sorted :: "('a \<Rightarrow> 'k::linorder) \<Rightarrow> nat \<Rightarrow> 'a list \<Rightarrow> bool" where
  "runs_sorted key n xs \<longleftrightarrow> (\<forall>i. sorted (map key (take n (drop (i * n) xs))))"

lemma runs_sorted_start: "runs_sorted key 1 xs"
proof -
  have "sorted (map key (take 1 ys))" for ys by (cases ys) auto
  then show ?thesis by (simp add: runs_sorted_def)
qed

lemma runs_sorted_take: "runs_sorted key n xs \<Longrightarrow> sorted (map key (take n xs))"
  unfolding runs_sorted_def by (metis drop0 mult_0)

lemma runs_sorted_drop: "runs_sorted key n xs \<Longrightarrow> runs_sorted key n (drop n xs)"
  unfolding runs_sorted_def by (metis drop_drop mult_Suc add.commute)

lemma runs_sorted_append:
  assumes "sorted (map key xs)" and "runs_sorted key n ys" and "length xs = n \<or> (length xs < n \<and> ys = [])"
  shows "runs_sorted key n (xs @ ys)"
  unfolding runs_sorted_def
proof
  fix i
  show "sorted (map key (take n (drop (i * n) (xs @ ys))))"
  proof (cases i)
    case 0
    with assms(1,3) show ?thesis by auto
  next
    case (Suc j)
    then have "take n (drop (i * n) (xs @ ys)) = take n (drop (j * n) ys)"
      using assms(3) by auto
    with assms(2) show ?thesis by (simp add: runs_sorted_def)
  qed
qed

lemma comparesD: "compares cmp key \<Longrightarrow> cmp a b \<le> 0 \<longleftrightarrow> key a \<le> key b"
  unfolding compares_def by blast

lemma merge_by_sorted:
  assumes "compares cmp key" and "sorted (map key xs)" and "sorted (map key ys)"
  shows "sorted (map key (merge_by cmp xs ys))"
  using assms
proof (induction cmp xs ys rule: merge_by.induct)
  case (3 cmp x xs y ys)
  show ?case
  proof (cases "cmp x y \<le> 0")
    case True
    then have "key x \<le> key y" using comparesD [OF "3.prems"(1), of x y] by simp
    with 3 True show ?thesis by (auto simp: set_merge_by)
  next
    case False
    then have "key y \<le> key x" using comparesD [OF "3.prems"(1), of x y] by simp
    with 3 False show ?thesis by (auto simp: set_merge_by)
  qed
qed auto

lemma merge_by_stable:
  assumes "compares cmp key"
  shows "sorted (map key xs) \<Longrightarrow> sorted (map key ys) \<Longrightarrow>
    filter (\<lambda>x. key x = v) (merge_by cmp xs ys) = filter (\<lambda>x. key x = v) xs @ filter (\<lambda>x. key x = v) ys"
  using assms
proof (induction cmp xs ys rule: merge_by.induct)
  case (3 cmp x xs y ys)
  show ?case
  proof (cases "cmp x y \<le> 0")
    case True
    with 3 show ?thesis by simp
  next
    case False
    then have "key y < key x" using comparesD [OF "3.prems"(3), of x y] by simp
    moreover have "filter (\<lambda>z. key z = v) (x # xs) = []" if "key y = v"
      using that \<open>key y < key x\<close> "3.prems"(1) by (auto simp: filter_empty_conv)
    ultimately show ?thesis using 3 False by auto
  qed
qed auto

lemma merge_pass_unfold:
  "xs \<noteq> [] \<Longrightarrow> 0 < n \<Longrightarrow> merge_pass cmp n xs =
     merge_by cmp (take n xs) (take n (drop n xs)) @ merge_pass cmp n (drop n (drop n xs))"
  by (subst merge_pass.simps) simp

lemma merge_pass_runs:
  assumes "compares cmp key" and "0 < n" and "runs_sorted key n xs"
  shows "runs_sorted key (n * 2) (merge_pass cmp n xs) \<and>
    filter (\<lambda>x. key x = v) (merge_pass cmp n xs) = filter (\<lambda>x. key x = v) xs"
  using assms(3)
proof (induction "length xs" arbitrary: xs rule: less_induct)
  case less
  show ?case
  proof (cases "xs = []")
    case True
    then show ?thesis by (simp add: merge_pass.simps runs_sorted_def)
  next
    case False
    let ?xs = "take n xs" and ?ys = "take n (drop n xs)" and ?zs = "drop n (drop n xs)"
    let ?m = "merge_by cmp ?xs ?ys"
    have r: "runs_sorted key n (drop n xs)" "runs_sorted key n ?zs"
      by (rule runs_sorted_drop [OF less.prems], rule runs_sorted_drop [OF runs_sorted_drop [OF less.prems]])
    have s: "sorted (map key ?xs)" "sorted (map key ?ys)"
      by (rule runs_sorted_take [OF less.prems], rule runs_sorted_take [OF r(1)])
    have "length ?zs < length xs" using False assms(2) by (cases xs) auto
    note IH = less.hyps [OF this r(2)]
    have "length ?m = n * 2 \<or> (length ?m < n * 2 \<and> merge_pass cmp n ?zs = [])"
      by (auto simp: length_merge_by merge_pass.simps min_def)
    then have "runs_sorted key (n * 2) (?m @ merge_pass cmp n ?zs)"
      using merge_by_sorted [OF assms(1) s] IH by (intro runs_sorted_append) auto
    moreover have "filter (\<lambda>x. key x = v) (?m @ merge_pass cmp n ?zs) =
        filter (\<lambda>x. key x = v) (?xs @ ?ys @ ?zs)"
      using merge_by_stable [OF assms(1) s, of v] IH by simp
    ultimately show ?thesis
      using merge_pass_unfold [OF False assms(2), of cmp] by (simp only: append_take_drop_id)
  qed
qed

lemma merges_le_1: "0 < n \<Longrightarrow> merges n len \<le> 1 \<longleftrightarrow> len \<le> n * 2"
  by (auto simp: merges_def less_eq_div_iff_mult_less_eq div_le_dividend less_Suc_eq_le [symmetric]
      div_less_iff_less_mult)

section \<open>The whole sort\<close>

lemma sort_key_merge_pass:
  assumes "compares cmp key" and "0 < n" and "runs_sorted key n xs" and "distinct xs"
  shows "sort_key key (merge_pass cmp n xs) = sort_key key xs"
proof (rule properties_for_sort_key [symmetric])
  have "mset (merge_pass cmp n xs) = mset xs"
    using assms(2,4) by (simp add: merge_pass_set distinct_merge_pass flip: set_eq_iff_mset_eq_distinct)
  then show "mset (sort_key key (merge_pass cmp n xs)) = mset xs" by simp
  show "filter (\<lambda>x. key v = key x) (sort_key key (merge_pass cmp n xs)) = filter (\<lambda>x. key v = key x) xs" for v
    using merge_pass_runs [OF assms(1-3), of "key v"] sort_key_stable [of key "key v" "merge_pass cmp n xs"]
    by (simp add: eq_commute [of "key v"])
qed simp

text \<open>One round of the while loop; the sort is done when a pass made at most one merge.\<close>

lemma sort_round:
  assumes "stands_for k h p xs" and "xs \<noteq> []" and "0 < n"
  shows "\<exists>h' p'. stands_for k h' p' (merge_pass cmp n xs) \<and>
    sort_loop k cmp n h p = (if length xs \<le> n * 2 then Some (h', p') else sort_loop k cmp (n * 2) h' p')"
proof -
  have "walk (advance k p (fst (h, None, None))) p xs None" using stands_for_walk [OF assms(1)] by simp
  from sort_pass_correct [OF this emitted_start _ assms(3), of cmp 0]
  obtain out where out: "sort_pass k cmp p n (h, None, None) p 0 = Some (out, merges n (length xs))"
      "emitted k out (merge_pass cmp n xs)"
    using stands_for_distinct [OF assms(1)] by auto
  have "merge_pass cmp n xs \<noteq> []"
    using length_merge_pass [OF assms(3), of cmp xs] assms(2) by auto
  from close_list_correct [OF out(2) distinct_merge_pass [OF assms(3) stands_for_distinct [OF assms(1)]] this]
  obtain h' where "close_list k out = Some h'" "stands_for k h' (fst (snd out)) (merge_pass cmp n xs)"
    by blast
  then show ?thesis
    using out(1) merges_le_1 [OF assms(3), of "length xs"]
    by (intro exI [of _ h'] exI [of _ "fst (snd out)"]) (subst sort_loop.simps, simp)
qed

lemma sort_loop_correct:
  assumes key: "compares cmp key" and "0 < n" and "stands_for k h p xs" and "xs \<noteq> []"
    and "runs_sorted key n xs" and "length xs \<le> n * 2 ^ Suc j"
  shows "\<exists>h' p'. sort_loop k cmp n h p = Some (h', p') \<and> stands_for k h' p' (sort_key key xs)"
  using assms(2-)
proof (induction j arbitrary: n h p xs)
  case 0
  obtain h' p' where r: "stands_for k h' p' (merge_pass cmp n xs)"
      "sort_loop k cmp n h p = (if length xs \<le> n * 2 then Some (h', p') else sort_loop k cmp (n * 2) h' p')"
    using sort_round [OF "0.prems"(2,3,1), of cmp] by blast
  have "sorted (map key (merge_pass cmp n xs))"
    using merge_pass_runs [OF key "0.prems"(1,4)] runs_sorted_take [of key "n * 2" "merge_pass cmp n xs"]
      "0.prems"(1,5) by (simp add: length_merge_pass)
  then have "sort_key key (merge_pass cmp n xs) = merge_pass cmp n xs" by (rule sort_key_id_if_sorted)
  then have "merge_pass cmp n xs = sort_key key xs"
    using sort_key_merge_pass [OF key "0.prems"(1,4) stands_for_distinct [OF "0.prems"(2)]] by simp
  with r "0.prems"(5) show ?case by simp
next
  case (Suc j)
  obtain h' p' where r: "stands_for k h' p' (merge_pass cmp n xs)"
      "sort_loop k cmp n h p = (if length xs \<le> n * 2 then Some (h', p') else sort_loop k cmp (n * 2) h' p')"
    using sort_round [OF Suc.prems(2,3,1), of cmp] by blast
  note same = sort_key_merge_pass [OF key Suc.prems(1,4) stands_for_distinct [OF Suc.prems(2)]]
  show ?case
  proof (cases "length xs \<le> n * 2")
    case True
    have "sorted (map key (merge_pass cmp n xs))"
      using merge_pass_runs [OF key Suc.prems(1,4)] runs_sorted_take [of key "n * 2" "merge_pass cmp n xs"]
        Suc.prems(1) True by (simp add: length_merge_pass)
    then have "sort_key key (merge_pass cmp n xs) = merge_pass cmp n xs" by (rule sort_key_id_if_sorted)
    with r same True show ?thesis by simp
  next
    case False
    have len: "length (merge_pass cmp n xs) = length xs" using Suc.prems(1) by (rule length_merge_pass)
    have "\<exists>h'' p''. sort_loop k cmp (n * 2) h' p' = Some (h'', p'') \<and>
        stands_for k h'' p'' (sort_key key (merge_pass cmp n xs))"
    proof (rule Suc.IH)
      show "runs_sorted key (n * 2) (merge_pass cmp n xs)"
        using merge_pass_runs [OF key Suc.prems(1,4)] by blast
      show "merge_pass cmp n xs \<noteq> []" using len Suc.prems(3) by auto
    qed (use r(1) Suc.prems(1,5) len in auto)
    with r(2) same False show ?thesis by simp
  qed
qed

lemma sort2_correct:
  assumes "compares cmp key" and "stands_for k h p xs"
  shows "\<exists>h' p'. sort2 k cmp h p = Some (h', p') \<and> stands_for k h' p' (sort_key key xs)"
proof (cases "xs = []")
  case True
  with assms(2) have "p = None" by (cases k) (auto simp: stands_for_def dl_def cdl_def)
  with True show ?thesis
    by (cases k) (auto simp: sort2_def stands_for_def dl_def cdl_def)
next
  case False
  with stands_for_walk [OF assms(2)] have "p \<noteq> None" by (cases xs) auto
  have "length xs \<le> 1 * 2 ^ Suc (length xs)"
    using less_exp [of "Suc (length xs)"] by simp
  from sort_loop_correct [OF assms(1) _ assms(2) False runs_sorted_start this] \<open>p \<noteq> None\<close>
  show ?thesis by (auto simp: sort2_def)
qed

section \<open>What the three families have in common\<close>

type_synonym macro = "store \<Rightarrow> ptr \<Rightarrow> nat \<Rightarrow> (store \<times> ptr) option"

text \<open>The same macro for every element of a list.\<close>

fun for_all :: "macro \<Rightarrow> store \<Rightarrow> ptr \<Rightarrow> nat list \<Rightarrow> (store \<times> ptr) option" where
  "for_all op h p [] = Some (h, p)"
| "for_all op h p (a # as) = do { (h', p') \<leftarrow> op h p a; for_all op h' p' as }"

locale list_macros =
  fixes stands :: "store \<Rightarrow> ptr \<Rightarrow> nat list \<Rightarrow> bool"
    and prepend delete :: macro
    and prepend_elem replace_elem :: "store \<Rightarrow> ptr \<Rightarrow> nat \<Rightarrow> nat \<Rightarrow> (store \<times> ptr) option"
    and sort :: "(nat \<Rightarrow> nat \<Rightarrow> int) \<Rightarrow> store \<Rightarrow> ptr \<Rightarrow> (store \<times> ptr) option"
  assumes no_elements: "stands h p [] \<longleftrightarrow> p = None"
    and no_repetition: "stands h p xs \<Longrightarrow> distinct xs"
    and prepends: "stands h p xs \<Longrightarrow> a \<notin> set xs \<Longrightarrow> \<exists>h' p'. prepend h p a = Some (h', p') \<and> stands h' p' (a # xs)"
    and deletes: "stands h p (us @ a # vs) \<Longrightarrow> \<exists>h' p'. delete h p a = Some (h', p') \<and> stands h' p' (us @ vs)"
    and puts_before: "stands h p (us @ b # vs) \<Longrightarrow> a \<notin> set (us @ b # vs) \<Longrightarrow>
      \<exists>h' p'. prepend_elem h p b a = Some (h', p') \<and> stands h' p' (us @ a # b # vs)"
    and replaces: "stands h p (us @ b # vs) \<Longrightarrow> a \<notin> set (us @ b # vs) \<Longrightarrow>
      \<exists>h' p'. replace_elem h p b a = Some (h', p') \<and> stands h' p' (us @ a # vs)"
    and sorts: "compares cmp (key :: nat \<Rightarrow> int) \<Longrightarrow> stands h p xs \<Longrightarrow>
      \<exists>h' p'. sort cmp h p = Some (h', p') \<and> stands h' p' (sort_key key xs)"
begin

text \<open>Building a list, and taking it apart in any order.\<close>

lemma prepend_all:
  "stands h p xs \<Longrightarrow> distinct as \<Longrightarrow> set as \<inter> set xs = {} \<Longrightarrow>
   \<exists>h' p'. for_all prepend h p as = Some (h', p') \<and> stands h' p' (rev as @ xs)"
proof (induction as arbitrary: h p xs)
  case (Cons a as)
  then obtain h1 p1 where h1: "prepend h p a = Some (h1, p1)" "stands h1 p1 (a # xs)"
    using prepends [of h p xs a] by auto
  with Cons.IH [OF h1(2)] Cons.prems show ?case by auto
qed simp

lemma delete_all:
  "stands h p xs \<Longrightarrow> mset as = mset xs \<Longrightarrow> \<exists>h'. for_all delete h p as = Some (h', None)"
proof (induction as arbitrary: h p xs)
  case Nil
  then show ?case using no_elements by simp
next
  case (Cons a as)
  have "a \<in> set xs" using Cons.prems(2) by (metis list.set_intros(1) mset_eq_setD)
  then obtain us vs where xs: "xs = us @ a # vs" by (meson split_list)
  then obtain h1 p1 where "delete h p a = Some (h1, p1)" "stands h1 p1 (us @ vs)"
    using deletes [of h p us a vs] Cons.prems(1) by blast
  moreover have "mset as = mset (us @ vs)" using Cons.prems(2) xs by simp
  ultimately show ?case using Cons.IH by fastforce
qed

text \<open>Replacing an element is putting the new one before it and deleting it.\<close>

lemma replace_as_insert_delete:
  assumes "stands h p (us @ b # vs)" and "a \<notin> set (us @ b # vs)"
  shows "\<exists>h1 p1 h2 p2 h3 p3. replace_elem h p b a = Some (h1, p1) \<and>
    prepend_elem h p b a = Some (h2, p2) \<and> delete h2 p2 b = Some (h3, p3) \<and>
    stands h1 p1 (us @ a # vs) \<and> stands h3 p3 (us @ a # vs)"
proof -
  obtain h2 p2 where h2: "prepend_elem h p b a = Some (h2, p2)" "stands h2 p2 ((us @ [a]) @ b # vs)"
    using puts_before [OF assms] by auto
  with deletes [OF h2(2)] replaces [OF assms] show ?thesis by fastforce
qed

lemma build_and_sort:
  assumes "compares cmp (key :: nat \<Rightarrow> int)" and "distinct as"
  shows "\<exists>h1 p1 h2 p2. for_all prepend h None as = Some (h1, p1) \<and> sort cmp h1 p1 = Some (h2, p2) \<and>
    stands h2 p2 (sort_key key (rev as))"
proof -
  obtain h1 p1 where "for_all prepend h None as = Some (h1, p1)" "stands h1 p1 (rev as)"
    using prepend_all [of h None "[]" as] no_elements assms(2) by auto
  with sorts [OF assms(1)] show ?thesis by blast
qed

end

lemma stands_for_simps: "stands_for LL = ll" "stands_for DL = dl" "stands_for CDL = cdl"
  by (simp_all add: stands_for_def)

interpretation singly: list_macros ll LL_PREPEND2 LL_DELETE2 LL_PREPEND_ELEM LL_REPLACE_ELEM LL_SORT2
  by unfold_locales (simp_all add: ll_distinct LL_PREPEND2_correct LL_DELETE2_correct
      LL_PREPEND_ELEM_correct LL_REPLACE_ELEM_correct LL_SORT2_def
      sort2_correct [of _ _ LL, unfolded stands_for_simps])

interpretation doubly: list_macros dl DL_PREPEND2 DL_DELETE2 DL_PREPEND_ELEM DL_REPLACE_ELEM DL_SORT2
  by unfold_locales (simp_all add: dl_def [of _ _ "[]"] dl_distinct DL_PREPEND2_correct DL_DELETE2_correct
      DL_PREPEND_ELEM_correct DL_REPLACE_ELEM_correct DL_SORT2_def
      sort2_correct [of _ _ DL, unfolded stands_for_simps])

interpretation circular: list_macros cdl CDL_PREPEND2 CDL_DELETE2 CDL_PREPEND_ELEM CDL_REPLACE_ELEM CDL_SORT2
  by unfold_locales (simp_all add: cdl_def [of _ _ "[]"] CDL_PREPEND2_correct CDL_DELETE2_correct
      CDL_PREPEND_ELEM_correct CDL_REPLACE_ELEM_correct CDL_SORT2_def
      stands_for_distinct [of CDL, unfolded stands_for_simps]
      sort2_correct [of _ _ CDL, unfolded stands_for_simps])

end
