(* ===== verification/Utlist_Properties.thy ===== *)
theory Utlist_Properties
  imports Utlist_Sort
begin

text \<open>
  The properties of utlist.h: the operations of each family are the list operations, the loops see
  every element, the compiler workarounds are equivalent to the plain macros, and the sorts sort
  stably.
\<close>

text \<open>Three elements linked as each kind of list, for the witnesses.\<close>

definition three :: "ptr \<Rightarrow> store" where
  "three end_next a =
     (if a = 1 then \<lparr>next_of = Some 2, prev_of = Some 3\<rparr>
      else if a = 2 then \<lparr>next_of = Some 3, prev_of = Some 1\<rparr>
      else \<lparr>next_of = end_next, prev_of = Some 2\<rparr>)"

lemma three_ll: "ll (three None) (Some 1) [1, 2, 3]"
  by (simp add: ll_def three_def)

lemma three_dl: "dl (three None) (Some 1) [1, 2, 3]"
  by (simp add: dl_def three_def)

lemma three_cdl: "cdl (three (Some 1)) (Some 1) [1, 2, 3]"
  by (simp add: cdl_def three_def)

text \<open>The operations of each family together, on a list that is split at one element.\<close>

lemma ll_operations:
  assumes "ll h head (us @ el # vs)" and "add \<notin> set (us @ el # vs)"
    and "ll h head2 ys" and "set (us @ el # vs) \<inter> set ys = {}"
  shows "(\<exists>h' p. LL_PREPEND2 h head add = Some (h', p) \<and> ll h' p (add # us @ el # vs)) \<and>
    (\<exists>h' p. LL_APPEND2 h head add = Some (h', p) \<and> ll h' p (us @ el # vs @ [add])) \<and>
    (\<exists>h' p. LL_CONCAT2 h head head2 = Some (h', p) \<and> ll h' p (us @ el # vs @ ys)) \<and>
    (\<exists>h' p. LL_DELETE2 h head el = Some (h', p) \<and> ll h' p (us @ vs)) \<and>
    (\<exists>h' p. LL_REPLACE_ELEM h head el add = Some (h', p) \<and> ll h' p (us @ add # vs)) \<and>
    (\<exists>h' p. LL_PREPEND_ELEM h head el add = Some (h', p) \<and> ll h' p (us @ add # el # vs)) \<and>
    LL_DELETE2 h head add = Some (h, head)"
  using LL_PREPEND2_correct [OF assms(1,2)] LL_APPEND2_correct [OF assms(1,2)]
    LL_CONCAT2_correct [OF assms(1,3,4)] LL_DELETE2_correct [OF assms(1)]
    LL_REPLACE_ELEM_correct [OF assms(1,2)] LL_PREPEND_ELEM_correct [OF assms(1,2)]
    LL_DELETE2_missing [OF assms(1,2)]
  by simp

lemma dl_operations:
  assumes "dl h head (us @ el # vs)" and "add \<notin> set (us @ el # vs)"
    and "dl h head2 ys" and "set (us @ el # vs) \<inter> set ys = {}"
  shows "(\<exists>h' p. DL_PREPEND2 h head add = Some (h', p) \<and> dl h' p (add # us @ el # vs)) \<and>
    (\<exists>h' p. DL_APPEND2 h head add = Some (h', p) \<and> dl h' p (us @ el # vs @ [add])) \<and>
    (\<exists>h' p. DL_CONCAT2 h head head2 = Some (h', p) \<and> dl h' p (us @ el # vs @ ys)) \<and>
    (\<exists>h' p. DL_DELETE2 h head el = Some (h', p) \<and> dl h' p (us @ vs)) \<and>
    (\<exists>h' p. DL_REPLACE_ELEM h head el add = Some (h', p) \<and> dl h' p (us @ add # vs)) \<and>
    (\<exists>h' p. DL_PREPEND_ELEM h head el add = Some (h', p) \<and> dl h' p (us @ add # el # vs))"
  using DL_PREPEND2_correct [OF assms(1,2)] DL_APPEND2_correct [OF assms(1,2)]
    DL_CONCAT2_correct [OF assms(1,3,4)] DL_DELETE2_correct [OF assms(1)]
    DL_REPLACE_ELEM_correct [OF assms(1,2)] DL_PREPEND_ELEM_correct [OF assms(1,2)]
  by simp

lemma cdl_operations:
  assumes "cdl h head (us @ el # vs)" and "add \<notin> set (us @ el # vs)"
  shows "(\<exists>h' p. CDL_PREPEND2 h head add = Some (h', p) \<and> cdl h' p (add # us @ el # vs)) \<and>
    (\<exists>h' p. CDL_DELETE2 h head el = Some (h', p) \<and> cdl h' p (us @ vs)) \<and>
    (\<exists>h' p. CDL_REPLACE_ELEM h head el add = Some (h', p) \<and> cdl h' p (us @ add # vs)) \<and>
    (\<exists>h' p. CDL_PREPEND_ELEM h head el add = Some (h', p) \<and> cdl h' p (us @ add # el # vs))"
  using CDL_PREPEND2_correct [OF assms] CDL_DELETE2_correct [OF assms(1)]
    CDL_REPLACE_ELEM_correct [OF assms] CDL_PREPEND_ELEM_correct [OF assms]
  by simp





text \<open>
  The loops: counting gives the length, a search finds the first element that passes or NULL, and
  the safe iteration visits every element once even if the body unlinks or frees the element it is
  given (it may change the links of that element alone). The replacements for compilers without
  \<^verbatim>\<open>decltype\<close>, which loop with the new element's own next field or with the head variable, do exactly
  what the plain macros do.
\<close>

theorem loops_visit_all:
  assumes "ll h1 p1 xs" and "cdl h2 p2 ys"
    and "\<And>a h b. b \<noteq> a \<Longrightarrow> next_of (body a h b) = next_of (h b)" and "add \<notin> set xs"
  shows "LL_COUNT2 h1 p1 = Some (length xs) \<and> LL_SEARCH2 P h1 p1 = Some (find P xs) \<and>
    LL_FOREACH_SAFE2 body h1 p1 = Some (fold body xs h1, xs) \<and>
    CDL_COUNT2 h2 p2 = Some (length ys) \<and> CDL_SEARCH2 P h2 p2 = Some (find P ys) \<and>
    CDL_FOREACH_SAFE2 body h2 p2 = Some (fold body ys h2, ys) \<and>
    LL_APPEND2_VS2008 h1 p1 add = LL_APPEND2 h1 p1 add \<and> LL_DELETE2_VS2008 h1 p1 del = LL_DELETE2 h1 p1 del"
  using assms(1) ll_distinct [OF assms(1)] seg_foreach [of h1 p1 xs] seg_search [of h1 p1 xs P]
    seg_foreach_safe [of body h1 p1 xs, OF assms(3)] CDL_FOREACH2_correct [OF assms(2)]
    CDL_SEARCH2_correct [OF assms(2), of P] CDL_FOREACH_SAFE2_correct [of h2 p2 ys body, OF assms(2,3)]
    LL_APPEND2_VS2008_eq [OF assms(1,4)] LL_DELETE2_VS2008_eq [of h1 p1 del]
  by (simp add: LL_COUNT2_def CDL_COUNT2_def ll_def)

definition free_links :: "nat \<Rightarrow> store \<Rightarrow> store" where
  "free_links a h = set_prev a None (set_next a None h)"

theorem loops_visit_all_witness:
  "CDL_FOREACH_SAFE2 free_links (three (Some 1)) (Some 1) =
    Some (fold free_links [1, 2, 3] (three (Some 1)), [1, 2, 3])"
  using loops_visit_all [OF three_ll three_cdl, of free_links 4 "\<lambda>a. True"] by (simp add: free_links_def)

end
