(* ===== verification/String_View.thy ===== *)
theory String_View
  imports "HOL-Library.Word" "HOL-Library.Char_ord" "HOL-Library.List_Lexorder" "HOL-Library.Sublist"
    "HOL-Library.Monad_Syntax"
begin

text \<open>
  feed/3pp/include/bsoncxx/v_noabi/bsoncxx/third_party/mnmlstc/core/string.hpp:
  \<^verbatim>\<open>core::string_view\<close>, the type of every key and name the program gives to the driver.

  A view is a pointer and a length and owns nothing, so the functions take the memory it points
  into; \<open>None\<close> is a read of memory that does not exist. A position is a
  \<^verbatim>\<open>size_t\<close>. The standard algorithms on iterator ranges are functions on the lists of
  characters; a reverse range is the reversed list. \<open>chars\<close> is the text a view stands for, and
  the lemmas say each operation in terms of it.
\<close>

type_synonym size_t = "64 word"
type_synonym memory = "nat \<Rightarrow> char option"

record string_view =
  sv_str :: "nat option"
  sv_len :: size_t

definition npos :: size_t where
  "npos = - 1"

section \<open>Reading memory\<close>

fun read_chars :: "memory \<Rightarrow> nat \<Rightarrow> nat \<Rightarrow> string option" where
  "read_chars m a 0 = Some []"
| "read_chars m a (Suc n) = do { c \<leftarrow> m a; cs \<leftarrow> read_chars m (Suc a) n; Some (c # cs) }"

text \<open>The range \<^verbatim>\<open>[begin(), end())\<close>; an empty range reads nothing.\<close>

definition chars :: "memory \<Rightarrow> string_view \<Rightarrow> string option" where
  "chars m v =
     (if sv_len v = 0 then Some []
      else do { a \<leftarrow> sv_str v; read_chars m a (unat (sv_len v)) })"

text \<open>\<^verbatim>\<open>traits::length\<close>, the search for the terminating NUL.\<close>

partial_function (option) traits_length :: "memory \<Rightarrow> nat \<Rightarrow> nat option" where
  "traits_length m a =
     do { c \<leftarrow> m a; if c = CHR 0x00 then Some 0 else do { n \<leftarrow> traits_length m (Suc a); Some (Suc n) } }"

section \<open>Construction\<close>

definition sv_make :: "nat option \<Rightarrow> size_t \<Rightarrow> string_view" where
  "sv_make p n = \<lparr>sv_str = p, sv_len = n\<rparr>"

text \<open>From a \<^verbatim>\<open>std::string\<close> with its characters at address \<open>a\<close>.\<close>

definition sv_of_string :: "nat \<Rightarrow> string \<Rightarrow> string_view" where
  "sv_of_string a s = \<lparr>sv_str = Some a, sv_len = word_of_nat (length s)\<rparr>"

definition sv_of_c_str :: "memory \<Rightarrow> nat \<Rightarrow> string_view option" where
  "sv_of_c_str m a = do { n \<leftarrow> traits_length m a; Some (sv_make (Some a) (word_of_nat n)) }"

definition sv_default :: string_view where
  "sv_default = \<lparr>sv_str = None, sv_len = 0\<rparr>"

definition sv_swap :: "string_view \<Rightarrow> string_view \<Rightarrow> string_view \<times> string_view" where
  "sv_swap this that =
     (this\<lparr>sv_str := sv_str that, sv_len := sv_len that\<rparr>,
      that\<lparr>sv_str := sv_str this, sv_len := sv_len this\<rparr>)"

text \<open>Assignment swaps with a copy.\<close>

definition sv_assign :: "string_view \<Rightarrow> string_view \<Rightarrow> string_view" where
  "sv_assign this that = snd (sv_swap (sv_make (sv_str that) (sv_len that)) this)"

definition sv_to_string :: "memory \<Rightarrow> string_view \<Rightarrow> string option" where
  "sv_to_string m v = chars m v"

text \<open>\<^verbatim>\<open>traits::compare(p, q, n)\<close>; the standard fixes only the sign of the
  result.\<close>

fun compare_chars :: "string \<Rightarrow> string \<Rightarrow> int" where
  "compare_chars (x # xs) (y # ys) = (if x < y then - 1 else if y < x then 1 else compare_chars xs ys)"
| "compare_chars _ _ = 0"

definition traits_compare :: "memory \<Rightarrow> nat option \<Rightarrow> nat option \<Rightarrow> size_t \<Rightarrow> int option" where
  "traits_compare m p q n =
     do { xs \<leftarrow> chars m (sv_make p n); ys \<leftarrow> chars m (sv_make q n); Some (compare_chars xs ys) }"

text \<open>Pointer arithmetic stays inside the object the pointer points into.\<close>

definition ptr_plus :: "nat option \<Rightarrow> size_t \<Rightarrow> nat option" where
  "ptr_plus p n = map_option (\<lambda>a. a + unat n) p"

section \<open>Access\<close>

definition sv_empty :: "string_view \<Rightarrow> bool" where
  "sv_empty v \<longleftrightarrow> sv_len v = 0"

definition sv_max_size :: "string_view \<Rightarrow> size_t" where
  "sv_max_size v = sv_len v"

definition sv_begin :: "string_view \<Rightarrow> nat option" where
  "sv_begin v = sv_str v"

definition sv_end :: "string_view \<Rightarrow> nat option" where
  "sv_end v = ptr_plus (sv_str v) (sv_len v)"

definition sv_nth :: "memory \<Rightarrow> string_view \<Rightarrow> size_t \<Rightarrow> char option" where
  "sv_nth m v idx = do { a \<leftarrow> sv_str v; m (a + unat idx) }"

definition sv_front :: "memory \<Rightarrow> string_view \<Rightarrow> char option" where
  "sv_front m v = sv_nth m v 0"

definition sv_back :: "memory \<Rightarrow> string_view \<Rightarrow> char option" where
  "sv_back m v = sv_nth m v (sv_len v - 1)"

datatype sv_error = Start_position_out_of_range | Requested_index_out_of_range

definition sv_at :: "memory \<Rightarrow> string_view \<Rightarrow> size_t \<Rightarrow> (sv_error + char) option" where
  "sv_at m v idx =
     (if sv_len v \<le> idx then Some (Inl Requested_index_out_of_range)
      else map_option Inr (sv_nth m v idx))"

definition sv_remove_prefix :: "string_view \<Rightarrow> size_t \<Rightarrow> string_view" where
  "sv_remove_prefix v n0 =
     (let n = (if sv_len v < n0 then sv_len v else n0)
      in v\<lparr>sv_str := ptr_plus (sv_str v) n, sv_len := sv_len v - n\<rparr>)"

definition sv_remove_suffix :: "string_view \<Rightarrow> size_t \<Rightarrow> string_view" where
  "sv_remove_suffix v n0 =
     (let n = (if sv_len v < n0 then sv_len v else n0) in v\<lparr>sv_len := sv_len v - n\<rparr>)"

definition sv_clear :: "string_view \<Rightarrow> string_view" where
  "sv_clear v = v\<lparr>sv_str := None, sv_len := 0\<rparr>"

text \<open>\<open>pos + n\<close> is an addition of \<^verbatim>\<open>size_t\<close>s.\<close>

definition sv_substr :: "string_view \<Rightarrow> size_t \<Rightarrow> size_t \<Rightarrow> sv_error + string_view" where
  "sv_substr v pos n =
     (if sv_len v < pos then Inl Start_position_out_of_range
      else Inr (sv_make (ptr_plus (sv_str v) pos)
        (if n = npos \<or> sv_len v < pos + n then sv_len v - pos else n)))"

section \<open>Comparison\<close>

definition sv_starts_with_char :: "memory \<Rightarrow> string_view \<Rightarrow> char \<Rightarrow> bool option" where
  "sv_starts_with_char m v c =
     (if sv_empty v then Some False else map_option (\<lambda>d. c = d) (sv_front m v))"

definition sv_ends_with_char :: "memory \<Rightarrow> string_view \<Rightarrow> char \<Rightarrow> bool option" where
  "sv_ends_with_char m v c =
     (if sv_empty v then Some False else map_option (\<lambda>d. c = d) (sv_back m v))"

definition sv_starts_with :: "memory \<Rightarrow> string_view \<Rightarrow> string_view \<Rightarrow> bool option" where
  "sv_starts_with m v w =
     (if sv_len w \<le> sv_len v
      then map_option (\<lambda>c. c = 0) (traits_compare m (sv_str v) (sv_str w) (sv_len w))
      else Some False)"

definition sv_ends_with :: "memory \<Rightarrow> string_view \<Rightarrow> string_view \<Rightarrow> bool option" where
  "sv_ends_with m v w =
     (if sv_len w \<le> sv_len v
      then map_option (\<lambda>c. c = 0)
        (traits_compare m (ptr_plus (sv_str v) (sv_len v - sv_len w)) (sv_str w) (sv_len w))
      else Some False)"

definition sv_compare :: "memory \<Rightarrow> string_view \<Rightarrow> string_view \<Rightarrow> int option" where
  "sv_compare m v w =
     do {
       cmp \<leftarrow> traits_compare m (sv_str v) (sv_str w) (min (sv_len v) (sv_len w));
       Some (if cmp \<noteq> 0 then cmp
             else if sv_len v = sv_len w then 0
             else if sv_len v < sv_len w then - 1
             else 1)
     }"

definition sv_eq :: "memory \<Rightarrow> string_view \<Rightarrow> string_view \<Rightarrow> bool option" where
  "sv_eq m v w =
     (if sv_len v = sv_len w then map_option (\<lambda>c. c = 0) (sv_compare m v w) else Some False)"

definition sv_ne :: "memory \<Rightarrow> string_view \<Rightarrow> string_view \<Rightarrow> bool option" where
  "sv_ne m v w =
     (if sv_len v \<noteq> sv_len w then Some True else map_option (\<lambda>c. c \<noteq> 0) (sv_compare m v w))"

definition sv_ge :: "memory \<Rightarrow> string_view \<Rightarrow> string_view \<Rightarrow> bool option" where
  "sv_ge m v w = map_option (\<lambda>c. c \<ge> 0) (sv_compare m v w)"

definition sv_le :: "memory \<Rightarrow> string_view \<Rightarrow> string_view \<Rightarrow> bool option" where
  "sv_le m v w = map_option (\<lambda>c. c \<le> 0) (sv_compare m v w)"

definition sv_gt :: "memory \<Rightarrow> string_view \<Rightarrow> string_view \<Rightarrow> bool option" where
  "sv_gt m v w = map_option (\<lambda>c. c > 0) (sv_compare m v w)"

definition sv_lt :: "memory \<Rightarrow> string_view \<Rightarrow> string_view \<Rightarrow> bool option" where
  "sv_lt m v w = map_option (\<lambda>c. c < 0) (sv_compare m v w)"

definition sv_put :: "memory \<Rightarrow> string \<Rightarrow> string_view \<Rightarrow> string option" where
  "sv_put m os v = map_option (\<lambda>s. os @ s) (sv_to_string m v)"

text \<open>\<^verbatim>\<open>std::hash\<close> of the pointer; the library's pointer hash is the argument.\<close>

definition sv_hash :: "(nat option \<Rightarrow> size_t) \<Rightarrow> string_view \<Rightarrow> size_t" where
  "sv_hash pointer_hash v = pointer_hash (sv_str v)"

section \<open>Searching\<close>

text \<open>\<^verbatim>\<open>std::search\<close>, \<^verbatim>\<open>std::find_first_of\<close>, \<^verbatim>\<open>std::find\<close> and
  \<^verbatim>\<open>std::find_if_not\<close>: how far the returned iterator is from the start; the length of the
  range for its end.\<close>

fun std_search :: "'a list \<Rightarrow> 'a list \<Rightarrow> nat" where
  "std_search xs ys =
     (if prefix ys xs then 0 else case xs of [] \<Rightarrow> 0 | _ # xs' \<Rightarrow> Suc (std_search xs' ys))"

declare std_search.simps [simp del]

fun std_find_first_of :: "'a list \<Rightarrow> 'a list \<Rightarrow> nat" where
  "std_find_first_of [] ys = 0"
| "std_find_first_of (x # xs) ys = (if x \<in> set ys then 0 else Suc (std_find_first_of xs ys))"

fun std_find :: "'a \<Rightarrow> 'a list \<Rightarrow> nat" where
  "std_find y [] = 0"
| "std_find y (x # xs) = (if x = y then 0 else Suc (std_find y xs))"

fun std_find_if_not :: "('a \<Rightarrow> bool) \<Rightarrow> 'a list \<Rightarrow> nat" where
  "std_find_if_not p [] = 0"
| "std_find_if_not p (x # xs) = (if p x then Suc (std_find_if_not p xs) else 0)"

text \<open>The loops of the two functions that search for a character outside a set; \<open>i\<close> is the
  distance walked.\<close>

fun outside_loop :: "string \<Rightarrow> string \<Rightarrow> nat \<Rightarrow> nat option" where
  "outside_loop [] that i = None"
| "outside_loop (c # cs) that i = (if c \<in> set that then outside_loop cs that (Suc i) else Some i)"

text \<open>\<^verbatim>\<open>if (iter == end) { return npos; }\<close> and the distance, forwards and in reverse.\<close>

definition from_begin :: "string_view \<Rightarrow> nat \<Rightarrow> size_t" where
  "from_begin v i = (if i = unat (sv_len v) then npos else word_of_nat i)"

definition from_rbegin :: "string_view \<Rightarrow> nat \<Rightarrow> size_t" where
  "from_rbegin v i = (if i = unat (sv_len v) then npos else sv_len v - word_of_nat i - 1)"

definition sv_find_first_not_of :: "memory \<Rightarrow> string_view \<Rightarrow> string_view \<Rightarrow> size_t option" where
  "sv_find_first_not_of m v w =
     do {
       xs \<leftarrow> chars m v; ys \<leftarrow> chars m w;
       Some (case outside_loop xs ys 0 of Some i \<Rightarrow> word_of_nat i | None \<Rightarrow> npos)
     }"

definition sv_find_last_not_of :: "memory \<Rightarrow> string_view \<Rightarrow> string_view \<Rightarrow> size_t option" where
  "sv_find_last_not_of m v w =
     do {
       xs \<leftarrow> chars m v; ys \<leftarrow> chars m w;
       Some (case outside_loop (rev xs) ys 0 of Some i \<Rightarrow> sv_len v - word_of_nat i - 1 | None \<Rightarrow> npos)
     }"

definition sv_find_first_of :: "memory \<Rightarrow> string_view \<Rightarrow> string_view \<Rightarrow> size_t option" where
  "sv_find_first_of m v w =
     do { xs \<leftarrow> chars m v; ys \<leftarrow> chars m w; Some (from_begin v (std_find_first_of xs ys)) }"

definition sv_find_last_of :: "memory \<Rightarrow> string_view \<Rightarrow> string_view \<Rightarrow> size_t option" where
  "sv_find_last_of m v w =
     do { xs \<leftarrow> chars m v; ys \<leftarrow> chars m w; Some (from_rbegin v (std_find_first_of (rev xs) (rev ys))) }"

definition sv_rfind :: "memory \<Rightarrow> string_view \<Rightarrow> string_view \<Rightarrow> size_t option" where
  "sv_rfind m v w =
     do { xs \<leftarrow> chars m v; ys \<leftarrow> chars m w; Some (from_rbegin v (std_search (rev xs) (rev ys))) }"

definition sv_find :: "memory \<Rightarrow> string_view \<Rightarrow> string_view \<Rightarrow> size_t option" where
  "sv_find m v w =
     do { xs \<leftarrow> chars m v; ys \<leftarrow> chars m w; Some (from_begin v (std_search xs ys)) }"

text \<open>The overloads for one character.\<close>

definition sv_find_first_not_of_char :: "memory \<Rightarrow> string_view \<Rightarrow> char \<Rightarrow> size_t option" where
  "sv_find_first_not_of_char m v c =
     do { xs \<leftarrow> chars m v; Some (from_begin v (std_find_if_not (\<lambda>d. d = c) xs)) }"

definition sv_find_last_not_of_char :: "memory \<Rightarrow> string_view \<Rightarrow> char \<Rightarrow> size_t option" where
  "sv_find_last_not_of_char m v c =
     do { xs \<leftarrow> chars m v; Some (from_rbegin v (std_find_if_not (\<lambda>d. d = c) (rev xs))) }"

definition sv_rfind_char :: "memory \<Rightarrow> string_view \<Rightarrow> char \<Rightarrow> size_t option" where
  "sv_rfind_char m v c = do { xs \<leftarrow> chars m v; Some (from_rbegin v (std_find c (rev xs))) }"

definition sv_find_char :: "memory \<Rightarrow> string_view \<Rightarrow> char \<Rightarrow> size_t option" where
  "sv_find_char m v c = do { xs \<leftarrow> chars m v; Some (from_begin v (std_find c xs)) }"

definition sv_find_first_of_char :: "memory \<Rightarrow> string_view \<Rightarrow> char \<Rightarrow> size_t option" where
  "sv_find_first_of_char m v c = sv_find_char m v c"

definition sv_find_last_of_char :: "memory \<Rightarrow> string_view \<Rightarrow> char \<Rightarrow> size_t option" where
  "sv_find_last_of_char m v c = sv_rfind_char m v c"

section \<open>The characters of a view\<close>

lemma read_chars_length: "read_chars m a n = Some xs \<Longrightarrow> length xs = n"
  by (induction n arbitrary: a xs) (auto split: bind_splits)

lemma read_chars_add:
  "read_chars m a (i + j) = Some xs \<Longrightarrow> read_chars m a i = Some (take i xs) \<and> read_chars m (a + i) j = Some (drop i xs)"
  by (induction i arbitrary: a xs) (fastforce split: bind_splits)+

lemma chars_length: "chars m v = Some xs \<Longrightarrow> length xs = unat (sv_len v)"
  by (auto simp: chars_def read_chars_length split: if_splits bind_splits)

lemma size_less: "unat (n :: size_t) < 2 ^ 64"
  by (rule order.strict_trans2 [OF unsigned_less]) simp

lemma unat_npos: "unat npos = 2 ^ 64 - 1"
  by (simp add: npos_def unsigned_minus_1_eq_mask mask_eq_exp_minus_1)

text \<open>A view of a part of a view.\<close>

lemma chars_window:
  assumes "chars m v = Some xs" and "i + unat n \<le> length xs" and "i = unat k"
  shows "chars m (sv_make (ptr_plus (sv_str v) k) n) = Some (take (unat n) (drop i xs))"
proof (cases "n = 0")
  case True
  then show ?thesis by (simp add: chars_def sv_make_def)
next
  case False
  then have pos: "0 < unat n" by (simp add: unat_gt_0)
  with assms(2) chars_length [OF assms(1)] have "sv_len v \<noteq> 0" by auto
  with assms(1) obtain a where a: "sv_str v = Some a" "read_chars m a (unat (sv_len v)) = Some xs"
    by (auto simp: chars_def split: bind_splits)
  define r where "r = unat (sv_len v) - (i + unat n)"
  have "unat (sv_len v) = (i + unat n) + r"
    using assms(2) chars_length [OF assms(1)] by (simp add: r_def)
  with a(2) have "read_chars m a (i + unat n) = Some (take (i + unat n) xs)"
    using read_chars_add by fastforce
  then have "read_chars m (a + i) (unat n) = Some (drop i (take (i + unat n) xs))"
    using read_chars_add by blast
  with False a(1) assms(3) show ?thesis
    by (simp add: chars_def sv_make_def ptr_plus_def drop_take)
qed

lemma ptr_plus_0 [simp]: "ptr_plus p 0 = p"
  by (cases p) (simp_all add: ptr_plus_def)

lemma chars_take:
  assumes "chars m v = Some xs" and "n \<le> sv_len v"
  shows "chars m (sv_make (sv_str v) n) = Some (take (unat n) xs)"
  using chars_window [OF assms(1), of 0 n 0] assms(2) chars_length [OF assms(1)]
  by (simp add: word_le_nat_alt)

section \<open>Comparisons are those of the texts\<close>

lemma Nil_less_iff: "([] :: string) < xs \<longleftrightarrow> xs \<noteq> []"
  by (cases xs) auto

lemma compare_chars_lex:
  "compare_chars xs ys < 0 \<or> compare_chars xs ys = 0 \<and> length xs < length ys \<longleftrightarrow> xs < ys"
  "compare_chars xs ys > 0 \<or> compare_chars xs ys = 0 \<and> length ys < length xs \<longleftrightarrow> ys < xs"
  by (induction xs ys rule: compare_chars.induct) (auto simp: Nil_less_iff)

lemma compare_chars_take:
  "compare_chars (take (min (length xs) (length ys)) xs) (take (min (length xs) (length ys)) ys) = compare_chars xs ys"
  by (induction xs ys rule: compare_chars.induct) auto

lemma compare_chars_eq_0: "length xs = length ys \<Longrightarrow> compare_chars xs ys = 0 \<longleftrightarrow> xs = ys"
  by (induction xs ys rule: compare_chars.induct) auto

lemma len_less: "chars m v = Some xs \<Longrightarrow> chars m w = Some ys \<Longrightarrow> sv_len v < sv_len w \<longleftrightarrow> length xs < length ys"
  by (simp add: chars_length word_less_nat_alt)

lemma len_eq: "chars m v = Some xs \<Longrightarrow> chars m w = Some ys \<Longrightarrow> sv_len v = sv_len w \<longleftrightarrow> length xs = length ys"
  by (simp add: chars_length word_unat_eq_iff)

lemma unat_min: "unat (min a b) = min (unat a) (unat b)"
  by (simp add: min_def word_le_nat_alt)

lemma sv_compare_chars:
  assumes "chars m v = Some xs" and "chars m w = Some ys"
  shows "sv_compare m v w =
    Some (if compare_chars xs ys \<noteq> 0 then compare_chars xs ys
          else if length xs = length ys then 0 else if length xs < length ys then - 1 else 1)"
proof -
  let ?n = "min (sv_len v) (sv_len w)"
  have "unat ?n = min (length xs) (length ys)"
    by (simp add: unat_min chars_length [OF assms(1)] chars_length [OF assms(2)])
  then have "traits_compare m (sv_str v) (sv_str w) ?n = Some (compare_chars xs ys)"
    using chars_take [OF assms(1), of ?n] chars_take [OF assms(2), of ?n] compare_chars_take [of xs ys]
    by (simp add: traits_compare_def)
  then show ?thesis
    by (simp add: sv_compare_def len_less [OF assms] len_eq [OF assms])
qed

lemma sv_compare_lex:
  assumes "chars m v = Some xs" and "chars m w = Some ys"
  obtains c where "sv_compare m v w = Some c" and "c < 0 \<longleftrightarrow> xs < ys" and "c > 0 \<longleftrightarrow> ys < xs" and "c = 0 \<longleftrightarrow> xs = ys"
proof -
  let ?c = "if compare_chars xs ys \<noteq> 0 then compare_chars xs ys
          else if length xs = length ys then 0 else if length xs < length ys then - 1 else 1"
  have lt: "?c < 0 \<longleftrightarrow> xs < ys" and gt: "?c > 0 \<longleftrightarrow> ys < xs"
    using compare_chars_lex [of xs ys] by (auto split: if_splits)
  have "?c = 0 \<longleftrightarrow> \<not> ?c < 0 \<and> \<not> ?c > 0" by linarith
  then have "?c = 0 \<longleftrightarrow> xs = ys" unfolding lt gt by (auto simp: not_less)
  with sv_compare_chars [OF assms] lt gt show thesis by (rule that)
qed

lemma sv_starts_with_prefix:
  assumes "chars m v = Some xs" and "chars m w = Some ys"
  shows "sv_starts_with m v w = Some (prefix ys xs)"
proof (cases "sv_len w \<le> sv_len v")
  case True
  then have "length ys \<le> length xs"
    by (simp add: chars_length [OF assms(1)] chars_length [OF assms(2)] word_le_nat_alt)
  then have "take (length ys) xs = ys \<longleftrightarrow> prefix ys xs"
    by (metis append_eq_conv_conj prefix_def append_take_drop_id)
  with True chars_take [OF assms(1) True] chars_take [OF assms(2) order_refl] \<open>length ys \<le> length xs\<close>
  show ?thesis
    by (simp add: sv_starts_with_def traits_compare_def compare_chars_eq_0 chars_length [OF assms(2), symmetric])
next
  case False
  then have "length xs < length ys" using len_less [OF assms] by (simp add: not_le)
  with False show ?thesis by (auto simp: sv_starts_with_def dest: prefix_length_le)
qed

lemma sv_ends_with_suffix:
  assumes "chars m v = Some xs" and "chars m w = Some ys"
  shows "sv_ends_with m v w = Some (suffix ys xs)"
proof (cases "sv_len w \<le> sv_len v")
  case True
  then have le: "length ys \<le> length xs"
    by (simp add: chars_length [OF assms(1)] chars_length [OF assms(2)] word_le_nat_alt)
  have k: "unat (sv_len v - sv_len w) = length xs - length ys"
    using True by (simp add: unat_sub chars_length [OF assms(1)] chars_length [OF assms(2)])
  have "drop (length xs - length ys) xs = ys \<longleftrightarrow> suffix ys xs"
    using le by (metis append_eq_conv_conj append_take_drop_id diff_diff_cancel length_append
        length_drop suffix_def add_diff_cancel_right')
  moreover have "chars m (sv_make (ptr_plus (sv_str v) (sv_len v - sv_len w)) (sv_len w)) =
      Some (drop (length xs - length ys) xs)"
    using chars_window [OF assms(1) _ k [symmetric], of "sv_len w"] le
    by (simp add: chars_length [OF assms(2), symmetric])
  ultimately show ?thesis
    using True le chars_take [OF assms(2) order_refl]
    by (simp add: sv_ends_with_def traits_compare_def compare_chars_eq_0 chars_length [OF assms(2), symmetric])
next
  case False
  then have "length xs < length ys" using len_less [OF assms] by (simp add: not_le)
  with False show ?thesis by (auto simp: sv_ends_with_def dest: suffix_length_le)
qed

section \<open>Searches find the first or the last position\<close>

text \<open>The specification: the least, respectively the greatest, position that has a property.\<close>

definition first_pos :: "(nat \<Rightarrow> bool) \<Rightarrow> nat \<Rightarrow> size_t" where
  "first_pos P n = (case find P [0..<n] of Some i \<Rightarrow> word_of_nat i | None \<Rightarrow> npos)"

definition last_pos :: "(nat \<Rightarrow> bool) \<Rightarrow> nat \<Rightarrow> size_t" where
  "last_pos P n = (case find P (rev [0..<n]) of Some i \<Rightarrow> word_of_nat i | None \<Rightarrow> npos)"

text \<open>\<open>d\<close> is the distance to the first position of a range of length \<open>n\<close> with \<open>P\<close>.\<close>

definition nearest :: "(nat \<Rightarrow> bool) \<Rightarrow> nat \<Rightarrow> nat \<Rightarrow> bool" where
  "nearest P n d \<longleftrightarrow> d \<le> n \<and> (\<forall>i<d. \<not> P i) \<and> (d < n \<longrightarrow> P d)"

lemma find_append: "find P (xs @ ys) = (case find P xs of None \<Rightarrow> find P ys | Some x \<Rightarrow> Some x)"
  by (induction xs) auto

lemma nearest_find:
  assumes "nearest P n d"
  shows "find P [0..<n] = (if d = n then None else Some d)"
proof (cases "d = n")
  case True
  with assms show ?thesis by (auto simp: nearest_def find_None_iff)
next
  case False
  with assms have "d < n" by (simp add: nearest_def)
  then have "[0..<n] = [0..<d] @ d # [Suc d..<n]"
    using upt_add_eq_append [of 0 d "n - d"] by (simp add: upt_conv_Cons)
  moreover have "find P [0..<d] = None"
    using assms by (auto simp: nearest_def find_None_iff)
  ultimately show ?thesis
    using assms False by (simp add: find_append nearest_def)
qed

lemma rev_upt: "rev [0..<n] = map (\<lambda>i. n - Suc i) [0..<n]"
  by (rule nth_equalityI) (auto simp: rev_nth)

lemma find_map: "find P (map f xs) = map_option f (find (P \<circ> f) xs)"
  by (induction xs) auto

lemma from_begin_nearest:
  assumes "nearest P n d" and "n = unat (sv_len v)"
  shows "from_begin v d = first_pos P n"
  using nearest_find [OF assms(1)] assms(2) by (simp add: from_begin_def first_pos_def)

lemma from_rbegin_nearest:
  assumes "nearest (\<lambda>i. P (n - Suc i)) n d" and "n = unat (sv_len v)"
  shows "from_rbegin v d = last_pos P n"
proof (cases "d = n")
  case True
  with nearest_find [OF assms(1)] assms(2) show ?thesis
    by (simp add: from_rbegin_def last_pos_def rev_upt find_map comp_def)
next
  case False
  with assms(1) have "Suc d \<le> n" by (simp add: nearest_def)
  then have "sv_len v - word_of_nat d - 1 = word_of_nat (n - Suc d)"
    by (simp add: assms(2) of_nat_diff diff_diff_eq add.commute)
  with False nearest_find [OF assms(1)] assms(2) show ?thesis
    by (simp add: from_rbegin_def last_pos_def rev_upt find_map comp_def)
qed

lemma nearest_Suc: "nearest P (Suc n) (Suc d) \<longleftrightarrow> \<not> P 0 \<and> nearest (\<lambda>i. P (Suc i)) n d"
  by (auto simp: nearest_def less_Suc_eq_0_disj)

lemma nearest_0: "nearest P n 0 \<longleftrightarrow> (0 < n \<longrightarrow> P 0)"
  by (simp add: nearest_def)

lemma nearest_std_find: "nearest (\<lambda>i. xs ! i = c) (length xs) (std_find c xs)"
  by (induction xs) (auto simp: nearest_Suc nearest_0)

lemma nearest_std_find_if_not: "nearest (\<lambda>i. \<not> p (xs ! i)) (length xs) (std_find_if_not p xs)"
  by (induction xs) (auto simp: nearest_Suc nearest_0)

lemma nearest_std_find_first_of: "nearest (\<lambda>i. xs ! i \<in> set ys) (length xs) (std_find_first_of xs ys)"
  by (induction xs) (auto simp: nearest_Suc nearest_0)

lemma nearest_std_search: "nearest (\<lambda>i. prefix ys (drop i xs)) (length xs) (std_search xs ys)"
proof (induction xs)
  case Nil
  then show ?case by (simp add: std_search.simps nearest_0)
next
  case (Cons x xs)
  then show ?case
    by (subst std_search.simps) (auto simp: nearest_Suc nearest_0)
qed

lemma outside_loop_eq:
  "(case outside_loop xs ys i of Some j \<Rightarrow> f j | None \<Rightarrow> z) =
    (if std_find_if_not (\<lambda>c. c \<in> set ys) xs = length xs then z
     else f (i + std_find_if_not (\<lambda>c. c \<in> set ys) xs))"
  by (induction xs arbitrary: i) auto

lemma last_pos_cong: "(\<And>i. i < n \<Longrightarrow> P i \<longleftrightarrow> Q i) \<Longrightarrow> last_pos P n = last_pos Q n"
proof -
  assume "\<And>i. i < n \<Longrightarrow> P i \<longleftrightarrow> Q i"
  then have "find P (rev [0..<n]) = find Q (rev [0..<n])"
    by (intro find_cong) auto
  then show ?thesis by (simp add: last_pos_def)
qed

lemma from_rbegin_nearest_rev:
  assumes "nearest (\<lambda>i. Q (rev xs ! i)) (length xs) d" and "length xs = unat (sv_len v)"
  shows "from_rbegin v d = last_pos (\<lambda>i. Q (xs ! i)) (length xs)"
proof (rule from_rbegin_nearest [OF _ assms(2)])
  show "nearest (\<lambda>i. Q (xs ! (length xs - Suc i))) (length xs) d"
    using assms(1) by (auto simp: nearest_def rev_nth)
qed

lemma suffix_take_prefix_rev:
  assumes "i < length xs"
  shows "prefix (rev ys) (drop i (rev xs)) \<longleftrightarrow> suffix ys (take (Suc (length xs - Suc i)) xs)"
  using assms by (simp add: suffix_to_prefix drop_rev Suc_diff_Suc)

lemma from_rbegin_search:
  assumes "length xs = unat (sv_len v)"
  shows "from_rbegin v (std_search (rev xs) (rev ys)) =
    last_pos (\<lambda>i. suffix ys (take (Suc i) xs)) (length xs)"
proof (rule from_rbegin_nearest [OF _ assms])
  show "nearest (\<lambda>i. suffix ys (take (Suc (length xs - Suc i)) xs)) (length xs) (std_search (rev xs) (rev ys))"
    using nearest_std_search [of "rev ys" "rev xs"] suffix_take_prefix_rev [of _ xs ys]
    by (auto simp: nearest_def)
qed

section \<open>Properties\<close>

text \<open>The memory that holds a text from an address on, for the witnesses.\<close>

definition holds_at :: "nat \<Rightarrow> string \<Rightarrow> memory" where
  "holds_at a s x = (if a \<le> x \<and> x < a + length s then Some (s ! (x - a)) else None)"

lemma read_holds_at: "read_chars (holds_at a (p @ s @ q)) (a + length p) (length s) = Some s"
proof (induction s arbitrary: p)
  case (Cons c s)
  then show ?case using Cons.IH [of "p @ [c]"] by (simp add: holds_at_def nth_append)
qed simp

lemma chars_holds_at:
  assumes "length s < 2 ^ 64"
  shows "chars (holds_at a (p @ s @ q)) (sv_make (Some (a + length p)) (word_of_nat (length s))) = Some s"
  using assms read_holds_at [of a p s q] by (auto simp: chars_def sv_make_def unat_of_nat word_of_nat_eq_0_iff nat_dvd_not_less)

text \<open>
  On the texts of valid views every search returns the position its name promises: the first
  start of an occurrence, the first and the last position of a character inside and outside a set or
  equal to and different from a character, and \<^verbatim>\<open>npos\<close> where there is none. The exception is
  \<^verbatim>\<open>rfind\<close> with a text: the position it returns is that of the last character of the last
  occurrence, not of its first, as \<^verbatim>\<open>std::string::rfind\<close> would.
\<close>

theorem searches_find_positions:
  assumes "chars m v = Some xs" and "chars m w = Some ys"
  shows "sv_find m v w = Some (first_pos (\<lambda>i. prefix ys (drop i xs)) (length xs)) \<and>
    sv_rfind m v w = Some (last_pos (\<lambda>i. suffix ys (take (Suc i) xs)) (length xs)) \<and>
    sv_find_first_of m v w = Some (first_pos (\<lambda>i. xs ! i \<in> set ys) (length xs)) \<and>
    sv_find_last_of m v w = Some (last_pos (\<lambda>i. xs ! i \<in> set ys) (length xs)) \<and>
    sv_find_first_not_of m v w = Some (first_pos (\<lambda>i. xs ! i \<notin> set ys) (length xs)) \<and>
    sv_find_last_not_of m v w = Some (last_pos (\<lambda>i. xs ! i \<notin> set ys) (length xs)) \<and>
    sv_find_char m v c = Some (first_pos (\<lambda>i. xs ! i = c) (length xs)) \<and>
    sv_rfind_char m v c = Some (last_pos (\<lambda>i. xs ! i = c) (length xs)) \<and>
    sv_find_first_not_of_char m v c = Some (first_pos (\<lambda>i. xs ! i \<noteq> c) (length xs)) \<and>
    sv_find_last_not_of_char m v c = Some (last_pos (\<lambda>i. xs ! i \<noteq> c) (length xs))"
proof -
  note len = chars_length [OF assms(1)]
  have outside: "(case outside_loop zs ys 0 of Some j \<Rightarrow> f j | None \<Rightarrow> npos) =
      (if std_find_if_not (\<lambda>c. c \<in> set ys) zs = length zs then npos
       else f (std_find_if_not (\<lambda>c. c \<in> set ys) zs))" for zs and f :: "nat \<Rightarrow> size_t"
    by (simp add: outside_loop_eq)
  have skip_last: "from_rbegin v (std_find_if_not p (rev xs)) = last_pos (\<lambda>i. \<not> p (xs ! i)) (length xs)" for p
    using from_rbegin_nearest_rev [of "\<lambda>c. \<not> p c" xs, OF _ len] nearest_std_find_if_not [of p "rev xs"] by simp
  have find_last: "from_rbegin v (std_find c (rev xs)) = last_pos (\<lambda>i. xs ! i = c) (length xs)"
    using from_rbegin_nearest_rev [of "\<lambda>d. d = c" xs, OF _ len] nearest_std_find [of "rev xs" c] by simp
  have find_last_of: "from_rbegin v (std_find_first_of (rev xs) (rev ys)) =
      last_pos (\<lambda>i. xs ! i \<in> set ys) (length xs)"
    using from_rbegin_nearest_rev [of "\<lambda>d. d \<in> set ys" xs, OF _ len] nearest_std_find_first_of [of "rev xs" "rev ys"]
    by simp
  note forward = from_begin_nearest [OF nearest_std_search len] from_begin_nearest [OF nearest_std_find len]
    from_begin_nearest [OF nearest_std_find_first_of len] from_begin_nearest [OF nearest_std_find_if_not len]
  have "sv_find_first_not_of m v w = Some (from_begin v (std_find_if_not (\<lambda>c. c \<in> set ys) xs))"
    and "sv_find_last_not_of m v w = Some (from_rbegin v (std_find_if_not (\<lambda>c. c \<in> set ys) (rev xs)))"
    by (simp_all add: assms sv_find_first_not_of_def sv_find_last_not_of_def outside from_begin_def from_rbegin_def len)
  then show ?thesis
    by (simp add: assms sv_find_def sv_rfind_def sv_find_first_of_def sv_find_last_of_def sv_find_char_def
        sv_rfind_char_def sv_find_first_not_of_char_def sv_find_last_not_of_char_def
        forward skip_last find_last find_last_of from_rbegin_search [OF len])
qed

theorem searches_find_positions_witness:
  "sv_find (holds_at 8 ''abcab'') (sv_make (Some 8) 5) (sv_make (Some 8) 2) = Some 0 \<and>
    sv_rfind (holds_at 8 ''abcab'') (sv_make (Some 8) 5) (sv_make (Some 8) 2) = Some 4"
proof -
  have v: "chars (holds_at 8 ''abcab'') (sv_make (Some 8) 5) = Some ''abcab''"
    and w: "chars (holds_at 8 ''abcab'') (sv_make (Some 8) 2) = Some ''ab''"
    using chars_holds_at [of "''abcab''" 8 "[]" "[]"] chars_holds_at [of "''ab''" 8 "[]" "''cab''"] by simp_all
  show ?thesis
    using searches_find_positions [OF v w] by (simp add: first_pos_def last_pos_def upt_rec suffix_to_prefix)
qed

text \<open>
  \<^verbatim>\<open>substr(pos, n)\<close> throws exactly if \<open>pos\<close> is behind the end; otherwise it is a view of
  the text from \<open>pos\<close> on, at most \<open>n\<close> characters, as long as \<open>pos + n\<close> is no larger than a
  \<^verbatim>\<open>size_t\<close> or \<open>n\<close> is \<^verbatim>\<open>npos\<close>. If the sum wraps around, the bound check
  passes and the new view reaches past the old one's end.
\<close>

theorem substr_stays_inside_iff:
  assumes "chars m v = Some xs"
  shows "(sv_substr v pos n = Inl Start_position_out_of_range \<longleftrightarrow> length xs < unat pos) \<and>
    (unat pos \<le> length xs \<longrightarrow> n = npos \<or> unat pos + unat n < 2 ^ 64 \<longrightarrow>
      (\<exists>w. sv_substr v pos n = Inr w \<and> chars m w = Some (take (unat n) (drop (unat pos) xs)))) \<and>
    (unat pos \<le> length xs \<longrightarrow> \<not> (n = npos \<or> unat pos + unat n < 2 ^ 64) \<longrightarrow>
      (\<exists>w. sv_substr v pos n = Inr w \<and> length xs < unat pos + unat (sv_len w)))"
proof -
  note len = chars_length [OF assms]
  have outside: "sv_len v < pos \<longleftrightarrow> length xs < unat pos"
    by (simp add: word_less_nat_alt len)
  have view: "\<exists>w. sv_substr v pos n = Inr w \<and> chars m w = Some (take (unat n) (drop (unat pos) xs))"
    if "unat pos \<le> length xs" and fits: "n = npos \<or> unat pos + unat n < 2 ^ 64"
  proof (cases "n = npos \<or> sv_len v < pos + n")
    case True
    have rest: "unat (sv_len v - pos) = length xs - unat pos"
      using that(1) by (simp add: unat_sub word_le_nat_alt len)
    have "length xs - unat pos \<le> unat n"
    proof (cases "n = npos")
      case True
      then show ?thesis using size_less [of "sv_len v"] by (simp add: unat_npos len)
    next
      case False
      with True fits show ?thesis by (auto simp: word_less_nat_alt unat_word_ariths len)
    qed
    with True that(1) chars_window [OF assms, of "unat pos" "sv_len v - pos" pos] show ?thesis
      by (simp add: sv_substr_def outside rest)
  next
    case False
    then have "unat pos + unat n \<le> length xs"
      using fits by (auto simp: not_less word_le_nat_alt unat_word_ariths len)
    with False that(1) chars_window [OF assms, of "unat pos" n pos] show ?thesis
      by (simp add: sv_substr_def outside)
  qed
  have overrun: "\<exists>w. sv_substr v pos n = Inr w \<and> length xs < unat pos + unat (sv_len w)"
    if "unat pos \<le> length xs" and wraps: "\<not> (n = npos \<or> unat pos + unat n < 2 ^ 64)"
  proof -
    have "unat pos < 2 ^ 64" and "unat n < 2 ^ 64" and small: "length xs < 2 ^ 64"
      using size_less [of pos] size_less [of n] size_less [of "sv_len v"] by (simp_all add: len)
    with wraps have "unat (pos + n) = unat pos + unat n - 2 ^ 64"
      by (simp add: unat_word_ariths mod_if)
    then have "unat (pos + n) \<le> unat pos"
      using \<open>unat n < 2 ^ 64\<close> by linarith
    then have "\<not> sv_len v < pos + n"
      using that(1) by (simp add: word_less_nat_alt len)
    with wraps that(1) small show ?thesis
      by (simp add: sv_substr_def outside sv_make_def)
  qed
  show ?thesis
    using view overrun by (auto simp: sv_substr_def outside)
qed

theorem substr_stays_inside_iff_witness:
  "\<exists>w. sv_substr (sv_make (Some 8) 5) 1 3 = Inr w \<and> chars (holds_at 8 ''offer'') w = Some ''ffe''"
  using substr_stays_inside_iff [OF chars_holds_at [of "''offer''" 8 "[]" "[]"], of 1 3] by simp

text \<open>
  The comparison operators of valid views are those of the texts: \<^verbatim>\<open>compare\<close> has the sign of
  the lexicographic order of the characters, the six operators are that order, and
  \<^verbatim>\<open>starts_with\<close> and \<^verbatim>\<open>ends_with\<close> are prefix and suffix. The hash is not a
  function of the text: two views with equal texts at different addresses have different hashes
  whenever the hash of pointers tells the addresses apart.
\<close>

theorem comparisons_are_lexicographic:
  assumes "chars m v = Some xs" and "chars m w = Some ys"
  shows "sv_eq m v w = Some (xs = ys) \<and> sv_ne m v w = Some (xs \<noteq> ys) \<and>
    sv_lt m v w = Some (xs < ys) \<and> sv_le m v w = Some (xs \<le> ys) \<and>
    sv_gt m v w = Some (xs > ys) \<and> sv_ge m v w = Some (xs \<ge> ys) \<and>
    sv_starts_with m v w = Some (prefix ys xs) \<and> sv_ends_with m v w = Some (suffix ys xs) \<and>
    (sv_hash pointer_hash v = sv_hash pointer_hash w \<longleftrightarrow> pointer_hash (sv_str v) = pointer_hash (sv_str w))"
proof -
  obtain c where c: "sv_compare m v w = Some c" "c < 0 \<longleftrightarrow> xs < ys" "c > 0 \<longleftrightarrow> ys < xs" "c = 0 \<longleftrightarrow> xs = ys"
    by (rule sv_compare_lex [OF assms])
  have "c \<le> 0 \<longleftrightarrow> xs \<le> ys" and "c \<ge> 0 \<longleftrightarrow> xs \<ge> ys"
    using c(2,3) by (auto simp: not_less [symmetric])
  moreover have "xs \<noteq> ys" if "sv_len v \<noteq> sv_len w"
    using that len_eq [OF assms] by auto
  ultimately show ?thesis
    using c sv_starts_with_prefix [OF assms] sv_ends_with_suffix [OF assms]
    by (auto simp: sv_eq_def sv_ne_def sv_lt_def sv_le_def sv_gt_def sv_ge_def sv_hash_def)
qed

definition address_hash :: "nat option \<Rightarrow> size_t" where
  "address_hash p = (case p of Some a \<Rightarrow> word_of_nat a | None \<Rightarrow> 0)"

theorem comparisons_are_lexicographic_witness:
  "sv_eq (holds_at 8 ''abab'') (sv_make (Some 8) 2) (sv_make (Some 10) 2) = Some True \<and>
    sv_hash address_hash (sv_make (Some 8) 2) \<noteq> sv_hash address_hash (sv_make (Some 10) 2)"
proof -
  have v: "chars (holds_at 8 ''abab'') (sv_make (Some 8) 2) = Some ''ab''"
    and w: "chars (holds_at 8 ''abab'') (sv_make (Some 10) 2) = Some ''ab''"
    using chars_holds_at [of "''ab''" 8 "[]" "''ab''"] chars_holds_at [of "''ab''" 8 "''ab''" "[]"] by simp_all
  show ?thesis
    using comparisons_are_lexicographic [OF v w, of address_hash] by (simp add: sv_make_def address_hash_def)
qed

end
