(* ===== verification/Core_Optional.thy ===== *)
theory Core_Optional
  imports Main "HOL-Library.Monad_Syntax" "HOL-Library.Option_ord"
begin

text \<open>
  feed/3pp/include/bsoncxx/v_noabi/bsoncxx/third_party/mnmlstc/core/optional.hpp, first part:
  \<^verbatim>\<open>core::optional\<close>, in which the driver returns its results and keeps owned values.

  The storage is a union with a flag. Which member of the union is alive is part of the state, so
  that reading or destroying a value that does not exist is \<open>None\<close>. The value type's copy and
  move constructors and the construction from other arguments may throw: they are arguments, \<open>Inl\<close>
  being the exception; an operation returns the exception or the result, and the objects after it.
  The exchange of two values by the value type's own \<^verbatim>\<open>swap\<close> is taken not to throw.

  \<open>opt_ok\<close> is the class invariant and \<open>opt_abs\<close> the option a storage stands for; the lemmas say that
  every operation keeps the one and computes the obvious function on the other.
\<close>

section \<open>Exceptions and the value type\<close>

datatype 'x exn =
    User 'x
  | Bad_optional_access
  | Bad_expected_type
  | Bad_expected_type_nesting "'x exn"
  | Bad_result_condition
  | System_error int nat

record ('a, 'x) type_ops =
  copy_ctor :: "'a \<Rightarrow> 'x exn + 'a"
  move_ctor :: "'a \<Rightarrow> 'x exn + 'a"
  moved_from :: "'a \<Rightarrow> 'a"

section \<open>The storage\<close>

record 'a storage =
  val :: "'a option"
  engaged :: bool

definition storage_default :: "'a storage" where
  "storage_default = \<lparr>val = None, engaged = False\<rparr>"

definition storage_copy :: "('a, 'x) type_ops \<Rightarrow> 'a storage \<Rightarrow> ('x exn + 'a storage) option" where
  "storage_copy ops that =
     (if \<not> engaged that then Some (Inr \<lparr>val = None, engaged = engaged that\<rparr>)
      else do {
        v \<leftarrow> val that;
        Some (case copy_ctor ops v of
                Inl x \<Rightarrow> Inl x
              | Inr w \<Rightarrow> Inr \<lparr>val = Some w, engaged = engaged that\<rparr>)
      })"

text \<open>The source keeps its flag and holds what the move left.\<close>

definition storage_move ::
    "('a, 'x) type_ops \<Rightarrow> 'a storage \<Rightarrow> (('x exn + 'a storage) \<times> 'a storage) option" where
  "storage_move ops that =
     (if \<not> engaged that then Some (Inr \<lparr>val = None, engaged = engaged that\<rparr>, that)
      else do {
        v \<leftarrow> val that;
        Some (case move_ctor ops v of
                Inl x \<Rightarrow> (Inl x, that)
              | Inr w \<Rightarrow> (Inr \<lparr>val = Some w, engaged = engaged that\<rparr>, that\<lparr>val := Some (moved_from ops v)\<rparr>))
      })"

text \<open>From a value, by copy or by move, and in place from arguments: \<open>made\<close> is the outcome of the
  value's constructor.\<close>

definition storage_make :: "'x exn + 'a \<Rightarrow> 'x exn + 'a storage" where
  "storage_make made = (case made of Inl x \<Rightarrow> Inl x | Inr w \<Rightarrow> Inr \<lparr>val = Some w, engaged = True\<rparr>)"

definition storage_destroy :: "'a storage \<Rightarrow> 'a storage option" where
  "storage_destroy s = (if engaged s then do { _ \<leftarrow> val s; Some (s\<lparr>val := None\<rparr>) } else Some s)"

section \<open>The operations of optional\<close>

definition opt_default :: "'a storage" where
  "opt_default = storage_default"

definition opt_of_nullopt :: "'a storage" where
  "opt_of_nullopt = storage_default"

definition opt_of_value :: "('a, 'x) type_ops \<Rightarrow> 'a \<Rightarrow> 'x exn + 'a storage" where
  "opt_of_value ops value = storage_make (copy_ctor ops value)"

definition opt_of_rvalue :: "('a, 'x) type_ops \<Rightarrow> 'a \<Rightarrow> 'x exn + 'a storage" where
  "opt_of_rvalue ops value = storage_make (move_ctor ops value)"

definition opt_in_place :: "'x exn + 'a \<Rightarrow> 'x exn + 'a storage" where
  "opt_in_place made = storage_make made"

text \<open>\<^verbatim>\<open>*this = nullopt\<close>\<close>

definition opt_assign_nullopt :: "'a storage \<Rightarrow> 'a storage option" where
  "opt_assign_nullopt this =
     (if engaged this then do { _ \<leftarrow> val this; Some (this\<lparr>val := None, engaged := False\<rparr>) }
      else Some this)"

definition opt_emplace :: "'x exn + 'a \<Rightarrow> 'a storage \<Rightarrow> (('x exn + unit) \<times> 'a storage) option" where
  "opt_emplace made this =
     do {
       this1 \<leftarrow> opt_assign_nullopt this;
       Some (case made of
               Inl x \<Rightarrow> (Inl x, this1)
             | Inr w \<Rightarrow> (Inr (), this1\<lparr>val := Some w, engaged := True\<rparr>))
     }"

definition opt_bool :: "'a storage \<Rightarrow> bool" where
  "opt_bool this = engaged this"

text \<open>\<^verbatim>\<open>operator *\<close> and \<^verbatim>\<open>operator ->\<close> check nothing.\<close>

definition opt_deref :: "'a storage \<Rightarrow> 'a option" where
  "opt_deref this = val this"

text \<open>One object is engaged and is moved into the other.\<close>

definition opt_hand_over ::
    "('a, 'x) type_ops \<Rightarrow> 'a storage \<Rightarrow> 'a storage \<Rightarrow> (('x exn + unit) \<times> 'a storage \<times> 'a storage) option" where
  "opt_hand_over ops to_disengage to_engage =
     do {
       v \<leftarrow> opt_deref to_disengage;
       (r, to_engage1) \<leftarrow> opt_emplace (move_ctor ops v) to_engage;
       case r of
         Inl x \<Rightarrow> Some (Inl x, to_disengage, to_engage1)
       | Inr _ \<Rightarrow> do {
           to_disengage1 \<leftarrow> opt_assign_nullopt (to_disengage\<lparr>val := Some (moved_from ops v)\<rparr>);
           Some (Inr (), to_disengage1, to_engage1)
         }
     }"

definition opt_swap ::
    "('a, 'x) type_ops \<Rightarrow> 'a storage \<Rightarrow> 'a storage \<Rightarrow> (('x exn + unit) \<times> 'a storage \<times> 'a storage) option" where
  "opt_swap ops this that =
     (if \<not> opt_bool this \<and> \<not> opt_bool that then Some (Inr (), this, that)
      else if opt_bool this \<and> opt_bool that
        then do {
          v \<leftarrow> opt_deref this; w \<leftarrow> opt_deref that;
          Some (Inr (), this\<lparr>val := Some w\<rparr>, that\<lparr>val := Some v\<rparr>)
        }
      else if opt_bool this then opt_hand_over ops this that
      else do {
        (r, that1, this1) \<leftarrow> opt_hand_over ops that this;
        Some (r, this1, that1)
      })"

text \<open>Assignments from another optional swap with a copy, whose destructor runs at the end.\<close>

definition opt_assign ::
    "('a, 'x) type_ops \<Rightarrow> 'a storage \<Rightarrow> 'a storage \<Rightarrow> (('x exn + unit) \<times> 'a storage) option" where
  "opt_assign ops this that =
     do {
       made \<leftarrow> storage_copy ops that;
       case made of
         Inl x \<Rightarrow> Some (Inl x, this)
       | Inr tmp \<Rightarrow> do {
           (r, tmp1, this1) \<leftarrow> opt_swap ops tmp this;
           _ \<leftarrow> storage_destroy tmp1;
           Some (r, this1)
         }
     }"

definition opt_move_assign ::
    "('a, 'x) type_ops \<Rightarrow> 'a storage \<Rightarrow> 'a storage \<Rightarrow> (('x exn + unit) \<times> 'a storage \<times> 'a storage) option" where
  "opt_move_assign ops this that =
     do {
       (made, that1) \<leftarrow> storage_move ops that;
       case made of
         Inl x \<Rightarrow> Some (Inl x, this, that1)
       | Inr tmp \<Rightarrow> do {
           (r, tmp1, this1) \<leftarrow> opt_swap ops tmp this;
           _ \<leftarrow> storage_destroy tmp1;
           Some (r, this1, that1)
         }
     }"

text \<open>From another type: \<open>made\<close> constructs a value from it, \<open>assigned\<close> assigns it to a value.\<close>

definition opt_assign_value ::
    "'x exn + 'a \<Rightarrow> ('a \<Rightarrow> 'x exn + 'a) \<Rightarrow> 'a storage \<Rightarrow> (('x exn + unit) \<times> 'a storage) option" where
  "opt_assign_value made assigned this =
     (if \<not> engaged this then opt_emplace made this
      else do {
        v \<leftarrow> opt_deref this;
        Some (case assigned v of Inl x \<Rightarrow> (Inl x, this) | Inr w \<Rightarrow> (Inr (), this\<lparr>val := Some w\<rparr>))
      })"

definition opt_value :: "'a storage \<Rightarrow> ('x exn + 'a) option" where
  "opt_value this = (if opt_bool this then map_option Inr (opt_deref this) else Some (Inl Bad_optional_access))"

text \<open>\<^verbatim>\<open>value_or\<close>, for an lvalue (copies) and for an rvalue (moves); \<open>other\<close> converts the
  argument.\<close>

definition opt_value_or :: "('a, 'x) type_ops \<Rightarrow> 'x exn + 'a \<Rightarrow> 'a storage \<Rightarrow> ('x exn + 'a) option" where
  "opt_value_or ops other this =
     (if opt_bool this then map_option (copy_ctor ops) (opt_deref this) else Some other)"

definition opt_value_or_move :: "('a, 'x) type_ops \<Rightarrow> 'x exn + 'a \<Rightarrow> 'a storage \<Rightarrow> ('x exn + 'a) option" where
  "opt_value_or_move ops other this =
     (if opt_bool this then map_option (move_ctor ops) (opt_deref this) else Some other)"

definition make_optional :: "'x exn + 'a \<Rightarrow> 'x exn + 'a storage" where
  "make_optional made = opt_in_place made"

text \<open>\<^verbatim>\<open>std::hash\<close> of an optional; the hash of the value type is the argument.\<close>

definition opt_hash :: "('a \<Rightarrow> nat) \<Rightarrow> 'a storage \<Rightarrow> nat option" where
  "opt_hash hash_value this = (if opt_bool this then map_option hash_value (opt_deref this) else Some 0)"

section \<open>Comparison operators of optional\<close>

definition opt_eq :: "'a storage \<Rightarrow> 'a storage \<Rightarrow> bool option" where
  "opt_eq lhs rhs =
     (if opt_bool lhs \<noteq> opt_bool rhs then Some False
      else if \<not> opt_bool lhs \<and> \<not> opt_bool rhs then Some True
      else do { x \<leftarrow> opt_deref lhs; y \<leftarrow> opt_deref rhs; Some (x = y) })"

definition opt_eq_nullopt :: "'a storage \<Rightarrow> bool" where
  "opt_eq_nullopt lhs \<longleftrightarrow> \<not> opt_bool lhs"

definition nullopt_eq_opt :: "'a storage \<Rightarrow> bool" where
  "nullopt_eq_opt rhs \<longleftrightarrow> \<not> opt_bool rhs"

definition opt_eq_value :: "'a storage \<Rightarrow> 'a \<Rightarrow> bool option" where
  "opt_eq_value opt value =
     (if opt_bool opt then map_option (\<lambda>x. x = value) (opt_deref opt) else Some False)"

definition value_eq_opt :: "'a \<Rightarrow> 'a storage \<Rightarrow> bool option" where
  "value_eq_opt value opt =
     (if opt_bool opt then map_option (\<lambda>x. value = x) (opt_deref opt) else Some False)"

definition opt_lt :: "'a::ord storage \<Rightarrow> 'a storage \<Rightarrow> bool option" where
  "opt_lt lhs rhs =
     (if opt_bool rhs = False then Some False
      else if \<not> opt_bool lhs then Some True
      else do { x \<leftarrow> opt_deref lhs; y \<leftarrow> opt_deref rhs; Some (x < y) })"

definition opt_lt_nullopt :: "'a storage \<Rightarrow> bool" where
  "opt_lt_nullopt lhs \<longleftrightarrow> \<not> opt_bool lhs"

definition nullopt_lt_opt :: "'a storage \<Rightarrow> bool" where
  "nullopt_lt_opt rhs \<longleftrightarrow> opt_bool rhs"

definition opt_lt_value :: "'a::ord storage \<Rightarrow> 'a \<Rightarrow> bool option" where
  "opt_lt_value opt value =
     (if \<not> opt_bool opt then Some True else map_option (\<lambda>x. x < value) (opt_deref opt))"

definition value_lt_opt :: "'a::ord \<Rightarrow> 'a storage \<Rightarrow> bool option" where
  "value_lt_opt value opt =
     (if opt_bool opt then map_option (\<lambda>x. value < x) (opt_deref opt) else Some False)"

text \<open>The derived operators, by negation and exchange.\<close>

definition opt_ne :: "'a storage \<Rightarrow> 'a storage \<Rightarrow> bool option" where
  "opt_ne lhs rhs = map_option Not (opt_eq lhs rhs)"

definition opt_ne_nullopt :: "'a storage \<Rightarrow> bool" where
  "opt_ne_nullopt lhs \<longleftrightarrow> \<not> opt_eq_nullopt lhs"

definition nullopt_ne_opt :: "'a storage \<Rightarrow> bool" where
  "nullopt_ne_opt rhs \<longleftrightarrow> \<not> nullopt_eq_opt rhs"

definition opt_ne_value :: "'a storage \<Rightarrow> 'a \<Rightarrow> bool option" where
  "opt_ne_value opt value = map_option Not (opt_eq_value opt value)"

definition value_ne_opt :: "'a \<Rightarrow> 'a storage \<Rightarrow> bool option" where
  "value_ne_opt value opt = map_option Not (value_eq_opt value opt)"

definition opt_ge :: "'a::ord storage \<Rightarrow> 'a storage \<Rightarrow> bool option" where
  "opt_ge lhs rhs = map_option Not (opt_lt lhs rhs)"

definition opt_ge_nullopt :: "'a storage \<Rightarrow> bool" where
  "opt_ge_nullopt lhs \<longleftrightarrow> True"

definition nullopt_ge_opt :: "'a storage \<Rightarrow> bool" where
  "nullopt_ge_opt opt \<longleftrightarrow> opt_lt_nullopt opt"

definition opt_ge_value :: "'a::ord storage \<Rightarrow> 'a \<Rightarrow> bool option" where
  "opt_ge_value opt value = map_option Not (opt_lt_value opt value)"

definition value_ge_opt :: "'a::ord \<Rightarrow> 'a storage \<Rightarrow> bool option" where
  "value_ge_opt value opt = map_option Not (value_lt_opt value opt)"

definition opt_le :: "'a::ord storage \<Rightarrow> 'a storage \<Rightarrow> bool option" where
  "opt_le lhs rhs = map_option Not (opt_lt rhs lhs)"

definition opt_le_nullopt :: "'a storage \<Rightarrow> bool" where
  "opt_le_nullopt lhs \<longleftrightarrow> \<not> opt_bool lhs"

definition nullopt_le_opt :: "'a storage \<Rightarrow> bool" where
  "nullopt_le_opt rhs \<longleftrightarrow> True"

definition opt_gt :: "'a::ord storage \<Rightarrow> 'a storage \<Rightarrow> bool option" where
  "opt_gt lhs rhs = opt_lt rhs lhs"

definition opt_gt_nullopt :: "'a storage \<Rightarrow> bool" where
  "opt_gt_nullopt lhs \<longleftrightarrow> opt_bool lhs"

definition nullopt_gt_opt :: "'a storage \<Rightarrow> bool" where
  "nullopt_gt_opt rhs \<longleftrightarrow> False"

definition opt_gt_value :: "'a::ord storage \<Rightarrow> 'a \<Rightarrow> bool option" where
  "opt_gt_value opt value = value_lt_opt value opt"

definition value_gt_opt :: "'a::ord \<Rightarrow> 'a storage \<Rightarrow> bool option" where
  "value_gt_opt value opt = opt_lt_value opt value"

definition opt_le_value :: "'a::ord storage \<Rightarrow> 'a \<Rightarrow> bool option" where
  "opt_le_value opt value = map_option Not (opt_gt_value opt value)"

definition value_le_opt :: "'a::ord \<Rightarrow> 'a storage \<Rightarrow> bool option" where
  "value_le_opt value opt = map_option Not (value_gt_opt value opt)"

section \<open>The invariant and the option\<close>

definition opt_ok :: "'a storage \<Rightarrow> bool" where
  "opt_ok s \<longleftrightarrow> (engaged s \<longleftrightarrow> val s \<noteq> None)"

definition opt_abs :: "'a storage \<Rightarrow> 'a option" where
  "opt_abs s = (if engaged s then val s else None)"

text \<open>A storage that stands for an option.\<close>

definition opt_rep :: "'a option \<Rightarrow> 'a storage" where
  "opt_rep v = \<lparr>val = v, engaged = (v \<noteq> None)\<rparr>"

lemma opt_ok_rep: "opt_ok s \<Longrightarrow> s = opt_rep (opt_abs s)"
  by (cases s) (auto simp: opt_ok_def opt_abs_def opt_rep_def)

lemma opt_rep_ok [simp]: "opt_ok (opt_rep v)" "opt_abs (opt_rep v) = v"
  by (auto simp: opt_ok_def opt_abs_def opt_rep_def)

section \<open>The operations on what a storage stands for\<close>

named_theorems opt_simps \<open>the operations of optional, applied to the storage of an option\<close>

lemma opt_rep_sel [opt_simps]: "val (opt_rep v) = v" "engaged (opt_rep v) \<longleftrightarrow> v \<noteq> None"
  by (simp_all add: opt_rep_def)

lemma opt_rep_fold [opt_simps]:
  "\<lparr>val = None, engaged = False\<rparr> = opt_rep None" "\<lparr>val = Some w, engaged = True\<rparr> = opt_rep (Some w)"
  "(opt_rep v)\<lparr>val := None, engaged := False\<rparr> = opt_rep None"
  "(opt_rep v)\<lparr>val := Some w, engaged := True\<rparr> = opt_rep (Some w)"
  "(opt_rep (Some a))\<lparr>val := Some w\<rparr> = opt_rep (Some w)"
  by (simp_all add: opt_rep_def)

lemma opt_bool_rep [opt_simps]: "opt_bool (opt_rep v) \<longleftrightarrow> v \<noteq> None"
  by (simp add: opt_bool_def opt_simps)

lemma opt_deref_rep [opt_simps]: "opt_deref (opt_rep v) = v"
  by (simp add: opt_deref_def opt_simps)

lemma opt_default_rep [opt_simps]: "opt_default = opt_rep None" "opt_of_nullopt = opt_rep None"
  by (simp_all add: opt_default_def opt_of_nullopt_def storage_default_def opt_simps)

lemma storage_make_rep [opt_simps]: "storage_make made = map_sum id (\<lambda>w. opt_rep (Some w)) made"
  by (cases made) (simp_all add: storage_make_def opt_simps)

lemma storage_copy_rep [opt_simps]:
  "storage_copy ops (opt_rep v) =
    Some (case v of None \<Rightarrow> Inr (opt_rep None) | Some a \<Rightarrow> map_sum id (\<lambda>w. opt_rep (Some w)) (copy_ctor ops a))"
  by (auto simp: storage_copy_def opt_simps split: option.splits sum.splits)

lemma storage_move_rep [opt_simps]:
  "storage_move ops (opt_rep v) =
    Some (case v of
            None \<Rightarrow> (Inr (opt_rep None), opt_rep None)
          | Some a \<Rightarrow> (case move_ctor ops a of
              Inl x \<Rightarrow> (Inl x, opt_rep v) | Inr w \<Rightarrow> (Inr (opt_rep (Some w)), opt_rep (Some (moved_from ops a)))))"
  by (auto simp: storage_move_def opt_simps split: option.splits sum.splits)

lemma storage_destroy_rep [opt_simps]: "storage_destroy (opt_rep v) \<noteq> None"
  by (simp add: storage_destroy_def opt_simps split: bind_splits)

lemma opt_assign_nullopt_rep [opt_simps]: "opt_assign_nullopt (opt_rep v) = Some (opt_rep None)"
  by (cases v) (simp_all add: opt_assign_nullopt_def opt_simps)

lemma opt_emplace_rep [opt_simps]:
  "opt_emplace made (opt_rep v) =
    Some (case made of Inl x \<Rightarrow> (Inl x, opt_rep None) | Inr w \<Rightarrow> (Inr (), opt_rep (Some w)))"
  by (simp add: opt_emplace_def opt_simps split: sum.split)

lemma opt_hand_over_rep [opt_simps]:
  "opt_hand_over ops (opt_rep (Some a)) (opt_rep None) =
    Some (case move_ctor ops a of
            Inl x \<Rightarrow> (Inl x, opt_rep (Some a), opt_rep None)
          | Inr w \<Rightarrow> (Inr (), opt_rep None, opt_rep (Some w)))"
  by (simp add: opt_hand_over_def opt_simps split: sum.split)

text \<open>Constructors that copy and move faithfully when they do not throw.\<close>

definition regular :: "('a, 'x) type_ops \<Rightarrow> bool" where
  "regular ops \<longleftrightarrow> (\<forall>a b. copy_ctor ops a = Inr b \<longrightarrow> b = a) \<and> (\<forall>a b. move_ctor ops a = Inr b \<longrightarrow> b = a)"

lemma regular_copy:
  assumes "regular ops"
  obtains "copy_ctor ops a = Inr a" | x where "copy_ctor ops a = Inl x"
  using assms that by (cases "copy_ctor ops a") (auto simp: regular_def)

lemma regular_move:
  assumes "regular ops"
  obtains "move_ctor ops a = Inr a" | x where "move_ctor ops a = Inl x"
  using assms that by (cases "move_ctor ops a") (auto simp: regular_def)

definition nothrow_move :: "('a, 'x) type_ops \<Rightarrow> bool" where
  "nothrow_move ops \<longleftrightarrow> (\<forall>a. move_ctor ops a = Inr a)"

text \<open>A swap is done completely or not at all.\<close>

lemma opt_swap_rep:
  assumes "regular ops"
  obtains "opt_swap ops (opt_rep v) (opt_rep w) = Some (Inr (), opt_rep w, opt_rep v)"
    | x where "opt_swap ops (opt_rep v) (opt_rep w) = Some (Inl x, opt_rep v, opt_rep w)"
proof (cases v; cases w)
  fix a assume "v = Some a" and "w = None"
  then show thesis
    by - (rule regular_move [OF assms, of a], use that in \<open>auto simp: opt_swap_def opt_simps\<close>)
next
  fix a assume "v = None" and "w = Some a"
  then show thesis
    by - (rule regular_move [OF assms, of a], use that in \<open>auto simp: opt_swap_def opt_simps\<close>)
qed (use that in \<open>auto simp: opt_swap_def opt_simps\<close>)

lemma storage_copy_regular:
  assumes "regular ops"
  obtains "storage_copy ops (opt_rep w) = Some (Inr (opt_rep w))" | x where "storage_copy ops (opt_rep w) = Some (Inl x)"
proof (cases w)
  case (Some a)
  show thesis
    by (rule regular_copy [OF assms, of a]) (use Some that in \<open>auto simp: opt_simps\<close>)
qed (use that in \<open>simp add: opt_simps\<close>)

lemma storage_move_regular:
  assumes "regular ops"
  obtains "storage_move ops (opt_rep w) = Some (Inr (opt_rep w), opt_rep (map_option (moved_from ops) w))"
    | x where "storage_move ops (opt_rep w) = Some (Inl x, opt_rep w)"
proof (cases w)
  case (Some a)
  show thesis
    by (rule regular_move [OF assms, of a]) (use Some that in \<open>auto simp: opt_simps\<close>)
qed (use that in \<open>simp add: opt_simps\<close>)

lemma opt_assign_rep:
  assumes "regular ops"
  obtains "opt_assign ops (opt_rep v) (opt_rep w) = Some (Inr (), opt_rep w)"
    | x where "opt_assign ops (opt_rep v) (opt_rep w) = Some (Inl x, opt_rep v)"
proof (rule storage_copy_regular [OF assms, of w])
  assume copied: "storage_copy ops (opt_rep w) = Some (Inr (opt_rep w))"
  show thesis
    by (rule opt_swap_rep [OF assms, of w v])
      (use copied that storage_destroy_rep [of v] storage_destroy_rep [of w] in \<open>auto simp: opt_assign_def\<close>)
next
  fix x assume "storage_copy ops (opt_rep w) = Some (Inl x)"
  then show thesis using that(2) by (simp add: opt_assign_def)
qed

lemma opt_move_assign_rep:
  assumes "regular ops"
  obtains "opt_move_assign ops (opt_rep v) (opt_rep w) =
      Some (Inr (), opt_rep w, opt_rep (map_option (moved_from ops) w))"
    | x w' where "opt_move_assign ops (opt_rep v) (opt_rep w) = Some (Inl x, opt_rep v, opt_rep w')"
proof (rule storage_move_regular [OF assms, of w])
  assume moved: "storage_move ops (opt_rep w) = Some (Inr (opt_rep w), opt_rep (map_option (moved_from ops) w))"
  show thesis
    by (rule opt_swap_rep [OF assms, of w v])
      (use moved that storage_destroy_rep [of v] storage_destroy_rep [of w] in \<open>auto simp: opt_move_assign_def\<close>)
next
  fix x assume "storage_move ops (opt_rep w) = Some (Inl x, opt_rep w)"
  then show thesis using that(2) by (simp add: opt_move_assign_def)
qed

lemma opt_assign_value_rep [opt_simps]:
  "opt_assign_value made assigned (opt_rep v) =
    Some (case v of
            None \<Rightarrow> (case made of Inl x \<Rightarrow> (Inl x, opt_rep None) | Inr w \<Rightarrow> (Inr (), opt_rep (Some w)))
          | Some a \<Rightarrow> (case assigned a of Inl x \<Rightarrow> (Inl x, opt_rep v) | Inr w \<Rightarrow> (Inr (), opt_rep (Some w))))"
  by (cases v) (simp_all add: opt_assign_value_def opt_simps split: sum.split)

lemma opt_value_rep [opt_simps]:
  "opt_value (opt_rep v) = Some (case v of None \<Rightarrow> Inl Bad_optional_access | Some a \<Rightarrow> Inr a)"
  "opt_value_or ops other (opt_rep v) = Some (case v of None \<Rightarrow> other | Some a \<Rightarrow> copy_ctor ops a)"
  "opt_value_or_move ops other (opt_rep v) = Some (case v of None \<Rightarrow> other | Some a \<Rightarrow> move_ctor ops a)"
  "opt_hash hash_value (opt_rep v) = Some (case v of None \<Rightarrow> 0 | Some a \<Rightarrow> hash_value a)"
  by (cases v; simp add: opt_value_def opt_value_or_def opt_value_or_move_def opt_hash_def opt_simps)+

lemma nothrow_move_rep:
  assumes "nothrow_move ops"
  shows "storage_move ops (opt_rep v) = Some (Inr (opt_rep v), opt_rep (map_option (moved_from ops) v))"
    and "opt_swap ops (opt_rep v) (opt_rep w) = Some (Inr (), opt_rep w, opt_rep v)"
    and "opt_move_assign ops (opt_rep v) (opt_rep w) =
      Some (Inr (), opt_rep w, opt_rep (map_option (moved_from ops) w))"
proof -
  show move: "storage_move ops (opt_rep v) = Some (Inr (opt_rep v), opt_rep (map_option (moved_from ops) v))" for v
    using assms by (cases v) (simp_all add: opt_simps nothrow_move_def)
  show swap: "opt_swap ops (opt_rep v) (opt_rep w) = Some (Inr (), opt_rep w, opt_rep v)" for v w
    using assms by (cases v; cases w) (simp_all add: opt_swap_def opt_simps nothrow_move_def)
  show "opt_move_assign ops (opt_rep v) (opt_rep w) =
      Some (Inr (), opt_rep w, opt_rep (map_option (moved_from ops) w))"
    using storage_destroy_rep [of v] by (auto simp: opt_move_assign_def move swap)
qed

section \<open>The comparison operators are those of options\<close>

lemma opt_compare_rep:
  fixes v w :: "'a::linorder option"
  shows "opt_eq (opt_rep v) (opt_rep w) = Some (v = w)" "opt_lt (opt_rep v) (opt_rep w) = Some (v < w)"
    "opt_ne (opt_rep v) (opt_rep w) = Some (v \<noteq> w)" "opt_le (opt_rep v) (opt_rep w) = Some (v \<le> w)"
    "opt_gt (opt_rep v) (opt_rep w) = Some (v > w)" "opt_ge (opt_rep v) (opt_rep w) = Some (v \<ge> w)"
  by (cases v; cases w; auto simp: opt_eq_def opt_lt_def opt_ne_def opt_le_def opt_gt_def opt_ge_def opt_simps)+

lemma opt_compare_value_rep:
  fixes v :: "'a::linorder option"
  shows "opt_eq_value (opt_rep v) a = Some (v = Some a)" "value_eq_opt a (opt_rep v) = Some (Some a = v)"
    "opt_ne_value (opt_rep v) a = Some (v \<noteq> Some a)" "value_ne_opt a (opt_rep v) = Some (Some a \<noteq> v)"
    "opt_lt_value (opt_rep v) a = Some (v < Some a)" "value_lt_opt a (opt_rep v) = Some (Some a < v)"
    "opt_le_value (opt_rep v) a = Some (v \<le> Some a)" "value_le_opt a (opt_rep v) = Some (Some a \<le> v)"
    "opt_gt_value (opt_rep v) a = Some (v > Some a)" "value_gt_opt a (opt_rep v) = Some (Some a > v)"
    "opt_ge_value (opt_rep v) a = Some (v \<ge> Some a)" "value_ge_opt a (opt_rep v) = Some (Some a \<ge> v)"
  by (cases v; auto simp: opt_eq_value_def value_eq_opt_def opt_ne_value_def value_ne_opt_def opt_lt_value_def
      value_lt_opt_def opt_le_value_def value_le_opt_def opt_gt_value_def value_gt_opt_def opt_ge_value_def
      value_ge_opt_def opt_simps)+

text \<open>The overloads for \<^verbatim>\<open>nullopt\<close>, all but \<open>opt_lt_nullopt\<close>.\<close>

lemma opt_compare_nullopt_rep:
  fixes v :: "'a::linorder option"
  shows "opt_eq_nullopt (opt_rep v) \<longleftrightarrow> v = None" "nullopt_eq_opt (opt_rep v) \<longleftrightarrow> None = v"
    "opt_ne_nullopt (opt_rep v) \<longleftrightarrow> v \<noteq> None" "nullopt_ne_opt (opt_rep v) \<longleftrightarrow> None \<noteq> v"
    "nullopt_lt_opt (opt_rep v) \<longleftrightarrow> None < v" "opt_le_nullopt (opt_rep v) \<longleftrightarrow> v \<le> None"
    "nullopt_le_opt (opt_rep v) \<longleftrightarrow> None \<le> v" "opt_gt_nullopt (opt_rep v) \<longleftrightarrow> v > None"
    "nullopt_gt_opt (opt_rep v) \<longleftrightarrow> None > v" "opt_ge_nullopt (opt_rep v) \<longleftrightarrow> v \<ge> None"
    "nullopt_ge_opt (opt_rep v) \<longleftrightarrow> None \<ge> v"
  by (cases v; simp add: opt_eq_nullopt_def nullopt_eq_opt_def opt_ne_nullopt_def nullopt_ne_opt_def
      nullopt_lt_opt_def opt_le_nullopt_def nullopt_le_opt_def opt_gt_nullopt_def nullopt_gt_opt_def
      opt_ge_nullopt_def nullopt_ge_opt_def opt_lt_nullopt_def opt_simps)+

end
