(* ===== verification/Core_Expected.thy ===== *)
theory Core_Expected
  imports Core_Optional
begin

text \<open>
  The rest of mnmlstc/core/optional.hpp: \<^verbatim>\<open>expected\<close> (a value or a stored exception),
  \<^verbatim>\<open>result\<close> (a value or an error condition) and their specialisations for
  \<^verbatim>\<open>void\<close>.

  Both hold a union and a flag, and most of their members have the same text; those are modelled once
  on \<open>holder\<close> and named for each class. Copying an exception pointer or an error condition does not
  throw. \<open>uni_rep\<close> is the holder that stands for an error (\<open>Inl\<close>) or a value (\<open>Inr\<close>).
\<close>

section \<open>Errors\<close>

text \<open>An \<^verbatim>\<open>std::exception_ptr\<close> is null or points to an exception object, which has an
  identity.\<close>

type_synonym 'x exception_ptr = "(nat \<times> 'x exn) option"

text \<open>An \<^verbatim>\<open>std::error_condition\<close>, ordered by category and then by value; it converts to true
  if its value is not 0.\<close>

datatype error_condition = Error_condition (ec_category: nat) (ec_value: int)

instantiation error_condition :: linorder
begin

definition less_eq_error_condition :: "error_condition \<Rightarrow> error_condition \<Rightarrow> bool" where
  "less_eq_error_condition c d \<longleftrightarrow>
     ec_category c < ec_category d \<or> ec_category c = ec_category d \<and> ec_value c \<le> ec_value d"

definition less_error_condition :: "error_condition \<Rightarrow> error_condition \<Rightarrow> bool" where
  "less_error_condition c d \<longleftrightarrow>
     ec_category c < ec_category d \<or> ec_category c = ec_category d \<and> ec_value c < ec_value d"

instance
  by intro_classes (auto simp: less_eq_error_condition_def less_error_condition_def intro: error_condition.expand)

end

definition cond_set :: "error_condition \<Rightarrow> bool" where
  "cond_set c \<longleftrightarrow> ec_value c \<noteq> 0"

section \<open>The common part\<close>

datatype ('a, 'e) member = No_member | Val_member 'a | Err_member 'e

record ('a, 'e) holder =
  alive :: "('a, 'e) member"
  valid :: bool

fun val_of :: "('a, 'e) member \<Rightarrow> 'a option" where
  "val_of (Val_member v) = Some v"
| "val_of _ = None"

fun err_of :: "('a, 'e) member \<Rightarrow> 'e option" where
  "err_of (Err_member e) = Some e"
| "err_of _ = None"

text \<open>Constructors: from an error, from the outcome of the value's constructor, by copy, by move.\<close>

definition uni_of_error :: "'e \<Rightarrow> ('a, 'e) holder" where
  "uni_of_error e = \<lparr>alive = Err_member e, valid = False\<rparr>"

definition uni_make :: "'x exn + 'a \<Rightarrow> 'x exn + ('a, 'e) holder" where
  "uni_make made = (case made of Inl x \<Rightarrow> Inl x | Inr w \<Rightarrow> Inr \<lparr>alive = Val_member w, valid = True\<rparr>)"

definition uni_copy :: "('a, 'x) type_ops \<Rightarrow> ('a, 'e) holder \<Rightarrow> ('x exn + ('a, 'e) holder) option" where
  "uni_copy ops that =
     (if valid that
      then do {
        v \<leftarrow> val_of (alive that);
        Some (case copy_ctor ops v of
                Inl x \<Rightarrow> Inl x
              | Inr w \<Rightarrow> Inr \<lparr>alive = Val_member w, valid = valid that\<rparr>)
      }
      else do { e \<leftarrow> err_of (alive that); Some (Inr \<lparr>alive = Err_member e, valid = valid that\<rparr>) })"

definition uni_move ::
    "('a, 'x) type_ops \<Rightarrow> ('a, 'e) holder \<Rightarrow> (('x exn + ('a, 'e) holder) \<times> ('a, 'e) holder) option" where
  "uni_move ops that =
     (if valid that
      then do {
        v \<leftarrow> val_of (alive that);
        Some (case move_ctor ops v of
                Inl x \<Rightarrow> (Inl x, that)
              | Inr w \<Rightarrow> (Inr \<lparr>alive = Val_member w, valid = valid that\<rparr>,
                  that\<lparr>alive := Val_member (moved_from ops v)\<rparr>))
      }
      else do { e \<leftarrow> err_of (alive that); Some (Inr \<lparr>alive = Err_member e, valid = valid that\<rparr>, that) })"

text \<open>\<^verbatim>\<open>reset\<close> destroys the member the flag names and leaves the flag; it is also the
  destructor.\<close>

definition uni_reset :: "('a, 'e) holder \<Rightarrow> ('a, 'e) holder option" where
  "uni_reset this =
     (if valid this then do { _ \<leftarrow> val_of (alive this); Some (this\<lparr>alive := No_member\<rparr>) }
      else do { _ \<leftarrow> err_of (alive this); Some (this\<lparr>alive := No_member\<rparr>) })"

definition uni_emplace ::
    "'x exn + 'a \<Rightarrow> ('a, 'e) holder \<Rightarrow> (('x exn + unit) \<times> ('a, 'e) holder) option" where
  "uni_emplace made this =
     do {
       this1 \<leftarrow> uni_reset this;
       Some (case made of
               Inl x \<Rightarrow> (Inl x, this1)
             | Inr w \<Rightarrow> (Inr (), this1\<lparr>alive := Val_member w, valid := True\<rparr>))
     }"

text \<open>Assigning a value: \<open>made\<close> constructs it, \<open>assigned\<close> assigns it to the one that is there.\<close>

definition uni_assign_value ::
    "'x exn + 'a \<Rightarrow> ('a \<Rightarrow> 'x exn + 'a) \<Rightarrow> ('a, 'e) holder \<Rightarrow> (('x exn + unit) \<times> ('a, 'e) holder) option" where
  "uni_assign_value made assigned this =
     (if \<not> valid this then uni_emplace made this
      else do {
        v \<leftarrow> val_of (alive this);
        Some (case assigned v of Inl x \<Rightarrow> (Inl x, this) | Inr w \<Rightarrow> (Inr (), this\<lparr>alive := Val_member w\<rparr>))
      })"

text \<open>The part of swap where one object is valid; \<open>set_error\<close> is the assignment of an error.\<close>

definition uni_hand_over ::
    "('e \<Rightarrow> ('a, 'e) holder \<Rightarrow> ('a, 'e) holder option) \<Rightarrow> ('a, 'x) type_ops \<Rightarrow> ('a, 'e) holder \<Rightarrow> ('a, 'e) holder
     \<Rightarrow> (('x exn + unit) \<times> ('a, 'e) holder \<times> ('a, 'e) holder) option" where
  "uni_hand_over set_error ops to_invalidate to_validate =
     do {
       e \<leftarrow> err_of (alive to_validate);
       v \<leftarrow> val_of (alive to_invalidate);
       (r, to_validate1) \<leftarrow> uni_emplace (move_ctor ops v) to_validate;
       case r of
         Inl x \<Rightarrow> Some (Inl x, to_invalidate, to_validate1)
       | Inr _ \<Rightarrow> do {
           to_invalidate1 \<leftarrow> set_error e (to_invalidate\<lparr>alive := Val_member (moved_from ops v)\<rparr>);
           Some (Inr (), to_invalidate1, to_validate1)
         }
     }"

definition uni_swap ::
    "('e \<Rightarrow> ('a, 'e) holder \<Rightarrow> ('a, 'e) holder option) \<Rightarrow> ('a, 'x) type_ops \<Rightarrow> ('a, 'e) holder \<Rightarrow> ('a, 'e) holder
     \<Rightarrow> (('x exn + unit) \<times> ('a, 'e) holder \<times> ('a, 'e) holder) option" where
  "uni_swap set_error ops this that =
     (if \<not> valid this \<and> \<not> valid that
        then do {
          e \<leftarrow> err_of (alive this); f \<leftarrow> err_of (alive that);
          Some (Inr (), this\<lparr>alive := Err_member f\<rparr>, that\<lparr>alive := Err_member e\<rparr>)
        }
      else if valid this \<and> valid that
        then do {
          v \<leftarrow> val_of (alive this); w \<leftarrow> val_of (alive that);
          Some (Inr (), this\<lparr>alive := Val_member w\<rparr>, that\<lparr>alive := Val_member v\<rparr>)
        }
      else if valid this then uni_hand_over set_error ops this that
      else do {
        (r, that1, this1) \<leftarrow> uni_hand_over set_error ops that this;
        Some (r, this1, that1)
      })"

text \<open>Assignment: a copy, a swap with it, and the destructor of what was there.\<close>

definition uni_assign ::
    "('e \<Rightarrow> ('a, 'e) holder \<Rightarrow> ('a, 'e) holder option) \<Rightarrow> ('a, 'x) type_ops \<Rightarrow> ('a, 'e) holder \<Rightarrow> ('a, 'e) holder
     \<Rightarrow> (('x exn + unit) \<times> ('a, 'e) holder) option" where
  "uni_assign set_error ops this that =
     do {
       made \<leftarrow> uni_copy ops that;
       case made of
         Inl x \<Rightarrow> Some (Inl x, this)
       | Inr tmp \<Rightarrow> do {
           (r, tmp1, this1) \<leftarrow> uni_swap set_error ops tmp this;
           _ \<leftarrow> uni_reset tmp1;
           Some (r, this1)
         }
     }"

definition uni_move_assign ::
    "('e \<Rightarrow> ('a, 'e) holder \<Rightarrow> ('a, 'e) holder option) \<Rightarrow> ('a, 'x) type_ops \<Rightarrow> ('a, 'e) holder \<Rightarrow> ('a, 'e) holder
     \<Rightarrow> (('x exn + unit) \<times> ('a, 'e) holder \<times> ('a, 'e) holder) option" where
  "uni_move_assign set_error ops this that =
     do {
       (made, that1) \<leftarrow> uni_move ops that;
       case made of
         Inl x \<Rightarrow> Some (Inl x, this, that1)
       | Inr tmp \<Rightarrow> do {
           (r, tmp1, this1) \<leftarrow> uni_swap set_error ops tmp this;
           _ \<leftarrow> uni_reset tmp1;
           Some (r, this1, that1)
         }
     }"

definition uni_value_or :: "('a, 'x) type_ops \<Rightarrow> 'x exn + 'a \<Rightarrow> ('a, 'e) holder \<Rightarrow> ('x exn + 'a) option" where
  "uni_value_or ops other this =
     (if valid this then map_option (copy_ctor ops) (val_of (alive this)) else Some other)"

definition uni_value_or_move :: "('a, 'x) type_ops \<Rightarrow> 'x exn + 'a \<Rightarrow> ('a, 'e) holder \<Rightarrow> ('x exn + 'a) option" where
  "uni_value_or_move ops other this =
     (if valid this then map_option (move_ctor ops) (val_of (alive this)) else Some other)"

section \<open>expected\<close>

type_synonym ('a, 'x) expected = "('a, 'x exception_ptr) holder"

definition exp_of_exception :: "'x exception_ptr \<Rightarrow> ('a, 'x) expected" where
  "exp_of_exception ptr = uni_of_error ptr"

definition exp_make :: "'x exn + 'a \<Rightarrow> 'x exn + ('a, 'x) expected" where
  "exp_make made = uni_make made"

definition exp_copy :: "('a, 'x) type_ops \<Rightarrow> ('a, 'x) expected \<Rightarrow> ('x exn + ('a, 'x) expected) option" where
  "exp_copy ops that = uni_copy ops that"

definition exp_move ::
    "('a, 'x) type_ops \<Rightarrow> ('a, 'x) expected \<Rightarrow> (('x exn + ('a, 'x) expected) \<times> ('a, 'x) expected) option" where
  "exp_move ops that = uni_move ops that"

definition exp_destroy :: "('a, 'x) expected \<Rightarrow> ('a, 'x) expected option" where
  "exp_destroy this = uni_reset this"

definition exp_emplace :: "'x exn + 'a \<Rightarrow> ('a, 'x) expected \<Rightarrow> (('x exn + unit) \<times> ('a, 'x) expected) option" where
  "exp_emplace made this = uni_emplace made this"

definition exp_assign_value ::
    "'x exn + 'a \<Rightarrow> ('a \<Rightarrow> 'x exn + 'a) \<Rightarrow> ('a, 'x) expected \<Rightarrow> (('x exn + unit) \<times> ('a, 'x) expected) option" where
  "exp_assign_value made assigned this = uni_assign_value made assigned this"

definition exp_assign_exception :: "'x exception_ptr \<Rightarrow> ('a, 'x) expected \<Rightarrow> ('a, 'x) expected option" where
  "exp_assign_exception ptr this =
     (if \<not> valid this then do { _ \<leftarrow> err_of (alive this); Some (this\<lparr>alive := Err_member ptr\<rparr>) }
      else do { _ \<leftarrow> val_of (alive this); Some (this\<lparr>alive := Err_member ptr, valid := False\<rparr>) })"

definition exp_swap ::
    "('a, 'x) type_ops \<Rightarrow> ('a, 'x) expected \<Rightarrow> ('a, 'x) expected
     \<Rightarrow> (('x exn + unit) \<times> ('a, 'x) expected \<times> ('a, 'x) expected) option" where
  "exp_swap ops this that = uni_swap exp_assign_exception ops this that"

definition exp_assign ::
    "('a, 'x) type_ops \<Rightarrow> ('a, 'x) expected \<Rightarrow> ('a, 'x) expected
     \<Rightarrow> (('x exn + unit) \<times> ('a, 'x) expected) option" where
  "exp_assign ops this that = uni_assign exp_assign_exception ops this that"

definition exp_move_assign ::
    "('a, 'x) type_ops \<Rightarrow> ('a, 'x) expected \<Rightarrow> ('a, 'x) expected
     \<Rightarrow> (('x exn + unit) \<times> ('a, 'x) expected \<times> ('a, 'x) expected) option" where
  "exp_move_assign ops this that = uni_move_assign exp_assign_exception ops this that"

text \<open>\<^verbatim>\<open>std::rethrow_exception\<close> of a null pointer is undefined.\<close>

definition rethrow :: "'x exception_ptr \<Rightarrow> 'x exn option" where
  "rethrow ptr = map_option snd ptr"

definition exp_value :: "('a, 'x) expected \<Rightarrow> ('x exn + 'a) option" where
  "exp_value this =
     (if \<not> valid this then do { ptr \<leftarrow> err_of (alive this); x \<leftarrow> rethrow ptr; Some (Inl x) }
      else map_option Inr (val_of (alive this)))"

definition exp_value_or :: "('a, 'x) type_ops \<Rightarrow> 'x exn + 'a \<Rightarrow> ('a, 'x) expected \<Rightarrow> ('x exn + 'a) option" where
  "exp_value_or ops other this = uni_value_or ops other this"

definition exp_value_or_move :: "('a, 'x) type_ops \<Rightarrow> 'x exn + 'a \<Rightarrow> ('a, 'x) expected \<Rightarrow> ('x exn + 'a) option" where
  "exp_value_or_move ops other this = uni_value_or_move ops other this"

text \<open>\<open>exp_raise\<close> always throws; the result is the exception.\<close>

definition exp_raise :: "('a, 'x) expected \<Rightarrow> 'x exn option" where
  "exp_raise this =
     (if valid this then Some Bad_expected_type else do { ptr \<leftarrow> err_of (alive this); rethrow ptr })"

text \<open>\<^verbatim>\<open>expect<E>\<close> returns the exception if it is an \<open>E\<close>.\<close>

definition exp_expect :: "('x exn \<Rightarrow> bool) \<Rightarrow> ('a, 'x) expected \<Rightarrow> ('x exn + 'x exn) option" where
  "exp_expect is_E this =
     do {
       x \<leftarrow> exp_raise this;
       Some (if is_E x then Inr x else Inl (Bad_expected_type_nesting x))
     }"

definition exp_pointer :: "('a, 'x) expected \<Rightarrow> ('x exn + 'x exception_ptr) option" where
  "exp_pointer this =
     (if valid this then Some (Inl Bad_expected_type) else map_option Inr (err_of (alive this)))"

definition make_expected_error :: "'x exception_ptr \<Rightarrow> ('a, 'x) expected" where
  "make_expected_error e = exp_of_exception e"

definition make_expected :: "'x exn + 'a \<Rightarrow> 'x exn + ('a, 'x) expected" where
  "make_expected made = exp_make made"

definition exp_hash :: "('a \<Rightarrow> nat) \<Rightarrow> ('a, 'x) expected \<Rightarrow> nat option" where
  "exp_hash hash_value this = (if valid this then map_option hash_value (val_of (alive this)) else Some 0)"

section \<open>expected of void\<close>

text \<open>Only the pointer; null means success.\<close>

definition vexp_bool :: "'x exception_ptr \<Rightarrow> bool" where
  "vexp_bool ptr \<longleftrightarrow> ptr = None"

definition vexp_assign :: "'x exception_ptr \<Rightarrow> 'x exception_ptr \<Rightarrow> 'x exception_ptr" where
  "vexp_assign ptr this = (let (tmp, this1) = (this, ptr) in this1)"

definition vexp_raise :: "'x exception_ptr \<Rightarrow> 'x exn option" where
  "vexp_raise ptr = (if vexp_bool ptr then Some Bad_expected_type else rethrow ptr)"

definition vexp_expect :: "('x exn \<Rightarrow> bool) \<Rightarrow> 'x exception_ptr \<Rightarrow> ('x exn + 'x exn) option" where
  "vexp_expect is_E ptr =
     do { x \<leftarrow> vexp_raise ptr; Some (if is_E x then Inr x else Inl (Bad_expected_type_nesting x)) }"

definition vexp_pointer :: "'x exception_ptr \<Rightarrow> 'x exn + 'x exception_ptr" where
  "vexp_pointer ptr = (if vexp_bool ptr then Inl Bad_expected_type else Inr ptr)"

section \<open>result\<close>

type_synonym 'a result = "('a, error_condition) holder"

text \<open>From an error number and a category, from a condition (and from an enumerator, whose underlying
  value is \<open>n\<close> and whose condition is \<open>c\<close>); \<open>made\<close> is the default construction of the value.\<close>

definition res_of_number :: "'x exn + 'a \<Rightarrow> int \<Rightarrow> nat \<Rightarrow> 'x exn + 'a result" where
  "res_of_number made n cat = (if n = 0 then uni_make made else Inr (uni_of_error (Error_condition cat n)))"

definition res_of_enum :: "'x exn + 'a \<Rightarrow> int \<Rightarrow> error_condition \<Rightarrow> 'x exn + 'a result" where
  "res_of_enum made n c = (if n = 0 then uni_make made else Inr (uni_of_error c))"

definition res_of_condition :: "'x exn + 'a \<Rightarrow> error_condition \<Rightarrow> 'x exn + 'a result" where
  "res_of_condition made ec = (if \<not> cond_set ec then uni_make made else Inr (uni_of_error ec))"

definition res_make :: "'x exn + 'a \<Rightarrow> 'x exn + 'a result" where
  "res_make made = uni_make made"

definition res_copy :: "('a, 'x) type_ops \<Rightarrow> 'a result \<Rightarrow> ('x exn + 'a result) option" where
  "res_copy ops that = uni_copy ops that"

definition res_move :: "('a, 'x) type_ops \<Rightarrow> 'a result \<Rightarrow> (('x exn + 'a result) \<times> 'a result) option" where
  "res_move ops that = uni_move ops that"

definition res_destroy :: "'a result \<Rightarrow> 'a result option" where
  "res_destroy this = uni_reset this"

definition res_emplace :: "'x exn + 'a \<Rightarrow> 'a result \<Rightarrow> (('x exn + unit) \<times> 'a result) option" where
  "res_emplace made this = uni_emplace made this"

definition res_assign_value ::
    "'x exn + 'a \<Rightarrow> ('a \<Rightarrow> 'x exn + 'a) \<Rightarrow> 'a result \<Rightarrow> (('x exn + unit) \<times> 'a result) option" where
  "res_assign_value made assigned this = uni_assign_value made assigned this"

definition res_assign_condition :: "error_condition \<Rightarrow> 'a result \<Rightarrow> 'a result option" where
  "res_assign_condition c this =
     (if \<not> cond_set c then Some this
      else if \<not> valid this then do { _ \<leftarrow> err_of (alive this); Some (this\<lparr>alive := Err_member c\<rparr>) }
      else do { this1 \<leftarrow> uni_reset this; Some (this1\<lparr>alive := Err_member c, valid := False\<rparr>) })"

definition res_swap ::
    "('a, 'x) type_ops \<Rightarrow> 'a result \<Rightarrow> 'a result \<Rightarrow> (('x exn + unit) \<times> 'a result \<times> 'a result) option" where
  "res_swap ops this that = uni_swap res_assign_condition ops this that"

definition res_assign ::
    "('a, 'x) type_ops \<Rightarrow> 'a result \<Rightarrow> 'a result \<Rightarrow> (('x exn + unit) \<times> 'a result) option" where
  "res_assign ops this that = uni_assign res_assign_condition ops this that"

definition res_move_assign ::
    "('a, 'x) type_ops \<Rightarrow> 'a result \<Rightarrow> 'a result \<Rightarrow> (('x exn + unit) \<times> 'a result \<times> 'a result) option" where
  "res_move_assign ops this that = uni_move_assign res_assign_condition ops this that"

definition res_assign_enum ::
    "('a, 'x) type_ops \<Rightarrow> 'x exn + 'a \<Rightarrow> int \<Rightarrow> error_condition \<Rightarrow> 'a result \<Rightarrow> (('x exn + unit) \<times> 'a result) option" where
  "res_assign_enum ops made n c this =
     (case res_of_enum made n c of
        Inl x \<Rightarrow> Some (Inl x, this)
      | Inr tmp \<Rightarrow> do {
          (r, tmp1, this1) \<leftarrow> res_swap ops tmp this;
          _ \<leftarrow> res_destroy tmp1;
          Some (r, this1)
        })"

definition res_value :: "'a result \<Rightarrow> ('x exn + 'a) option" where
  "res_value this =
     (if valid this then map_option Inr (val_of (alive this))
      else do { c \<leftarrow> err_of (alive this); Some (Inl (System_error (ec_value c) (ec_category c))) })"

definition res_value_or :: "('a, 'x) type_ops \<Rightarrow> 'x exn + 'a \<Rightarrow> 'a result \<Rightarrow> ('x exn + 'a) option" where
  "res_value_or ops other this = uni_value_or ops other this"

definition res_value_or_move :: "('a, 'x) type_ops \<Rightarrow> 'x exn + 'a \<Rightarrow> 'a result \<Rightarrow> ('x exn + 'a) option" where
  "res_value_or_move ops other this = uni_value_or_move ops other this"

definition res_condition :: "'a result \<Rightarrow> ('x exn + error_condition) option" where
  "res_condition this =
     (if valid this then Some (Inl Bad_result_condition) else map_option Inr (err_of (alive this)))"

definition make_result :: "'x exn + 'a \<Rightarrow> 'x exn + 'a result" where
  "make_result made = res_make made"

definition make_result_error :: "'x exn + 'a \<Rightarrow> error_condition \<Rightarrow> 'x exn + 'a result" where
  "make_result_error made e = res_of_condition made e"

definition res_hash :: "('a \<Rightarrow> nat) \<Rightarrow> 'a result \<Rightarrow> nat option" where
  "res_hash hash_value this = (if valid this then map_option hash_value (val_of (alive this)) else Some 0)"

section \<open>result of void\<close>

definition vres_bool :: "error_condition \<Rightarrow> bool" where
  "vres_bool cnd \<longleftrightarrow> \<not> cond_set cnd"

definition vres_assign :: "error_condition \<Rightarrow> error_condition \<Rightarrow> error_condition" where
  "vres_assign ec this = (let (tmp, this1) = (this, ec) in this1)"

definition vres_condition :: "error_condition \<Rightarrow> 'x exn + error_condition" where
  "vres_condition cnd = (if vres_bool cnd then Inl Bad_result_condition else Inr cnd)"

section \<open>The operations on what a holder stands for\<close>

named_theorems uni_simps \<open>the operations of a holder, applied to the holder of an error or a value\<close>

definition uni_rep :: "'e + 'a \<Rightarrow> ('a, 'e) holder" where
  "uni_rep c = (case c of
     Inl e \<Rightarrow> \<lparr>alive = Err_member e, valid = False\<rparr> | Inr v \<Rightarrow> \<lparr>alive = Val_member v, valid = True\<rparr>)"

text \<open>The class invariant: exactly the member the flag names is alive.\<close>

definition uni_ok :: "('a, 'e) holder \<Rightarrow> bool" where
  "uni_ok u \<longleftrightarrow> (case alive u of No_member \<Rightarrow> False | Val_member _ \<Rightarrow> valid u | Err_member _ \<Rightarrow> \<not> valid u)"

lemma uni_ok_rep: "uni_ok u \<longleftrightarrow> (\<exists>c. u = uni_rep c)"
proof
  assume "uni_ok u"
  then show "\<exists>c. u = uni_rep c"
    by (cases u; cases "alive u") (auto simp: uni_ok_def uni_rep_def intro: exI [of _ "Inl _"] exI [of _ "Inr _"])
qed (auto simp: uni_ok_def uni_rep_def split: sum.split)

lemma uni_rep_valid [uni_simps]: "valid (uni_rep c) \<longleftrightarrow> \<not> isl c"
  by (cases c) (simp_all add: uni_rep_def)

lemma uni_rep_val [uni_simps]: "val_of (alive (uni_rep (Inr v))) = Some v" "val_of (alive (uni_rep (Inl e))) = None"
  by (simp_all add: uni_rep_def)

lemma uni_rep_err [uni_simps]: "err_of (alive (uni_rep (Inl e))) = Some e" "err_of (alive (uni_rep (Inr v))) = None"
  by (simp_all add: uni_rep_def)

lemma uni_rep_fold [uni_simps]:
  "\<lparr>alive = Err_member e, valid = False\<rparr> = uni_rep (Inl e)" "\<lparr>alive = Val_member v, valid = True\<rparr> = uni_rep (Inr v)"
  "(uni_rep (Inl d))\<lparr>alive := Err_member e\<rparr> = uni_rep (Inl e)" "(uni_rep (Inr w))\<lparr>alive := Val_member v\<rparr> = uni_rep (Inr v)"
  "(uni_rep c)\<lparr>alive := Err_member e, valid := False\<rparr> = uni_rep (Inl e)"
  "(uni_rep c)\<lparr>alive := m, valid := False, alive := Err_member e\<rparr> = uni_rep (Inl e)"
  by (simp_all add: uni_rep_def split: sum.split)

lemma uni_of_error_rep [uni_simps]: "uni_of_error e = uni_rep (Inl e)"
  by (simp add: uni_of_error_def uni_simps)

lemma uni_make_rep [uni_simps]: "uni_make made = map_sum id (\<lambda>v. uni_rep (Inr v)) made"
  by (cases made) (simp_all add: uni_make_def uni_simps)

lemma uni_copy_rep [uni_simps]:
  "uni_copy ops (uni_rep c) =
    Some (case c of Inl e \<Rightarrow> Inr (uni_rep c) | Inr a \<Rightarrow> map_sum id (\<lambda>w. uni_rep (Inr w)) (copy_ctor ops a))"
  by (cases c) (auto simp: uni_copy_def uni_simps split: sum.split)

lemma uni_move_rep [uni_simps]:
  "uni_move ops (uni_rep c) =
    Some (case c of
            Inl e \<Rightarrow> (Inr (uni_rep c), uni_rep c)
          | Inr a \<Rightarrow> (case move_ctor ops a of
              Inl x \<Rightarrow> (Inl x, uni_rep c) | Inr w \<Rightarrow> (Inr (uni_rep (Inr w)), uni_rep (Inr (moved_from ops a)))))"
  by (cases c) (auto simp: uni_move_def uni_simps split: sum.split)

lemma uni_reset_rep [uni_simps]: "uni_reset (uni_rep c) = Some ((uni_rep c)\<lparr>alive := No_member\<rparr>)"
  by (cases c) (simp_all add: uni_reset_def uni_simps)

text \<open>A constructor that throws in \<^verbatim>\<open>emplace\<close> leaves no member alive.\<close>

lemma uni_emplace_rep [uni_simps]:
  "uni_emplace made (uni_rep c) =
    Some (case made of
            Inl x \<Rightarrow> (Inl x, (uni_rep c)\<lparr>alive := No_member\<rparr>)
          | Inr w \<Rightarrow> (Inr (), uni_rep (Inr w)))"
  by (simp add: uni_emplace_def uni_reset_def uni_rep_def split: sum.split)

lemma uni_reset_dead: "uni_reset ((uni_rep c)\<lparr>alive := No_member\<rparr>) = None"
  by (simp add: uni_reset_def)

lemma uni_assign_value_rep [uni_simps]:
  "uni_assign_value made assigned (uni_rep c) =
    Some (case c of
            Inl e \<Rightarrow> (case made of
              Inl x \<Rightarrow> (Inl x, (uni_rep c)\<lparr>alive := No_member\<rparr>) | Inr w \<Rightarrow> (Inr (), uni_rep (Inr w)))
          | Inr a \<Rightarrow> (case assigned a of Inl x \<Rightarrow> (Inl x, uni_rep c) | Inr w \<Rightarrow> (Inr (), uni_rep (Inr w))))"
  by (cases c) (simp_all add: uni_assign_value_def uni_simps split: sum.split)

lemma uni_value_or_rep [uni_simps]:
  "uni_value_or ops other (uni_rep c) = Some (case c of Inl e \<Rightarrow> other | Inr a \<Rightarrow> copy_ctor ops a)"
  "uni_value_or_move ops other (uni_rep c) = Some (case c of Inl e \<Rightarrow> other | Inr a \<Rightarrow> move_ctor ops a)"
  by (cases c; simp add: uni_value_or_def uni_value_or_move_def uni_simps)+

definition proper :: "('e \<Rightarrow> bool) \<Rightarrow> 'e + 'a \<Rightarrow> bool" where
  "proper is_error c \<longleftrightarrow> (case c of Inl e \<Rightarrow> is_error e | Inr _ \<Rightarrow> True)"

text \<open>What swap and the assignments need of the assignment of an error.\<close>

locale error_assignment =
  fixes set_error :: "'e \<Rightarrow> ('a, 'e) holder \<Rightarrow> ('a, 'e) holder option" and is_error :: "'e \<Rightarrow> bool"
  assumes set_error: "is_error e \<Longrightarrow> set_error e (uni_rep c) = Some (uni_rep (Inl e))"
begin

lemma swap:
  assumes "nothrow_move ops" and "proper is_error c" and "proper is_error d"
  shows "uni_swap set_error ops (uni_rep c) (uni_rep d) = Some (Inr (), uni_rep d, uni_rep c)"
  using assms
  by (cases c; cases d)
    (simp_all add: uni_swap_def uni_hand_over_def uni_simps nothrow_move_def proper_def set_error)

lemma assign:
  assumes "regular ops" and "nothrow_move ops" and "proper is_error c" and "proper is_error d"
  obtains "uni_assign set_error ops (uni_rep c) (uni_rep d) = Some (Inr (), uni_rep d)"
    | x where "uni_assign set_error ops (uni_rep c) (uni_rep d) = Some (Inl x, uni_rep c)"
proof (cases d)
  case (Inl e)
  then show thesis
    using that(1) swap [OF assms(2,4,3)] by (simp add: uni_assign_def uni_simps)
next
  case (Inr a)
  show thesis
    by (rule regular_copy [OF assms(1), of a])
      (use Inr that swap [OF assms(2,4,3)] in \<open>auto simp: uni_assign_def uni_simps\<close>)
qed

lemma move_assign:
  assumes "nothrow_move ops" and "proper is_error c" and "proper is_error d"
  shows "uni_move_assign set_error ops (uni_rep c) (uni_rep d) =
    Some (Inr (), uni_rep d, uni_rep (map_sum id (moved_from ops) d))"
  using swap [OF assms(1,3,2)] assms(1)
  by (cases d) (simp_all add: uni_move_assign_def uni_simps nothrow_move_def)

end

interpretation expected_error: error_assignment exp_assign_exception "\<lambda>_. True"
  by unfold_locales (auto simp: exp_assign_exception_def uni_rep_def split: sum.split)

interpretation result_error: error_assignment res_assign_condition cond_set
  by unfold_locales (auto simp: res_assign_condition_def uni_reset_def uni_rep_def split: sum.split)

end
