(* ===== verification/Core_Compare.thy ===== *)
theory Core_Compare
  imports Core_Expected "HOL-Library.Product_Lexorder"
begin

text \<open>
  The comparison operators of \<^verbatim>\<open>expected\<close> and \<^verbatim>\<open>result\<close> in
  mnmlstc/core/optional.hpp, with those of \<open>Core_Optional\<close> put under one contract.

  The value type's \<^verbatim>\<open>==\<close> and \<^verbatim>\<open><\<close> are equality and the order of the type. An
  \<open>expected\<close> compares as the option that forgets the error, a \<open>result\<close> with all errors below all
  values. The locale \<open>comparison\<close> says what six such operators promise together.
\<close>

section \<open>operator ==\<close>

definition exp_eq :: "('a, 'x) expected \<Rightarrow> ('a, 'x) expected \<Rightarrow> bool option" where
  "exp_eq lhs rhs =
     (if valid lhs \<and> valid rhs then do { x \<leftarrow> val_of (alive lhs); y \<leftarrow> val_of (alive rhs); Some (x = y) }
      else Some (\<not> valid lhs \<and> \<not> valid rhs))"

definition exp_eq_ptr :: "('a, 'x) expected \<Rightarrow> 'x exception_ptr \<Rightarrow> bool" where
  "exp_eq_ptr lhs ptr \<longleftrightarrow> \<not> valid lhs"

definition ptr_eq_exp :: "'x exception_ptr \<Rightarrow> ('a, 'x) expected \<Rightarrow> bool" where
  "ptr_eq_exp ptr rhs \<longleftrightarrow> \<not> valid rhs"

definition exp_eq_value :: "('a, 'x) expected \<Rightarrow> 'a \<Rightarrow> bool option" where
  "exp_eq_value lhs rhs = (if \<not> valid lhs then Some False else map_option (\<lambda>x. x = rhs) (val_of (alive lhs)))"

definition value_eq_exp :: "'a \<Rightarrow> ('a, 'x) expected \<Rightarrow> bool option" where
  "value_eq_exp lhs rhs = (if \<not> valid rhs then Some False else map_option (\<lambda>x. lhs = x) (val_of (alive rhs)))"

definition res_eq :: "'a result \<Rightarrow> 'a result \<Rightarrow> bool option" where
  "res_eq lhs rhs =
     (if valid lhs \<and> valid rhs then do { x \<leftarrow> val_of (alive lhs); y \<leftarrow> val_of (alive rhs); Some (x = y) }
      else if \<not> valid lhs \<and> \<not> valid rhs then do { c \<leftarrow> err_of (alive lhs); d \<leftarrow> err_of (alive rhs); Some (c = d) }
      else Some False)"

definition res_eq_cond :: "'a result \<Rightarrow> error_condition \<Rightarrow> bool option" where
  "res_eq_cond lhs rhs =
     (if \<not> valid lhs \<and> cond_set rhs then map_option (\<lambda>c. c = rhs) (err_of (alive lhs)) else Some False)"

definition cond_eq_res :: "error_condition \<Rightarrow> 'a result \<Rightarrow> bool option" where
  "cond_eq_res lhs rhs =
     (if cond_set lhs \<and> \<not> valid rhs then map_option (\<lambda>c. lhs = c) (err_of (alive rhs)) else Some False)"

text \<open>Error codes are compared with conditions by their categories: \<open>equivalent\<close> is
  \<^verbatim>\<open>error_category::equivalent\<close>; \<open>bad\<close> says whether the code is an error.\<close>

definition res_eq_code :: "('c \<Rightarrow> error_condition \<Rightarrow> bool) \<Rightarrow> ('c \<Rightarrow> bool) \<Rightarrow> 'a result \<Rightarrow> 'c \<Rightarrow> bool option" where
  "res_eq_code equivalent bad lhs rhs =
     (if \<not> valid lhs \<and> bad rhs then map_option (\<lambda>c. equivalent rhs c) (err_of (alive lhs)) else Some False)"

definition code_eq_res :: "('c \<Rightarrow> error_condition \<Rightarrow> bool) \<Rightarrow> ('c \<Rightarrow> bool) \<Rightarrow> 'c \<Rightarrow> 'a result \<Rightarrow> bool option" where
  "code_eq_res equivalent bad lhs rhs =
     (if bad lhs \<and> \<not> valid rhs then map_option (\<lambda>c. equivalent lhs c) (err_of (alive rhs)) else Some False)"

definition res_eq_value :: "'a result \<Rightarrow> 'a \<Rightarrow> bool option" where
  "res_eq_value res value = (if \<not> valid res then Some False else map_option (\<lambda>x. x = value) (val_of (alive res)))"

definition value_eq_res :: "'a \<Rightarrow> 'a result \<Rightarrow> bool option" where
  "value_eq_res value res = (if \<not> valid res then Some False else map_option (\<lambda>x. value = x) (val_of (alive res)))"

definition vexp_eq :: "'x exception_ptr \<Rightarrow> 'x exception_ptr \<Rightarrow> bool" where
  "vexp_eq lhs rhs =
     (if \<not> vexp_bool lhs \<and> \<not> vexp_bool rhs then lhs = rhs else vexp_bool lhs \<and> vexp_bool rhs)"

definition vres_eq :: "error_condition \<Rightarrow> error_condition \<Rightarrow> bool" where
  "vres_eq lhs rhs =
     (if \<not> vres_bool lhs \<and> \<not> vres_bool rhs then lhs = rhs else vres_bool lhs \<and> vres_bool rhs)"

section \<open>operator <\<close>

definition exp_lt :: "('a::ord, 'x) expected \<Rightarrow> ('a, 'x) expected \<Rightarrow> bool option" where
  "exp_lt lhs rhs =
     (if \<not> valid rhs then Some False
      else if \<not> valid lhs then Some True
      else do { x \<leftarrow> val_of (alive lhs); y \<leftarrow> val_of (alive rhs); Some (x < y) })"

definition exp_lt_ptr :: "('a, 'x) expected \<Rightarrow> 'x exception_ptr \<Rightarrow> bool" where
  "exp_lt_ptr lhs ptr \<longleftrightarrow> \<not> valid lhs"

definition ptr_lt_exp :: "'x exception_ptr \<Rightarrow> ('a, 'x) expected \<Rightarrow> bool" where
  "ptr_lt_exp ptr rhs \<longleftrightarrow> valid rhs"

definition exp_lt_value :: "('a::ord, 'x) expected \<Rightarrow> 'a \<Rightarrow> bool option" where
  "exp_lt_value exp value = (if \<not> valid exp then Some True else map_option (\<lambda>x. x < value) (val_of (alive exp)))"

definition value_lt_exp :: "'a::ord \<Rightarrow> ('a, 'x) expected \<Rightarrow> bool option" where
  "value_lt_exp value exp = (if \<not> valid exp then Some False else map_option (\<lambda>x. value < x) (val_of (alive exp)))"

definition res_lt :: "'a::ord result \<Rightarrow> 'a result \<Rightarrow> bool option" where
  "res_lt lhs rhs =
     (if \<not> valid rhs \<and> \<not> valid lhs then do { c \<leftarrow> err_of (alive lhs); d \<leftarrow> err_of (alive rhs); Some (c < d) }
      else if valid lhs \<and> valid rhs then do { x \<leftarrow> val_of (alive lhs); y \<leftarrow> val_of (alive rhs); Some (x < y) }
      else Some (valid rhs))"

definition res_lt_cond :: "'a result \<Rightarrow> error_condition \<Rightarrow> bool option" where
  "res_lt_cond lhs rhs = (if \<not> valid lhs then map_option (\<lambda>c. c < rhs) (err_of (alive lhs)) else Some False)"

definition cond_lt_res :: "error_condition \<Rightarrow> 'a result \<Rightarrow> bool option" where
  "cond_lt_res lhs rhs = (if \<not> valid rhs then map_option (\<lambda>c. lhs < c) (err_of (alive rhs)) else Some True)"

definition vres_lt :: "error_condition \<Rightarrow> error_condition \<Rightarrow> bool" where
  "vres_lt lhs rhs =
     (if \<not> vres_bool lhs \<and> \<not> vres_bool rhs then lhs < rhs else vres_bool rhs)"

definition res_lt_value :: "'a::ord result \<Rightarrow> 'a \<Rightarrow> bool option" where
  "res_lt_value res value = (if \<not> valid res then Some True else map_option (\<lambda>x. x < value) (val_of (alive res)))"

definition value_lt_res :: "'a::ord \<Rightarrow> 'a result \<Rightarrow> bool option" where
  "value_lt_res value res = (if \<not> valid res then Some False else map_option (\<lambda>x. value < x) (val_of (alive res)))"

section \<open>operator !=\<close>

definition exp_ne :: "('a, 'x) expected \<Rightarrow> ('a, 'x) expected \<Rightarrow> bool option" where
  "exp_ne lhs rhs = map_option Not (exp_eq lhs rhs)"

definition exp_ne_ptr :: "('a, 'x) expected \<Rightarrow> 'x exception_ptr \<Rightarrow> bool" where
  "exp_ne_ptr lhs rhs \<longleftrightarrow> \<not> exp_eq_ptr lhs rhs"

definition ptr_ne_exp :: "'x exception_ptr \<Rightarrow> ('a, 'x) expected \<Rightarrow> bool" where
  "ptr_ne_exp lhs rhs \<longleftrightarrow> \<not> ptr_eq_exp lhs rhs"

definition exp_ne_value :: "('a, 'x) expected \<Rightarrow> 'a \<Rightarrow> bool option" where
  "exp_ne_value exp value = map_option Not (exp_eq_value exp value)"

definition value_ne_exp :: "'a \<Rightarrow> ('a, 'x) expected \<Rightarrow> bool option" where
  "value_ne_exp value exp = map_option Not (value_eq_exp value exp)"

definition res_ne :: "'a result \<Rightarrow> 'a result \<Rightarrow> bool option" where
  "res_ne lhs rhs = map_option Not (res_eq lhs rhs)"

definition res_ne_cond :: "'a result \<Rightarrow> error_condition \<Rightarrow> bool option" where
  "res_ne_cond lhs rhs = map_option Not (res_eq_cond lhs rhs)"

definition cond_ne_res :: "error_condition \<Rightarrow> 'a result \<Rightarrow> bool option" where
  "cond_ne_res lhs rhs = map_option Not (cond_eq_res lhs rhs)"

definition res_ne_code :: "('c \<Rightarrow> error_condition \<Rightarrow> bool) \<Rightarrow> ('c \<Rightarrow> bool) \<Rightarrow> 'a result \<Rightarrow> 'c \<Rightarrow> bool option" where
  "res_ne_code equivalent bad lhs rhs = map_option Not (res_eq_code equivalent bad lhs rhs)"

definition code_ne_res :: "('c \<Rightarrow> error_condition \<Rightarrow> bool) \<Rightarrow> ('c \<Rightarrow> bool) \<Rightarrow> 'c \<Rightarrow> 'a result \<Rightarrow> bool option" where
  "code_ne_res equivalent bad lhs rhs = map_option Not (code_eq_res equivalent bad lhs rhs)"

definition res_ne_value :: "'a result \<Rightarrow> 'a \<Rightarrow> bool option" where
  "res_ne_value res value = map_option Not (res_eq_value res value)"

definition value_ne_res :: "'a \<Rightarrow> 'a result \<Rightarrow> bool option" where
  "value_ne_res value res = map_option Not (value_eq_res value res)"

definition vexp_ne :: "'x exception_ptr \<Rightarrow> 'x exception_ptr \<Rightarrow> bool" where
  "vexp_ne lhs rhs \<longleftrightarrow> \<not> vexp_eq lhs rhs"

definition vres_ne :: "error_condition \<Rightarrow> error_condition \<Rightarrow> bool" where
  "vres_ne lhs rhs \<longleftrightarrow> \<not> vres_eq lhs rhs"

section \<open>operator >=\<close>

definition exp_ge :: "('a::ord, 'x) expected \<Rightarrow> ('a, 'x) expected \<Rightarrow> bool option" where
  "exp_ge lhs rhs = map_option Not (exp_lt lhs rhs)"

definition exp_ge_ptr :: "('a, 'x) expected \<Rightarrow> 'x exception_ptr \<Rightarrow> bool" where
  "exp_ge_ptr lhs ptr \<longleftrightarrow> True"

definition ptr_ge_exp :: "'x exception_ptr \<Rightarrow> ('a, 'x) expected \<Rightarrow> bool" where
  "ptr_ge_exp ptr exp \<longleftrightarrow> exp_lt_ptr exp ptr"

definition exp_ge_value :: "('a::ord, 'x) expected \<Rightarrow> 'a \<Rightarrow> bool option" where
  "exp_ge_value exp value = map_option Not (exp_lt_value exp value)"

definition value_ge_exp :: "'a::ord \<Rightarrow> ('a, 'x) expected \<Rightarrow> bool option" where
  "value_ge_exp value exp = map_option Not (value_lt_exp value exp)"

definition res_ge :: "'a::ord result \<Rightarrow> 'a result \<Rightarrow> bool option" where
  "res_ge lhs rhs = map_option Not (res_lt lhs rhs)"

definition res_ge_cond :: "'a result \<Rightarrow> error_condition \<Rightarrow> bool option" where
  "res_ge_cond lhs rhs = map_option Not (res_lt_cond lhs rhs)"

definition cond_ge_res :: "error_condition \<Rightarrow> 'a result \<Rightarrow> bool option" where
  "cond_ge_res lhs rhs = map_option Not (cond_lt_res lhs rhs)"

definition res_ge_value :: "'a::ord result \<Rightarrow> 'a \<Rightarrow> bool option" where
  "res_ge_value res value = map_option Not (res_lt_value res value)"

definition value_ge_res :: "'a::ord \<Rightarrow> 'a result \<Rightarrow> bool option" where
  "value_ge_res value res = map_option Not (value_lt_res value res)"

definition vres_ge :: "error_condition \<Rightarrow> error_condition \<Rightarrow> bool" where
  "vres_ge lhs rhs \<longleftrightarrow> \<not> vres_lt lhs rhs"

section \<open>operator <=\<close>

definition exp_le :: "('a::ord, 'x) expected \<Rightarrow> ('a, 'x) expected \<Rightarrow> bool option" where
  "exp_le lhs rhs = map_option Not (exp_lt rhs lhs)"

definition exp_le_ptr :: "('a, 'x) expected \<Rightarrow> 'x exception_ptr \<Rightarrow> bool" where
  "exp_le_ptr lhs ptr \<longleftrightarrow> \<not> valid lhs"

definition ptr_le_exp :: "'x exception_ptr \<Rightarrow> ('a, 'x) expected \<Rightarrow> bool" where
  "ptr_le_exp ptr rhs \<longleftrightarrow> True"

definition exp_le_value :: "('a::ord, 'x) expected \<Rightarrow> 'a \<Rightarrow> bool option" where
  "exp_le_value exp value = map_option Not (value_lt_exp value exp)"

definition value_le_exp :: "'a::ord \<Rightarrow> ('a, 'x) expected \<Rightarrow> bool option" where
  "value_le_exp value exp = map_option Not (exp_lt_value exp value)"

definition res_le :: "'a::ord result \<Rightarrow> 'a result \<Rightarrow> bool option" where
  "res_le lhs rhs = map_option Not (res_lt rhs lhs)"

definition res_le_cond :: "'a result \<Rightarrow> error_condition \<Rightarrow> bool option" where
  "res_le_cond lhs rhs = map_option Not (cond_lt_res rhs lhs)"

definition cond_le_res :: "error_condition \<Rightarrow> 'a result \<Rightarrow> bool option" where
  "cond_le_res lhs rhs = map_option Not (res_lt_cond rhs lhs)"

definition res_le_value :: "'a::ord result \<Rightarrow> 'a \<Rightarrow> bool option" where
  "res_le_value res value = map_option Not (value_lt_res value res)"

definition value_le_res :: "'a::ord \<Rightarrow> 'a result \<Rightarrow> bool option" where
  "value_le_res value res = map_option Not (res_lt_value res value)"

section \<open>operator >\<close>

definition exp_gt :: "('a::ord, 'x) expected \<Rightarrow> ('a, 'x) expected \<Rightarrow> bool option" where
  "exp_gt lhs rhs = exp_lt rhs lhs"

definition exp_gt_value :: "('a::ord, 'x) expected \<Rightarrow> 'a \<Rightarrow> bool option" where
  "exp_gt_value exp value = value_lt_exp value exp"

definition value_gt_exp :: "'a::ord \<Rightarrow> ('a, 'x) expected \<Rightarrow> bool option" where
  "value_gt_exp value exp = exp_lt_value exp value"

definition res_gt :: "'a::ord result \<Rightarrow> 'a result \<Rightarrow> bool option" where
  "res_gt lhs rhs = res_lt rhs lhs"

definition res_gt_cond :: "'a result \<Rightarrow> error_condition \<Rightarrow> bool option" where
  "res_gt_cond lhs rhs = cond_lt_res rhs lhs"

definition cond_gt_res :: "error_condition \<Rightarrow> 'a result \<Rightarrow> bool option" where
  "cond_gt_res lhs rhs = res_lt_cond rhs lhs"

definition res_gt_value :: "'a::ord result \<Rightarrow> 'a \<Rightarrow> bool option" where
  "res_gt_value res value = value_lt_res value res"

definition value_gt_res :: "'a::ord \<Rightarrow> 'a result \<Rightarrow> bool option" where
  "value_gt_res value res = res_lt_value res value"

section \<open>The contract of six comparison operators\<close>

locale comparison =
  fixes rep :: "'v \<Rightarrow> 'h" and key :: "'v \<Rightarrow> 'k::linorder"
    and eq lt ne ge le gt :: "'h \<Rightarrow> 'h \<Rightarrow> bool option"
  assumes eq: "eq (rep v) (rep w) = Some (key v = key w)"
    and lt: "lt (rep v) (rep w) = Some (key v < key w)"
    and ne: "ne x y = map_option Not (eq x y)"
    and ge: "ge x y = map_option Not (lt x y)"
    and le: "le x y = map_option Not (lt y x)"
    and gt: "gt x y = lt y x"
begin

lemma derived:
  "ne (rep v) (rep w) = Some (key v \<noteq> key w)" "ge (rep v) (rep w) = Some (key v \<ge> key w)"
  "le (rep v) (rep w) = Some (key v \<le> key w)" "gt (rep v) (rep w) = Some (key v > key w)"
  by (auto simp: eq lt ne ge le gt)

lemma total:
  "lt (rep v) (rep w) = Some True \<and> eq (rep v) (rep w) = Some False \<and> gt (rep v) (rep w) = Some False \<or>
   lt (rep v) (rep w) = Some False \<and> eq (rep v) (rep w) = Some True \<and> gt (rep v) (rep w) = Some False \<or>
   lt (rep v) (rep w) = Some False \<and> eq (rep v) (rep w) = Some False \<and> gt (rep v) (rep w) = Some True"
  by (auto simp: eq lt derived)

lemma transitive:
  "lt (rep u) (rep v) = Some True \<Longrightarrow> lt (rep v) (rep w) = Some True \<Longrightarrow> lt (rep u) (rep w) = Some True"
  by (auto simp: lt)

end

text \<open>By what an expected and a result compare.\<close>

definition exp_key :: "'e + 'a \<Rightarrow> 'a option" where
  "exp_key c = (case c of Inl _ \<Rightarrow> None | Inr a \<Rightarrow> Some a)"

definition res_key :: "error_condition + 'a \<Rightarrow> 'a option \<times> error_condition option" where
  "res_key c = (case c of Inl e \<Rightarrow> (None, Some e) | Inr a \<Rightarrow> (Some a, None))"

lemma key_simps [simp]:
  "exp_key (Inl e) = None" "exp_key (Inr a) = Some a"
  "res_key (Inl d) = (None, Some d)" "res_key (Inr b) = (Some b, None)"
  by (simp_all add: exp_key_def res_key_def)

interpretation optional_cmp: comparison opt_rep "\<lambda>v :: 'a::linorder option. v" opt_eq opt_lt opt_ne opt_ge opt_le opt_gt
  by unfold_locales (simp_all only: opt_compare_rep opt_ne_def opt_ge_def opt_le_def opt_gt_def)

interpretation expected_cmp: comparison uni_rep
    "exp_key :: 'x exception_ptr + 'a::linorder \<Rightarrow> 'a option" exp_eq exp_lt exp_ne exp_ge exp_le exp_gt
proof unfold_locales
  fix v w :: "'x exception_ptr + 'a"
  show "exp_eq (uni_rep v) (uni_rep w) = Some (exp_key v = exp_key w)"
    by (cases v; cases w) (simp_all add: exp_eq_def uni_simps)
  show "exp_lt (uni_rep v) (uni_rep w) = Some (exp_key v < exp_key w)"
    by (cases v; cases w) (simp_all add: exp_lt_def uni_simps)
qed (simp_all only: exp_ne_def exp_ge_def exp_le_def exp_gt_def)

interpretation result_cmp: comparison uni_rep
    "res_key :: error_condition + 'a::linorder \<Rightarrow> 'a option \<times> error_condition option" res_eq res_lt res_ne res_ge res_le res_gt
proof unfold_locales
  fix v w :: "error_condition + 'a"
  show "res_eq (uni_rep v) (uni_rep w) = Some (res_key v = res_key w)"
    by (cases v; cases w) (simp_all add: res_eq_def uni_simps)
  show "res_lt (uni_rep v) (uni_rep w) = Some (res_key v < res_key w)"
    by (cases v; cases w) (simp_all add: res_lt_def uni_simps less_prod_def)
qed (simp_all only: res_ne_def res_ge_def res_le_def res_gt_def)

text \<open>Comparison with a bare value or a bare condition is comparison with the holder of it.\<close>

lemma exp_value_compare:
  fixes c :: "'x exception_ptr + 'a::linorder"
  shows "exp_eq_value (uni_rep c) a = exp_eq (uni_rep c) (uni_rep (Inr a))"
    "value_eq_exp a (uni_rep c) = exp_eq (uni_rep (Inr a)) (uni_rep c)"
    "exp_lt_value (uni_rep c) a = exp_lt (uni_rep c) (uni_rep (Inr a))"
    "value_lt_exp a (uni_rep c) = exp_lt (uni_rep (Inr a)) (uni_rep c)"
  by (cases c; simp add: exp_eq_value_def value_eq_exp_def exp_lt_value_def value_lt_exp_def
      exp_eq_def exp_lt_def uni_simps)+

lemma res_value_compare:
  fixes c :: "error_condition + 'a::linorder"
  shows "res_eq_value (uni_rep c) a = res_eq (uni_rep c) (uni_rep (Inr a))"
    "value_eq_res a (uni_rep c) = res_eq (uni_rep (Inr a)) (uni_rep c)"
    "res_lt_value (uni_rep c) a = res_lt (uni_rep c) (uni_rep (Inr a))"
    "value_lt_res a (uni_rep c) = res_lt (uni_rep (Inr a)) (uni_rep c)"
    "res_lt_cond (uni_rep c) e = res_lt (uni_rep c) (uni_rep (Inl e))"
    "cond_lt_res e (uni_rep c) = res_lt (uni_rep (Inl e)) (uni_rep c)"
  by (cases c; simp add: res_eq_value_def value_eq_res_def res_lt_value_def value_lt_res_def res_lt_cond_def
      cond_lt_res_def res_eq_def res_lt_def uni_simps)+

lemma res_cond_compare:
  fixes c :: "error_condition + 'a::linorder"
  assumes "cond_set e"
  shows "res_eq_cond (uni_rep c) e = res_eq (uni_rep c) (uni_rep (Inl e))"
    "cond_eq_res e (uni_rep c) = res_eq (uni_rep (Inl e)) (uni_rep c)"
  using assms by (cases c; simp add: res_eq_cond_def cond_eq_res_def res_eq_def uni_simps)+

text \<open>The derived operators with values and conditions.\<close>

lemma exp_value_derived:
  "exp_ne_value x a = map_option Not (exp_eq_value x a)" "value_ne_exp a x = map_option Not (value_eq_exp a x)"
  "exp_ge_value y b = map_option Not (exp_lt_value y b)" "value_ge_exp b y = map_option Not (value_lt_exp b y)"
  "exp_le_value y b = map_option Not (value_lt_exp b y)" "value_le_exp b y = map_option Not (exp_lt_value y b)"
  "exp_gt_value y b = value_lt_exp b y" "value_gt_exp b y = exp_lt_value y b"
  by (simp_all only: exp_ne_value_def value_ne_exp_def exp_ge_value_def value_ge_exp_def exp_le_value_def
      value_le_exp_def exp_gt_value_def value_gt_exp_def)

text \<open>Success is not below success, but the operator of \<^verbatim>\<open>result<void>\<close> says so.\<close>

lemma vres_lt_iff:
  "vres_lt c d \<longleftrightarrow> (if cond_set d then cond_set c \<and> c < d else True)"
  by (auto simp: vres_lt_def vres_bool_def)

end
