(* ===== verification/Optional_Properties.thy ===== *)
theory Optional_Properties
  imports Core_Compare
begin

text \<open>
  The properties of \<^verbatim>\<open>optional\<close>, \<^verbatim>\<open>expected\<close> and \<^verbatim>\<open>result\<close>: what their
  operations do to the value they stand for, what an exception in them leaves behind, and which order
  the comparison operators are.
\<close>

text \<open>A value type whose constructors never throw, and one whose moves always do.\<close>

definition quiet :: "(nat, unit) type_ops" where
  "quiet = \<lparr>copy_ctor = Inr, move_ctor = Inr, moved_from = (\<lambda>_. 0)\<rparr>"

lemma quiet_regular [simp]: "regular quiet" "nothrow_move quiet"
  by (simp_all add: regular_def nothrow_move_def quiet_def)



text \<open>
  Not so \<^verbatim>\<open>expected\<close> and \<^verbatim>\<open>result\<close>: if the value's constructor throws in
  \<^verbatim>\<open>emplace\<close>, the old member has been destroyed and the flag still names it, so that the object's
  destructor is undefined. \<^verbatim>\<open>optional\<close> clears its flag first and stays intact.
\<close>

theorem throwing_emplace_breaks_expected:
  assumes "uni_ok e" and "uni_ok u" and "opt_ok s"
  shows "(\<exists>e'. exp_emplace (Inl x) e = Some (Inl x, e') \<and> \<not> uni_ok e' \<and> exp_destroy e' = None) \<and>
    (\<exists>u'. res_emplace (Inl x) u = Some (Inl x, u') \<and> \<not> uni_ok u' \<and> res_destroy u' = None) \<and>
    (\<exists>s'. opt_emplace (Inl x) s = Some (Inl x, s') \<and> opt_ok s' \<and> storage_destroy s' \<noteq> None)"
proof -
  obtain c d where [simp]: "e = uni_rep c" "u = uni_rep d"
    using assms(1,2) by (auto simp: uni_ok_rep)
  obtain v where [simp]: "s = opt_rep v"
    using opt_ok_rep [OF assms(3)] by blast
  show ?thesis
    by (simp add: exp_emplace_def res_emplace_def exp_destroy_def res_destroy_def uni_emplace_rep uni_reset_dead
        opt_emplace_rep storage_destroy_rep [of None, unfolded not_None_eq] uni_ok_def)
qed

theorem throwing_emplace_breaks_expected_witness:
  "\<exists>e'. exp_emplace (Inl (User ())) (uni_rep (Inr (2 :: nat))) = Some (Inl (User ()), e') \<and> exp_destroy e' = None"
  using throwing_emplace_breaks_expected [of "uni_rep (Inr 2)" "uni_rep (Inr (2 :: nat))" "opt_rep (Some (2 :: nat))" "User ()"]
  by (metis opt_rep_ok(1) uni_ok_rep)

text \<open>
  With a value type that moves without throwing, \<^verbatim>\<open>expected\<close> and \<^verbatim>\<open>result\<close>
  are sums of an error and a value: swap exchanges the sums, assignment copies one or throws and changes
  nothing, an error replaces what is there, \<^verbatim>\<open>value\<close> throws the error, and the accessors of
  the error throw on a value. But assigning a condition that is no error to a \<^verbatim>\<open>result\<close> does
  nothing, so an old error stays, whereas constructing from it makes a value.
\<close>

theorem expected_and_result_refine_sums:
  fixes c d :: "'x exception_ptr + 'a" and a b :: "error_condition + 'a"
  assumes "regular ops" and "nothrow_move ops" and "proper cond_set a" and "proper cond_set b"
  shows "exp_swap ops (uni_rep c) (uni_rep d) = Some (Inr (), uni_rep d, uni_rep c) \<and>
    res_swap ops (uni_rep a) (uni_rep b) = Some (Inr (), uni_rep b, uni_rep a) \<and>
    (\<exists>r. exp_assign ops (uni_rep c) (uni_rep d) = Some (r, uni_rep (case r of Inr _ \<Rightarrow> d | Inl _ \<Rightarrow> c))) \<and>
    (\<exists>r. res_assign ops (uni_rep a) (uni_rep b) = Some (r, uni_rep (case r of Inr _ \<Rightarrow> b | Inl _ \<Rightarrow> a))) \<and>
    exp_assign_exception ptr (uni_rep c) = Some (uni_rep (Inl ptr)) \<and>
    res_assign_condition e (uni_rep a) = Some (uni_rep (if cond_set e then Inl e else a)) \<and>
    res_of_condition made e = (if cond_set e then Inr (uni_rep (Inl e)) else map_sum id (\<lambda>v. uni_rep (Inr v)) made) \<and>
    exp_value (uni_rep c) = (case c of Inr v \<Rightarrow> Some (Inr v) | Inl p \<Rightarrow> map_option Inl (rethrow p)) \<and>
    res_value (uni_rep a) =
      Some (case a of Inr v \<Rightarrow> Inr v | Inl f \<Rightarrow> Inl (System_error (ec_value f) (ec_category f))) \<and>
    exp_pointer (uni_rep c) = Some (case c of Inr _ \<Rightarrow> Inl Bad_expected_type | Inl p \<Rightarrow> Inr p) \<and>
    res_condition (uni_rep a) = Some (case a of Inr _ \<Rightarrow> Inl Bad_result_condition | Inl f \<Rightarrow> Inr f)"
proof -
  have "proper (\<lambda>_. True) c" and "proper (\<lambda>_. True) d"
    by (auto simp: proper_def split: sum.split)
  note exp = this
  have "\<exists>r. exp_assign ops (uni_rep c) (uni_rep d) = Some (r, uni_rep (case r of Inr _ \<Rightarrow> d | Inl _ \<Rightarrow> c))"
    by (rule expected_error.assign [OF assms(1,2) exp]) (auto simp: exp_assign_def)
  moreover have "\<exists>r. res_assign ops (uni_rep a) (uni_rep b) = Some (r, uni_rep (case r of Inr _ \<Rightarrow> b | Inl _ \<Rightarrow> a))"
    by (rule result_error.assign [OF assms]) (auto simp: res_assign_def)
  moreover have "exp_value (uni_rep c) = (case c of Inr v \<Rightarrow> Some (Inr v) | Inl p \<Rightarrow> map_option Inl (rethrow p))"
    by (cases c) (auto simp: exp_value_def uni_simps map_option_case split: option.split)
  moreover have "res_assign_condition e (uni_rep a) = Some (uni_rep (if cond_set e then Inl e else a))"
    using result_error.set_error [of e a] by (auto simp: res_assign_condition_def)
  ultimately show ?thesis
    using expected_error.swap [OF assms(2) exp] result_error.swap [OF assms(2-4)] expected_error.set_error [of ptr c]
    by (cases c; cases a)
      (simp_all add: exp_swap_def res_swap_def res_of_condition_def res_value_def exp_pointer_def res_condition_def uni_simps)
qed

theorem expected_and_result_refine_sums_witness:
  "res_assign_condition (Error_condition 2 0) (uni_rep (Inl (Error_condition 2 5)) :: nat result) =
    Some (uni_rep (Inl (Error_condition 2 5)))"
  using expected_and_result_refine_sums [of quiet "Inl (Error_condition 2 5)" "Inl (Error_condition 2 5)" "Inl None" "Inl None" None
      "Error_condition 2 0" "Inr 0"]
  by (simp add: proper_def cond_set_def, elim conjE)

text \<open>
  The comparison operators are total orders: an \<^verbatim>\<open>optional\<close> compares as an option (empty
  below every value), an \<^verbatim>\<open>expected\<close> as the option that forgets the error, a \<^verbatim>\<open>result\<close>
  as errors by condition below values; of less, equal and greater exactly one holds, less is transitive,
  and comparing with a bare value is comparing with the object that holds it. Two operators are not part
  of any order: an empty \<^verbatim>\<open>optional\<close> is less than \<^verbatim>\<open>nullopt\<close> although equal to it, and
  a successful \<^verbatim>\<open>result<void>\<close> is less than itself.
\<close>

theorem comparisons_are_orders:
  fixes u v w :: "'a::linorder option" and c d :: "'x exception_ptr + 'a" and a b :: "error_condition + 'a"
  shows "opt_lt (opt_rep v) (opt_rep w) = Some (v < w) \<and> opt_eq (opt_rep v) (opt_rep w) = Some (v = w) \<and>
    opt_le (opt_rep v) (opt_rep w) = Some (v \<le> w) \<and> opt_ge (opt_rep v) (opt_rep w) = Some (v \<ge> w) \<and>
    opt_lt_value (opt_rep v) z = Some (v < Some z) \<and> value_le_opt z (opt_rep v) = Some (Some z \<le> v) \<and>
    nullopt_lt_opt (opt_rep v) = (None < v) \<and> opt_ge_nullopt (opt_rep v) = (v \<ge> None) \<and>
    exp_lt (uni_rep c) (uni_rep d) = Some (exp_key c < exp_key d) \<and>
    exp_eq (uni_rep c) (uni_rep d) = Some (exp_key c = exp_key d) \<and>
    exp_le (uni_rep c) (uni_rep d) = Some (exp_key c \<le> exp_key d) \<and>
    exp_le_value (uni_rep c) z = Some (exp_key c \<le> Some z) \<and>
    res_lt (uni_rep a) (uni_rep b) = Some (res_key a < res_key b) \<and>
    res_eq (uni_rep a) (uni_rep b) = Some (res_key a = res_key b) \<and>
    res_le (uni_rep a) (uni_rep b) = Some (res_key a \<le> res_key b) \<and>
    res_lt_cond (uni_rep a) f = Some (res_key a < res_key (Inl f)) \<and>
    (opt_lt_nullopt (opt_rep v) \<longleftrightarrow> v = None) \<and> (opt_eq_nullopt (opt_rep v) \<longleftrightarrow> v = None) \<and>
    (vres_lt f f \<longleftrightarrow> vres_bool f)"
  using optional_cmp.derived [of v w] expected_cmp.derived(3) [of c d] expected_cmp.derived(3) [of c "Inr z"]
    result_cmp.derived(3) [of a b]
  by (simp add: optional_cmp.eq optional_cmp.lt expected_cmp.eq expected_cmp.lt result_cmp.eq result_cmp.lt
      opt_compare_value_rep opt_compare_nullopt_rep opt_lt_nullopt_def opt_simps exp_value_derived
      exp_value_compare res_value_compare vres_lt_iff vres_bool_def exp_le_def)

end
