(* ===== verification/View_Or_Value.thy ===== *)
theory View_Or_Value
  imports Core_Optional
begin

text \<open>
  bsoncxx/view_or_value.hpp and bsoncxx/string/view_or_value.hpp: the argument type of
  \<^verbatim>\<open>insert_one\<close>, an object that either owns a value and a view into it, or only a view of a
  value somewhere else.

  Objects have addresses, since a view into the owned value must follow the object it is in: \<open>Into l\<close>
  is a view of the value owned by the object at \<open>l\<close>, \<open>Foreign a\<close> a view of a value elsewhere. The
  owned value is the \<^verbatim>\<open>optional\<close> of \<open>Core_Optional\<close>. \<open>None\<close> is undefined behaviour or
  \<^verbatim>\<open>std::terminate\<close>, reached by an exception in a \<^verbatim>\<open>noexcept\<close> function.
\<close>

datatype view = Empty_view | Into nat | Foreign nat

record 'v vov =
  owned :: "'v storage"
  the_view :: view

record 'v world =
  objects :: "nat \<Rightarrow> 'v vov option"
  values_at :: "nat \<Rightarrow> 'v option"

definition put_object :: "nat \<Rightarrow> 'v vov \<Rightarrow> 'v world \<Rightarrow> 'v world" where
  "put_object l this w = w\<lparr>objects := (objects w)(l := Some this)\<rparr>"

text \<open>What a view shows; \<open>blank\<close> is what a default-constructed view shows.\<close>

fun seen :: "'v \<Rightarrow> 'v world \<Rightarrow> view \<Rightarrow> 'v option" where
  "seen blank w Empty_view = Some blank"
| "seen blank w (Into l) = do { this \<leftarrow> objects w l; if opt_bool (owned this) then opt_deref (owned this) else None }"
| "seen blank w (Foreign a) = values_at w a"

section \<open>Constructors\<close>

definition vov_default :: "nat \<Rightarrow> 'v world \<Rightarrow> 'v world" where
  "vov_default l w = put_object l \<lparr>owned = opt_default, the_view = Empty_view\<rparr> w"

definition vov_of_view :: "view \<Rightarrow> nat \<Rightarrow> 'v world \<Rightarrow> 'v world" where
  "vov_of_view v l w = put_object l \<lparr>owned = opt_default, the_view = v\<rparr> w"

definition vov_of_value :: "('v, 'x) type_ops \<Rightarrow> 'v \<Rightarrow> nat \<Rightarrow> 'v world \<Rightarrow> 'x exn + 'v world" where
  "vov_of_value ops value l w =
     (case opt_of_rvalue ops value of
        Inl x \<Rightarrow> Inl x
      | Inr o' \<Rightarrow> Inr (put_object l \<lparr>owned = o', the_view = Into l\<rparr> w))"

text \<open>\<^verbatim>\<open>_value ? *_value : other._view\<close>\<close>

definition own_or :: "nat \<Rightarrow> 'v storage \<Rightarrow> view \<Rightarrow> view" where
  "own_or l value v = (if opt_bool value then Into l else v)"

definition vov_copy :: "('v, 'x) type_ops \<Rightarrow> nat \<Rightarrow> nat \<Rightarrow> 'v world \<Rightarrow> ('x exn + 'v world) option" where
  "vov_copy ops l l' w =
     do {
       other \<leftarrow> objects w l';
       made \<leftarrow> storage_copy ops (owned other);
       Some (case made of
               Inl x \<Rightarrow> Inl x
             | Inr o' \<Rightarrow> Inr (put_object l \<lparr>owned = o', the_view = own_or l o' (the_view other)\<rparr> w))
     }"

definition vov_move :: "('v, 'x) type_ops \<Rightarrow> nat \<Rightarrow> nat \<Rightarrow> 'v world \<Rightarrow> 'v world option" where
  "vov_move ops l l' w =
     do {
       other \<leftarrow> objects w l';
       (made, left) \<leftarrow> storage_move ops (owned other);
       case made of
         Inl x \<Rightarrow> None
       | Inr o' \<Rightarrow> do {
           let w1 = put_object l \<lparr>owned = o', the_view = own_or l o' (the_view other)\<rparr> w;
           cleared \<leftarrow> opt_assign_nullopt left;
           Some (put_object l' \<lparr>owned = cleared, the_view = Empty_view\<rparr> w1)
         }
     }"

section \<open>Assignments\<close>

definition vov_assign ::
    "('v, 'x) type_ops \<Rightarrow> nat \<Rightarrow> nat \<Rightarrow> 'v world \<Rightarrow> (('x exn + unit) \<times> 'v world) option" where
  "vov_assign ops l l' w =
     do {
       this \<leftarrow> objects w l;
       other \<leftarrow> objects w l';
       (r, o') \<leftarrow> opt_assign ops (owned this) (owned other);
       case r of
         Inl x \<Rightarrow> Some (Inl x, put_object l (this\<lparr>owned := o'\<rparr>) w)
       | Inr _ \<Rightarrow> Some (Inr (), put_object l \<lparr>owned = o', the_view = own_or l o' (the_view other)\<rparr> w)
     }"

text \<open>The two objects are different; moving an object to itself empties it.\<close>

definition vov_move_assign :: "('v, 'x) type_ops \<Rightarrow> nat \<Rightarrow> nat \<Rightarrow> 'v world \<Rightarrow> 'v world option" where
  "vov_move_assign ops l l' w =
     do {
       this \<leftarrow> objects w l;
       other \<leftarrow> objects w l';
       (r, o', left) \<leftarrow> opt_move_assign ops (owned this) (owned other);
       case r of
         Inl x \<Rightarrow> None
       | Inr _ \<Rightarrow> do {
           let w1 = put_object l \<lparr>owned = o', the_view = own_or l o' (the_view other)\<rparr> w;
           cleared \<leftarrow> opt_assign_nullopt left;
           Some (put_object l' \<lparr>owned = cleared, the_view = Empty_view\<rparr> w1)
         }
     }"

section \<open>Accessors and comparison\<close>

definition is_owning :: "'v vov \<Rightarrow> bool" where
  "is_owning this = opt_bool (owned this)"

definition view_of :: "'v vov \<Rightarrow> view" where
  "view_of this = the_view this"

definition views_eq :: "'v \<Rightarrow> 'v world \<Rightarrow> view \<Rightarrow> view \<Rightarrow> bool option" where
  "views_eq blank w v v' = do { x \<leftarrow> seen blank w v; y \<leftarrow> seen blank w v'; Some (x = y) }"

definition vov_eq :: "'v \<Rightarrow> 'v world \<Rightarrow> 'v vov \<Rightarrow> 'v vov \<Rightarrow> bool option" where
  "vov_eq blank w lhs rhs = views_eq blank w (view_of lhs) (view_of rhs)"

definition vov_ne :: "'v \<Rightarrow> 'v world \<Rightarrow> 'v vov \<Rightarrow> 'v vov \<Rightarrow> bool option" where
  "vov_ne blank w lhs rhs = map_option Not (vov_eq blank w lhs rhs)"

definition vov_eq_view :: "'v \<Rightarrow> 'v world \<Rightarrow> 'v vov \<Rightarrow> view \<Rightarrow> bool option" where
  "vov_eq_view blank w lhs rhs = views_eq blank w (view_of lhs) rhs"

definition view_eq_vov :: "'v \<Rightarrow> 'v world \<Rightarrow> view \<Rightarrow> 'v vov \<Rightarrow> bool option" where
  "view_eq_vov blank w lhs rhs = vov_eq_view blank w rhs lhs"

definition vov_ne_view :: "'v \<Rightarrow> 'v world \<Rightarrow> 'v vov \<Rightarrow> view \<Rightarrow> bool option" where
  "vov_ne_view blank w lhs rhs = map_option Not (vov_eq_view blank w lhs rhs)"

definition view_ne_vov :: "'v \<Rightarrow> 'v world \<Rightarrow> view \<Rightarrow> 'v vov \<Rightarrow> bool option" where
  "view_ne_vov blank w lhs rhs = map_option Not (vov_eq_view blank w rhs lhs)"

text \<open>With a value, which is at some address: \<^verbatim>\<open>lhs.view() == View(rhs)\<close>.\<close>

definition vov_eq_value :: "'v \<Rightarrow> 'v world \<Rightarrow> 'v vov \<Rightarrow> nat \<Rightarrow> bool option" where
  "vov_eq_value blank w lhs rhs = views_eq blank w (view_of lhs) (Foreign rhs)"

definition value_eq_vov :: "'v \<Rightarrow> 'v world \<Rightarrow> nat \<Rightarrow> 'v vov \<Rightarrow> bool option" where
  "value_eq_vov blank w lhs rhs = vov_eq_value blank w rhs lhs"

definition vov_ne_value :: "'v \<Rightarrow> 'v world \<Rightarrow> 'v vov \<Rightarrow> nat \<Rightarrow> bool option" where
  "vov_ne_value blank w lhs rhs = map_option Not (vov_eq_value blank w lhs rhs)"

definition value_ne_vov :: "'v \<Rightarrow> 'v world \<Rightarrow> nat \<Rightarrow> 'v vov \<Rightarrow> bool option" where
  "value_ne_vov blank w lhs rhs = map_option Not (vov_eq_value blank w rhs lhs)"

section \<open>The string instance\<close>

text \<open>\<^verbatim>\<open>string::view_or_value\<close> from a C string and from a string lvalue: a view of it.\<close>

definition str_vov_of_c_str :: "nat \<Rightarrow> nat \<Rightarrow> string world \<Rightarrow> string world" where
  "str_vov_of_c_str str l w = vov_of_view (Foreign str) l w"

definition str_vov_of_string :: "nat \<Rightarrow> nat \<Rightarrow> string world \<Rightarrow> string world" where
  "str_vov_of_string str l w = vov_of_view (Foreign str) l w"

definition str_vov_eq :: "string world \<Rightarrow> string vov \<Rightarrow> nat \<Rightarrow> bool option" where
  "str_vov_eq w lhs rhs = views_eq [] w (view_of lhs) (Foreign rhs)"

definition str_vov_ne :: "string world \<Rightarrow> string vov \<Rightarrow> nat \<Rightarrow> bool option" where
  "str_vov_ne w lhs rhs = map_option Not (str_vov_eq w lhs rhs)"

definition c_str_eq_str_vov :: "string world \<Rightarrow> nat \<Rightarrow> string vov \<Rightarrow> bool option" where
  "c_str_eq_str_vov w lhs rhs = str_vov_eq w rhs lhs"

definition c_str_ne_str_vov :: "string world \<Rightarrow> nat \<Rightarrow> string vov \<Rightarrow> bool option" where
  "c_str_ne_str_vov w lhs rhs = map_option Not (str_vov_eq w rhs lhs)"

section \<open>The invariant\<close>

text \<open>An owning object views its own value, a non-owning one never itself.\<close>

definition vov_ok :: "nat \<Rightarrow> 'v vov \<Rightarrow> bool" where
  "vov_ok l this \<longleftrightarrow> opt_ok (owned this) \<and> (engaged (owned this) \<longleftrightarrow> the_view this = Into l)"

definition world_ok :: "'v world \<Rightarrow> bool" where
  "world_ok w \<longleftrightarrow> (\<forall>l this. objects w l = Some this \<longrightarrow> vov_ok l this)"

lemma put_object_sel [simp]:
  "objects (put_object l this w) k = (if k = l then Some this else objects w k)"
  "values_at (put_object l this w) = values_at w"
  by (simp_all add: put_object_def)

lemma world_ok_put: "world_ok w \<Longrightarrow> vov_ok l this \<Longrightarrow> world_ok (put_object l this w)"
  by (simp add: world_ok_def)

lemma world_okD: "world_ok w \<Longrightarrow> objects w l = Some this \<Longrightarrow> vov_ok l this"
  by (simp add: world_ok_def)

text \<open>Changing an object does not matter to views that are not into it.\<close>

lemma seen_put: "v \<noteq> Into l \<Longrightarrow> seen blank (put_object l this w) v = seen blank w v"
  by (cases v) (auto split: bind_splits)

lemma seen_put_own: "seen blank (put_object l \<lparr>owned = opt_rep (Some a), the_view = v\<rparr> w) (Into l) = Some a"
  by (simp add: opt_simps)

lemma vov_ok_rep:
  assumes "vov_ok l this"
  obtains (owning) a where "this = \<lparr>owned = opt_rep (Some a), the_view = Into l\<rparr>"
    | (viewing) v where "this = \<lparr>owned = opt_rep None, the_view = v\<rparr>" and "v \<noteq> Into l"
proof -
  obtain o' v where obj: "this = \<lparr>owned = o', the_view = v\<rparr>" by (cases this)
  with assms have "o' = opt_rep (opt_abs o')" and "engaged o' \<longleftrightarrow> v = Into l"
    using opt_ok_rep [of o'] by (simp_all add: vov_ok_def)
  then show thesis
    using obj that by (cases "opt_abs o'") (auto simp: opt_simps)
qed

lemma vov_ok_own: "vov_ok l \<lparr>owned = opt_rep (Some a), the_view = Into l\<rparr>"
  and vov_ok_view: "v \<noteq> Into l \<Longrightarrow> vov_ok l \<lparr>owned = opt_rep None, the_view = v\<rparr>"
  by (simp_all add: vov_ok_def opt_simps)

lemma own_or_rep [simp]: "own_or l (opt_rep v) u = (if v = None then u else Into l)"
  by (simp add: own_or_def opt_simps)

section \<open>Copies and moves\<close>

text \<open>A copy and a move in terms of the owned option.\<close>

lemma vov_copy_rep:
  assumes "regular ops" and "objects w l' = Some \<lparr>owned = opt_rep v, the_view = u\<rparr>"
  obtains "vov_copy ops l l' w = Some (Inr (put_object l \<lparr>owned = opt_rep v, the_view = own_or l (opt_rep v) u\<rparr> w))"
    | x where "vov_copy ops l l' w = Some (Inl x)"
  by (rule storage_copy_regular [OF assms(1), of v]) (use assms(2) that in \<open>auto simp: vov_copy_def\<close>)

lemma vov_move_rep:
  assumes "nothrow_move ops" and "objects w l' = Some \<lparr>owned = opt_rep v, the_view = u\<rparr>"
  shows "vov_move ops l l' w = Some (put_object l' \<lparr>owned = opt_rep None, the_view = Empty_view\<rparr>
    (put_object l \<lparr>owned = opt_rep v, the_view = own_or l (opt_rep v) u\<rparr> w))"
  using assms(2) by (simp add: vov_move_def nothrow_move_rep [OF assms(1)] opt_assign_nullopt_rep)

lemma vov_assign_rep:
  assumes "regular ops" and "objects w l = Some \<lparr>owned = opt_rep t, the_view = s\<rparr>"
    and "objects w l' = Some \<lparr>owned = opt_rep v, the_view = u\<rparr>"
  obtains "vov_assign ops l l' w =
      Some (Inr (), put_object l \<lparr>owned = opt_rep v, the_view = own_or l (opt_rep v) u\<rparr> w)"
    | x where "vov_assign ops l l' w = Some (Inl x, put_object l \<lparr>owned = opt_rep t, the_view = s\<rparr> w)"
  by (rule opt_assign_rep [OF assms(1), of t v]) (use assms(2,3) that in \<open>auto simp: vov_assign_def\<close>)

lemma vov_move_assign_rep:
  assumes "nothrow_move ops" and "objects w l = Some \<lparr>owned = opt_rep t, the_view = s\<rparr>"
    and "objects w l' = Some \<lparr>owned = opt_rep v, the_view = u\<rparr>"
  shows "vov_move_assign ops l l' w = Some (put_object l' \<lparr>owned = opt_rep None, the_view = Empty_view\<rparr>
    (put_object l \<lparr>owned = opt_rep v, the_view = own_or l (opt_rep v) u\<rparr> w))"
  using assms(2,3) by (simp add: vov_move_assign_def nothrow_move_rep [OF assms(1)] opt_assign_nullopt_rep)

text \<open>The object at \<open>l\<close> is a good copy: it owns if the source did and shows what it showed.\<close>

definition copied_to :: "nat \<Rightarrow> 'v vov \<Rightarrow> 'v \<Rightarrow> 'v \<Rightarrow> 'v world \<Rightarrow> bool" where
  "copied_to l other x blank w \<longleftrightarrow> world_ok w \<and>
     (case objects w l of
        None \<Rightarrow> False
      | Some this \<Rightarrow> is_owning this = is_owning other \<and> seen blank w (view_of this) = Some x)"

definition emptied :: "nat \<Rightarrow> 'v world \<Rightarrow> bool" where
  "emptied l w \<longleftrightarrow>
     (case objects w l of None \<Rightarrow> False | Some this \<Rightarrow> \<not> is_owning this \<and> view_of this = Empty_view)"

lemma copied_put:
  assumes "world_ok w" and "vov_ok l' \<lparr>owned = opt_rep v, the_view = u\<rparr>"
    and "objects w l' = Some \<lparr>owned = opt_rep v, the_view = u\<rparr>"
    and "seen blank w u = Some x" and "u \<noteq> Into l \<or> v \<noteq> None"
  shows "copied_to l \<lparr>owned = opt_rep v, the_view = u\<rparr> x blank
    (put_object l \<lparr>owned = opt_rep v, the_view = own_or l (opt_rep v) u\<rparr> w)"
proof (cases v)
  case None
  with assms(5) show ?thesis
    using assms(1,4) by (simp add: copied_to_def world_ok_put vov_ok_view is_owning_def view_of_def seen_put)
next
  case (Some a)
  with assms(2) have "u = Into l'" by (simp add: vov_ok_def opt_simps)
  with Some assms(3,4) have "x = a" by (simp add: opt_simps)
  with Some assms(1) show ?thesis
    using seen_put_own [of blank l a "Into l" w]
    by (simp add: copied_to_def world_ok_put vov_ok_own is_owning_def view_of_def del: seen.simps)
qed

text \<open>Emptying another object does not spoil the copy, unless it views that object.\<close>

lemma copied_emptied:
  assumes "copied_to l other x blank w" and "l \<noteq> l'"
    and "\<And>this. objects w l = Some this \<Longrightarrow> view_of this \<noteq> Into l'"
  shows "copied_to l other x blank (put_object l' \<lparr>owned = opt_rep None, the_view = Empty_view\<rparr> w) \<and>
    emptied l' (put_object l' \<lparr>owned = opt_rep None, the_view = Empty_view\<rparr> w)"
  using assms
  by (auto simp: copied_to_def emptied_def seen_put world_ok_put vov_ok_view is_owning_def view_of_def opt_simps
      split: option.splits)

text \<open>An object as the optional it owns and its view.\<close>

lemma object_rep:
  assumes "world_ok w" and "objects w l = Some this"
  obtains v u where "this = \<lparr>owned = opt_rep v, the_view = u\<rparr>" and "v \<noteq> None \<longleftrightarrow> u = Into l"
  by (rule vov_ok_rep [OF world_okD [OF assms]]) (use that in auto)

lemma own_view: "v \<noteq> None \<longleftrightarrow> u = Into l' \<Longrightarrow> l \<noteq> l' \<Longrightarrow> own_or l (opt_rep v) u \<noteq> Into l'"
  by auto

lemma copies_constructed:
  assumes "regular ops" and "nothrow_move ops" and "world_ok w"
    and "objects w l' = Some other" and "seen blank w (view_of other) = Some x" and "objects w l = None"
  shows "\<exists>r. vov_copy ops l l' w = Some r \<and> (case r of Inr w' \<Rightarrow> copied_to l other x blank w' | Inl _ \<Rightarrow> True)"
    and "\<exists>w'. vov_move ops l l' w = Some w' \<and> copied_to l other x blank w' \<and> emptied l' w'"
proof -
  obtain v u where other: "other = \<lparr>owned = opt_rep v, the_view = u\<rparr>" and u: "v \<noteq> None \<longleftrightarrow> u = Into l'"
    by (rule object_rep [OF assms(3,4)])
  have "l \<noteq> l'" using assms(4,6) by auto
  have "u \<noteq> Into l" using assms(5,6) other by (auto simp: view_of_def)
  let ?this = "\<lparr>owned = opt_rep v, the_view = own_or l (opt_rep v) u\<rparr>"
  have put: "copied_to l other x blank (put_object l ?this w)"
    unfolding other
    using copied_put [OF assms(3), of l' v u blank x l] world_okD [OF assms(3,4)] assms(4,5) \<open>u \<noteq> Into l\<close> other
    by (simp add: view_of_def)
  show "\<exists>r. vov_copy ops l l' w = Some r \<and> (case r of Inr w' \<Rightarrow> copied_to l other x blank w' | Inl _ \<Rightarrow> True)"
    by (rule vov_copy_rep [OF assms(1) assms(4) [unfolded other], of l]) (use put in auto)
  show "\<exists>w'. vov_move ops l l' w = Some w' \<and> copied_to l other x blank w' \<and> emptied l' w'"
    using copied_emptied [OF put \<open>l \<noteq> l'\<close>] vov_move_rep [OF assms(2) assms(4) [unfolded other], of l]
      own_view [OF u \<open>l \<noteq> l'\<close>] by (simp add: view_of_def del: own_or_rep)
qed

lemma copies_assigned:
  assumes "regular ops" and "nothrow_move ops" and "world_ok w"
    and "objects w l' = Some other" and "seen blank w (view_of other) = Some x"
    and "objects w l = Some old" and "l \<noteq> l'" and "view_of other \<noteq> Into l"
  shows "\<exists>r w'. vov_assign ops l l' w = Some (r, w') \<and>
      (case r of Inr _ \<Rightarrow> copied_to l other x blank w' | Inl _ \<Rightarrow> objects w' l = Some old)"
    and "\<exists>w'. vov_move_assign ops l l' w = Some w' \<and> copied_to l other x blank w' \<and> emptied l' w'"
proof -
  obtain v u where other: "other = \<lparr>owned = opt_rep v, the_view = u\<rparr>" and u: "v \<noteq> None \<longleftrightarrow> u = Into l'"
    by (rule object_rep [OF assms(3,4)])
  obtain t s where old: "old = \<lparr>owned = opt_rep t, the_view = s\<rparr>"
    by (rule object_rep [OF assms(3,6)])
  let ?this = "\<lparr>owned = opt_rep v, the_view = own_or l (opt_rep v) u\<rparr>"
  have put: "copied_to l other x blank (put_object l ?this w)"
    unfolding other
    using copied_put [OF assms(3), of l' v u blank x l] world_okD [OF assms(3,4)] assms(4,5,8) other
    by (simp add: view_of_def)
  show "\<exists>r w'. vov_assign ops l l' w = Some (r, w') \<and>
      (case r of Inr _ \<Rightarrow> copied_to l other x blank w' | Inl _ \<Rightarrow> objects w' l = Some old)"
    by (rule vov_assign_rep [OF assms(1) assms(6) [unfolded old] assms(4) [unfolded other]]) (use put old in auto)
  show "\<exists>w'. vov_move_assign ops l l' w = Some w' \<and> copied_to l other x blank w' \<and> emptied l' w'"
    using copied_emptied [OF put \<open>l \<noteq> l'\<close>] own_view [OF u \<open>l \<noteq> l'\<close>]
      vov_move_assign_rep [OF assms(2) assms(6) [unfolded old] assms(4) [unfolded other]]
    by (simp add: view_of_def del: own_or_rep)
qed

lemma assigned_from_own_view:
  assumes "nothrow_move ops" and "world_ok w" and "objects w l' = Some other"
    and "objects w l = Some old" and "l \<noteq> l'" and "view_of other = Into l"
  shows "\<exists>w' this. vov_assign ops l l' w = Some (Inr (), w') \<and> objects w' l = Some this \<and>
    seen blank w' (view_of this) = None"
proof -
  obtain v u where other: "other = \<lparr>owned = opt_rep v, the_view = u\<rparr>" and u: "v \<noteq> None \<longleftrightarrow> u = Into l'"
    by (rule object_rep [OF assms(2,3)])
  obtain t s where old: "old = \<lparr>owned = opt_rep t, the_view = s\<rparr>"
    by (rule object_rep [OF assms(2,4)])
  have "v = None" and "u = Into l" using u other assms(5,6) by (auto simp: view_of_def)
  moreover obtain d where "storage_destroy (opt_rep t) = Some d"
    using storage_destroy_rep [of t] by blast
  ultimately show ?thesis
    using assms(3,4) other old
    by (auto simp: vov_assign_def opt_assign_def storage_copy_rep nothrow_move_rep [OF assms(1)] opt_simps view_of_def)
qed

section \<open>Properties\<close>

text \<open>An object that owns a value, for the witness.\<close>

definition one_owner :: "nat world" where
  "one_owner = \<lparr>objects = (\<lambda>l. if l = 1 then Some \<lparr>owned = opt_rep (Some 7), the_view = Into 1\<rparr> else None),
     values_at = (\<lambda>_. None)\<rparr>"

definition plain :: "(nat, unit) type_ops" where
  "plain = \<lparr>copy_ctor = Inr, move_ctor = Inr, moved_from = (\<lambda>_. 0)\<rparr>"

text \<open>
  C24. Copying and moving a \<^verbatim>\<open>view_or_value\<close>, by construction or assignment, keeps the invariant of
  all objects (an owning object views its own value) and gives an object that owns if the source did and
  shows what the source showed; a move leaves the source empty. The exception is the assignment of a
  non-owning object that views the value owned by the target: the value is destroyed and the target is
  left with a dangling view.
\<close>

theorem copies_show_the_same:
  assumes "regular ops" and "nothrow_move ops" and "world_ok w"
    and "objects w l' = Some other" and "seen blank w (view_of other) = Some x"
  shows "(objects w l = None \<longrightarrow>
      (\<exists>r. vov_copy ops l l' w = Some r \<and> (case r of Inr w' \<Rightarrow> copied_to l other x blank w' | Inl _ \<Rightarrow> True)) \<and>
      (\<exists>w'. vov_move ops l l' w = Some w' \<and> copied_to l other x blank w' \<and> emptied l' w')) \<and>
    (objects w l = Some old \<and> l \<noteq> l' \<and> view_of other \<noteq> Into l \<longrightarrow>
      (\<exists>r w'. vov_assign ops l l' w = Some (r, w') \<and>
        (case r of Inr _ \<Rightarrow> copied_to l other x blank w' | Inl _ \<Rightarrow> objects w' l = Some old)) \<and>
      (\<exists>w'. vov_move_assign ops l l' w = Some w' \<and> copied_to l other x blank w' \<and> emptied l' w')) \<and>
    (objects w l = Some old \<and> l \<noteq> l' \<and> view_of other = Into l \<longrightarrow>
      (\<exists>w' this. vov_assign ops l l' w = Some (Inr (), w') \<and> objects w' l = Some this \<and>
        seen blank w' (view_of this) = None))"
  using copies_constructed [OF assms] copies_assigned [OF assms] assigned_from_own_view [OF assms(2-4)] by blast

theorem copies_show_the_same_witness:
  "\<exists>w'. vov_move plain 2 1 one_owner = Some w' \<and>
    copied_to 2 \<lparr>owned = opt_rep (Some 7), the_view = Into 1\<rparr> 7 0 w' \<and> emptied 1 w'"
proof -
  have "regular plain" and "nothrow_move plain"
    by (simp_all add: regular_def nothrow_move_def plain_def)
  moreover have "world_ok one_owner" and "objects one_owner 1 = Some \<lparr>owned = opt_rep (Some 7), the_view = Into 1\<rparr>"
    and "seen 0 one_owner (Into 1) = Some 7" and "objects one_owner 2 = None"
    by (simp_all add: world_ok_def one_owner_def vov_ok_own opt_simps)
  ultimately show ?thesis
    using copies_show_the_same [of plain one_owner 1 "\<lparr>owned = opt_rep (Some 7), the_view = Into 1\<rparr>" 0 7 2]
    by (simp add: view_of_def)
qed

end
