(* ===== verification/Bson_Bytes.thy ===== *)
theory Bson_Bytes
  imports "HOL-Library.Word" "HOL-Library.Signed_Division"
begin

text \<open>
  How libbson reads integers out of a buffer: bson-endian.h, the power-of-two functions of
  bson-types.h and the numeric macros of bson-macros.h.

  A C integer is a word of its width; a double is its 64 bits. The byte order of the host is a
  parameter, as it is a configuration macro of the header, and \<open>load32\<close> is a
  \<^verbatim>\<open>memcpy\<close> into an integer on that host. The lemmas describe the swaps bit by bit;
  from that follow that they undo themselves and that reading is independent of the host.
\<close>

unbundle bit_operations_syntax

type_synonym byte = "8 word"

datatype byte_order = BSON_LITTLE_ENDIAN | BSON_BIG_ENDIAN

section \<open>Swaps\<close>

definition bson_uint16_swap_slow :: "16 word \<Rightarrow> 16 word" where
  "bson_uint16_swap_slow v = push_bit 8 (v AND 0x00FF) OR drop_bit 8 (v AND 0xFF00)"

definition bson_uint32_swap_slow :: "32 word \<Rightarrow> 32 word" where
  "bson_uint32_swap_slow v =
     push_bit 24 (v AND 0x000000FF) OR push_bit 8 (v AND 0x0000FF00) OR
     drop_bit 8 (v AND 0x00FF0000) OR drop_bit 24 (v AND 0xFF000000)"

definition bson_uint64_swap_slow :: "64 word \<Rightarrow> 64 word" where
  "bson_uint64_swap_slow v =
     push_bit 56 (v AND 0x00000000000000FF) OR push_bit 40 (v AND 0x000000000000FF00) OR
     push_bit 24 (v AND 0x0000000000FF0000) OR push_bit 8 (v AND 0x00000000FF000000) OR
     drop_bit 8 (v AND 0x000000FF00000000) OR drop_bit 24 (v AND 0x0000FF0000000000) OR
     drop_bit 40 (v AND 0x00FF000000000000) OR drop_bit 56 (v AND 0xFF00000000000000)"

text \<open>The double's bits are copied to an integer, swapped and copied back.\<close>

definition bson_double_swap_slow :: "64 word \<Rightarrow> 64 word" where
  "bson_double_swap_slow v = (let uv = v; uv' = bson_uint64_swap_slow uv in uv')"

section \<open>The conversion macros\<close>

definition BSON_UINT16_FROM_LE :: "byte_order \<Rightarrow> 16 word \<Rightarrow> 16 word" where
  "BSON_UINT16_FROM_LE host v = (case host of BSON_LITTLE_ENDIAN \<Rightarrow> v | BSON_BIG_ENDIAN \<Rightarrow> bson_uint16_swap_slow v)"

definition BSON_UINT16_FROM_BE :: "byte_order \<Rightarrow> 16 word \<Rightarrow> 16 word" where
  "BSON_UINT16_FROM_BE host v = (case host of BSON_LITTLE_ENDIAN \<Rightarrow> bson_uint16_swap_slow v | BSON_BIG_ENDIAN \<Rightarrow> v)"

definition BSON_UINT32_FROM_LE :: "byte_order \<Rightarrow> 32 word \<Rightarrow> 32 word" where
  "BSON_UINT32_FROM_LE host v = (case host of BSON_LITTLE_ENDIAN \<Rightarrow> v | BSON_BIG_ENDIAN \<Rightarrow> bson_uint32_swap_slow v)"

definition BSON_UINT32_FROM_BE :: "byte_order \<Rightarrow> 32 word \<Rightarrow> 32 word" where
  "BSON_UINT32_FROM_BE host v = (case host of BSON_LITTLE_ENDIAN \<Rightarrow> bson_uint32_swap_slow v | BSON_BIG_ENDIAN \<Rightarrow> v)"

definition BSON_UINT64_FROM_LE :: "byte_order \<Rightarrow> 64 word \<Rightarrow> 64 word" where
  "BSON_UINT64_FROM_LE host v = (case host of BSON_LITTLE_ENDIAN \<Rightarrow> v | BSON_BIG_ENDIAN \<Rightarrow> bson_uint64_swap_slow v)"

definition BSON_UINT64_FROM_BE :: "byte_order \<Rightarrow> 64 word \<Rightarrow> 64 word" where
  "BSON_UINT64_FROM_BE host v = (case host of BSON_LITTLE_ENDIAN \<Rightarrow> bson_uint64_swap_slow v | BSON_BIG_ENDIAN \<Rightarrow> v)"

definition BSON_DOUBLE_FROM_LE :: "byte_order \<Rightarrow> 64 word \<Rightarrow> 64 word" where
  "BSON_DOUBLE_FROM_LE host v = (case host of BSON_LITTLE_ENDIAN \<Rightarrow> v | BSON_BIG_ENDIAN \<Rightarrow> bson_double_swap_slow v)"

text \<open>The \<open>TO\<close> macros are the \<open>FROM\<close> macros.\<close>

definition BSON_UINT32_TO_LE :: "byte_order \<Rightarrow> 32 word \<Rightarrow> 32 word" where
  "BSON_UINT32_TO_LE host v = (case host of BSON_LITTLE_ENDIAN \<Rightarrow> v | BSON_BIG_ENDIAN \<Rightarrow> bson_uint32_swap_slow v)"

definition BSON_UINT64_TO_LE :: "byte_order \<Rightarrow> 64 word \<Rightarrow> 64 word" where
  "BSON_UINT64_TO_LE host v = (case host of BSON_LITTLE_ENDIAN \<Rightarrow> v | BSON_BIG_ENDIAN \<Rightarrow> bson_uint64_swap_slow v)"

section \<open>Powers of two and the numeric macros\<close>

text \<open>\<^verbatim>\<open>size_t\<close> with \<^verbatim>\<open>BSON_WORD_SIZE\<close> 64.\<close>

definition bson_next_power_of_two :: "64 word \<Rightarrow> 64 word" where
  "bson_next_power_of_two v0 =
     (let v1 = v0 - 1;
          v2 = v1 OR drop_bit 1 v1;
          v3 = v2 OR drop_bit 2 v2;
          v4 = v3 OR drop_bit 4 v3;
          v5 = v4 OR drop_bit 8 v4;
          v6 = v5 OR drop_bit 16 v5;
          v7 = v6 OR drop_bit 32 v6
      in v7 + 1)"

definition bson_is_power_of_two :: "32 word \<Rightarrow> bool" where
  "bson_is_power_of_two v \<longleftrightarrow> v \<noteq> 0 \<and> v AND (v - 1) = 0"

definition BSON_MIN :: "'a::linorder \<Rightarrow> 'a \<Rightarrow> 'a" where
  "BSON_MIN a b = (if a < b then a else b)"

definition BSON_MAX :: "'a::linorder \<Rightarrow> 'a \<Rightarrow> 'a" where
  "BSON_MAX a b = (if a > b then a else b)"

text \<open>\<^verbatim>\<open>((a) < 0) ? ((a) * -1) : (a)\<close> on a 32-bit int, in two's complement.\<close>

definition BSON_ABS :: "32 word \<Rightarrow> 32 word" where
  "BSON_ABS a = (if sint a < 0 then a * - 1 else a)"

section \<open>Copying bytes to an integer\<close>

definition bytes_at :: "byte list \<Rightarrow> nat \<Rightarrow> nat \<Rightarrow> byte list option" where
  "bytes_at raw off n = (if off + n \<le> length raw then Some (take n (drop off raw)) else None)"

definition le32 :: "byte list \<Rightarrow> 32 word" where
  "le32 bs = ucast (bs ! 0) OR push_bit 8 (ucast (bs ! 1)) OR push_bit 16 (ucast (bs ! 2)) OR
     push_bit 24 (ucast (bs ! 3))"

definition le64 :: "byte list \<Rightarrow> 64 word" where
  "le64 bs = ucast (bs ! 0) OR push_bit 8 (ucast (bs ! 1)) OR push_bit 16 (ucast (bs ! 2)) OR
     push_bit 24 (ucast (bs ! 3)) OR push_bit 32 (ucast (bs ! 4)) OR push_bit 40 (ucast (bs ! 5)) OR
     push_bit 48 (ucast (bs ! 6)) OR push_bit 56 (ucast (bs ! 7))"

definition load32 :: "byte_order \<Rightarrow> byte list \<Rightarrow> 32 word" where
  "load32 host bs = (case host of BSON_LITTLE_ENDIAN \<Rightarrow> le32 bs | BSON_BIG_ENDIAN \<Rightarrow> le32 (rev (take 4 bs)))"

definition load64 :: "byte_order \<Rightarrow> byte list \<Rightarrow> 64 word" where
  "load64 host bs = (case host of BSON_LITTLE_ENDIAN \<Rightarrow> le64 bs | BSON_BIG_ENDIAN \<Rightarrow> le64 (rev (take 8 bs)))"

definition encode32 :: "32 word \<Rightarrow> byte list" where
  "encode32 v = [ucast v, ucast (drop_bit 8 v), ucast (drop_bit 16 v), ucast (drop_bit 24 v)]"

definition encode64 :: "64 word \<Rightarrow> byte list" where
  "encode64 v = map (\<lambda>i. ucast (drop_bit (8 * i) v)) [0..<8]"

section \<open>Signed 64-bit numbers\<close>

lemma sdiv_range: "\<bar>a sdiv 1000\<bar> \<le> \<bar>a :: int\<bar>" "\<bar>a smod 1000\<bar> < 1000"
  by (auto simp: signed_divide_int_def signed_modulo_int_def sgn_if abs_if)

lemma sint_word_of_int: "- (2 ^ 63) \<le> i \<Longrightarrow> i < 2 ^ 63 \<Longrightarrow> sint (word_of_int i :: 64 word) = i"
  by (simp add: sint_word_ariths signed_take_bit_int_eq_self_iff sint_sbintrunc')

lemma sint_range64: "- (2 ^ 63) \<le> sint (l :: 64 word)" "sint l < 2 ^ 63"
  using sint_ge [of l] sint_lt [of l] by simp_all

section \<open>Bit by bit\<close>

lemma masks16: "(0x00FF :: 16 word) = mask 8" "(0xFF00 :: 16 word) = push_bit 8 (mask 8)"
  by (simp_all add: mask_eq_exp_minus_1 push_bit_eq_mult)

lemma masks32: "(0x000000FF :: 32 word) = mask 8" "(0x0000FF00 :: 32 word) = push_bit 8 (mask 8)"
  "(0x00FF0000 :: 32 word) = push_bit 16 (mask 8)" "(0xFF000000 :: 32 word) = push_bit 24 (mask 8)"
  by (simp_all add: mask_eq_exp_minus_1 push_bit_eq_mult)

lemma masks64: "(0x00000000000000FF :: 64 word) = mask 8" "(0x000000000000FF00 :: 64 word) = push_bit 8 (mask 8)"
  "(0x0000000000FF0000 :: 64 word) = push_bit 16 (mask 8)" "(0x00000000FF000000 :: 64 word) = push_bit 24 (mask 8)"
  "(0x000000FF00000000 :: 64 word) = push_bit 32 (mask 8)" "(0x0000FF0000000000 :: 64 word) = push_bit 40 (mask 8)"
  "(0x00FF000000000000 :: 64 word) = push_bit 48 (mask 8)" "(0xFF00000000000000 :: 64 word) = push_bit 56 (mask 8)"
  by (simp_all add: mask_eq_exp_minus_1 push_bit_eq_mult)

lemma bit_swap16: "bit (bson_uint16_swap_slow v) n \<longleftrightarrow>
    (if n < 8 then bit v (n + 8) else if n < 16 then bit v (n - 8) else False)"
  unfolding bson_uint16_swap_slow_def masks16 by (auto simp: bit_simps ac_simps)

lemma bit_swap32: "bit (bson_uint32_swap_slow v) n \<longleftrightarrow>
    (if n < 8 then bit v (n + 24) else if n < 16 then bit v (n + 8)
     else if n < 24 then bit v (n - 8) else if n < 32 then bit v (n - 24) else False)"
  unfolding bson_uint32_swap_slow_def masks32 by (auto simp: bit_simps ac_simps)

lemma bit_swap64: "bit (bson_uint64_swap_slow v) n \<longleftrightarrow>
    (if n < 8 then bit v (n + 56) else if n < 16 then bit v (n + 40)
     else if n < 24 then bit v (n + 24) else if n < 32 then bit v (n + 8)
     else if n < 40 then bit v (n - 8) else if n < 48 then bit v (n - 24)
     else if n < 56 then bit v (n - 40) else if n < 64 then bit v (n - 56) else False)"
  unfolding bson_uint64_swap_slow_def masks64 by (auto simp: bit_simps ac_simps)

lemma bit_le32: "bit (le32 bs) n \<longleftrightarrow>
    (if n < 8 then bit (bs ! 0) n else if n < 16 then bit (bs ! 1) (n - 8)
     else if n < 24 then bit (bs ! 2) (n - 16) else if n < 32 then bit (bs ! 3) (n - 24) else False)"
  unfolding le32_def by (auto simp: bit_simps dest: bit_imp_le_length)

lemma bit_le64: "bit (le64 bs) n \<longleftrightarrow>
    (if n < 8 then bit (bs ! 0) n else if n < 16 then bit (bs ! 1) (n - 8)
     else if n < 24 then bit (bs ! 2) (n - 16) else if n < 32 then bit (bs ! 3) (n - 24)
     else if n < 40 then bit (bs ! 4) (n - 32) else if n < 48 then bit (bs ! 5) (n - 40)
     else if n < 56 then bit (bs ! 6) (n - 48) else if n < 64 then bit (bs ! 7) (n - 56) else False)"
  unfolding le64_def by (auto simp: bit_simps dest: bit_imp_le_length)

lemma swap16_twice [simp]: "bson_uint16_swap_slow (bson_uint16_swap_slow v) = v"
  by (rule bit_word_eqI) (auto simp: bit_swap16)

lemma swap32_twice [simp]: "bson_uint32_swap_slow (bson_uint32_swap_slow v) = v"
  by (rule bit_word_eqI) (auto simp: bit_swap32)

lemma swap64_twice [simp]: "bson_uint64_swap_slow (bson_uint64_swap_slow v) = v"
  by (rule bit_word_eqI) (auto simp: bit_swap64)

lemma le32_encode: "le32 (encode32 v) = v"
  by (rule bit_word_eqI) (auto simp: bit_le32 encode32_def bit_simps)

lemma le64_encode: "le64 (encode64 v) = v"
  by (rule bit_word_eqI) (auto simp: bit_le64 encode64_def bit_simps)

lemma length_encode [simp]: "length (encode32 v) = 4" "length (encode64 w) = 8"
  by (simp_all add: encode32_def encode64_def)

lemma swap32_le32: "length bs = 4 \<Longrightarrow> bson_uint32_swap_slow (le32 bs) = le32 (rev bs)"
  by (rule bit_word_eqI) (auto simp: bit_swap32 bit_le32 rev_nth)

lemma swap64_le64: "length bs = 8 \<Longrightarrow> bson_uint64_swap_slow (le64 bs) = le64 (rev bs)"
  by (rule bit_word_eqI) (auto simp: bit_swap64 bit_le64 rev_nth)

text \<open>Reading an integer in a given byte order gives the same on every host.\<close>

lemma from_le_load32: "length bs = 4 \<Longrightarrow> BSON_UINT32_FROM_LE host (load32 host bs) = le32 bs"
  by (cases host) (simp_all add: BSON_UINT32_FROM_LE_def load32_def swap32_le32)

lemma from_be_load32: "length bs = 4 \<Longrightarrow> BSON_UINT32_FROM_BE host (load32 host bs) = le32 (rev bs)"
  by (cases host) (simp_all add: BSON_UINT32_FROM_BE_def load32_def swap32_le32)

lemma from_le_load64: "length bs = 8 \<Longrightarrow> BSON_UINT64_FROM_LE host (load64 host bs) = le64 bs"
  by (cases host) (simp_all add: BSON_UINT64_FROM_LE_def load64_def swap64_le64)

lemma from_be_load64: "length bs = 8 \<Longrightarrow> BSON_UINT64_FROM_BE host (load64 host bs) = le64 (rev bs)"
  by (cases host) (simp_all add: BSON_UINT64_FROM_BE_def load64_def swap64_le64)

lemma from_le_double: "BSON_DOUBLE_FROM_LE host v = BSON_UINT64_FROM_LE host v"
  by (cases host) (simp_all add: BSON_DOUBLE_FROM_LE_def BSON_UINT64_FROM_LE_def bson_double_swap_slow_def)

text \<open>
  Integers written to a buffer in BSON's byte order are read back unchanged on hosts of both byte
  orders, the conversions undo themselves, and an integer in the other order is read as the reversed
  bytes; a double is treated as its 64 bits.
\<close>

lemma bytes_read_alike:
  assumes "length bs = 4" and "length cs = 8"
  shows "BSON_UINT32_FROM_LE host (load32 host (encode32 i)) = i \<and>
    BSON_UINT64_FROM_LE host (load64 host (encode64 l)) = l \<and>
    BSON_DOUBLE_FROM_LE host (load64 host (encode64 l)) = l \<and>
    BSON_UINT32_FROM_BE host (load32 host bs) = BSON_UINT32_FROM_LE host (load32 host (rev bs)) \<and>
    BSON_UINT64_FROM_BE host (load64 host cs) = BSON_UINT64_FROM_LE host (load64 host (rev cs)) \<and>
    BSON_UINT32_FROM_LE host (BSON_UINT32_TO_LE host i) = i \<and>
    BSON_UINT64_FROM_LE host (BSON_UINT64_TO_LE host l) = l \<and>
    BSON_UINT16_FROM_LE host (BSON_UINT16_FROM_LE host s) = s \<and>
    BSON_UINT16_FROM_BE host (BSON_UINT16_FROM_BE host s) = s"
  using assms
  by (simp add: from_le_load32 from_be_load32 from_le_load64 from_be_load64 from_le_double le32_encode le64_encode)
    (simp add: BSON_UINT32_FROM_LE_def BSON_UINT32_TO_LE_def BSON_UINT64_FROM_LE_def BSON_UINT64_TO_LE_def
      BSON_UINT16_FROM_LE_def BSON_UINT16_FROM_BE_def split: byte_order.split)

end
