(* ===== verification/Bson_Oid.thy ===== *)
theory Bson_Oid
  imports Bson_Bytes "HOL-Library.List_Lexorder"
begin

text \<open>
  libbson-1.0/bson-oid.h, the inline functions on object identifiers, the 12 bytes that identify every
  stored offer. The functions without the suffix \<^verbatim>\<open>_unsafe\<close> and those that generate or print an
  identifier are in the compiled library; \<open>oid_digits\<close> says what the printed form is.
\<close>

record bson_oid_t =
  oid_bytes :: "byte list"

definition oid_ok :: "bson_oid_t \<Rightarrow> bool" where
  "oid_ok oid \<longleftrightarrow> length (oid_bytes oid) = 12"

text \<open>\<^verbatim>\<open>memcmp\<close> of equally many bytes: the sign of the first difference.\<close>

fun memcmp :: "byte list \<Rightarrow> byte list \<Rightarrow> int" where
  "memcmp (x # xs) (y # ys) = (if x < y then - 1 else if y < x then 1 else memcmp xs ys)"
| "memcmp _ _ = 0"

definition bson_oid_compare_unsafe :: "bson_oid_t \<Rightarrow> bson_oid_t \<Rightarrow> int" where
  "bson_oid_compare_unsafe oid1 oid2 = memcmp (oid_bytes oid1) (oid_bytes oid2)"

definition bson_oid_equal_unsafe :: "bson_oid_t \<Rightarrow> bson_oid_t \<Rightarrow> bool" where
  "bson_oid_equal_unsafe oid1 oid2 \<longleftrightarrow> memcmp (oid_bytes oid1) (oid_bytes oid2) = 0"

definition bson_oid_hash_unsafe :: "bson_oid_t \<Rightarrow> 32 word" where
  "bson_oid_hash_unsafe oid = fold (\<lambda>b hash. push_bit 5 hash + hash + ucast b) (oid_bytes oid) 5381"

definition bson_oid_copy_unsafe :: "bson_oid_t \<Rightarrow> bson_oid_t \<Rightarrow> bson_oid_t" where
  "bson_oid_copy_unsafe src dst = dst\<lparr>oid_bytes := oid_bytes src\<rparr>"

definition bson_oid_parse_hex_char :: "char \<Rightarrow> byte" where
  "bson_oid_parse_hex_char hex =
     (if hex = CHR ''0'' then 0 else if hex = CHR ''1'' then 1 else if hex = CHR ''2'' then 2
      else if hex = CHR ''3'' then 3 else if hex = CHR ''4'' then 4 else if hex = CHR ''5'' then 5
      else if hex = CHR ''6'' then 6 else if hex = CHR ''7'' then 7 else if hex = CHR ''8'' then 8
      else if hex = CHR ''9'' then 9
      else if hex = CHR ''a'' \<or> hex = CHR ''A'' then 0xa
      else if hex = CHR ''b'' \<or> hex = CHR ''B'' then 0xb
      else if hex = CHR ''c'' \<or> hex = CHR ''C'' then 0xc
      else if hex = CHR ''d'' \<or> hex = CHR ''D'' then 0xd
      else if hex = CHR ''e'' \<or> hex = CHR ''E'' then 0xe
      else if hex = CHR ''f'' \<or> hex = CHR ''F'' then 0xf
      else 0)"

text \<open>No bounds check: a string of fewer than 24 characters is read past its end.\<close>

definition bson_oid_init_from_string_unsafe :: "bson_oid_t \<Rightarrow> string \<Rightarrow> bson_oid_t option" where
  "bson_oid_init_from_string_unsafe oid str =
     (if length str < 24 then None
      else Some (oid\<lparr>oid_bytes := map (\<lambda>i. push_bit 4 (bson_oid_parse_hex_char (str ! (2 * i))) OR
        bson_oid_parse_hex_char (str ! (2 * i + 1))) [0..<12]\<rparr>))"

definition bson_oid_get_time_t_unsafe :: "byte_order \<Rightarrow> bson_oid_t \<Rightarrow> int" where
  "bson_oid_get_time_t_unsafe host oid = uint (BSON_UINT32_FROM_BE host (load32 host (take 4 (oid_bytes oid))))"

section \<open>Order\<close>

lemma memcmp_lex: "length xs = length ys \<Longrightarrow> memcmp xs ys < 0 \<longleftrightarrow> xs < ys"
  and memcmp_lex': "length xs = length ys \<Longrightarrow> memcmp xs ys > 0 \<longleftrightarrow> ys < xs"
  by (induction xs ys rule: memcmp.induct) auto

lemma memcmp_0: "length xs = length ys \<Longrightarrow> memcmp xs ys = 0 \<longleftrightarrow> xs = ys"
  by (induction xs ys rule: memcmp.induct) auto

lemma memcmp_append: "length xs = length ys \<Longrightarrow> memcmp (xs @ us) (ys @ vs) = (if xs = ys then memcmp us vs else memcmp xs ys)"
  by (induction xs ys rule: memcmp.induct) auto

text \<open>Four bytes as a number.\<close>

lemma or_push_bit_add:
  assumes "\<And>n. k \<le> n \<Longrightarrow> \<not> bit x n"
  shows "x OR push_bit k y = x + push_bit k (y :: 32 word)"
  by (rule disjunctive_add [symmetric]) (use assms in \<open>auto simp: bit_simps\<close>)

lemma le32_horner:
  "le32 [a, b, c, d] = ucast a OR push_bit 8 (ucast b OR push_bit 8 (ucast c OR push_bit 8 (ucast d)))"
  by (rule bit_word_eqI) (auto simp: le32_def bit_simps)

lemma bit_ucast_byte: "8 \<le> n \<Longrightarrow> \<not> bit (ucast (a :: byte) :: 32 word) n"
  by (auto simp: bit_simps dest: bit_imp_le_length)

lemma byte_less: "unat (a :: byte) < 256"
  using unsigned_less [of a, where ?'a = nat] by simp

lemma unat_le32: "unat (le32 [a, b, c, d]) = unat a + 256 * (unat b + 256 * (unat c + 256 * unat d))"
proof -
  let ?n = "unat a + 256 * (unat b + 256 * (unat c + 256 * unat d))"
  have "le32 [a, b, c, d] = ucast a + 256 * (ucast b + 256 * (ucast c + 256 * ucast d))"
    unfolding le32_horner
    by (simp add: or_push_bit_add bit_ucast_byte) (simp add: push_bit_eq_mult)
  also have "\<dots> = word_of_nat ?n" by simp
  finally have "unat (le32 [a, b, c, d]) = unat (word_of_nat ?n :: 32 word)" by (simp only:)
  also have "\<dots> = ?n mod 2 ^ 32" by (simp only: unat_of_nat len_num1 len_bit0 len_bit1) simp
  finally have "unat (le32 [a, b, c, d]) = ?n mod 2 ^ 32" .
  moreover have "?n < 2 ^ 32" using byte_less [of a] byte_less [of b] byte_less [of c] byte_less [of d] by simp
  ultimately show ?thesis by simp
qed

lemma four: "length bs = 4 \<Longrightarrow> \<exists>a b c d. bs = [a, b, c, d]"
  by (auto simp: numeral_eq_Suc length_Suc_conv)

lemma base256: "i < 256 \<Longrightarrow> j < 256 \<Longrightarrow> i + 256 * x = j + 256 * y \<longleftrightarrow> i = j \<and> x = (y :: nat)"
proof
  assume i: "i < 256" and j: "j < 256" and eq: "i + 256 * x = j + 256 * y"
  have "(i + 256 * x) mod 256 = (j + 256 * y) mod 256" by (simp only: eq)
  with i j have "i = j" by simp
  with eq show "i = j \<and> x = y" by simp
qed simp

lemma memcmp_be32:
  assumes "length xs = 4" and "length ys = 4"
  shows "le32 (rev xs) < le32 (rev ys) \<longleftrightarrow> memcmp xs ys < 0" and "le32 (rev xs) = le32 (rev ys) \<longleftrightarrow> xs = ys"
proof -
  obtain a b c d e f g h where xs [simp]: "xs = [a, b, c, d]" and ys [simp]: "ys = [e, f, g, h]"
    using four [OF assms(1)] four [OF assms(2)] by blast
  note bytes = byte_less [of a] byte_less [of b] byte_less [of c] byte_less [of d]
    byte_less [of e] byte_less [of f] byte_less [of g] byte_less [of h]
  show "le32 (rev xs) < le32 (rev ys) \<longleftrightarrow> memcmp xs ys < 0"
    using bytes by (simp add: word_less_nat_alt unat_le32)
  show "le32 (rev xs) = le32 (rev ys) \<longleftrightarrow> xs = ys"
    by (simp only: xs ys rev.simps append.simps word_unat_eq_iff unat_le32 base256 bytes list.inject) blast
qed

section \<open>The printed form\<close>

definition hex_digit :: "nat \<Rightarrow> char" where
  "hex_digit n = ''0123456789abcdef'' ! n"

definition oid_digits :: "bson_oid_t \<Rightarrow> string" where
  "oid_digits oid = concat (map (\<lambda>b. [hex_digit (unat b div 16), hex_digit (unat b mod 16)]) (oid_bytes oid))"

lemma parse_hex_digits: "list_all (\<lambda>n. bson_oid_parse_hex_char (hex_digit n) = word_of_nat n) [0..<16]"
  by (simp add: upt_rec bson_oid_parse_hex_char_def hex_digit_def)

lemma parse_hex_digit: "n < 16 \<Longrightarrow> bson_oid_parse_hex_char (hex_digit n) = word_of_nat n"
  using parse_hex_digits by (simp add: list_all_iff)

lemma nibbles: "push_bit 4 (word_of_nat (unat b div 16)) OR word_of_nat (unat b mod 16) = (b :: byte)"
proof -
  have "word_of_nat (unat b div 16) = drop_bit 4 b"
    by (rule word_unat_eq_iff [THEN iffD2]) (use byte_less [of b] in \<open>simp add: unsigned_drop_bit_eq drop_bit_eq_div unat_of_nat unat_div_distrib\<close>)
  moreover have "word_of_nat (unat b mod 16) = take_bit 4 b"
    by (rule word_unat_eq_iff [THEN iffD2]) (use byte_less [of b] in \<open>simp add: unsigned_take_bit_eq take_bit_eq_mod unat_of_nat unat_mod_distrib\<close>)
  ultimately show ?thesis
    by (simp only:) (rule bit_word_eqI, auto simp: bit_simps)
qed

lemma concat_pairs_nth:
  assumes "i < length bs"
  shows "concat (map (\<lambda>b. [f b, g b]) bs) ! (2 * i) = f (bs ! i)"
    and "concat (map (\<lambda>b. [f b, g b]) bs) ! Suc (2 * i) = g (bs ! i)"
  using assms by (induction bs arbitrary: i) (auto simp: less_Suc_eq_0_disj)

lemma init_from_digits:
  assumes "oid_ok oid"
  shows "bson_oid_init_from_string_unsafe oid' (oid_digits oid) = Some (oid'\<lparr>oid_bytes := oid_bytes oid\<rparr>)"
proof -
  have "length (oid_digits oid) = 24"
    using assms by (simp add: oid_digits_def length_concat comp_def sum_list_triv oid_ok_def)
  moreover have "map (\<lambda>i. push_bit 4 (bson_oid_parse_hex_char (oid_digits oid ! (2 * i))) OR
      bson_oid_parse_hex_char (oid_digits oid ! (2 * i + 1))) [0..<12] = oid_bytes oid"
  proof (rule nth_equalityI)
    fix i assume "i < length (map (\<lambda>i. push_bit 4 (bson_oid_parse_hex_char (oid_digits oid ! (2 * i))) OR
      bson_oid_parse_hex_char (oid_digits oid ! (2 * i + 1))) [0..<12])"
    then have "i < length (oid_bytes oid)" and "i < 12" using assms by (simp_all add: oid_ok_def)
    moreover have "unat (oid_bytes oid ! i) div 16 < 16" using byte_less [of "oid_bytes oid ! i"] by linarith
    ultimately show "map (\<lambda>i. push_bit 4 (bson_oid_parse_hex_char (oid_digits oid ! (2 * i))) OR
      bson_oid_parse_hex_char (oid_digits oid ! (2 * i + 1))) [0..<12] ! i = oid_bytes oid ! i"
      by (simp add: oid_digits_def concat_pairs_nth parse_hex_digit nibbles)
  qed (use assms in \<open>simp add: oid_ok_def\<close>)
  ultimately show ?thesis by (simp add: bson_oid_init_from_string_unsafe_def)
qed

section \<open>Time\<close>

lemma get_time: "oid_ok oid \<Longrightarrow> bson_oid_get_time_t_unsafe host oid = uint (le32 (rev (take 4 (oid_bytes oid))))"
  by (simp add: bson_oid_get_time_t_unsafe_def oid_ok_def from_be_load32)

lemma compare_split:
  assumes "oid_ok o1" and "oid_ok o2"
  shows "bson_oid_compare_unsafe o1 o2 =
    (let x = take 4 (oid_bytes o1); y = take 4 (oid_bytes o2)
     in if x = y then memcmp (drop 4 (oid_bytes o1)) (drop 4 (oid_bytes o2)) else memcmp x y)"
  using memcmp_append [of "take 4 (oid_bytes o1)" "take 4 (oid_bytes o2)" "drop 4 (oid_bytes o1)" "drop 4 (oid_bytes o2)"] assms
  by (simp add: bson_oid_compare_unsafe_def Let_def oid_ok_def)

lemma time_orders:
  assumes "oid_ok o1" and "oid_ok o2"
    and "bson_oid_get_time_t_unsafe h o1 < bson_oid_get_time_t_unsafe h o2"
  shows "bson_oid_compare_unsafe o1 o2 < 0"
proof -
  let ?x = "take 4 (oid_bytes o1)" and ?y = "take 4 (oid_bytes o2)"
  have "length ?x = 4" "length ?y = 4" using assms(1,2) by (simp_all add: oid_ok_def)
  moreover have "le32 (rev ?x) < le32 (rev ?y)"
    using assms(3) by (simp add: get_time [OF assms(1)] get_time [OF assms(2)] word_less_def)
  ultimately have "memcmp ?x ?y < 0" and "?x \<noteq> ?y"
    using memcmp_be32 [of ?x ?y] by auto
  then show ?thesis by (simp add: compare_split [OF assms(1,2)])
qed



end
