(* ===== verification/Bson_Types.thy ===== *)
theory Bson_Types
  imports Bson_Oid
begin

text \<open>
  The data types of libbson-1.0/bson-types.h: enumerations as datatypes with the number of every
  enumerator, structures as records, the union of a boxed value as a datatype. A pointer to characters
  or bytes in a boxed value is the list it points to.
\<close>

section \<open>Enumerations\<close>

datatype bson_context_flags_t =
    BSON_CONTEXT_NONE
  | BSON_CONTEXT_THREAD_SAFE
  | BSON_CONTEXT_DISABLE_HOST_CACHE
  | BSON_CONTEXT_DISABLE_PID_CACHE
  | BSON_CONTEXT_USE_TASK_ID

fun context_flag :: "bson_context_flags_t \<Rightarrow> 32 word" where
  "context_flag BSON_CONTEXT_NONE = 0"
| "context_flag BSON_CONTEXT_THREAD_SAFE = push_bit 0 1"
| "context_flag BSON_CONTEXT_DISABLE_HOST_CACHE = push_bit 1 1"
| "context_flag BSON_CONTEXT_DISABLE_PID_CACHE = push_bit 2 1"
| "context_flag BSON_CONTEXT_USE_TASK_ID = push_bit 3 1"

datatype bson_validate_flags_t =
    BSON_VALIDATE_NONE
  | BSON_VALIDATE_UTF8
  | BSON_VALIDATE_DOLLAR_KEYS
  | BSON_VALIDATE_DOT_KEYS
  | BSON_VALIDATE_UTF8_ALLOW_NULL

fun validate_flag :: "bson_validate_flags_t \<Rightarrow> 32 word" where
  "validate_flag BSON_VALIDATE_NONE = 0"
| "validate_flag BSON_VALIDATE_UTF8 = push_bit 0 1"
| "validate_flag BSON_VALIDATE_DOLLAR_KEYS = push_bit 1 1"
| "validate_flag BSON_VALIDATE_DOT_KEYS = push_bit 2 1"
| "validate_flag BSON_VALIDATE_UTF8_ALLOW_NULL = push_bit 3 1"

datatype bson_type_t =
    BSON_TYPE_EOD | BSON_TYPE_DOUBLE | BSON_TYPE_UTF8 | BSON_TYPE_DOCUMENT | BSON_TYPE_ARRAY
  | BSON_TYPE_BINARY | BSON_TYPE_UNDEFINED | BSON_TYPE_OID | BSON_TYPE_BOOL | BSON_TYPE_DATE_TIME
  | BSON_TYPE_NULL | BSON_TYPE_REGEX | BSON_TYPE_DBPOINTER | BSON_TYPE_CODE | BSON_TYPE_SYMBOL
  | BSON_TYPE_CODEWSCOPE | BSON_TYPE_INT32 | BSON_TYPE_TIMESTAMP | BSON_TYPE_INT64
  | BSON_TYPE_MAXKEY | BSON_TYPE_MINKEY

fun type_code :: "bson_type_t \<Rightarrow> byte" where
  "type_code BSON_TYPE_EOD = 0x00"
| "type_code BSON_TYPE_DOUBLE = 0x01"
| "type_code BSON_TYPE_UTF8 = 0x02"
| "type_code BSON_TYPE_DOCUMENT = 0x03"
| "type_code BSON_TYPE_ARRAY = 0x04"
| "type_code BSON_TYPE_BINARY = 0x05"
| "type_code BSON_TYPE_UNDEFINED = 0x06"
| "type_code BSON_TYPE_OID = 0x07"
| "type_code BSON_TYPE_BOOL = 0x08"
| "type_code BSON_TYPE_DATE_TIME = 0x09"
| "type_code BSON_TYPE_NULL = 0x0A"
| "type_code BSON_TYPE_REGEX = 0x0B"
| "type_code BSON_TYPE_DBPOINTER = 0x0C"
| "type_code BSON_TYPE_CODE = 0x0D"
| "type_code BSON_TYPE_SYMBOL = 0x0E"
| "type_code BSON_TYPE_CODEWSCOPE = 0x0F"
| "type_code BSON_TYPE_INT32 = 0x10"
| "type_code BSON_TYPE_TIMESTAMP = 0x11"
| "type_code BSON_TYPE_INT64 = 0x12"
| "type_code BSON_TYPE_MAXKEY = 0x7F"
| "type_code BSON_TYPE_MINKEY = 0xFF"

datatype bson_subtype_t =
    BSON_SUBTYPE_BINARY
  | BSON_SUBTYPE_FUNCTION
  | BSON_SUBTYPE_BINARY_DEPRECATED
  | BSON_SUBTYPE_UUID_DEPRECATED
  | BSON_SUBTYPE_UUID
  | BSON_SUBTYPE_MD5
  | BSON_SUBTYPE_USER

fun subtype_code :: "bson_subtype_t \<Rightarrow> byte" where
  "subtype_code BSON_SUBTYPE_BINARY = 0x00"
| "subtype_code BSON_SUBTYPE_FUNCTION = 0x01"
| "subtype_code BSON_SUBTYPE_BINARY_DEPRECATED = 0x02"
| "subtype_code BSON_SUBTYPE_UUID_DEPRECATED = 0x03"
| "subtype_code BSON_SUBTYPE_UUID = 0x04"
| "subtype_code BSON_SUBTYPE_MD5 = 0x05"
| "subtype_code BSON_SUBTYPE_USER = 0x80"

section \<open>Structures\<close>

text \<open>\<^verbatim>\<open>padding\<close> has 120 bytes; a short document is kept in it.\<close>

record bson_t =
  flags :: "32 word"
  doc_len :: "32 word"
  padding :: "byte list"

definition BSON_INITIALIZER :: bson_t where
  "BSON_INITIALIZER = \<lparr>flags = 3, doc_len = 5, padding = 5 # replicate 119 0\<rparr>"

datatype bson_union =
    V_oid bson_oid_t
  | V_int64 "64 word"
  | V_int32 "32 word"
  | V_int8 "8 word"
  | V_double "64 word"
  | V_bool bool
  | V_datetime "64 word"
  | V_timestamp (timestamp: "32 word") (increment: "32 word")
  | V_utf8 (utf8_str: string) (utf8_len: "32 word")
  | V_doc (doc_data: "byte list") (data_len: "32 word")
  | V_binary (binary_data: "byte list") (binary_len: "32 word") (subtype: bson_subtype_t)
  | V_regex (regex: string) (options: string)
  | V_dbpointer (collection: string) (collection_len: "32 word") (dbpointer_oid: bson_oid_t)
  | V_code (code: string) (code_len: "32 word")
  | V_codewscope (scoped_code: string) (scope_data: "byte list") (scoped_code_len: "32 word") (scope_len: "32 word")
  | V_symbol (symbol: string) (symbol_len: "32 word")

record bson_value_t =
  value_type :: bson_type_t
  value_padding :: "32 word"
  boxed :: bson_union

record bson_iter_t =
  iter_raw :: "byte list"
  iter_len :: "32 word"
  iter_off :: "32 word"
  iter_type :: "32 word"
  iter_key :: "32 word"
  iter_d1 :: "32 word"
  iter_d2 :: "32 word"
  iter_d3 :: "32 word"
  iter_d4 :: "32 word"
  next_off :: "32 word"
  err_off :: "32 word"
  iter_value :: bson_value_t

record bson_reader_t =
  reader_type :: "32 word"

record bson_error_t =
  domain :: "32 word"
  err_code :: "32 word"
  message :: string

text \<open>The callbacks of a visitor, each possibly null; they change the user's data \<open>'d\<close> and return
  whether to stop.\<close>

type_synonym ('v, 'd) callback = "(bson_iter_t \<Rightarrow> string \<Rightarrow> 'v \<Rightarrow> 'd \<Rightarrow> bool \<times> 'd) option"

record 'd bson_visitor_t =
  visit_before :: "(unit, 'd) callback"
  visit_after :: "(unit, 'd) callback"
  visit_corrupt :: "(bson_iter_t \<Rightarrow> 'd \<Rightarrow> 'd) option"
  visit_double :: "(64 word, 'd) callback"
  visit_utf8 :: "(64 word \<times> string, 'd) callback"
  visit_document :: "(bson_t, 'd) callback"
  visit_array :: "(bson_t, 'd) callback"
  visit_binary :: "(bson_subtype_t \<times> 64 word \<times> byte list, 'd) callback"
  visit_undefined :: "(unit, 'd) callback"
  visit_oid :: "(bson_oid_t, 'd) callback"
  visit_bool :: "(bool, 'd) callback"
  visit_date_time :: "(64 word, 'd) callback"
  visit_null :: "(unit, 'd) callback"
  visit_regex :: "(string \<times> string, 'd) callback"
  visit_dbpointer :: "(64 word \<times> string \<times> bson_oid_t, 'd) callback"
  visit_code :: "(64 word \<times> string, 'd) callback"
  visit_symbol :: "(64 word \<times> string, 'd) callback"
  visit_codewscope :: "(64 word \<times> string \<times> bson_t, 'd) callback"
  visit_int32 :: "(32 word, 'd) callback"
  visit_timestamp :: "(32 word \<times> 32 word, 'd) callback"
  visit_int64 :: "(64 word, 'd) callback"
  visit_maxkey :: "(unit, 'd) callback"
  visit_minkey :: "(unit, 'd) callback"

section \<open>Numbers of the enumerators\<close>

text \<open>Enumerators of one type have different numbers, so a stored byte determines the type.\<close>

lemma type_code_inj: "type_code s = type_code t \<longleftrightarrow> s = t"
  by (cases s; cases t) simp_all

lemma subtype_code_inj: "subtype_code s = subtype_code t \<longleftrightarrow> s = t"
  by (cases s; cases t) simp_all

text \<open>Flags can be combined with or: each has a bit of its own.\<close>

lemma context_flags_disjoint: "f \<noteq> g \<Longrightarrow> context_flag f AND context_flag g = 0"
  by (cases f; cases g) simp_all

lemma validate_flags_disjoint: "f \<noteq> g \<Longrightarrow> validate_flag f AND validate_flag g = 0"
  by (cases f; cases g) simp_all

text \<open>The initializer is the empty document: its length, little-endian, and the end byte.\<close>

lemma initializer_is_empty_document:
  "le32 (take 4 (padding BSON_INITIALIZER)) = doc_len BSON_INITIALIZER"
  "padding BSON_INITIALIZER ! 4 = type_code BSON_TYPE_EOD" "length (padding BSON_INITIALIZER) = 120"
  by (simp_all add: BSON_INITIALIZER_def le32_def)

end
