(* ===== verification/Bson_Iter.thy ===== *)
theory Bson_Iter
  imports Bson_Types
begin

text \<open>
  The inline accessors of libbson-1.0/bson-iter.h: the \<open>_unsafe\<close> readers of the element an iterator
  stands on and the type test macros.

  An accessor that copies from \<open>raw + d1\<close> is \<open>None\<close> where it would read past the buffer or compute an
  undefined value; a returned pointer into the buffer is the rest of the buffer from there. The
  functions that are compiled in the library, \<open>bson_iter_type\<close> and \<open>bson_iter_key\<close>, are arguments of the
  macros that call them. \<^verbatim>\<open>time_t\<close> and \<^verbatim>\<open>suseconds_t\<close> have 64 bits, as has \<^verbatim>\<open>unsigned long\<close>.
\<close>

section \<open>Type tests\<close>

definition BSON_ITER_HOLDS_DOUBLE :: "(bson_iter_t \<Rightarrow> byte) \<Rightarrow> bson_iter_t \<Rightarrow> bool" where
  "BSON_ITER_HOLDS_DOUBLE bson_iter_type it \<longleftrightarrow> bson_iter_type it = type_code BSON_TYPE_DOUBLE"

definition BSON_ITER_HOLDS_UTF8 :: "(bson_iter_t \<Rightarrow> byte) \<Rightarrow> bson_iter_t \<Rightarrow> bool" where
  "BSON_ITER_HOLDS_UTF8 bson_iter_type it \<longleftrightarrow> bson_iter_type it = type_code BSON_TYPE_UTF8"

definition BSON_ITER_HOLDS_DOCUMENT :: "(bson_iter_t \<Rightarrow> byte) \<Rightarrow> bson_iter_t \<Rightarrow> bool" where
  "BSON_ITER_HOLDS_DOCUMENT bson_iter_type it \<longleftrightarrow> bson_iter_type it = type_code BSON_TYPE_DOCUMENT"

definition BSON_ITER_HOLDS_ARRAY :: "(bson_iter_t \<Rightarrow> byte) \<Rightarrow> bson_iter_t \<Rightarrow> bool" where
  "BSON_ITER_HOLDS_ARRAY bson_iter_type it \<longleftrightarrow> bson_iter_type it = type_code BSON_TYPE_ARRAY"

definition BSON_ITER_HOLDS_BINARY :: "(bson_iter_t \<Rightarrow> byte) \<Rightarrow> bson_iter_t \<Rightarrow> bool" where
  "BSON_ITER_HOLDS_BINARY bson_iter_type it \<longleftrightarrow> bson_iter_type it = type_code BSON_TYPE_BINARY"

definition BSON_ITER_HOLDS_UNDEFINED :: "(bson_iter_t \<Rightarrow> byte) \<Rightarrow> bson_iter_t \<Rightarrow> bool" where
  "BSON_ITER_HOLDS_UNDEFINED bson_iter_type it \<longleftrightarrow> bson_iter_type it = type_code BSON_TYPE_UNDEFINED"

definition BSON_ITER_HOLDS_OID :: "(bson_iter_t \<Rightarrow> byte) \<Rightarrow> bson_iter_t \<Rightarrow> bool" where
  "BSON_ITER_HOLDS_OID bson_iter_type it \<longleftrightarrow> bson_iter_type it = type_code BSON_TYPE_OID"

definition BSON_ITER_HOLDS_BOOL :: "(bson_iter_t \<Rightarrow> byte) \<Rightarrow> bson_iter_t \<Rightarrow> bool" where
  "BSON_ITER_HOLDS_BOOL bson_iter_type it \<longleftrightarrow> bson_iter_type it = type_code BSON_TYPE_BOOL"

definition BSON_ITER_HOLDS_DATE_TIME :: "(bson_iter_t \<Rightarrow> byte) \<Rightarrow> bson_iter_t \<Rightarrow> bool" where
  "BSON_ITER_HOLDS_DATE_TIME bson_iter_type it \<longleftrightarrow> bson_iter_type it = type_code BSON_TYPE_DATE_TIME"

definition BSON_ITER_HOLDS_NULL :: "(bson_iter_t \<Rightarrow> byte) \<Rightarrow> bson_iter_t \<Rightarrow> bool" where
  "BSON_ITER_HOLDS_NULL bson_iter_type it \<longleftrightarrow> bson_iter_type it = type_code BSON_TYPE_NULL"

definition BSON_ITER_HOLDS_REGEX :: "(bson_iter_t \<Rightarrow> byte) \<Rightarrow> bson_iter_t \<Rightarrow> bool" where
  "BSON_ITER_HOLDS_REGEX bson_iter_type it \<longleftrightarrow> bson_iter_type it = type_code BSON_TYPE_REGEX"

definition BSON_ITER_HOLDS_DBPOINTER :: "(bson_iter_t \<Rightarrow> byte) \<Rightarrow> bson_iter_t \<Rightarrow> bool" where
  "BSON_ITER_HOLDS_DBPOINTER bson_iter_type it \<longleftrightarrow> bson_iter_type it = type_code BSON_TYPE_DBPOINTER"

definition BSON_ITER_HOLDS_CODE :: "(bson_iter_t \<Rightarrow> byte) \<Rightarrow> bson_iter_t \<Rightarrow> bool" where
  "BSON_ITER_HOLDS_CODE bson_iter_type it \<longleftrightarrow> bson_iter_type it = type_code BSON_TYPE_CODE"

definition BSON_ITER_HOLDS_SYMBOL :: "(bson_iter_t \<Rightarrow> byte) \<Rightarrow> bson_iter_t \<Rightarrow> bool" where
  "BSON_ITER_HOLDS_SYMBOL bson_iter_type it \<longleftrightarrow> bson_iter_type it = type_code BSON_TYPE_SYMBOL"

definition BSON_ITER_HOLDS_CODEWSCOPE :: "(bson_iter_t \<Rightarrow> byte) \<Rightarrow> bson_iter_t \<Rightarrow> bool" where
  "BSON_ITER_HOLDS_CODEWSCOPE bson_iter_type it \<longleftrightarrow> bson_iter_type it = type_code BSON_TYPE_CODEWSCOPE"

definition BSON_ITER_HOLDS_INT32 :: "(bson_iter_t \<Rightarrow> byte) \<Rightarrow> bson_iter_t \<Rightarrow> bool" where
  "BSON_ITER_HOLDS_INT32 bson_iter_type it \<longleftrightarrow> bson_iter_type it = type_code BSON_TYPE_INT32"

definition BSON_ITER_HOLDS_TIMESTAMP :: "(bson_iter_t \<Rightarrow> byte) \<Rightarrow> bson_iter_t \<Rightarrow> bool" where
  "BSON_ITER_HOLDS_TIMESTAMP bson_iter_type it \<longleftrightarrow> bson_iter_type it = type_code BSON_TYPE_TIMESTAMP"

definition BSON_ITER_HOLDS_INT64 :: "(bson_iter_t \<Rightarrow> byte) \<Rightarrow> bson_iter_t \<Rightarrow> bool" where
  "BSON_ITER_HOLDS_INT64 bson_iter_type it \<longleftrightarrow> bson_iter_type it = type_code BSON_TYPE_INT64"

definition BSON_ITER_HOLDS_MAXKEY :: "(bson_iter_t \<Rightarrow> byte) \<Rightarrow> bson_iter_t \<Rightarrow> bool" where
  "BSON_ITER_HOLDS_MAXKEY bson_iter_type it \<longleftrightarrow> bson_iter_type it = type_code BSON_TYPE_MAXKEY"

definition BSON_ITER_HOLDS_MINKEY :: "(bson_iter_t \<Rightarrow> byte) \<Rightarrow> bson_iter_t \<Rightarrow> bool" where
  "BSON_ITER_HOLDS_MINKEY bson_iter_type it \<longleftrightarrow> bson_iter_type it = type_code BSON_TYPE_MINKEY"

definition BSON_ITER_IS_KEY :: "(bson_iter_t \<Rightarrow> string) \<Rightarrow> bson_iter_t \<Rightarrow> string \<Rightarrow> bool" where
  "BSON_ITER_IS_KEY bson_iter_key it key \<longleftrightarrow> key = bson_iter_key it"

section \<open>Reading the current element\<close>

definition bson_iter_int32_unsafe :: "byte_order \<Rightarrow> bson_iter_t \<Rightarrow> 32 word option" where
  "bson_iter_int32_unsafe host it =
     map_option (\<lambda>bs. BSON_UINT32_FROM_LE host (load32 host bs)) (bytes_at (iter_raw it) (unat (iter_d1 it)) 4)"

definition bson_iter_int64_unsafe :: "byte_order \<Rightarrow> bson_iter_t \<Rightarrow> 64 word option" where
  "bson_iter_int64_unsafe host it =
     map_option (\<lambda>bs. BSON_UINT64_FROM_LE host (load64 host bs)) (bytes_at (iter_raw it) (unat (iter_d1 it)) 8)"

definition bson_iter_double_unsafe :: "byte_order \<Rightarrow> bson_iter_t \<Rightarrow> 64 word option" where
  "bson_iter_double_unsafe host it =
     map_option (\<lambda>bs. BSON_DOUBLE_FROM_LE host (load64 host bs)) (bytes_at (iter_raw it) (unat (iter_d1 it)) 8)"

definition bson_iter_bool_unsafe :: "bson_iter_t \<Rightarrow> bool option" where
  "bson_iter_bool_unsafe it =
     map_option (\<lambda>bs. bs ! 0 \<noteq> 0) (bytes_at (iter_raw it) (unat (iter_d1 it)) 1)"

text \<open>\<^verbatim>\<open>val - 1\<close> is a signed subtraction: undefined for the least int. Both arguments of the maximum
  are ints, the result is converted to an unsigned one.\<close>

definition bson_iter_utf8_len_unsafe :: "byte_order \<Rightarrow> bson_iter_t \<Rightarrow> 32 word option" where
  "bson_iter_utf8_len_unsafe host it =
     (case bytes_at (iter_raw it) (unat (iter_d1 it)) 4 of
        None \<Rightarrow> None
      | Some bs \<Rightarrow>
          (let val = BSON_UINT32_FROM_LE host (load32 host bs)
           in if sint val = - (2 ^ 31) then None else Some (word_of_int (BSON_MAX 0 (sint val - 1)))))"

definition bson_iter_code_unsafe :: "byte_order \<Rightarrow> bson_iter_t \<Rightarrow> (32 word \<times> byte list) option" where
  "bson_iter_code_unsafe host it =
     (case bson_iter_utf8_len_unsafe host it of
        None \<Rightarrow> None
      | Some n \<Rightarrow> Some (n, drop (unat (iter_d2 it)) (iter_raw it)))"

text \<open>The length of a UTF-8 string is a \<^verbatim>\<open>size_t\<close>.\<close>

definition bson_iter_utf8_unsafe :: "byte_order \<Rightarrow> bson_iter_t \<Rightarrow> (64 word \<times> byte list) option" where
  "bson_iter_utf8_unsafe host it =
     (case bson_iter_utf8_len_unsafe host it of
        None \<Rightarrow> None
      | Some n \<Rightarrow> Some (ucast n, drop (unat (iter_d2 it)) (iter_raw it)))"

definition bson_iter_oid_unsafe :: "bson_iter_t \<Rightarrow> byte list" where
  "bson_iter_oid_unsafe it = drop (unat (iter_d1 it)) (iter_raw it)"

definition bson_iter_key_unsafe :: "bson_iter_t \<Rightarrow> byte list" where
  "bson_iter_key_unsafe it = drop (unat (iter_key it)) (iter_raw it)"

text \<open>The number of the type; it need not be the number of an enumerator.\<close>

definition bson_iter_type_unsafe :: "bson_iter_t \<Rightarrow> byte option" where
  "bson_iter_type_unsafe it = map_option (\<lambda>bs. bs ! 0) (bytes_at (iter_raw it) (unat (iter_type it)) 1)"

section \<open>Dates\<close>

text \<open>The divisor is \<^verbatim>\<open>1000UL\<close>, so the 64-bit date is converted to an unsigned number first.\<close>

definition bson_iter_time_t_unsafe :: "byte_order \<Rightarrow> bson_iter_t \<Rightarrow> 64 word option" where
  "bson_iter_time_t_unsafe host it = map_option (\<lambda>v. v div 1000) (bson_iter_int64_unsafe host it)"

text \<open>Here the operands are signed, and division truncates towards zero.\<close>

record timeval =
  tv_sec :: "64 word"
  tv_usec :: "64 word"

definition bson_iter_timeval_unsafe :: "byte_order \<Rightarrow> bson_iter_t \<Rightarrow> timeval option" where
  "bson_iter_timeval_unsafe host it =
     map_option (\<lambda>v. \<lparr>tv_sec = word_of_int (sint v sdiv 1000), tv_usec = word_of_int ((sint v smod 1000) * 1000)\<rparr>)
       (bson_iter_int64_unsafe host it)"

section \<open>What the readers return\<close>

lemmas reader_defs = bson_iter_int32_unsafe_def bson_iter_int64_unsafe_def bson_iter_double_unsafe_def
  bson_iter_bool_unsafe_def bson_iter_time_t_unsafe_def bson_iter_timeval_unsafe_def
  bson_iter_utf8_len_unsafe_def bson_iter_utf8_unsafe_def bson_iter_code_unsafe_def bson_iter_oid_unsafe_def

text \<open>An iterator stands on a value when its first data offset is where the value's bytes begin.\<close>

definition stands_on :: "bson_iter_t \<Rightarrow> byte list \<Rightarrow> bool" where
  "stands_on it bs \<longleftrightarrow> (unat (iter_d1 it) + length bs \<le> length (iter_raw it)) \<and>
     take (length bs) (drop (unat (iter_d1 it)) (iter_raw it)) = bs"

lemma bytes_stands_on: "stands_on it bs \<Longrightarrow> n = length bs \<Longrightarrow> bytes_at (iter_raw it) (unat (iter_d1 it)) n = Some bs"
  by (simp add: stands_on_def bytes_at_def)

lemma read_int32: "stands_on it (encode32 i) \<Longrightarrow> bson_iter_int32_unsafe host it = Some i"
  by (simp add: bson_iter_int32_unsafe_def bytes_stands_on from_le_load32 le32_encode)

lemma read_int64: "stands_on it (encode64 l) \<Longrightarrow> bson_iter_int64_unsafe host it = Some l"
  by (simp add: bson_iter_int64_unsafe_def bytes_stands_on from_le_load64 le64_encode)

lemma read_double: "stands_on it (encode64 l) \<Longrightarrow> bson_iter_double_unsafe host it = Some l"
  by (simp add: bson_iter_double_unsafe_def bytes_stands_on from_le_double from_le_load64 le64_encode)

lemma time_t_value:
  "stands_on it (encode64 l) \<Longrightarrow> bson_iter_time_t_unsafe host it = Some (l div 1000)"
  by (simp add: bson_iter_time_t_unsafe_def read_int64)

lemma uint_sint64: "uint (l :: 64 word) = (if 0 \<le> sint l then sint l else sint l + 2 ^ 64)"
proof -
  have u: "uint l = sint l mod 2 ^ 64"
    using uint_sint [of l] by (simp add: take_bit_eq_mod)
  have "sint l mod 2 ^ 64 = sint l" if "0 \<le> sint l"
    using that sint_range64 [of l] by (intro mod_pos_pos_trivial) simp_all
  moreover have "(sint l + 2 ^ 64) mod 2 ^ 64 = sint l + 2 ^ 64" if "\<not> 0 \<le> sint l"
    using that sint_range64 [of l] by (intro mod_pos_pos_trivial) simp_all
  ultimately show ?thesis
    using u by (metis mod_add_self2)
qed

lemma sint_div_1000: "sint (l div 1000 :: 64 word) = uint l div 1000"
proof -
  have "uint l < 2 ^ 64"
    using uint_lt2p [of l] by simp
  then have r: "0 \<le> uint l div 1000" "uint l div 1000 < 2 ^ 63"
    by (simp_all add: pos_imp_zdiv_nonneg_iff)
  have "l div 1000 = word_of_int (uint l div 1000)"
    by (simp add: word_div_def)
  then show ?thesis
    using sint_word_of_int [of "uint l div 1000"] r by simp
qed

lemma timeval_value:
  assumes "stands_on it (encode64 l)"
  obtains tv where "bson_iter_timeval_unsafe host it = Some tv"
    and "sint (tv_sec tv) = sint l sdiv 1000" and "sint (tv_usec tv) = (sint l smod 1000) * 1000"
proof
  show "bson_iter_timeval_unsafe host it =
      Some \<lparr>tv_sec = word_of_int (sint l sdiv 1000), tv_usec = word_of_int ((sint l smod 1000) * 1000)\<rparr>"
    using assms by (simp add: bson_iter_timeval_unsafe_def read_int64)
  show "sint (tv_sec \<lparr>tv_sec = word_of_int (sint l sdiv 1000), tv_usec = word_of_int ((sint l smod 1000) * 1000)\<rparr>) =
      sint l sdiv 1000"
    unfolding timeval.simps
    using sint_range64 [of l] by (intro sint_word_of_int) (auto simp: signed_divide_int_def sgn_if abs_if)
  show "sint (tv_usec \<lparr>tv_sec = word_of_int (sint l sdiv 1000), tv_usec = word_of_int ((sint l smod 1000) * 1000)\<rparr>) =
      (sint l smod 1000) * 1000"
    unfolding timeval.simps
    using sdiv_range(2) [of "sint l"] by (intro sint_word_of_int) (simp_all add: abs_if split: if_splits)
qed

lemma smod_sign: "a smod 1000 < 0 \<longleftrightarrow> a < 0 \<and> a mod 1000 \<noteq> (0::int)"
  by (simp add: signed_modulo_int_def sgn_if abs_if) (smt (verit) pos_mod_sign zmod_zminus1_eq_if)

lemma stands_on_alt:
  "stands_on it bs \<longleftrightarrow> (\<exists>post. drop (unat (iter_d1 it)) (iter_raw it) = bs @ post \<and> unat (iter_d1 it) \<le> length (iter_raw it))"
proof
  assume "stands_on it bs"
  then show "\<exists>post. drop (unat (iter_d1 it)) (iter_raw it) = bs @ post \<and> unat (iter_d1 it) \<le> length (iter_raw it)"
    unfolding stands_on_def by (metis append_take_drop_id add_leD1)
next
  assume "\<exists>post. drop (unat (iter_d1 it)) (iter_raw it) = bs @ post \<and> unat (iter_d1 it) \<le> length (iter_raw it)"
  then obtain post where d: "drop (unat (iter_d1 it)) (iter_raw it) = bs @ post" "unat (iter_d1 it) \<le> length (iter_raw it)"
    by blast
  then have "length (iter_raw it) = unat (iter_d1 it) + length (bs @ post)"
    by (metis le_add_diff_inverse length_drop)
  with d show "stands_on it bs"
    by (simp add: stands_on_def)
qed

lemma stands_on_append: "stands_on it (bs @ cs) \<Longrightarrow> stands_on it bs"
  by (auto simp: stands_on_alt)

lemma sint_nat32: "n < 2 ^ 31 \<Longrightarrow> sint (word_of_nat n :: 32 word) = int n"
  by (simp add: signed_of_nat signed_take_bit_int_eq_self_iff)

lemma read_utf8:
  assumes s: "stands_on js (encode32 (word_of_nat (Suc (length s))) @ s @ [0])"
    and n: "Suc (length s) < 2 ^ 31" and d2: "unat (iter_d2 js) = unat (iter_d1 js) + 4"
  obtains rest where "bson_iter_utf8_unsafe host js = Some (word_of_nat (length s), s @ 0 # rest)"
    and "bson_iter_code_unsafe host js = Some (word_of_nat (length s), s @ 0 # rest)"
proof -
  obtain rest where d1: "drop (unat (iter_d1 js)) (iter_raw js) = encode32 (word_of_nat (Suc (length s))) @ s @ 0 # rest"
    using s by (auto simp: stands_on_alt)
  have "drop (unat (iter_d2 js)) (iter_raw js) = drop 4 (drop (unat (iter_d1 js)) (iter_raw js))"
    by (simp add: d2 add.commute)
  then have rest: "drop (unat (iter_d2 js)) (iter_raw js) = s @ 0 # rest"
    by (simp add: d1)
  have "bson_iter_utf8_len_unsafe host js = Some (word_of_nat (length s))"
    using bytes_stands_on [OF stands_on_append [OF s], of 4] sint_nat32 [OF n]
    by (simp add: bson_iter_utf8_len_unsafe_def from_le_load32 le32_encode BSON_MAX_def)
  moreover have "(ucast (word_of_nat (length s) :: 32 word) :: 64 word) = word_of_nat (length s)"
    using n by (simp add: unsigned_of_nat take_bit_nat_eq_self)
  ultimately show ?thesis
    using rest by (intro that) (simp_all add: bson_iter_utf8_unsafe_def bson_iter_code_unsafe_def)
qed

text \<open>
  C27. An iterator on an encoded 64-bit value reads that integer and that double, and a date as seconds
  and microseconds that add up exactly, on hosts of both byte orders; the microseconds are negative for
  a date with a fraction before 1970. The time in seconds is right only from 1970 on: an earlier date
  is divided as an unsigned number and gives a time far in the future. An iterator on an encoded string
  reads its length and its bytes.
\<close>

theorem iter_reads_back:
  assumes "stands_on it (encode64 l)"
    and "stands_on js (encode32 (word_of_nat (Suc (length s))) @ s @ [0])"
    and "Suc (length s) < 2 ^ 31" and "unat (iter_d2 js) = unat (iter_d1 js) + 4"
  shows "bson_iter_int64_unsafe host it = Some l \<and> bson_iter_double_unsafe host it = Some l \<and>
    (\<exists>t. bson_iter_time_t_unsafe host it = Some t \<and>
       (0 \<le> sint l \<longrightarrow> sint t = sint l div 1000) \<and>
       (sint l < 0 \<longrightarrow> sint t = (2 ^ 64 + sint l) div 1000 \<and> 0 < sint t)) \<and>
    (\<exists>tv. bson_iter_timeval_unsafe host it = Some tv \<and>
       sint (tv_sec tv) * 1000000 + sint (tv_usec tv) = sint l * 1000 \<and>
       \<bar>sint (tv_usec tv)\<bar> < 1000000 \<and>
       (sint (tv_usec tv) < 0 \<longleftrightarrow> sint l < 0 \<and> sint l mod 1000 \<noteq> 0)) \<and>
    (\<exists>rest. bson_iter_utf8_unsafe host js = Some (word_of_nat (length s), s @ 0 # rest) \<and>
       bson_iter_code_unsafe host js = Some (word_of_nat (length s), s @ 0 # rest))"
proof -
  have "sint (l div 1000) = (if 0 \<le> sint l then sint l else 2 ^ 64 + sint l) div 1000"
    by (simp add: sint_div_1000 uint_sint64 add.commute)
  moreover have "0 < (2 ^ 64 + sint l) div 1000"
    using sint_range64 [of l] by (simp add: pos_imp_zdiv_pos_iff)
  moreover obtain tv where "bson_iter_timeval_unsafe host it = Some tv"
    and "sint (tv_sec tv) = sint l sdiv 1000" and "sint (tv_usec tv) = (sint l smod 1000) * 1000"
    using timeval_value [OF assms(1)] by blast
  moreover have "sint l = 1000 * (sint l sdiv 1000) + sint l smod 1000"
    by (simp add: mult_sdiv_smod_eq)
  moreover obtain rest where "bson_iter_utf8_unsafe host js = Some (word_of_nat (length s), s @ 0 # rest)"
    and "bson_iter_code_unsafe host js = Some (word_of_nat (length s), s @ 0 # rest)"
    using read_utf8 [OF assms(2-4)] by blast
  ultimately show ?thesis
    using sdiv_range(2) [of "sint l"] smod_sign [of "sint l"]
    by (simp add: read_int64 [OF assms(1)] read_double [OF assms(1)] time_t_value [OF assms(1)])
qed

text \<open>One second before 1970 is read as a time about 585 million years later.\<close>

theorem iter_reads_back_witness:
  "map_option sint (bson_iter_time_t_unsafe BSON_LITTLE_ENDIAN
     \<lparr>iter_raw = encode64 (- 1000), iter_len = 8, iter_off = 0, iter_type = 0, iter_key = 0, iter_d1 = 0,
       iter_d2 = 0, iter_d3 = 0, iter_d4 = 0, next_off = 0, err_off = 0, iter_value = \<lparr>value_type = BSON_TYPE_EOD, value_padding = 0, boxed = V_int64 0\<rparr>\<rparr>) =
   Some 18446744073709550"
  using iter_reads_back [of
     "\<lparr>iter_raw = encode64 (- 1000), iter_len = 8, iter_off = 0, iter_type = 0, iter_key = 0, iter_d1 = 0,
       iter_d2 = 0, iter_d3 = 0, iter_d4 = 0, next_off = 0, err_off = 0, iter_value = \<lparr>value_type = BSON_TYPE_EOD, value_padding = 0, boxed = V_int64 0\<rparr>\<rparr>" "- 1000"
     "\<lparr>iter_raw = encode32 2 @ [104, 0], iter_len = 8, iter_off = 0, iter_type = 0, iter_key = 0, iter_d1 = 0,
       iter_d2 = 4, iter_d3 = 0, iter_d4 = 0, next_off = 0, err_off = 0, iter_value = \<lparr>value_type = BSON_TYPE_EOD, value_padding = 0, boxed = V_int64 0\<rparr>\<rparr>" "[104]"
     BSON_LITTLE_ENDIAN]
  by (auto simp: stands_on_def)

end
