(* ===== verification/Core_Memory.thy ===== *)
theory Core_Memory
  imports Core_Compare
begin

text \<open>
  mnmlstc/core/memory.hpp: \<^verbatim>\<open>deep_ptr\<close>, which copies what it points to, \<^verbatim>\<open>poly_ptr\<close>, which copies an
  object of a class derived from its own, and \<^verbatim>\<open>observer_ptr\<close>, which owns nothing.

  The heap is explicit; an address is never used twice. A pointer is an address or null (\<open>None\<close>); reading
  or deleting an object that does not exist is \<open>None\<close> as the result. Allocation does not fail. Copy and
  move constructors may throw, as in \<open>Core_Optional\<close>. A \<open>deep_ptr\<close> has any deleter and copier; a \<open>poly_ptr\<close>
  is modelled with the default deleter and the copiers the header defines. The two objects of an
  assignment are different objects.
\<close>

section \<open>The heap\<close>

record 'a free_store =
  cell :: "nat \<Rightarrow> 'a option"
  fresh :: nat

definition alloc :: "'a \<Rightarrow> 'a free_store \<Rightarrow> nat \<times> 'a free_store" where
  "alloc v h = (fresh h, \<lparr>cell = (cell h)(fresh h \<mapsto> v), fresh = Suc (fresh h)\<rparr>)"

definition default_delete :: "nat \<Rightarrow> 'a free_store \<Rightarrow> 'a free_store option" where
  "default_delete p h = (case cell h p of None \<Rightarrow> None | Some _ \<Rightarrow> Some (h\<lparr>cell := (cell h)(p := None)\<rparr>))"

definition default_copy :: "('a, 'x) type_ops \<Rightarrow> nat \<Rightarrow> 'a free_store \<Rightarrow> (('x exn + nat) \<times> 'a free_store) option" where
  "default_copy ops p h =
     (case cell h p of
        None \<Rightarrow> None
      | Some v \<Rightarrow> Some (case copy_ctor ops v of
          Inl x \<Rightarrow> (Inl x, h)
        | Inr w \<Rightarrow> (case alloc w h of (q, h1) \<Rightarrow> (Inr q, h1))))"

section \<open>deep_ptr\<close>

record ('a, 'x) deep_ptr =
  dp_ptr :: "nat option"
  dp_deleter :: "nat \<Rightarrow> 'a free_store \<Rightarrow> 'a free_store option"
  dp_copier :: "nat \<Rightarrow> 'a free_store \<Rightarrow> (('x exn + nat) \<times> 'a free_store) option"

definition deep_make ::
    "nat option \<Rightarrow> (nat \<Rightarrow> 'a free_store \<Rightarrow> 'a free_store option) \<Rightarrow> (nat \<Rightarrow> 'a free_store \<Rightarrow> (('x exn + nat) \<times> 'a free_store) option)
     \<Rightarrow> ('a, 'x) deep_ptr" where
  "deep_make ptr deleter copier = \<lparr>dp_ptr = ptr, dp_deleter = deleter, dp_copier = copier\<rparr>"

definition deep_of_ptr :: "('a, 'x) type_ops \<Rightarrow> nat option \<Rightarrow> ('a, 'x) deep_ptr" where
  "deep_of_ptr ops ptr = deep_make ptr default_delete (default_copy ops)"

definition deep_null :: "('a, 'x) type_ops \<Rightarrow> ('a, 'x) deep_ptr" where
  "deep_null ops = \<lparr>dp_ptr = None, dp_deleter = default_delete, dp_copier = default_copy ops\<rparr>"

text \<open>From a \<^verbatim>\<open>std::unique_ptr\<close> with its deleter; the pointer left in it is the second result.\<close>

definition deep_of_unique ::
    "('a, 'x) type_ops \<Rightarrow> nat option \<times> (nat \<Rightarrow> 'a free_store \<Rightarrow> 'a free_store option) \<Rightarrow> ('a, 'x) deep_ptr \<times> nat option" where
  "deep_of_unique ops that = (deep_make (fst that) (snd that) (default_copy ops), None)"

definition deep_copy ::
    "('a, 'x) deep_ptr \<Rightarrow> 'a free_store \<Rightarrow> (('x exn + ('a, 'x) deep_ptr) \<times> 'a free_store) option" where
  "deep_copy that h =
     (case dp_ptr that of
        None \<Rightarrow> Some (Inr (deep_make None (dp_deleter that) (dp_copier that)), h)
      | Some p \<Rightarrow> do {
          (r, h1) \<leftarrow> dp_copier that p h;
          Some (case r of
                  Inl x \<Rightarrow> (Inl x, h1)
                | Inr q \<Rightarrow> (Inr (deep_make (Some q) (dp_deleter that) (dp_copier that)), h1))
        })"

definition deep_release :: "('a, 'x) deep_ptr \<Rightarrow> nat option \<times> ('a, 'x) deep_ptr" where
  "deep_release this = (dp_ptr this, this\<lparr>dp_ptr := None\<rparr>)"

definition deep_move :: "('a, 'x) deep_ptr \<Rightarrow> ('a, 'x) deep_ptr \<times> ('a, 'x) deep_ptr" where
  "deep_move that =
     (case deep_release that of (p, that1) \<Rightarrow> (deep_make p (dp_deleter that1) (dp_copier that1), that1))"

definition deep_destroy :: "('a, 'x) deep_ptr \<Rightarrow> 'a free_store \<Rightarrow> 'a free_store option" where
  "deep_destroy this h = (case dp_ptr this of None \<Rightarrow> Some h | Some p \<Rightarrow> dp_deleter this p h)"

definition deep_reset ::
    "nat option \<Rightarrow> ('a, 'x) deep_ptr \<Rightarrow> 'a free_store \<Rightarrow> (('a, 'x) deep_ptr \<times> 'a free_store) option" where
  "deep_reset ptr this h =
     (let this1 = this\<lparr>dp_ptr := ptr\<rparr>
      in case dp_ptr this of
           None \<Rightarrow> Some (this1, h)
         | Some old \<Rightarrow> do { h1 \<leftarrow> dp_deleter this1 old h; Some (this1, h1) })"

definition deep_swap ::
    "('a, 'x) deep_ptr \<Rightarrow> ('a, 'x) deep_ptr \<Rightarrow> ('a, 'x) deep_ptr \<times> ('a, 'x) deep_ptr" where
  "deep_swap this that = (that, this)"

definition deep_assign_null :: "('a, 'x) deep_ptr \<Rightarrow> 'a free_store \<Rightarrow> (('a, 'x) deep_ptr \<times> 'a free_store) option" where
  "deep_assign_null this h = deep_reset None this h"

text \<open>The temporary has the old pointer after the swap, and its destructor deletes it.\<close>

definition deep_move_assign ::
    "('a, 'x) deep_ptr \<Rightarrow> ('a, 'x) deep_ptr \<Rightarrow> 'a free_store
     \<Rightarrow> (('a, 'x) deep_ptr \<times> ('a, 'x) deep_ptr \<times> 'a free_store) option" where
  "deep_move_assign this that h =
     (case deep_move that of (tmp, that1) \<Rightarrow>
      case deep_swap tmp this of (tmp1, this1) \<Rightarrow>
      do { h1 \<leftarrow> deep_destroy tmp1 h; Some (this1, that1, h1) })"

definition deep_assign ::
    "('a, 'x) deep_ptr \<Rightarrow> ('a, 'x) deep_ptr \<Rightarrow> 'a free_store
     \<Rightarrow> (('x exn + unit) \<times> ('a, 'x) deep_ptr \<times> 'a free_store) option" where
  "deep_assign this that h =
     do {
       (r, h1) \<leftarrow> deep_copy that h;
       case r of
         Inl x \<Rightarrow> Some (Inl x, this, h1)
       | Inr tmp \<Rightarrow> do {
           (this1, tmp1, h2) \<leftarrow> deep_move_assign this tmp h1;
           h3 \<leftarrow> deep_destroy tmp1 h2;
           Some (Inr (), this1, h3)
         }
     }"

definition deep_bool :: "('a, 'x) deep_ptr \<Rightarrow> bool" where
  "deep_bool this \<longleftrightarrow> dp_ptr this \<noteq> None"

definition deep_deref :: "('a, 'x) deep_ptr \<Rightarrow> 'a free_store \<Rightarrow> 'a option" where
  "deep_deref this h = do { p \<leftarrow> dp_ptr this; cell h p }"

definition make_deep ::
    "('a, 'x) type_ops \<Rightarrow> 'x exn + 'a \<Rightarrow> 'a free_store \<Rightarrow> ('x exn + ('a, 'x) deep_ptr) \<times> 'a free_store" where
  "make_deep ops made h =
     (case made of
        Inl x \<Rightarrow> (Inl x, h)
      | Inr v \<Rightarrow> (case alloc v h of (p, h1) \<Rightarrow> (Inr (deep_of_ptr ops (Some p)), h1)))"

section \<open>poly_ptr\<close>

text \<open>An object knows its class. \<open>copy_as U\<close> is \<^verbatim>\<open>dynamic_cast\<close> to \<open>U\<close> and the copy constructor of
  \<open>U\<close>: \<open>None\<close> if the object's class is not derived from \<open>U\<close>, otherwise an object of class \<open>U\<close>.\<close>

record 'v obj =
  dyn_type :: nat
  state_of :: 'v

record ('v, 'x) class_ops =
  copy_as :: "nat \<Rightarrow> 'v obj \<Rightarrow> ('x exn + 'v obj) option"
  move_obj :: "'v obj \<Rightarrow> 'x exn + 'v obj"

datatype copier = Null_poly_copy | Default_poly_copy nat

definition default_poly_copy ::
    "('v, 'x) class_ops \<Rightarrow> nat \<Rightarrow> nat option \<Rightarrow> 'v obj free_store \<Rightarrow> (('x exn + nat option) \<times> 'v obj free_store) option" where
  "default_poly_copy ops U ptr h =
     do {
       p \<leftarrow> ptr;
       v \<leftarrow> cell h p;
       copied \<leftarrow> copy_as ops U v;
       Some (case copied of
               Inl x \<Rightarrow> (Inl x, h)
             | Inr w \<Rightarrow> (case move_obj ops w of
                 Inl x \<Rightarrow> (Inl x, h)
               | Inr u \<Rightarrow> (case alloc u h of (q, h1) \<Rightarrow> (Inr (Some q), h1))))
     }"

definition null_poly_copy :: "nat option \<Rightarrow> 'v obj free_store \<Rightarrow> (('x exn + nat option) \<times> 'v obj free_store) option" where
  "null_poly_copy ptr h = Some (Inr None, h)"

fun run_copier ::
    "('v, 'x) class_ops \<Rightarrow> copier \<Rightarrow> nat option \<Rightarrow> 'v obj free_store \<Rightarrow> (('x exn + nat option) \<times> 'v obj free_store) option" where
  "run_copier ops Null_poly_copy ptr h = null_poly_copy ptr h"
| "run_copier ops (Default_poly_copy U) ptr h = default_poly_copy ops U ptr h"

record poly_ptr =
  pp_copier :: copier
  pp_ptr :: "nat option"

definition poly_null :: poly_ptr where
  "poly_null = \<lparr>pp_copier = Null_poly_copy, pp_ptr = None\<rparr>"

text \<open>From a pointer of static class \<open>U\<close>, and from a unique pointer, which is left null.\<close>

definition poly_of_ptr :: "nat \<Rightarrow> nat option \<Rightarrow> poly_ptr" where
  "poly_of_ptr U ptr = \<lparr>pp_copier = Default_poly_copy U, pp_ptr = ptr\<rparr>"

definition poly_of_unique :: "nat \<Rightarrow> nat option \<Rightarrow> poly_ptr \<times> nat option" where
  "poly_of_unique U ptr = (\<lparr>pp_copier = Default_poly_copy U, pp_ptr = ptr\<rparr>, None)"

definition poly_copy ::
    "('v, 'x) class_ops \<Rightarrow> poly_ptr \<Rightarrow> 'v obj free_store \<Rightarrow> (('x exn + poly_ptr) \<times> 'v obj free_store) option" where
  "poly_copy ops that h =
     do {
       (r, h1) \<leftarrow> run_copier ops (pp_copier that) (pp_ptr that) h;
       Some (case r of
               Inl x \<Rightarrow> (Inl x, h1)
             | Inr q \<Rightarrow> (Inr \<lparr>pp_copier = pp_copier that, pp_ptr = q\<rparr>, h1))
     }"

definition poly_move :: "poly_ptr \<Rightarrow> poly_ptr \<times> poly_ptr" where
  "poly_move that = (that, that\<lparr>pp_copier := Null_poly_copy, pp_ptr := None\<rparr>)"

text \<open>The destructor is that of the unique pointer in it.\<close>

definition poly_destroy :: "poly_ptr \<Rightarrow> 'v obj free_store \<Rightarrow> 'v obj free_store option" where
  "poly_destroy this h = (case pp_ptr this of None \<Rightarrow> Some h | Some p \<Rightarrow> default_delete p h)"

definition poly_swap :: "poly_ptr \<Rightarrow> poly_ptr \<Rightarrow> poly_ptr \<times> poly_ptr" where
  "poly_swap this that =
     (this\<lparr>pp_copier := pp_copier that, pp_ptr := pp_ptr that\<rparr>,
      that\<lparr>pp_copier := pp_copier this, pp_ptr := pp_ptr this\<rparr>)"

text \<open>What the assignments share: a temporary is swapped in and destroyed.\<close>

definition poly_swap_in :: "poly_ptr \<Rightarrow> poly_ptr \<Rightarrow> 'v obj free_store \<Rightarrow> (poly_ptr \<times> 'v obj free_store) option" where
  "poly_swap_in tmp this h =
     (case poly_swap tmp this of (tmp1, this1) \<Rightarrow> do { h1 \<leftarrow> poly_destroy tmp1 h; Some (this1, h1) })"

definition poly_assign_unique ::
    "nat \<Rightarrow> nat option \<Rightarrow> poly_ptr \<Rightarrow> 'v obj free_store \<Rightarrow> (poly_ptr \<times> 'v obj free_store) option" where
  "poly_assign_unique U ptr this h = poly_swap_in (fst (poly_of_unique U ptr)) this h"

definition poly_assign_ptr ::
    "nat \<Rightarrow> nat option \<Rightarrow> poly_ptr \<Rightarrow> 'v obj free_store \<Rightarrow> (poly_ptr \<times> 'v obj free_store) option" where
  "poly_assign_ptr U ptr this h = poly_swap_in (poly_of_ptr U ptr) this h"

definition poly_move_assign ::
    "poly_ptr \<Rightarrow> poly_ptr \<Rightarrow> 'v obj free_store \<Rightarrow> (poly_ptr \<times> poly_ptr \<times> 'v obj free_store) option" where
  "poly_move_assign this that h =
     (case poly_move that of (tmp, that1) \<Rightarrow>
      do { (this1, h1) \<leftarrow> poly_swap_in tmp this h; Some (this1, that1, h1) })"

definition poly_assign ::
    "('v, 'x) class_ops \<Rightarrow> poly_ptr \<Rightarrow> poly_ptr \<Rightarrow> 'v obj free_store
     \<Rightarrow> (('x exn + unit) \<times> poly_ptr \<times> 'v obj free_store) option" where
  "poly_assign ops this that h =
     do {
       (r, h1) \<leftarrow> poly_copy ops that h;
       case r of
         Inl x \<Rightarrow> Some (Inl x, this, h1)
       | Inr tmp \<Rightarrow> do {
           (this1, tmp1, h2) \<leftarrow> poly_move_assign this tmp h1;
           h3 \<leftarrow> poly_destroy tmp1 h2;
           Some (Inr (), this1, h3)
         }
     }"

definition poly_bool :: "poly_ptr \<Rightarrow> bool" where
  "poly_bool this \<longleftrightarrow> pp_ptr this \<noteq> None"

definition poly_deref :: "poly_ptr \<Rightarrow> 'v obj free_store \<Rightarrow> 'v obj option" where
  "poly_deref this h = do { p \<leftarrow> pp_ptr this; cell h p }"

definition poly_release :: "poly_ptr \<Rightarrow> nat option \<times> poly_ptr" where
  "poly_release this = (pp_ptr this, this\<lparr>pp_copier := Null_poly_copy, pp_ptr := None\<rparr>)"

text \<open>The two texts of \<^verbatim>\<open>bad_polymorphic_reset\<close>.\<close>

datatype bad_polymorphic_reset = Reset_null_with_valid | Reset_with_different_type

definition poly_reset ::
    "nat option \<Rightarrow> poly_ptr \<Rightarrow> 'v obj free_store \<Rightarrow> ((bad_polymorphic_reset + unit) \<times> poly_ptr \<times> 'v obj free_store) option" where
  "poly_reset ptr this h =
     (case ptr of
        None \<Rightarrow> do {
          h1 \<leftarrow> poly_destroy this h;
          Some (Inr (), this\<lparr>pp_ptr := None, pp_copier := Null_poly_copy\<rparr>, h1)
        }
      | Some p \<Rightarrow>
          (case pp_ptr this of
             None \<Rightarrow> Some (Inl Reset_null_with_valid, this, h)
           | Some old \<Rightarrow> do {
               v \<leftarrow> cell h old;
               w \<leftarrow> cell h p;
               if dyn_type v \<noteq> dyn_type w then Some (Inl Reset_with_different_type, this, h)
               else do { h1 \<leftarrow> default_delete old h; Some (Inr (), this\<lparr>pp_ptr := ptr\<rparr>, h1) }
             }))"

definition poly_assign_null :: "poly_ptr \<Rightarrow> 'v obj free_store \<Rightarrow> ((bad_polymorphic_reset + unit) \<times> poly_ptr \<times> 'v obj free_store) option" where
  "poly_assign_null this h = poly_reset None this h"

definition make_poly :: "nat \<Rightarrow> 'x exn + 'v \<Rightarrow> 'v obj free_store \<Rightarrow> ('x exn + poly_ptr) \<times> 'v obj free_store" where
  "make_poly U made h =
     (case made of
        Inl x \<Rightarrow> (Inl x, h)
      | Inr v \<Rightarrow> (case alloc \<lparr>dyn_type = U, state_of = v\<rparr> h of (p, h1) \<Rightarrow> (Inr (poly_of_ptr U (Some p)), h1)))"

section \<open>observer_ptr\<close>

record observer_ptr =
  obs_ptr :: "nat option"

definition obs_null :: observer_ptr where
  "obs_null = \<lparr>obs_ptr = None\<rparr>"

definition obs_of_ptr :: "nat option \<Rightarrow> observer_ptr" where
  "obs_of_ptr ptr = \<lparr>obs_ptr = ptr\<rparr>"

definition obs_of_observer :: "observer_ptr \<Rightarrow> observer_ptr" where
  "obs_of_observer that = obs_of_ptr (obs_ptr that)"

definition obs_swap :: "observer_ptr \<Rightarrow> observer_ptr \<Rightarrow> observer_ptr \<times> observer_ptr" where
  "obs_swap this that = (this\<lparr>obs_ptr := obs_ptr that\<rparr>, that\<lparr>obs_ptr := obs_ptr this\<rparr>)"

definition obs_assign_ptr :: "nat option \<Rightarrow> observer_ptr \<Rightarrow> observer_ptr" where
  "obs_assign_ptr ptr this = snd (obs_swap (obs_of_ptr ptr) this)"

definition obs_assign :: "observer_ptr \<Rightarrow> observer_ptr \<Rightarrow> observer_ptr" where
  "obs_assign this that = snd (obs_swap (obs_of_observer that) this)"

definition obs_reset :: "nat option \<Rightarrow> observer_ptr \<Rightarrow> observer_ptr" where
  "obs_reset ptr this = this\<lparr>obs_ptr := ptr\<rparr>"

definition obs_assign_null :: "observer_ptr \<Rightarrow> observer_ptr" where
  "obs_assign_null this = obs_reset None this"

definition obs_release :: "observer_ptr \<Rightarrow> nat option \<times> observer_ptr" where
  "obs_release this = (let result = obs_ptr this in (result, obs_reset None this))"

definition obs_bool :: "observer_ptr \<Rightarrow> bool" where
  "obs_bool this \<longleftrightarrow> obs_ptr this \<noteq> None"

definition obs_deref :: "observer_ptr \<Rightarrow> 'a free_store \<Rightarrow> 'a option" where
  "obs_deref this h = do { p \<leftarrow> obs_ptr this; cell h p }"

definition make_observer :: "nat option \<Rightarrow> observer_ptr" where
  "make_observer ptr = obs_of_ptr ptr"

definition make_observer_deep :: "('a, 'x) deep_ptr \<Rightarrow> observer_ptr" where
  "make_observer_deep ptr = obs_of_ptr (dp_ptr ptr)"

definition make_observer_poly :: "poly_ptr \<Rightarrow> observer_ptr" where
  "make_observer_poly ptr = obs_of_ptr (pp_ptr ptr)"

section \<open>Comparison\<close>

text \<open>\<^verbatim>\<open>std::less\<close> on pointers is a total order; null is the least one, as its representation is 0.\<close>

definition poly_eq :: "poly_ptr \<Rightarrow> poly_ptr \<Rightarrow> bool" where
  "poly_eq lhs rhs \<longleftrightarrow> pp_ptr lhs = pp_ptr rhs"

definition poly_lt :: "poly_ptr \<Rightarrow> poly_ptr \<Rightarrow> bool" where
  "poly_lt lhs rhs \<longleftrightarrow> pp_ptr lhs < pp_ptr rhs"

definition deep_eq :: "('a, 'x) deep_ptr \<Rightarrow> ('b, 'y) deep_ptr \<Rightarrow> bool" where
  "deep_eq lhs rhs \<longleftrightarrow> dp_ptr lhs = dp_ptr rhs"

definition deep_lt :: "('a, 'x) deep_ptr \<Rightarrow> ('b, 'y) deep_ptr \<Rightarrow> bool" where
  "deep_lt lhs rhs \<longleftrightarrow> dp_ptr lhs < dp_ptr rhs"

definition poly_eq_null :: "poly_ptr \<Rightarrow> bool" where
  "poly_eq_null lhs \<longleftrightarrow> \<not> poly_bool lhs"

definition null_eq_poly :: "poly_ptr \<Rightarrow> bool" where
  "null_eq_poly rhs \<longleftrightarrow> \<not> poly_bool rhs"

definition poly_lt_null :: "poly_ptr \<Rightarrow> bool" where
  "poly_lt_null lhs \<longleftrightarrow> pp_ptr lhs < None"

definition null_lt_poly :: "poly_ptr \<Rightarrow> bool" where
  "null_lt_poly rhs \<longleftrightarrow> None < pp_ptr rhs"

definition deep_eq_null :: "('a, 'x) deep_ptr \<Rightarrow> bool" where
  "deep_eq_null lhs \<longleftrightarrow> \<not> deep_bool lhs"

definition null_eq_deep :: "('a, 'x) deep_ptr \<Rightarrow> bool" where
  "null_eq_deep rhs \<longleftrightarrow> \<not> deep_bool rhs"

definition deep_lt_null :: "('a, 'x) deep_ptr \<Rightarrow> bool" where
  "deep_lt_null lhs \<longleftrightarrow> dp_ptr lhs < None"

definition null_lt_deep :: "('a, 'x) deep_ptr \<Rightarrow> bool" where
  "null_lt_deep rhs \<longleftrightarrow> None < dp_ptr rhs"

definition obs_eq :: "observer_ptr \<Rightarrow> observer_ptr \<Rightarrow> bool" where
  "obs_eq lhs rhs \<longleftrightarrow> obs_ptr lhs = obs_ptr rhs"

definition obs_eq_null :: "observer_ptr \<Rightarrow> bool" where
  "obs_eq_null lhs \<longleftrightarrow> obs_ptr lhs = None"

definition null_eq_obs :: "observer_ptr \<Rightarrow> bool" where
  "null_eq_obs rhs \<longleftrightarrow> None = obs_ptr rhs"

definition obs_lt :: "observer_ptr \<Rightarrow> observer_ptr \<Rightarrow> bool" where
  "obs_lt lhs rhs \<longleftrightarrow> obs_ptr lhs < obs_ptr rhs"

definition poly_ne :: "poly_ptr \<Rightarrow> poly_ptr \<Rightarrow> bool" where
  "poly_ne lhs rhs \<longleftrightarrow> pp_ptr lhs \<noteq> pp_ptr rhs"

definition poly_ge :: "poly_ptr \<Rightarrow> poly_ptr \<Rightarrow> bool" where
  "poly_ge lhs rhs \<longleftrightarrow> \<not> poly_lt lhs rhs"

definition poly_le :: "poly_ptr \<Rightarrow> poly_ptr \<Rightarrow> bool" where
  "poly_le lhs rhs \<longleftrightarrow> \<not> poly_lt rhs lhs"

definition poly_gt :: "poly_ptr \<Rightarrow> poly_ptr \<Rightarrow> bool" where
  "poly_gt lhs rhs \<longleftrightarrow> poly_lt rhs lhs"

definition deep_ne :: "('a, 'x) deep_ptr \<Rightarrow> ('b, 'y) deep_ptr \<Rightarrow> bool" where
  "deep_ne lhs rhs \<longleftrightarrow> dp_ptr lhs \<noteq> dp_ptr rhs"

definition deep_ge :: "('a, 'x) deep_ptr \<Rightarrow> ('b, 'y) deep_ptr \<Rightarrow> bool" where
  "deep_ge lhs rhs \<longleftrightarrow> \<not> deep_lt lhs rhs"

definition deep_le :: "('a, 'x) deep_ptr \<Rightarrow> ('b, 'y) deep_ptr \<Rightarrow> bool" where
  "deep_le lhs rhs \<longleftrightarrow> \<not> deep_lt rhs lhs"

definition deep_gt :: "('a, 'x) deep_ptr \<Rightarrow> ('b, 'y) deep_ptr \<Rightarrow> bool" where
  "deep_gt lhs rhs \<longleftrightarrow> deep_lt rhs lhs"

definition poly_ne_null :: "poly_ptr \<Rightarrow> bool" where
  "poly_ne_null lhs \<longleftrightarrow> poly_bool lhs"

definition null_ne_poly :: "poly_ptr \<Rightarrow> bool" where
  "null_ne_poly rhs \<longleftrightarrow> poly_bool rhs"

definition poly_ge_null :: "poly_ptr \<Rightarrow> bool" where
  "poly_ge_null lhs \<longleftrightarrow> \<not> poly_lt_null lhs"

definition null_ge_poly :: "poly_ptr \<Rightarrow> bool" where
  "null_ge_poly rhs \<longleftrightarrow> \<not> null_lt_poly rhs"

definition poly_le_null :: "poly_ptr \<Rightarrow> bool" where
  "poly_le_null lhs \<longleftrightarrow> \<not> null_lt_poly lhs"

definition null_le_poly :: "poly_ptr \<Rightarrow> bool" where
  "null_le_poly rhs \<longleftrightarrow> \<not> poly_lt_null rhs"

definition poly_gt_null :: "poly_ptr \<Rightarrow> bool" where
  "poly_gt_null lhs \<longleftrightarrow> null_lt_poly lhs"

definition null_gt_poly :: "poly_ptr \<Rightarrow> bool" where
  "null_gt_poly rhs \<longleftrightarrow> poly_lt_null rhs"

definition deep_ne_null :: "('a, 'x) deep_ptr \<Rightarrow> bool" where
  "deep_ne_null lhs \<longleftrightarrow> deep_bool lhs"

definition null_ne_deep :: "('a, 'x) deep_ptr \<Rightarrow> bool" where
  "null_ne_deep rhs \<longleftrightarrow> deep_bool rhs"

definition deep_ge_null :: "('a, 'x) deep_ptr \<Rightarrow> bool" where
  "deep_ge_null lhs \<longleftrightarrow> \<not> deep_lt_null lhs"

definition null_ge_deep :: "('a, 'x) deep_ptr \<Rightarrow> bool" where
  "null_ge_deep rhs \<longleftrightarrow> \<not> null_lt_deep rhs"

definition deep_le_null :: "('a, 'x) deep_ptr \<Rightarrow> bool" where
  "deep_le_null lhs \<longleftrightarrow> \<not> null_lt_deep lhs"

definition null_le_deep :: "('a, 'x) deep_ptr \<Rightarrow> bool" where
  "null_le_deep rhs \<longleftrightarrow> \<not> deep_lt_null rhs"

definition deep_gt_null :: "('a, 'x) deep_ptr \<Rightarrow> bool" where
  "deep_gt_null lhs \<longleftrightarrow> null_lt_deep lhs"

definition null_gt_deep :: "('a, 'x) deep_ptr \<Rightarrow> bool" where
  "null_gt_deep rhs \<longleftrightarrow> deep_lt_null rhs"

definition obs_ne :: "observer_ptr \<Rightarrow> observer_ptr \<Rightarrow> bool" where
  "obs_ne lhs rhs \<longleftrightarrow> obs_ptr lhs \<noteq> obs_ptr rhs"

definition obs_ne_null :: "observer_ptr \<Rightarrow> bool" where
  "obs_ne_null lhs \<longleftrightarrow> obs_ptr lhs \<noteq> None"

definition null_ne_obs :: "observer_ptr \<Rightarrow> bool" where
  "null_ne_obs rhs \<longleftrightarrow> None \<noteq> obs_ptr rhs"

definition obs_ge :: "observer_ptr \<Rightarrow> observer_ptr \<Rightarrow> bool" where
  "obs_ge lhs rhs \<longleftrightarrow> obs_ptr lhs \<ge> obs_ptr rhs"

definition obs_le :: "observer_ptr \<Rightarrow> observer_ptr \<Rightarrow> bool" where
  "obs_le lhs rhs \<longleftrightarrow> obs_ptr lhs \<le> obs_ptr rhs"

definition obs_gt :: "observer_ptr \<Rightarrow> observer_ptr \<Rightarrow> bool" where
  "obs_gt lhs rhs \<longleftrightarrow> obs_ptr lhs > obs_ptr rhs"

text \<open>The hash is that of the pointer.\<close>

definition deep_hash :: "(nat option \<Rightarrow> nat) \<Rightarrow> ('a, 'x) deep_ptr \<Rightarrow> nat" where
  "deep_hash pointer_hash v = pointer_hash (dp_ptr v)"

definition poly_hash :: "(nat option \<Rightarrow> nat) \<Rightarrow> poly_ptr \<Rightarrow> nat" where
  "poly_hash pointer_hash v = pointer_hash (pp_ptr v)"

definition obs_hash :: "(nat option \<Rightarrow> nat) \<Rightarrow> observer_ptr \<Rightarrow> nat" where
  "obs_hash pointer_hash v = pointer_hash (obs_ptr v)"

end
