(* ===== verification/Memory_Properties.thy ===== *)
theory Memory_Properties
  imports Core_Memory
begin

text \<open>
  Ownership of the pointers of mnmlstc/core/memory.hpp: the objects on the heap are exactly those that
  a pointer owns and those of the rest of the program, no object has two owners, and every operation
  keeps that. The locale \<open>owning_pointer\<close> is what \<^verbatim>\<open>deep_ptr\<close> and \<^verbatim>\<open>poly_ptr\<close> have in common.
\<close>

section \<open>Ownership\<close>

fun owned :: "nat option list \<Rightarrow> nat list" where
  "owned [] = []"
| "owned (None # ps) = owned ps"
| "owned (Some a # ps) = a # owned ps"

text \<open>\<open>ps\<close> are the owners, \<open>F\<close> the objects that belong to others.\<close>

definition owns :: "'a free_store \<Rightarrow> nat option list \<Rightarrow> nat set \<Rightarrow> bool" where
  "owns h ps F \<longleftrightarrow> (\<forall>a. fresh h \<le> a \<longrightarrow> cell h a = None) \<and> distinct (owned ps) \<and>
     dom (cell h) = set (owned ps) \<union> F \<and> set (owned ps) \<inter> F = {}"

definition points :: "'a free_store \<Rightarrow> nat option \<Rightarrow> 'a option" where
  "points h p = (case p of None \<Rightarrow> None | Some a \<Rightarrow> cell h a)"

text \<open>Nothing but the objects at \<open>ps\<close> differs.\<close>

definition same_but :: "nat option list \<Rightarrow> 'a free_store \<Rightarrow> 'a free_store \<Rightarrow> bool" where
  "same_but ps h h' \<longleftrightarrow> (\<forall>a. a \<notin> set (owned ps) \<longrightarrow> cell h' a = cell h a)"

lemma points_simps [simp]: "points h None = None" "points h (Some a) = cell h a"
  by (simp_all add: points_def)

lemma owns_None [simp]: "owns h (None # ps) F \<longleftrightarrow> owns h ps F" "owns h (p # None # ps) F \<longleftrightarrow> owns h (p # ps) F"
  by (cases p; simp add: owns_def)+

lemma owns_swap: "owns h (p # q # ps) F \<longleftrightarrow> owns h (q # p # ps) F"
  by (cases p; cases q) (auto simp: owns_def)

lemma owns_live: "owns h (Some a # ps) F \<Longrightarrow> \<exists>v. cell h a = Some v"
  by (auto simp: owns_def)

lemma owns_rotate: "owns h (p # q # r # ps) F \<longleftrightarrow> owns h (r # p # q # ps) F"
  by (cases p; cases q; cases r) (auto simp: owns_def)

lemma owns_apart: "owns h (p # q # ps) F \<Longrightarrow> q = None \<or> q \<noteq> p" "owns h (p # r # q # ps) F \<Longrightarrow> q = None \<or> q \<noteq> p"
  by (cases p; cases q; cases r; auto simp: owns_def)+

lemma same_but_points: "same_but [p] h h' \<Longrightarrow> q = None \<or> q \<noteq> p \<Longrightarrow> points h' q = points h q"
  by (cases p; cases q) (auto simp: same_but_def)

lemma owns_frame:
  assumes "owns h (p # ps) F" and "same_but [p] h h'" and "a \<in> F"
  shows "cell h' a = cell h a"
proof -
  have "Some a \<noteq> p"
    using assms(1,3) by (auto simp: owns_def)
  then show ?thesis
    using same_but_points [OF assms(2), of "Some a"] by simp
qed

lemma alloc_owns:
  assumes "owns h ps F"
  obtains h' where "alloc v h = (fresh h, h')" and "owns h' (Some (fresh h) # ps) F"
    and "cell h' (fresh h) = Some v" and "same_but [Some (fresh h)] h h'"
proof -
  have "fresh h \<notin> dom (cell h)"
    using assms by (auto simp: owns_def)
  with that show thesis
    using assms by (auto simp: alloc_def owns_def same_but_def)
qed

lemma delete_owns:
  assumes "owns h (Some a # ps) F"
  obtains h' where "default_delete a h = Some h'" and "owns h' ps F" and "same_but [Some a] h h'"
  using owns_live [OF assms] assms that by (auto simp: default_delete_def owns_def same_but_def)

section \<open>The contract of an owning pointer\<close>

text \<open>
  \<open>ok\<close> is a class invariant that depends on the object pointed to only; \<open>copy_of p v w\<close> says that \<open>w\<close>
  is what copying \<open>p\<close> makes of \<open>v\<close>.
\<close>

locale owning_pointer =
  fixes ptr_of :: "'p \<Rightarrow> nat option"
    and ok :: "'v free_store \<Rightarrow> 'p \<Rightarrow> bool"
    and copy_of :: "'p \<Rightarrow> 'v \<Rightarrow> 'v \<Rightarrow> bool"
    and copy :: "'p \<Rightarrow> 'v free_store \<Rightarrow> (('x exn + 'p) \<times> 'v free_store) option"
    and move :: "'p \<Rightarrow> 'p \<times> 'p"
    and destroy :: "'p \<Rightarrow> 'v free_store \<Rightarrow> 'v free_store option"
    and move_assign :: "'p \<Rightarrow> 'p \<Rightarrow> 'v free_store \<Rightarrow> ('p \<times> 'p \<times> 'v free_store) option"
    and assign :: "'p \<Rightarrow> 'p \<Rightarrow> 'v free_store \<Rightarrow> (('x exn + unit) \<times> 'p \<times> 'v free_store) option"
  assumes ok_points: "ok h p \<Longrightarrow> points h' (ptr_of p) = points h (ptr_of p) \<Longrightarrow> ok h' p"
    and moved: "ok h p \<Longrightarrow> ptr_of (fst (move p)) = ptr_of p \<and> ptr_of (snd (move p)) = None \<and>
      ok h (fst (move p)) \<and> ok h (snd (move p))"
    and destroy: "ok h p \<Longrightarrow> destroy p h = (case ptr_of p of None \<Rightarrow> Some h | Some a \<Rightarrow> default_delete a h)"
    and copied: "ok h p \<Longrightarrow> owns h (ptr_of p # ps) F \<Longrightarrow> (\<exists>x. copy p h = Some (Inl x, h)) \<or>
      (\<exists>c h'. copy p h = Some (Inr c, h') \<and> owns h' (ptr_of c # ptr_of p # ps) F \<and> same_but [ptr_of c] h h' \<and>
        ok h' c \<and> rel_option (copy_of p) (points h (ptr_of p)) (points h' (ptr_of c)))"
    and move_assign: "move_assign this that h =
      map_option (\<lambda>h'. (fst (move that), snd (move that), h')) (destroy this h)"
    and assign: "assign this that h =
      do {
        (r, h1) \<leftarrow> copy that h;
        case r of
          Inl x \<Rightarrow> Some (Inl x, this, h1)
        | Inr tmp \<Rightarrow> do {
            (this1, tmp1, h2) \<leftarrow> move_assign this tmp h1;
            h3 \<leftarrow> destroy tmp1 h2;
            Some (Inr (), this1, h3)
          }
      }"
begin

text \<open>Destroying an owner deletes its object and no other.\<close>

lemma destroyed:
  assumes "ok h p" and "owns h (ptr_of p # ps) F"
  obtains h' where "destroy p h = Some h'" and "owns h' ps F" and "same_but [ptr_of p] h h'"
proof (cases "ptr_of p")
  case None
  then show thesis
    using that [of h] assms by (simp add: destroy same_but_def)
next
  case (Some a)
  then show thesis
    using assms that by (auto simp: destroy elim: delete_owns)
qed

lemma move_assigned:
  assumes "ok h this" and "ok h that" and "owns h (ptr_of this # ptr_of that # ps) F"
  obtains this' that' h' where "move_assign this that h = Some (this', that', h')"
    and "ptr_of this' = ptr_of that" and "ptr_of that' = None" and "ok h' this'" and "ok h' that'"
    and "owns h' (ptr_of this' # ps) F" and "points h' (ptr_of this') = points h (ptr_of that)"
    and "same_but [ptr_of this] h h'"
proof -
  obtain h' where h': "destroy this h = Some h'" "owns h' (ptr_of that # ps) F" "same_but [ptr_of this] h h'"
    by (rule destroyed [OF assms(1,3)])
  have p: "points h' (ptr_of that) = points h (ptr_of that)"
    by (rule same_but_points [OF h'(3) owns_apart(1) [OF assms(3)]])
  note m = moved [OF ok_points [OF assms(2) p]]
  show thesis
    using that [of "fst (move that)" "snd (move that)" h'] h' p m by (simp add: move_assign)
qed

lemma assigned:
  assumes "ok h this" and "ok h that" and "owns h (ptr_of this # ptr_of that # ps) F"
  obtains x where "assign this that h = Some (Inl x, this, h)"
    | this' h' where "assign this that h = Some (Inr (), this', h')" and "ok h' this'"
      and "owns h' (ptr_of this' # ptr_of that # ps) F"
      and "rel_option (copy_of that) (points h (ptr_of that)) (points h' (ptr_of this'))"
      and "points h' (ptr_of that) = points h (ptr_of that)"
proof -
  note o' = assms(3) [THEN owns_swap [THEN iffD1]]
  consider x where "copy that h = Some (Inl x, h)"
    | c h1 where "copy that h = Some (Inr c, h1)" "owns h1 (ptr_of c # ptr_of that # ptr_of this # ps) F"
      "same_but [ptr_of c] h h1" "ok h1 c" "rel_option (copy_of that) (points h (ptr_of that)) (points h1 (ptr_of c))"
    using copied [OF assms(2) o'] by blast
  then show thesis
  proof cases
    case (1 x)
    then show thesis using that(1) by (simp add: assign)
  next
    case (2 c h1)
    have that1: "points h1 (ptr_of that) = points h (ptr_of that)"
      by (rule same_but_points [OF 2(3) owns_apart(1) [OF 2(2)]])
    have this1: "points h1 (ptr_of this) = points h (ptr_of this)"
      by (rule same_but_points [OF 2(3) owns_apart(2) [OF 2(2)]])
    have "owns h1 (ptr_of this # ptr_of c # ptr_of that # ps) F"
      using 2(2) by (metis owns_rotate)
    then obtain this' tmp h2 where a: "move_assign this c h1 = Some (this', tmp, h2)"
      "ptr_of this' = ptr_of c" "ptr_of tmp = None" "ok h2 this'" "ok h2 tmp"
      "owns h2 (ptr_of this' # ptr_of that # ps) F" "points h2 (ptr_of this') = points h1 (ptr_of c)"
      "same_but [ptr_of this] h1 h2"
      by (rule move_assigned [OF ok_points [OF assms(1) this1] 2(4)])
    moreover have "points h2 (ptr_of that) = points h (ptr_of that)"
      using same_but_points [OF a(8) owns_apart(1) [OF assms(3)]] that1 by simp
    ultimately show thesis
      using 2(1,5) that(2) [of this' h2] by (simp add: assign destroy)
  qed
qed

end

section \<open>deep_ptr keeps the contract\<close>

text \<open>With the default deleter and copier.\<close>

definition deep_ok :: "('a, 'x) type_ops \<Rightarrow> ('a, 'x) deep_ptr \<Rightarrow> bool" where
  "deep_ok ops d \<longleftrightarrow> dp_deleter d = default_delete \<and> dp_copier d = default_copy ops"

lemma deep_ok_of_ptr [simp]: "deep_ok ops (deep_of_ptr ops p)" "dp_ptr (deep_of_ptr ops p) = p"
  by (simp_all add: deep_ok_def deep_of_ptr_def deep_make_def)

lemma deep_copied:
  assumes "deep_ok ops d" and o: "owns h (dp_ptr d # ps) F"
  shows "(\<exists>x. deep_copy d h = Some (Inl x, h)) \<or>
    (\<exists>c h'. deep_copy d h = Some (Inr c, h') \<and> owns h' (dp_ptr c # dp_ptr d # ps) F \<and> same_but [dp_ptr c] h h' \<and>
      deep_ok ops c \<and> rel_option (\<lambda>v w. copy_ctor ops v = Inr w) (points h (dp_ptr d)) (points h' (dp_ptr c)))"
proof (cases "dp_ptr d")
  case None
  with assms show ?thesis by (simp add: deep_copy_def deep_make_def deep_ok_def same_but_def)
next
  case (Some a)
  with o obtain v where v: "cell h a = Some v" using owns_live by fastforce
  show ?thesis
  proof (cases "copy_ctor ops v")
    case (Inl x)
    with v Some assms(1) show ?thesis by (simp add: deep_copy_def deep_ok_def default_copy_def)
  next
    case (Inr w)
    obtain h' where "alloc w h = (fresh h, h')" "owns h' (Some (fresh h) # dp_ptr d # ps) F"
      "cell h' (fresh h) = Some w" "same_but [Some (fresh h)] h h'"
      by (rule alloc_owns [OF o])
    with Inr v Some assms(1) show ?thesis
      by (simp add: deep_copy_def deep_ok_def default_copy_def deep_make_def)
  qed
qed

interpretation deep: owning_pointer dp_ptr "\<lambda>h. deep_ok ops" "\<lambda>_ v w. copy_ctor ops v = Inr w"
    deep_copy deep_move deep_destroy deep_move_assign deep_assign for ops :: "('a, 'x) type_ops"
proof unfold_locales
  show "deep_ok ops d \<Longrightarrow> owns h (dp_ptr d # ps) F \<Longrightarrow> (\<exists>x. deep_copy d h = Some (Inl x, h)) \<or>
    (\<exists>c h'. deep_copy d h = Some (Inr c, h') \<and> owns h' (dp_ptr c # dp_ptr d # ps) F \<and> same_but [dp_ptr c] h h' \<and>
      deep_ok ops c \<and> rel_option (\<lambda>v w. copy_ctor ops v = Inr w) (points h (dp_ptr d)) (points h' (dp_ptr c)))"
    for d h ps F by (rule deep_copied)
qed (auto simp: deep_ok_def deep_move_def deep_release_def deep_make_def deep_destroy_def deep_move_assign_def
    deep_swap_def deep_assign_def map_option_case split: option.split prod.split bind_splits)

section \<open>poly_ptr keeps the contract\<close>

text \<open>What classes promise: a copy made as a \<open>U\<close> is a \<open>U\<close>, which can be copied as one.\<close>

definition class_ok :: "('v, 'x) class_ops \<Rightarrow> bool" where
  "class_ok ops \<longleftrightarrow> (\<forall>U v w u. copy_as ops U v = Some (Inr w) \<longrightarrow> move_obj ops w = Inr u \<longrightarrow>
     dyn_type u = U \<and> copy_as ops U u \<noteq> None)"

text \<open>The invariant: the copier is the null copier exactly for null, and the object's class is derived
  from the one it copies as.\<close>

definition poly_ok :: "('v, 'x) class_ops \<Rightarrow> 'v obj free_store \<Rightarrow> poly_ptr \<Rightarrow> bool" where
  "poly_ok ops h p \<longleftrightarrow> class_ok ops \<and>
     (case points h (pp_ptr p) of
        None \<Rightarrow> pp_ptr p = None \<and> pp_copier p = Null_poly_copy
      | Some v \<Rightarrow> \<exists>U. pp_copier p = Default_poly_copy U \<and> copy_as ops U v \<noteq> None)"

definition poly_copy_of :: "('v, 'x) class_ops \<Rightarrow> poly_ptr \<Rightarrow> 'v obj \<Rightarrow> 'v obj \<Rightarrow> bool" where
  "poly_copy_of ops p v u \<longleftrightarrow>
     (\<exists>U w. pp_copier p = Default_poly_copy U \<and> copy_as ops U v = Some (Inr w) \<and> move_obj ops w = Inr u)"

lemma poly_copied:
  assumes ok: "poly_ok ops h p" and o: "owns h (pp_ptr p # ps) F"
  shows "(\<exists>x. poly_copy ops p h = Some (Inl x, h)) \<or>
    (\<exists>c h'. poly_copy ops p h = Some (Inr c, h') \<and> owns h' (pp_ptr c # pp_ptr p # ps) F \<and> same_but [pp_ptr c] h h' \<and>
      poly_ok ops h' c \<and> rel_option (poly_copy_of ops p) (points h (pp_ptr p)) (points h' (pp_ptr c)))"
proof (cases "pp_ptr p")
  case None
  with assms show ?thesis
    by (auto simp: poly_copy_def poly_ok_def null_poly_copy_def same_but_def)
next
  case (Some a)
  with o obtain v where v: "cell h a = Some v" using owns_live by fastforce
  with Some ok obtain U r where U: "pp_copier p = Default_poly_copy U" "copy_as ops U v = Some r" "class_ok ops"
    by (auto simp: poly_ok_def)
  consider x where "r = Inl x" | w x where "r = Inr w" "move_obj ops w = Inl x" | w u where "r = Inr w" "move_obj ops w = Inr u"
    by (cases r; cases "move_obj ops (projr r)") auto
  then show ?thesis
  proof cases
    case (3 w u)
    obtain h' where "alloc u h = (fresh h, h')" "owns h' (Some (fresh h) # pp_ptr p # ps) F"
      "cell h' (fresh h) = Some u" "same_but [Some (fresh h)] h h'"
      by (rule alloc_owns [OF o])
    moreover have "copy_as ops U u \<noteq> None"
      using U 3 by (auto simp: class_ok_def)
    ultimately show ?thesis
      using 3 U v Some by (auto simp: poly_copy_def default_poly_copy_def poly_ok_def poly_copy_of_def)
  qed (use U v Some in \<open>simp_all add: poly_copy_def default_poly_copy_def\<close>)
qed

interpretation poly: owning_pointer pp_ptr "poly_ok ops" "poly_copy_of ops"
    "poly_copy ops" poly_move poly_destroy poly_move_assign "poly_assign ops" for ops :: "('v, 'x) class_ops"
proof unfold_locales
  show "poly_ok ops h p \<Longrightarrow> owns h (pp_ptr p # ps) F \<Longrightarrow> (\<exists>x. poly_copy ops p h = Some (Inl x, h)) \<or>
    (\<exists>c h'. poly_copy ops p h = Some (Inr c, h') \<and> owns h' (pp_ptr c # pp_ptr p # ps) F \<and> same_but [pp_ptr c] h h' \<and>
      poly_ok ops h' c \<and> rel_option (poly_copy_of ops p) (points h (pp_ptr p)) (points h' (pp_ptr c)))"
    for p h ps F by (rule poly_copied)
qed (auto simp: poly_ok_def poly_move_def poly_destroy_def poly_move_assign_def poly_swap_in_def
    poly_swap_def poly_assign_def map_option_case split: option.split prod.split bind_splits)

section \<open>Comparison\<close>

text \<open>The six operators of each class are the order of the pointers, under the contract of
  \<open>Core_Compare\<close>.\<close>

interpretation deep_cmp: comparison "deep_of_ptr ops" "\<lambda>p :: nat option. p"
    "\<lambda>x y. Some (deep_eq x y)" "\<lambda>x y. Some (deep_lt x y)" "\<lambda>x y. Some (deep_ne x y)"
    "\<lambda>x y. Some (deep_ge x y)" "\<lambda>x y. Some (deep_le x y)" "\<lambda>x y. Some (deep_gt x y)"
  for ops :: "('a, 'x) type_ops"
  by unfold_locales (simp_all add: deep_eq_def deep_lt_def deep_ne_def deep_ge_def deep_le_def deep_gt_def)

interpretation poly_cmp: comparison "poly_of_ptr U" "\<lambda>p :: nat option. p"
    "\<lambda>x y. Some (poly_eq x y)" "\<lambda>x y. Some (poly_lt x y)" "\<lambda>x y. Some (poly_ne x y)"
    "\<lambda>x y. Some (poly_ge x y)" "\<lambda>x y. Some (poly_le x y)" "\<lambda>x y. Some (poly_gt x y)" for U
  by unfold_locales
    (simp_all add: poly_eq_def poly_lt_def poly_ne_def poly_ge_def poly_le_def poly_gt_def poly_of_ptr_def)

interpretation obs_cmp: comparison obs_of_ptr "\<lambda>p :: nat option. p"
    "\<lambda>x y. Some (obs_eq x y)" "\<lambda>x y. Some (obs_lt x y)" "\<lambda>x y. Some (obs_ne x y)"
    "\<lambda>x y. Some (obs_ge x y)" "\<lambda>x y. Some (obs_le x y)" "\<lambda>x y. Some (obs_gt x y)"
  by unfold_locales (auto simp: obs_eq_def obs_lt_def obs_ne_def obs_ge_def obs_le_def obs_gt_def obs_of_ptr_def)

text \<open>Comparing with \<^verbatim>\<open>nullptr\<close> is comparing with a null pointer of the class.\<close>

lemma deep_null_compare:
  "deep_eq_null d \<longleftrightarrow> deep_eq d (deep_null ops)" "null_eq_deep d \<longleftrightarrow> deep_eq (deep_null ops) d"
  "deep_ne_null d \<longleftrightarrow> deep_ne d (deep_null ops)" "null_ne_deep d \<longleftrightarrow> deep_ne (deep_null ops) d"
  "deep_lt_null d \<longleftrightarrow> deep_lt d (deep_null ops)" "null_lt_deep d \<longleftrightarrow> deep_lt (deep_null ops) d"
  "deep_ge_null d \<longleftrightarrow> deep_ge d (deep_null ops)" "null_ge_deep d \<longleftrightarrow> deep_ge (deep_null ops) d"
  "deep_le_null d \<longleftrightarrow> deep_le d (deep_null ops)" "null_le_deep d \<longleftrightarrow> deep_le (deep_null ops) d"
  "deep_gt_null d \<longleftrightarrow> deep_gt d (deep_null ops)" "null_gt_deep d \<longleftrightarrow> deep_gt (deep_null ops) d"
  by (cases "dp_ptr d"; simp add: deep_eq_null_def null_eq_deep_def deep_ne_null_def null_ne_deep_def deep_lt_null_def null_lt_deep_def
      deep_ge_null_def null_ge_deep_def deep_le_null_def null_le_deep_def deep_gt_null_def null_gt_deep_def
      deep_eq_def deep_ne_def deep_lt_def deep_ge_def deep_le_def deep_gt_def deep_null_def deep_bool_def)+

lemma poly_null_compare:
  "poly_eq_null p \<longleftrightarrow> poly_eq p poly_null" "null_eq_poly p \<longleftrightarrow> poly_eq poly_null p"
  "poly_ne_null p \<longleftrightarrow> poly_ne p poly_null" "null_ne_poly p \<longleftrightarrow> poly_ne poly_null p"
  "poly_lt_null p \<longleftrightarrow> poly_lt p poly_null" "null_lt_poly p \<longleftrightarrow> poly_lt poly_null p"
  "poly_ge_null p \<longleftrightarrow> poly_ge p poly_null" "null_ge_poly p \<longleftrightarrow> poly_ge poly_null p"
  "poly_le_null p \<longleftrightarrow> poly_le p poly_null" "null_le_poly p \<longleftrightarrow> poly_le poly_null p"
  "poly_gt_null p \<longleftrightarrow> poly_gt p poly_null" "null_gt_poly p \<longleftrightarrow> poly_gt poly_null p"
  by (cases "pp_ptr p"; simp add: poly_eq_null_def null_eq_poly_def poly_ne_null_def null_ne_poly_def poly_lt_null_def null_lt_poly_def
      poly_ge_null_def null_ge_poly_def poly_le_null_def null_le_poly_def poly_gt_null_def null_gt_poly_def
      poly_eq_def poly_ne_def poly_lt_def poly_ge_def poly_le_def poly_gt_def poly_null_def poly_bool_def)+

section \<open>Property\<close>

lemma deep_assigned:
  assumes "deep_ok ops d" and "deep_ok ops e" and "owns h [dp_ptr d, dp_ptr e] F"
  shows "\<exists>r d' h'. deep_assign d e h = Some (r, d', h') \<and>
    (case r of
       Inl _ \<Rightarrow> d' = d \<and> h' = h
     | Inr _ \<Rightarrow> owns h' [dp_ptr d', dp_ptr e] F \<and> points h' (dp_ptr e) = points h (dp_ptr e) \<and>
         rel_option (\<lambda>v w. copy_ctor ops v = Inr w) (points h (dp_ptr e)) (points h' (dp_ptr d')))"
  by (rule deep.assigned [OF assms]) auto

lemma deep_move_assigned:
  assumes "deep_ok ops d" and "deep_ok ops e" and "owns h [dp_ptr d, dp_ptr e] F"
  shows "\<exists>d' e' h'. deep_move_assign d e h = Some (d', e', h') \<and> owns h' [dp_ptr d'] F \<and>
    dp_ptr d' = dp_ptr e \<and> dp_ptr e' = None \<and> points h' (dp_ptr d') = points h (dp_ptr e)"
  by (rule deep.move_assigned [OF assms]) auto

lemma poly_assigned:
  assumes "poly_ok ops h p" and "poly_ok ops h q" and "owns h [pp_ptr p, pp_ptr q] F"
  shows "\<exists>r p' h'. poly_assign ops p q h = Some (r, p', h') \<and>
    (case r of
       Inl _ \<Rightarrow> p' = p \<and> h' = h
     | Inr _ \<Rightarrow> owns h' [pp_ptr p', pp_ptr q] F \<and> poly_ok ops h' p' \<and>
         points h' (pp_ptr q) = points h (pp_ptr q) \<and>
         rel_option (poly_copy_of ops q) (points h (pp_ptr q)) (points h' (pp_ptr p')))"
  by (rule poly.assigned [OF assms]) auto

lemma poly_reset_null:
  assumes "poly_ok ops h p" and "owns h [pp_ptr p] F"
  shows "\<exists>h'. poly_reset None p h = Some (Inr (), poly_null, h') \<and> owns h' [] F"
  by (rule poly.destroyed [OF assms]) (auto simp: poly_reset_def poly_null_def)

lemma sliced: "class_ok ops \<Longrightarrow> poly_copy_of ops q v u \<Longrightarrow> pp_copier q = Default_poly_copy (dyn_type u)"
  by (auto simp: poly_copy_of_def class_ok_def)

text \<open>
  The owning pointers leak nothing and delete nothing twice: assigning by copy gives the target an
  object of its own that is a copy of the source's, leaves the source as it is, and does nothing if a
  constructor throws; assigning by move hands the object over and deletes the old one; after a reset to
  null or a destructor only the objects of others are left. The copy of a \<^verbatim>\<open>poly_ptr\<close> has the
  class the pointer was created with, not that of the object, and a \<^verbatim>\<open>poly_ptr\<close> created from a
  null pointer cannot be copied at all: the copier dereferences it.
\<close>

theorem smart_pointers_own:
  assumes "deep_ok ops d" and "deep_ok ops e" and "owns h [dp_ptr d, dp_ptr e] F"
    and "poly_ok cls k p" and "poly_ok cls k q" and "owns k [pp_ptr p, pp_ptr q] G"
  shows "(\<exists>r d' h'. deep_assign d e h = Some (r, d', h') \<and>
      (case r of
         Inl _ \<Rightarrow> d' = d \<and> h' = h
       | Inr _ \<Rightarrow> owns h' [dp_ptr d', dp_ptr e] F \<and> points h' (dp_ptr e) = points h (dp_ptr e) \<and>
           rel_option (\<lambda>v w. copy_ctor ops v = Inr w) (points h (dp_ptr e)) (points h' (dp_ptr d')))) \<and>
    (\<exists>d' e' h'. deep_move_assign d e h = Some (d', e', h') \<and> owns h' [dp_ptr d'] F \<and>
      dp_ptr d' = dp_ptr e \<and> dp_ptr e' = None \<and> points h' (dp_ptr d') = points h (dp_ptr e)) \<and>
    (\<exists>h'. deep_destroy d h = Some h' \<and> owns h' [dp_ptr e] F) \<and>
    (\<exists>r p' k'. poly_assign cls p q k = Some (r, p', k') \<and>
      (case r of
         Inl _ \<Rightarrow> p' = p \<and> k' = k
       | Inr _ \<Rightarrow> owns k' [pp_ptr p', pp_ptr q] G \<and> poly_ok cls k' p' \<and>
           points k' (pp_ptr q) = points k (pp_ptr q) \<and>
           rel_option (poly_copy_of cls q) (points k (pp_ptr q)) (points k' (pp_ptr p')))) \<and>
    (poly_copy_of cls q v u \<longrightarrow> pp_copier q = Default_poly_copy (dyn_type u)) \<and>
    (owns k [pp_ptr p] G' \<longrightarrow> (\<exists>k'. poly_reset None p k = Some (Inr (), poly_null, k') \<and> owns k' [] G')) \<and>
    poly_copy cls (poly_of_ptr U None) k = None"
proof -
  have "\<exists>h'. deep_destroy d h = Some h' \<and> owns h' [dp_ptr e] F"
    by (rule deep.destroyed [OF assms(1,3)]) auto
  moreover have "class_ok cls"
    using assms(4) by (simp add: poly_ok_def)
  ultimately show ?thesis
    using deep_assigned [OF assms(1-3)] deep_move_assigned [OF assms(1-3)] poly_assigned [OF assms(4-6)]
      poly_reset_null [OF assms(4)] sliced [of cls q v u]
    by (simp add: poly_copy_def poly_of_ptr_def default_poly_copy_def)
qed

text \<open>Two numbers on a heap; class 1 is derived from class 0, and copying as class 0 slices.\<close>

definition number_ops :: "(nat, unit) type_ops" where
  "number_ops = \<lparr>copy_ctor = Inr, move_ctor = Inr, moved_from = (\<lambda>v. v)\<rparr>"

definition two_numbers :: "nat free_store" where
  "two_numbers = \<lparr>cell = [0 \<mapsto> 5, 2 \<mapsto> 7], fresh = 3\<rparr>"

definition two_classes :: "(nat, unit) class_ops" where
  "two_classes = \<lparr>copy_as = (\<lambda>U v. if U \<le> dyn_type v then Some (Inr (v\<lparr>dyn_type := U\<rparr>)) else None), move_obj = Inr\<rparr>"

definition derived_object :: "nat obj free_store" where
  "derived_object = \<lparr>cell = [2 \<mapsto> \<lparr>dyn_type = 2, state_of = 7\<rparr>], fresh = 3\<rparr>"

theorem smart_pointers_own_witness:
  "(\<exists>d' e' h'. deep_move_assign (deep_of_ptr number_ops (Some 0)) (deep_of_ptr number_ops (Some 2)) two_numbers =
      Some (d', e', h') \<and> dp_ptr d' = Some 2 \<and> owns h' [dp_ptr d'] {} \<and> points h' (dp_ptr d') = Some 7) \<and>
    poly_copy two_classes (poly_of_ptr 0 None) derived_object = None"
proof -
  have d: "deep_ok number_ops (deep_of_ptr number_ops (Some 0))" "deep_ok number_ops (deep_of_ptr number_ops (Some 2))"
    by simp_all
  have o: "owns two_numbers [dp_ptr (deep_of_ptr number_ops (Some 0)), dp_ptr (deep_of_ptr number_ops (Some 2))] {}"
    by (auto simp: owns_def two_numbers_def)
  have p: "poly_ok two_classes derived_object poly_null" "poly_ok two_classes derived_object (poly_of_ptr 0 (Some 2))"
    by (auto simp: poly_ok_def class_ok_def two_classes_def poly_null_def poly_of_ptr_def derived_object_def)
  have q: "owns derived_object [pp_ptr poly_null, pp_ptr (poly_of_ptr 0 (Some 2))] {}"
    by (auto simp: owns_def derived_object_def poly_null_def poly_of_ptr_def)
  have seven: "points two_numbers (Some 2) = Some 7"
    by (simp add: two_numbers_def)
  show ?thesis
    using smart_pointers_own [OF d o p q, of "\<lparr>dyn_type = 0, state_of = 0\<rparr>" "\<lparr>dyn_type = 0, state_of = 0\<rparr>" "{}" 0]
    unfolding deep_ok_of_ptr(2) seven by (elim conjE) blast
qed

end
