(* ===== verification/Bson_Values.thy ===== *)
theory Bson_Values
  imports String_View Bson_Types
begin

text \<open>
  bsoncxx/types.hpp with the enumerations under bsoncxx/enums, and the inline part of
  bsoncxx/types/value.hpp: the C++ types of BSON values, which the program reads its agents' fields with,
  and their equality.

  A structure is a record whose constructor is the structure's and whose selector is its conversion
  operator. Strings are views of a memory, so equality takes the memory and is \<open>None\<close> where it would read
  outside. A double is its 64 bits. The equality of documents, arrays and object ids is compiled in the
  library and a parameter, as is that of two \<^verbatim>\<open>types::value\<close>.
\<close>

section \<open>Enumerations\<close>

datatype kind =
    K_double
  | K_utf8
  | K_document
  | K_array
  | K_binary
  | K_undefined
  | K_oid
  | K_bool
  | K_date
  | K_null
  | K_regex
  | K_dbpointer
  | K_code
  | K_symbol
  | K_codewscope
  | K_int32
  | K_timestamp
  | K_int64
  | K_maxkey
  | K_minkey

fun kind_code :: "kind \<Rightarrow> byte" where
  "kind_code K_double = 0x01"
| "kind_code K_utf8 = 0x02"
| "kind_code K_document = 0x03"
| "kind_code K_array = 0x04"
| "kind_code K_binary = 0x05"
| "kind_code K_undefined = 0x06"
| "kind_code K_oid = 0x07"
| "kind_code K_bool = 0x08"
| "kind_code K_date = 0x09"
| "kind_code K_null = 0x0A"
| "kind_code K_regex = 0x0B"
| "kind_code K_dbpointer = 0x0C"
| "kind_code K_code = 0x0D"
| "kind_code K_symbol = 0x0E"
| "kind_code K_codewscope = 0x0F"
| "kind_code K_int32 = 0x10"
| "kind_code K_timestamp = 0x11"
| "kind_code K_int64 = 0x12"
| "kind_code K_maxkey = 0x7F"
| "kind_code K_minkey = 0xFF"

datatype binary_sub_type =
    Sub_binary
  | Sub_function
  | Sub_binary_deprecated
  | Sub_uuid_deprecated
  | Sub_uuid
  | Sub_md5
  | Sub_user

fun sub_type_code :: "binary_sub_type \<Rightarrow> byte" where
  "sub_type_code Sub_binary = 0x00"
| "sub_type_code Sub_function = 0x01"
| "sub_type_code Sub_binary_deprecated = 0x02"
| "sub_type_code Sub_uuid_deprecated = 0x03"
| "sub_type_code Sub_uuid = 0x04"
| "sub_type_code Sub_md5 = 0x05"
| "sub_type_code Sub_user = 0x80"

section \<open>The structures\<close>

record b_double = double_value :: "64 word"
record b_utf8 = utf8_value :: string_view
record 'd b_document = document_value :: 'd
record 'r b_array = array_value :: 'r
record b_binary =
  binary_sub :: binary_sub_type
  binary_size :: "32 word"
  binary_bytes :: "nat option"
datatype b_undefined = B_undefined
record 'o b_oid = oid_value :: 'o
record b_bool = bool_value :: bool
record b_date = date_value :: "64 word"
datatype b_null = B_null
record b_regex =
  regex_pattern :: string_view
  regex_options :: string_view
record 'o b_dbpointer =
  dbpointer_collection :: string_view
  dbpointer_value :: 'o
record b_code = code_value :: string_view
record b_symbol = symbol_value :: string_view
record 'd b_codewscope =
  codewscope_code :: string_view
  codewscope_scope :: 'd
record b_int32 = int32_value :: "32 word"
record b_timestamp =
  timestamp_increment :: "32 word"
  timestamp_timestamp :: "32 word"
record b_int64 = int64_value :: "64 word"
datatype b_minkey = B_minkey
datatype b_maxkey = B_maxkey

text \<open>The constructors that do more than take a field each.\<close>

text \<open>\<^verbatim>\<open>system_clock\<close> counts nanoseconds in 64 bits; \<^verbatim>\<open>duration_cast\<close> to milliseconds divides,
  back it multiplies, which is undefined if it overflows.\<close>

definition b_date_of_time_point :: "64 word \<Rightarrow> b_date" where
  "b_date_of_time_point tp = \<lparr>date_value = word_of_int (sint tp sdiv 1000000)\<rparr>"

definition b_date_time_point :: "b_date \<Rightarrow> 64 word option" where
  "b_date_time_point d =
     (let ns = sint (date_value d) * 1000000
      in if - (2 ^ 63) \<le> ns \<and> ns < 2 ^ 63 then Some (word_of_int ns) else None)"

section \<open>Equality\<close>

text \<open>\<^verbatim>\<open>==\<close> on IEEE doubles: not a number equals nothing, the two zeros are equal.\<close>

definition is_nan :: "64 word \<Rightarrow> bool" where
  "is_nan x \<longleftrightarrow> drop_bit 52 x AND 0x7FF = 0x7FF \<and> x AND 0xFFFFFFFFFFFFF \<noteq> 0"

definition double_eq :: "64 word \<Rightarrow> 64 word \<Rightarrow> bool" where
  "double_eq x y \<longleftrightarrow> \<not> is_nan x \<and> \<not> is_nan y \<and>
     (x = y \<or> x AND 0x7FFFFFFFFFFFFFFF = 0 \<and> y AND 0x7FFFFFFFFFFFFFFF = 0)"

definition b_double_eq :: "b_double \<Rightarrow> b_double \<Rightarrow> bool option" where
  "b_double_eq lhs rhs = Some (double_eq (double_value lhs) (double_value rhs))"

definition b_utf8_eq :: "memory \<Rightarrow> b_utf8 \<Rightarrow> b_utf8 \<Rightarrow> bool option" where
  "b_utf8_eq m lhs rhs = sv_eq m (utf8_value lhs) (utf8_value rhs)"

definition b_document_eq :: "('d \<Rightarrow> 'd \<Rightarrow> bool option) \<Rightarrow> 'd b_document \<Rightarrow> 'd b_document \<Rightarrow> bool option" where
  "b_document_eq view_eq lhs rhs = view_eq (document_value lhs) (document_value rhs)"

definition b_array_eq :: "('r \<Rightarrow> 'r \<Rightarrow> bool option) \<Rightarrow> 'r b_array \<Rightarrow> 'r b_array \<Rightarrow> bool option" where
  "b_array_eq view_eq lhs rhs = view_eq (array_value lhs) (array_value rhs)"

text \<open>\<^verbatim>\<open>std::memcmp\<close> needs two pointers that are not null, whatever the size.\<close>

definition memory_eq :: "memory \<Rightarrow> nat option \<Rightarrow> nat option \<Rightarrow> 32 word \<Rightarrow> bool option" where
  "memory_eq m p q n =
     do { a \<leftarrow> p; b \<leftarrow> q; xs \<leftarrow> read_chars m a (unat n); ys \<leftarrow> read_chars m b (unat n); Some (xs = ys) }"

definition b_binary_eq :: "memory \<Rightarrow> b_binary \<Rightarrow> b_binary \<Rightarrow> bool option" where
  "b_binary_eq m lhs rhs =
     (if binary_sub lhs = binary_sub rhs \<and> binary_size lhs = binary_size rhs
      then memory_eq m (binary_bytes lhs) (binary_bytes rhs) (binary_size lhs)
      else Some False)"

definition b_undefined_eq :: "b_undefined \<Rightarrow> b_undefined \<Rightarrow> bool option" where
  "b_undefined_eq lhs rhs = Some True"

definition b_oid_eq :: "('o \<Rightarrow> 'o \<Rightarrow> bool option) \<Rightarrow> 'o b_oid \<Rightarrow> 'o b_oid \<Rightarrow> bool option" where
  "b_oid_eq oid_eq lhs rhs = oid_eq (oid_value lhs) (oid_value rhs)"

definition b_bool_eq :: "b_bool \<Rightarrow> b_bool \<Rightarrow> bool option" where
  "b_bool_eq lhs rhs = Some (bool_value lhs = bool_value rhs)"

definition b_date_eq :: "b_date \<Rightarrow> b_date \<Rightarrow> bool option" where
  "b_date_eq lhs rhs = Some (date_value lhs = date_value rhs)"

definition b_null_eq :: "b_null \<Rightarrow> b_null \<Rightarrow> bool option" where
  "b_null_eq lhs rhs = Some True"

text \<open>\<^verbatim>\<open>&&\<close>: the right operand is not evaluated if the left one is false.\<close>

definition and_then :: "bool option \<Rightarrow> bool option \<Rightarrow> bool option" where
  "and_then x y = do { b \<leftarrow> x; if b then y else Some False }"

definition b_regex_eq :: "memory \<Rightarrow> b_regex \<Rightarrow> b_regex \<Rightarrow> bool option" where
  "b_regex_eq m lhs rhs =
     and_then (sv_eq m (regex_pattern lhs) (regex_pattern rhs)) (sv_eq m (regex_options lhs) (regex_options rhs))"

definition b_dbpointer_eq ::
    "memory \<Rightarrow> ('o \<Rightarrow> 'o \<Rightarrow> bool option) \<Rightarrow> 'o b_dbpointer \<Rightarrow> 'o b_dbpointer \<Rightarrow> bool option" where
  "b_dbpointer_eq m oid_eq lhs rhs =
     and_then (sv_eq m (dbpointer_collection lhs) (dbpointer_collection rhs))
       (oid_eq (dbpointer_value lhs) (dbpointer_value rhs))"

definition b_code_eq :: "memory \<Rightarrow> b_code \<Rightarrow> b_code \<Rightarrow> bool option" where
  "b_code_eq m lhs rhs = sv_eq m (code_value lhs) (code_value rhs)"

definition b_symbol_eq :: "memory \<Rightarrow> b_symbol \<Rightarrow> b_symbol \<Rightarrow> bool option" where
  "b_symbol_eq m lhs rhs = sv_eq m (symbol_value lhs) (symbol_value rhs)"

definition b_codewscope_eq ::
    "memory \<Rightarrow> ('d \<Rightarrow> 'd \<Rightarrow> bool option) \<Rightarrow> 'd b_codewscope \<Rightarrow> 'd b_codewscope \<Rightarrow> bool option" where
  "b_codewscope_eq m view_eq lhs rhs =
     and_then (sv_eq m (codewscope_code lhs) (codewscope_code rhs))
       (view_eq (codewscope_scope lhs) (codewscope_scope rhs))"

definition b_int32_eq :: "b_int32 \<Rightarrow> b_int32 \<Rightarrow> bool option" where
  "b_int32_eq lhs rhs = Some (int32_value lhs = int32_value rhs)"

definition b_timestamp_eq :: "b_timestamp \<Rightarrow> b_timestamp \<Rightarrow> bool option" where
  "b_timestamp_eq lhs rhs =
     Some (timestamp_increment lhs = timestamp_increment rhs \<and> timestamp_timestamp lhs = timestamp_timestamp rhs)"

definition b_int64_eq :: "b_int64 \<Rightarrow> b_int64 \<Rightarrow> bool option" where
  "b_int64_eq lhs rhs = Some (int64_value lhs = int64_value rhs)"

definition b_minkey_eq :: "b_minkey \<Rightarrow> b_minkey \<Rightarrow> bool option" where
  "b_minkey_eq lhs rhs = Some True"

definition b_maxkey_eq :: "b_maxkey \<Rightarrow> b_maxkey \<Rightarrow> bool option" where
  "b_maxkey_eq lhs rhs = Some True"

text \<open>The macro that defines \<^verbatim>\<open>!=\<close> for every type; \<open>eq\<close> is the type's \<^verbatim>\<open>==\<close>.\<close>

definition b_ne :: "('b \<Rightarrow> 'b \<Rightarrow> bool option) \<Rightarrow> 'b \<Rightarrow> 'b \<Rightarrow> bool option" where
  "b_ne eq lhs rhs = map_option Not (eq lhs rhs)"

section \<open>The variant\<close>

datatype ('d, 'r, 'o) bson_variant =
    Value_double b_double
  | Value_utf8 b_utf8
  | Value_document "'d b_document"
  | Value_array "'r b_array"
  | Value_binary b_binary
  | Value_undefined b_undefined
  | Value_oid "'o b_oid"
  | Value_bool b_bool
  | Value_date b_date
  | Value_null b_null
  | Value_regex b_regex
  | Value_dbpointer "'o b_dbpointer"
  | Value_code b_code
  | Value_symbol b_symbol
  | Value_codewscope "'d b_codewscope"
  | Value_int32 b_int32
  | Value_timestamp b_timestamp
  | Value_int64 b_int64
  | Value_maxkey b_maxkey
  | Value_minkey b_minkey

fun variant_type :: "('d, 'r, 'o) bson_variant \<Rightarrow> kind" where
  "variant_type (Value_double _) = K_double"
| "variant_type (Value_utf8 _) = K_utf8"
| "variant_type (Value_document _) = K_document"
| "variant_type (Value_array _) = K_array"
| "variant_type (Value_binary _) = K_binary"
| "variant_type (Value_undefined _) = K_undefined"
| "variant_type (Value_oid _) = K_oid"
| "variant_type (Value_bool _) = K_bool"
| "variant_type (Value_date _) = K_date"
| "variant_type (Value_null _) = K_null"
| "variant_type (Value_regex _) = K_regex"
| "variant_type (Value_dbpointer _) = K_dbpointer"
| "variant_type (Value_code _) = K_code"
| "variant_type (Value_symbol _) = K_symbol"
| "variant_type (Value_codewscope _) = K_codewscope"
| "variant_type (Value_int32 _) = K_int32"
| "variant_type (Value_timestamp _) = K_timestamp"
| "variant_type (Value_int64 _) = K_int64"
| "variant_type (Value_maxkey _) = K_maxkey"
| "variant_type (Value_minkey _) = K_minkey"

text \<open>Comparing a value with something of another type constructs a value from it: \<open>ctor\<close> is the
  constructor, \<open>eq\<close> and \<open>ne\<close> the compiled operators.\<close>

definition value_eq_other :: "('v \<Rightarrow> 'v \<Rightarrow> bool) \<Rightarrow> ('t \<Rightarrow> 'v) \<Rightarrow> 'v \<Rightarrow> 't \<Rightarrow> bool" where
  "value_eq_other eq ctor lhs rhs = eq lhs (ctor rhs)"

definition other_eq_value :: "('v \<Rightarrow> 'v \<Rightarrow> bool) \<Rightarrow> ('t \<Rightarrow> 'v) \<Rightarrow> 't \<Rightarrow> 'v \<Rightarrow> bool" where
  "other_eq_value eq ctor lhs rhs = eq (ctor lhs) rhs"

definition value_ne_other :: "('v \<Rightarrow> 'v \<Rightarrow> bool) \<Rightarrow> ('t \<Rightarrow> 'v) \<Rightarrow> 'v \<Rightarrow> 't \<Rightarrow> bool" where
  "value_ne_other ne ctor lhs rhs = ne lhs (ctor rhs)"

definition other_ne_value :: "('v \<Rightarrow> 'v \<Rightarrow> bool) \<Rightarrow> ('t \<Rightarrow> 'v) \<Rightarrow> 't \<Rightarrow> 'v \<Rightarrow> bool" where
  "other_ne_value ne ctor lhs rhs = ne (ctor lhs) rhs"

section \<open>Lemmas\<close>

text \<open>The same types in libbson, which the compiled part of the driver uses.\<close>

fun libbson_type :: "kind \<Rightarrow> bson_type_t" where
  "libbson_type K_double = BSON_TYPE_DOUBLE"
| "libbson_type K_utf8 = BSON_TYPE_UTF8"
| "libbson_type K_document = BSON_TYPE_DOCUMENT"
| "libbson_type K_array = BSON_TYPE_ARRAY"
| "libbson_type K_binary = BSON_TYPE_BINARY"
| "libbson_type K_undefined = BSON_TYPE_UNDEFINED"
| "libbson_type K_oid = BSON_TYPE_OID"
| "libbson_type K_bool = BSON_TYPE_BOOL"
| "libbson_type K_date = BSON_TYPE_DATE_TIME"
| "libbson_type K_null = BSON_TYPE_NULL"
| "libbson_type K_regex = BSON_TYPE_REGEX"
| "libbson_type K_dbpointer = BSON_TYPE_DBPOINTER"
| "libbson_type K_code = BSON_TYPE_CODE"
| "libbson_type K_symbol = BSON_TYPE_SYMBOL"
| "libbson_type K_codewscope = BSON_TYPE_CODEWSCOPE"
| "libbson_type K_int32 = BSON_TYPE_INT32"
| "libbson_type K_timestamp = BSON_TYPE_TIMESTAMP"
| "libbson_type K_int64 = BSON_TYPE_INT64"
| "libbson_type K_maxkey = BSON_TYPE_MAXKEY"
| "libbson_type K_minkey = BSON_TYPE_MINKEY"

fun libbson_subtype :: "binary_sub_type \<Rightarrow> bson_subtype_t" where
  "libbson_subtype Sub_binary = BSON_SUBTYPE_BINARY"
| "libbson_subtype Sub_function = BSON_SUBTYPE_FUNCTION"
| "libbson_subtype Sub_binary_deprecated = BSON_SUBTYPE_BINARY_DEPRECATED"
| "libbson_subtype Sub_uuid_deprecated = BSON_SUBTYPE_UUID_DEPRECATED"
| "libbson_subtype Sub_uuid = BSON_SUBTYPE_UUID"
| "libbson_subtype Sub_md5 = BSON_SUBTYPE_MD5"
| "libbson_subtype Sub_user = BSON_SUBTYPE_USER"

lemma kind_code_libbson: "kind_code k = type_code (libbson_type k)"
  by (cases k) simp_all

lemma sub_type_code_libbson: "sub_type_code s = subtype_code (libbson_subtype s)"
  by (cases s) simp_all

lemma text_eq: "chars m v = Some xs \<Longrightarrow> chars m w = Some ys \<Longrightarrow> sv_eq m v w = Some (xs = ys)"
  by (rule sv_compare_lex [of m v xs w ys]) (auto simp: sv_eq_def dest: len_eq)

lemma double_eq_refl: "double_eq x x \<longleftrightarrow> \<not> is_nan x"
  by (auto simp: double_eq_def)

lemma sdiv_towards_zero:
  assumes "0 < (n :: int)"
  shows "\<bar>a sdiv n * n\<bar> \<le> \<bar>a\<bar>" and "\<bar>a sdiv n\<bar> \<le> \<bar>a\<bar>" and "\<bar>a - a sdiv n * n\<bar> < n"
proof -
  have "a sdiv n = sgn a * (\<bar>a\<bar> div n)"
    using assms by (simp add: signed_divide_int_def sgn_if)
  moreover have "\<bar>a\<bar> div n * n = \<bar>a\<bar> - \<bar>a\<bar> mod n"
    by (rule minus_mod_eq_div_mult [symmetric])
  moreover have "0 \<le> \<bar>a\<bar> mod n" "\<bar>a\<bar> mod n < n" "\<bar>a\<bar> mod n \<le> \<bar>a\<bar>"
    using assms by (simp_all add: zmod_le_nonneg_dividend)
  ultimately show "\<bar>a sdiv n * n\<bar> \<le> \<bar>a\<bar>" "\<bar>a - a sdiv n * n\<bar> < n"
    by (cases a "0 :: int" rule: linorder_cases; simp)+
  show "\<bar>a sdiv n\<bar> \<le> \<bar>a\<bar>"
    using sdiv_int_range [of a n] by auto
qed

lemma time_point_cut:
  obtains tp' where "b_date_time_point (b_date_of_time_point tp) = Some tp'"
    and "sint tp' = sint tp sdiv 1000000 * 1000000"
proof -
  have "\<bar>sint tp sdiv 1000000 * 1000000\<bar> \<le> \<bar>sint tp\<bar>" "\<bar>sint tp sdiv 1000000\<bar> \<le> \<bar>sint tp\<bar>"
    by (rule sdiv_towards_zero; simp)+
  moreover have "\<bar>sint tp\<bar> < 2 ^ 63 \<or> sint tp = - (2 ^ 63)"
    using sint_range64 [of tp] by auto
  moreover have "- (2 ^ 63) sdiv 1000000 = (- 9223372036854 :: int)"
    by simp
  ultimately have r: "- (2 ^ 63) \<le> sint tp sdiv 1000000" "sint tp sdiv 1000000 < 2 ^ 63"
    and r': "- (2 ^ 63) \<le> sint tp sdiv 1000000 * 1000000" "sint tp sdiv 1000000 * 1000000 < 2 ^ 63"
    by auto
  show thesis
    using r' sint_word_of_int [OF r] sint_word_of_int [OF r']
    by (intro that) (simp_all add: b_date_time_point_def b_date_of_time_point_def)
qed

lemma time_point_back:
  assumes "b_date_time_point d = Some tp"
  shows "b_date_of_time_point tp = d"
proof -
  let ?ns = "sint (date_value d) * 1000000"
  have r: "- (2 ^ 63) \<le> ?ns" "?ns < 2 ^ 63" and tp: "tp = word_of_int ?ns"
    using assms by (simp_all add: b_date_time_point_def Let_def split: if_splits)
  have "sint tp = ?ns"
    unfolding tp by (rule sint_word_of_int [OF r])
  then have "sint tp sdiv 1000000 = sint (date_value d)"
    by (simp add: signed_divide_int_def sgn_mult abs_mult mult_sgn_abs)
  then show ?thesis
    by (cases d) (simp add: b_date_of_time_point_def)
qed

lemma time_point_defined: "b_date_time_point d \<noteq> None \<longleftrightarrow> \<bar>sint (date_value d)\<bar> \<le> 9223372036854"
  by (auto simp: b_date_time_point_def Let_def)

lemma binary_eq:
  assumes "read_chars m a (unat n) = Some xs" and "read_chars m b (unat n') = Some ys"
  shows "b_binary_eq m \<lparr>binary_sub = s, binary_size = n, binary_bytes = Some a\<rparr>
      \<lparr>binary_sub = s', binary_size = n', binary_bytes = Some b\<rparr> = Some (s = s' \<and> n = n' \<and> xs = ys)"
  using assms by (auto simp: b_binary_eq_def memory_eq_def)



end
