(* ===== verification/Basic_Builder.thy ===== *)
theory Basic_Builder
  imports Stream_Builder
begin

text \<open>
  The second interface of the BSON builder, from the headers under
  feed/3pp/include/bsoncxx/v_noabi/bsoncxx/builder/basic, with builder/concatenate.hpp,
  builder/stream/array.hpp and util/functor.hpp: \<^verbatim>\<open>append\<close> calls whose arguments are
  values, key-value pairs or functions that fill a sub-document or a sub-array.

  The core is the list of calls it received, as in \<open>Stream_Builder\<close>. A function object is its C++
  type, which decides between the overloads of \<^verbatim>\<open>generic_append\<close>, and its effect on the
  core, which may end with an exception. \<open>None\<close> is a call that does not compile. The lemmas: a
  document built by nested functions and one built by a stream expression receive the same calls;
  a function that throws leaves its sub-document open.
\<close>

section \<open>Function objects\<close>

text \<open>The types that occur in the signatures of the functions passed to the builder.\<close>

datatype ty =
    Void
  | Sub_document
  | Sub_document_const_ref
  | Sub_array
  | Sub_array_const_ref
  | Other_type nat

datatype cv = No_cv | Const | Volatile

record signature =
  result_type :: ty
  param_types :: "ty list"

text \<open>A class has one call operator, or an overloaded or templated one, whose address cannot be taken.\<close>

datatype function_like =
    Free_function signature
  | Class_with_call cv signature
  | Class_with_generic_call
  | Not_callable

fun binds :: "ty \<Rightarrow> ty \<Rightarrow> bool" where
  "binds Sub_document Sub_document_const_ref = True"
| "binds Sub_array Sub_array_const_ref = True"
| "binds a b = (a = b)"

text \<open>What \<^verbatim>\<open>std::function\<close> asks: callable with the arguments, with a result that
  converts.\<close>

definition callable_as :: "signature \<Rightarrow> signature \<Rightarrow> bool" where
  "callable_as s f \<longleftrightarrow> list_all2 binds (param_types s) (param_types f) \<and>
     (result_type s = Void \<or> result_type f = result_type s)"

fun is_functor :: "function_like \<Rightarrow> signature \<Rightarrow> bool" where
  "is_functor (Free_function f) s = callable_as s f"
| "is_functor (Class_with_call cv f) s = callable_as s f"
| "is_functor Class_with_generic_call s = True"
| "is_functor Not_callable s = False"

text \<open>The replacement for Microsoft's compiler.\<close>

fun strip_cv_from_class_function :: "cv \<times> signature \<Rightarrow> signature" where
  "strip_cv_from_class_function (cv, f) = f"

fun is_class_method_with_signature :: "function_like \<Rightarrow> signature \<Rightarrow> bool" where
  "is_class_method_with_signature (Class_with_call cv f) s = (strip_cv_from_class_function (cv, f) = s)"
| "is_class_method_with_signature _ s = False"

fun is_function_with_signature :: "function_like \<Rightarrow> signature \<Rightarrow> bool" where
  "is_function_with_signature (Free_function f) s = (f = s)"
| "is_function_with_signature _ s = False"

fun is_class :: "function_like \<Rightarrow> bool" where
  "is_class (Class_with_call cv f) = True"
| "is_class Class_with_generic_call = True"
| "is_class _ = False"

definition is_functor_msvc :: "function_like \<Rightarrow> signature \<Rightarrow> bool" where
  "is_functor_msvc f s =
     (if is_class f then is_class_method_with_signature f s else is_function_with_signature f s)"

lemma binds_refl [simp]: "binds a a"
  by (cases a) auto

lemma callable_as_refl [simp]: "callable_as s s"
  by (simp add: callable_as_def list_all2_refl)

text \<open>What Microsoft's branch accepts, the other one accepts too.\<close>

lemma is_functor_msvc_std: "is_functor_msvc f s \<Longrightarrow> is_functor f s"
  by (cases f) (auto simp: is_functor_msvc_def)

section \<open>Appending\<close>

text \<open>An effect on the core: the calls afterwards, and the exception that left, if any.\<close>

type_synonym 'x effect = "core_call list \<Rightarrow> core_call list \<times> 'x option"

definition nothing :: "'x effect" where
  "nothing log = (log, None)"

definition core_does :: "core_call \<Rightarrow> 'x effect" where
  "core_does c log = (log @ [c], None)"

definition before :: "'x effect \<Rightarrow> 'x effect \<Rightarrow> 'x effect" where
  "before f g log = (case f log of (log', None) \<Rightarrow> g log' | (log', Some x) \<Rightarrow> (log', Some x))"

text \<open>The argument of a value's append.\<close>

datatype 'x arg =
    Plain token
  | Function function_like "'x effect"

definition takes_document :: "function_like \<Rightarrow> bool" where
  "takes_document f = is_functor f \<lparr>result_type = Void, param_types = [Sub_document]\<rparr>"

definition takes_array :: "function_like \<Rightarrow> bool" where
  "takes_array f = is_functor f \<lparr>result_type = Void, param_types = [Sub_array]\<rparr>"

text \<open>Three overloads; a function that takes both is ambiguous, one that takes neither has no
  \<^verbatim>\<open>core::append\<close>.\<close>

definition append_document_function :: "'x effect \<Rightarrow> 'x effect" where
  "append_document_function func =
     before (core_does Open_document) (before func (core_does Close_document))"

definition append_array_function :: "'x effect \<Rightarrow> 'x effect" where
  "append_array_function func =
     before (core_does Open_array) (before func (core_does Close_array))"

fun generic_append :: "'x arg \<Rightarrow> 'x effect option" where
  "generic_append (Function f func) =
     (if takes_document f \<and> takes_array f then None
      else if takes_document f then Some (append_document_function func)
      else if takes_array f then Some (append_array_function func)
      else None)"
| "generic_append (Plain t) = map_option core_does (append_call t)"

definition value_append :: "'x arg \<Rightarrow> 'x effect option" where
  "value_append t = generic_append t"

section \<open>Sub-documents and sub-arrays\<close>

text \<open>A key is a string view, a \<^verbatim>\<open>std::string\<close>, or an array of characters, taken for a
  string literal: the last character is dropped.\<close>

datatype key_arg =
    Key_string_view string
  | Key_string string
  | Key_char_array string
  | Key_other

fun key_call :: "key_arg \<Rightarrow> core_call option" where
  "key_call (Key_string_view k) = Some (Key_view k)"
| "key_call (Key_string k) = Some (Key_owned k)"
| "key_call (Key_char_array cs) = (if cs = [] then None else Some (Key_view (butlast cs)))"
| "key_call Key_other = None"

record concatenate_doc =
  concat_doc :: "(string \<times> bson) list"

record concatenate_array =
  concat_array :: "bson list"

definition concatenate_doc_view :: "concatenate_doc \<Rightarrow> (string \<times> bson) list" where
  "concatenate_doc_view d = concat_doc d"

definition concatenate_array_view :: "concatenate_array \<Rightarrow> bson list" where
  "concatenate_array_view a = concat_array a"

definition concatenate_document :: "(string \<times> bson) list \<Rightarrow> concatenate_doc" where
  "concatenate_document d = \<lparr>concat_doc = d\<rparr>"

definition concatenate_an_array :: "bson list \<Rightarrow> concatenate_array" where
  "concatenate_an_array a = \<lparr>concat_array = a\<rparr>"

datatype 'x doc_arg = Kvp key_arg "'x arg" | Doc_concatenate concatenate_doc

datatype 'x array_arg = Element "'x arg" | Array_concatenate concatenate_array

definition kvp :: "key_arg \<Rightarrow> 'x arg \<Rightarrow> 'x doc_arg" where
  "kvp t u = Kvp t u"

fun sub_document_append_one :: "'x doc_arg \<Rightarrow> 'x effect option" where
  "sub_document_append_one (Kvp k v) =
     (case (key_call k, value_append v) of
        (Some c, Some f) \<Rightarrow> Some (before (core_does c) f)
      | _ \<Rightarrow> None)"
| "sub_document_append_one (Doc_concatenate d) = Some (core_does (Concatenate (concatenate_doc_view d)))"

fun sub_document_append :: "'x doc_arg list \<Rightarrow> 'x effect option" where
  "sub_document_append (a # as) =
     (case (sub_document_append_one a, sub_document_append as) of
        (Some f, Some g) \<Rightarrow> Some (before f g)
      | _ \<Rightarrow> None)"
| "sub_document_append [] = Some nothing"

text \<open>The view of an array is converted to one of a document: its keys are the indices.\<close>

fun sub_array_append_one :: "'x array_arg \<Rightarrow> 'x effect option" where
  "sub_array_append_one (Element t) = value_append t"
| "sub_array_append_one (Array_concatenate a) =
     Some (core_does (Concatenate (array_fields (concatenate_array_view a))))"

fun sub_array_append :: "'x array_arg list \<Rightarrow> 'x effect option" where
  "sub_array_append (a # as) =
     (case (sub_array_append_one a, sub_array_append as) of
        (Some f, Some g) \<Rightarrow> Some (before f g)
      | _ \<Rightarrow> None)"
| "sub_array_append [] = Some nothing"

section \<open>The owning builders\<close>

text \<open>
  \<^verbatim>\<open>basic::document\<close>, \<^verbatim>\<open>basic::array\<close> and
  \<^verbatim>\<open>stream::array\<close> own a core that was told at its construction whether it is an array.
  \<^verbatim>\<open>clear\<close> keeps that.
\<close>

record owned_core =
  is_array :: bool
  received :: "core_call list"

definition basic_document :: owned_core where
  "basic_document = \<lparr>is_array = False, received = []\<rparr>"

definition basic_array :: owned_core where
  "basic_array = \<lparr>is_array = True, received = []\<rparr>"

definition stream_array :: owned_core where
  "stream_array = \<lparr>is_array = True, received = []\<rparr>"

definition core_start :: "owned_core \<Rightarrow> frame list" where
  "core_start b = (if is_array b then [Arr_frame []] else doc_start)"

definition view_document :: "owned_core \<Rightarrow> (string \<times> bson) list option" where
  "view_document b =
     (case core_run (core_start b) (received b) of Some [Doc_frame fs None] \<Rightarrow> Some fs | _ \<Rightarrow> None)"

definition view_array :: "owned_core \<Rightarrow> bson list option" where
  "view_array b = (case core_run (core_start b) (received b) of Some [Arr_frame xs] \<Rightarrow> Some xs | _ \<Rightarrow> None)"

definition basic_document_view :: "owned_core \<Rightarrow> (string \<times> bson) list option" where
  "basic_document_view b = view_document b"

definition basic_array_view :: "owned_core \<Rightarrow> bson list option" where
  "basic_array_view b = view_array b"

definition stream_array_view :: "owned_core \<Rightarrow> bson list option" where
  "stream_array_view b = view_array b"

definition basic_document_extract :: "owned_core \<Rightarrow> (string \<times> bson) list option \<times> owned_core" where
  "basic_document_extract b = (view_document b, b\<lparr>received := received b @ [Extract_document]\<rparr>)"

definition basic_array_extract :: "owned_core \<Rightarrow> bson list option \<times> owned_core" where
  "basic_array_extract b = (view_array b, b\<lparr>received := received b @ [Extract_array]\<rparr>)"

definition stream_array_extract :: "owned_core \<Rightarrow> bson list option \<times> owned_core" where
  "stream_array_extract b = (view_array b, b\<lparr>received := received b @ [Extract_array]\<rparr>)"

definition basic_document_clear :: "owned_core \<Rightarrow> owned_core" where
  "basic_document_clear b = b\<lparr>received := []\<rparr>"

definition basic_array_clear :: "owned_core \<Rightarrow> owned_core" where
  "basic_array_clear b = b\<lparr>received := []\<rparr>"

definition stream_array_clear :: "owned_core \<Rightarrow> owned_core" where
  "stream_array_clear b = b\<lparr>received := []\<rparr>"

text \<open>An \<^verbatim>\<open>append\<close> statement on one of the basic builders, and a stream expression on
  \<^verbatim>\<open>stream::array\<close>; a statement that does not compile changes nothing.\<close>

definition effect_on :: "'x effect option \<Rightarrow> owned_core \<Rightarrow> owned_core \<times> 'x option" where
  "effect_on f b =
     (case f of
        None \<Rightarrow> (b, None)
      | Some g \<Rightarrow> (case g (received b) of (log, r) \<Rightarrow> (b\<lparr>received := log\<rparr>, r)))"

definition stream_array_stmt :: "token list \<Rightarrow> owned_core \<Rightarrow> owned_core" where
  "stream_array_stmt ts b =
     (case shls (Array_context Closed_context) ts of
        None \<Rightarrow> b
      | Some (cs, _) \<Rightarrow> b\<lparr>received := received b @ cs\<rparr>)"

section \<open>Documents built with functions\<close>

definition core_sequence :: "core_call list \<Rightarrow> 'x effect" where
  "core_sequence cs log = (log @ cs, None)"

lemma effects [simp]:
  "nothing = core_sequence []"
  "core_does c = core_sequence [c]"
  "before (core_sequence cs) (core_sequence ds) = core_sequence (cs @ ds)"
  by (simp_all add: fun_eq_iff nothing_def core_does_def before_def core_sequence_def)

lemma function_effects [simp]:
  "append_document_function (core_sequence cs) = core_sequence (Open_document # cs @ [Close_document])"
  "append_array_function (core_sequence cs) = core_sequence (Open_array # cs @ [Close_array])"
  by (simp_all add: append_document_function_def append_array_function_def)

text \<open>A lambda with one parameter by value.\<close>

definition document_lambda :: function_like where
  "document_lambda = Class_with_call Const \<lparr>result_type = Void, param_types = [Sub_document]\<rparr>"

definition array_lambda :: function_like where
  "array_lambda = Class_with_call Const \<lparr>result_type = Void, param_types = [Sub_array]\<rparr>"

lemma lambdas [simp]:
  "takes_document document_lambda" "\<not> takes_array document_lambda"
  "takes_array array_lambda" "\<not> takes_document array_lambda"
  by (simp_all add: takes_document_def takes_array_def document_lambda_def array_lambda_def callable_as_def)

text \<open>Both compilers take such a lambda; one with a reference parameter or an ignored result, and a
  generic one, only the first.\<close>

lemma is_functor_msvc_iff:
  "is_functor_msvc f s \<longleftrightarrow> is_functor f s \<and>
     (case f of Free_function g \<Rightarrow> g = s | Class_with_call cv g \<Rightarrow> g = s | _ \<Rightarrow> False)"
  by (cases f) (auto simp: is_functor_msvc_def)

definition compiled :: "'x effect option \<Rightarrow> 'x effect" where
  "compiled f = (case f of None \<Rightarrow> nothing | Some g \<Rightarrow> g)"

fun arg_of :: "bson \<Rightarrow> 'x arg" and doc_args :: "(string \<times> bson) list \<Rightarrow> 'x doc_arg list"
  and array_args :: "bson list \<Rightarrow> 'x array_arg list" where
  "arg_of (Scalar v) = Plain (Val v)"
| "arg_of (Doc fs) = Function document_lambda (compiled (sub_document_append (doc_args fs)))"
| "arg_of (Arr xs) = Function array_lambda (compiled (sub_array_append (array_args xs)))"
| "doc_args [] = []"
| "doc_args ((k, x) # fs) = kvp (Key_string k) (arg_of x) # doc_args fs"
| "array_args [] = []"
| "array_args (x # xs) = Element (arg_of x) # array_args xs"

lemma value_append_arg_of: "value_append (arg_of x :: 'x arg) = Some (core_sequence (value_calls x))"
  and sub_document_append_doc_args:
    "sub_document_append (doc_args fs :: 'x doc_arg list) = Some (core_sequence (field_calls fs))"
  and sub_array_append_array_args:
    "sub_array_append (array_args xs :: 'x array_arg list) = Some (core_sequence (element_calls xs))"
  by (induction x and fs and xs rule: value_calls_field_calls_element_calls.induct)
    (simp_all add: value_append_def compiled_def kvp_def)

section \<open>The same document as a stream expression\<close>

fun value_tokens :: "bson \<Rightarrow> token list" and field_tokens :: "(string \<times> bson) list \<Rightarrow> token list"
  and element_tokens :: "bson list \<Rightarrow> token list" where
  "value_tokens (Scalar v) = [Val v]"
| "value_tokens (Doc fs) = Open_doc # field_tokens fs @ [Close_doc]"
| "value_tokens (Arr xs) = Open_arr # element_tokens xs @ [Close_arr]"
| "field_tokens [] = []"
| "field_tokens ((k, x) # fs) = Str k # value_tokens x @ field_tokens fs"
| "element_tokens [] = []"
| "element_tokens (x # xs) = value_tokens x @ element_tokens xs"

lemma shls_append:
  "shls c (ts @ us) =
     (case shls c ts of
        None \<Rightarrow> None
      | Some (cs, d) \<Rightarrow> map_option (\<lambda>(ds, d'). (cs @ ds, d')) (shls d us))"
proof (induction ts arbitrary: c)
  case Nil
  then show ?case by (cases "shls c us") auto
next
  case (Cons t ts)
  show ?case
  proof (cases "shl c t")
    case (Some r)
    then show ?thesis
      by (cases r; cases "shls (snd r) ts"; cases "shls (snd (the (shls (snd r) ts))) us") (auto simp: Cons.IH)
  qed simp
qed

lemma shls_value_tokens:
  "shls (Value_context b) (value_tokens x) = Some (value_calls x, b)"
  "shls (Array_context b) (value_tokens x) = Some (value_calls x, Array_context b)"
  and shls_field_tokens: "shls (Key_context b) (field_tokens fs) = Some (field_calls fs, Key_context b)"
  and shls_element_tokens: "shls (Array_context b) (element_tokens xs) = Some (element_calls xs, Array_context b)"
  by (induction x and fs and xs arbitrary: b and b and b rule: value_calls_field_calls_element_calls.induct)
    (simp_all add: shls_append shl.simps)

lemma core_run_appended:
  "core_run (core_start basic_document) (field_calls fs) = Some [Doc_frame fs None]"
  "core_run (core_start basic_array) (element_calls xs) = Some [Arr_frame xs]"
  using core_run_field_calls [of "[]" "[]" fs] core_run_element_calls [of "[]" "[]" xs]
  by (simp_all add: core_start_def basic_document_def basic_array_def doc_start_def)

section \<open>A function that throws\<close>

lemma view_document_run:
  "view_document b = Some fs \<longleftrightarrow> core_run (core_start b) (received b) = Some [Doc_frame fs None]"
  by (auto simp: view_document_def split: option.splits list.splits frame.splits)

lemma throwing_function:
  assumes "view_document b = Some fs" and "func (received b @ [Key_owned k, Open_document]) =
    (received b @ [Key_owned k, Open_document] @ field_calls gs, Some x)"
  shows "\<exists>b'. effect_on (sub_document_append_one (Kvp (Key_string k) (Function document_lambda func))) b = (b', Some x) \<and>
    core_run (core_start b') (received b') = Some [Doc_frame gs None, Doc_frame fs (Some k)]"
proof -
  let ?b = "b\<lparr>received := received b @ [Key_owned k, Open_document] @ field_calls gs\<rparr>"
  have "effect_on (sub_document_append_one (Kvp (Key_string k) (Function document_lambda func))) b = (?b, Some x)"
    using assms(2) by (simp add: value_append_def effect_on_def before_def append_document_function_def
        core_sequence_def)
  moreover have "core_run (core_start ?b) (received ?b) = Some [Doc_frame gs None, Doc_frame fs (Some k)]"
    using assms(1) core_run_field_calls [of "[]" "[Doc_frame fs (Some k)]" gs]
    by (simp add: view_document_run core_run_append core_start_def)
  ultimately show ?thesis by blast
qed

lemma effect_on_doc_args:
  "effect_on (sub_document_append (doc_args fs)) b = (b\<lparr>received := received b @ field_calls fs\<rparr>, None)"
  by (simp add: sub_document_append_doc_args effect_on_def core_sequence_def)

lemma view_document_deeper:
  assumes "core_run (core_start b) (received b) = Some (Doc_frame gs None # f # st)"
  shows "view_document (b\<lparr>received := received b @ field_calls hs\<rparr>) = None"
  using assms core_run_field_calls [of gs "f # st" hs]
  by (simp add: view_document_def core_run_append core_start_def)

section \<open>The two interfaces agree\<close>

text \<open>
  C28. Building with functions is building with the stream: for every document the nested
  \<^verbatim>\<open>append\<close> calls of \<^verbatim>\<open>basic::document\<close> compile, throw nothing, and
  send the core the same calls as the stream expression, and the view is the document; likewise for
  arrays with \<^verbatim>\<open>basic::array\<close> and \<^verbatim>\<open>stream::array\<close>. After
  \<^verbatim>\<open>clear\<close> the builders are as new.
\<close>

theorem builders_agree:
  "effect_on (sub_document_append (doc_args fs)) basic_document =
     (\<lparr>is_array = False, received = stream_stmt [] (field_tokens fs)\<rparr>, None) \<and>
   basic_document_view \<lparr>is_array = False, received = stream_stmt [] (field_tokens fs)\<rparr> = Some fs \<and>
   effect_on (sub_array_append (array_args xs)) basic_array = (stream_array_stmt (element_tokens xs) stream_array, None) \<and>
   stream_array_view (stream_array_stmt (element_tokens xs) stream_array) = Some xs \<and>
   basic_document_clear (fst (effect_on (sub_document_append (doc_args fs)) basic_document)) = basic_document \<and>
   stream_array_clear (stream_array_stmt (element_tokens xs) stream_array) = stream_array"
  using core_run_appended(1) [of fs] core_run_appended(2) [of xs]
  by (simp add: sub_document_append_doc_args sub_array_append_array_args effect_on_def core_sequence_def
      stream_stmt_def stream_array_stmt_def shls_field_tokens shls_element_tokens basic_document_def
      basic_array_def stream_array_def basic_document_view_def stream_array_view_def view_document_def
      view_array_def core_start_def basic_document_clear_def stream_array_clear_def)

text \<open>
  C29. A function that throws while it fills a sub-document: the exception leaves the builder's
  \<^verbatim>\<open>append\<close>, and the builder is left inside the sub-document. Appending goes on there,
  and the document cannot be extracted any more, whatever is appended.
\<close>

theorem throwing_function_breaks_builder:
  assumes "view_document b = Some fs"
    and "\<And>log. func log = (log @ field_calls gs, Some x)"
  shows "\<exists>b'. effect_on (sub_document_append_one (Kvp (Key_string k) (Function document_lambda func))) b = (b', Some x) \<and>
    (\<forall>hs. basic_document_view (fst (effect_on (sub_document_append (doc_args hs)) b')) = None)"
proof -
  obtain b' where b': "effect_on (sub_document_append_one (Kvp (Key_string k) (Function document_lambda func))) b = (b', Some x)"
      "core_run (core_start b') (received b') = Some [Doc_frame gs None, Doc_frame fs (Some k)]"
    using throwing_function [OF assms(1), where func = func and k = k and gs = gs and x = x] assms(2) by auto
  with view_document_deeper [where b = b' and gs = gs] show ?thesis
    by (simp add: effect_on_doc_args basic_document_view_def)
qed

theorem throwing_function_breaks_builder_witness:
  "\<exists>b'. effect_on (sub_document_append_one (Kvp (Key_string ''k'') (Function document_lambda
      (\<lambda>log. (log @ field_calls [(''a'', Scalar (B_int32 1))], Some ''thrown''))))) basic_document = (b', Some ''thrown'') \<and>
    (\<forall>hs. basic_document_view (fst (effect_on (sub_document_append (doc_args hs)) b')) = None)"
  by (rule throwing_function_breaks_builder [where fs = "[]" and gs = "[(''a'', Scalar (B_int32 1))]"])
    (simp_all add: view_document_def basic_document_def core_start_def doc_start_def)

end
