(* ===== verification/Bcon.thy ===== *)
theory Bcon
  imports Prelude
begin

text \<open>
  libbson-1.0/bcon.h: BSON documents written as C argument lists. The functions that read the lists
  are compiled in the library; the header defines the macros that make the lists, with an
  identity function per parameter type that makes the compiler check and convert the operands.

  A C expression is a value of an arithmetic type or a pointer with its type, a variable an address
  with its type. \<open>bcon_ensure\<close> is the implicit conversion to the parameter's type, \<open>None\<close> if
  the expression does not have one. The two magic values are pointers that only the library hands out.
  \<open>read_args\<close> is the discipline of \<^verbatim>\<open>va_arg\<close>: a magic pointer is followed by a tag,
  and the tag says how many operands follow; a null pointer ends the list. The lemmas: what the
  macros print reads back, and which operands keep their value.
\<close>

section \<open>Expressions, variables and arguments\<close>

datatype c_type =
    C_char
  | C_double
  | C_bool
  | C_int32
  | C_uint32
  | C_int64
  | C_uint8
  | C_bson
  | C_oid
  | C_subtype
  | C_bson_type
  | C_iter
  | C_void
  | Pointer_to c_type
  | Pointer_to_const c_type

text \<open>A null pointer is \<open>None\<close>.\<close>

datatype 'p c_expr =
    E_integer int
  | E_double f64
  | E_pointer c_type "'p option"

type_synonym 'p lvalue = "c_type \<times> 'p"

datatype bcon_type_t =
    BCON_TYPE_UTF8
  | BCON_TYPE_DOUBLE
  | BCON_TYPE_DOCUMENT
  | BCON_TYPE_ARRAY
  | BCON_TYPE_BIN
  | BCON_TYPE_UNDEFINED
  | BCON_TYPE_OID
  | BCON_TYPE_BOOL
  | BCON_TYPE_DATE_TIME
  | BCON_TYPE_NULL
  | BCON_TYPE_REGEX
  | BCON_TYPE_DBPOINTER
  | BCON_TYPE_CODE
  | BCON_TYPE_SYMBOL
  | BCON_TYPE_CODEWSCOPE
  | BCON_TYPE_INT32
  | BCON_TYPE_TIMESTAMP
  | BCON_TYPE_INT64
  | BCON_TYPE_MAXKEY
  | BCON_TYPE_MINKEY
  | BCON_TYPE_BCON
  | BCON_TYPE_ARRAY_START
  | BCON_TYPE_ARRAY_END
  | BCON_TYPE_DOC_START
  | BCON_TYPE_DOC_END
  | BCON_TYPE_END
  | BCON_TYPE_RAW
  | BCON_TYPE_SKIP
  | BCON_TYPE_ITER
  | BCON_TYPE_ERROR

text \<open>An argument in the variable part of a call, after the default promotions: a
  \<^verbatim>\<open>bool\<close> travels as an \<^verbatim>\<open>int\<close>.\<close>

datatype 'p vararg =
    A_pointer "'p option"
  | A_int i32
  | A_unsigned u32
  | A_long "64 word"
  | A_double f64
  | A_enum u32
  | A_tag bcon_type_t

text \<open>The magic values of the library, and the conversions between integers and doubles.\<close>

record 'p c_env =
  bson_bcon_magic :: 'p
  bson_bcone_magic :: 'p
  double_of_int :: "int \<Rightarrow> f64"
  int_of_double :: "f64 \<Rightarrow> int"

section \<open>The conversion functions\<close>

datatype ensure =
    En_Const_char_ptr
  | En_Const_char_ptr_ptr
  | En_Double
  | En_Double_ptr
  | En_Const_bson_ptr
  | En_Bson_ptr
  | En_Subtype
  | En_Subtype_ptr
  | En_Const_uint8_ptr
  | En_Const_uint8_ptr_ptr
  | En_Uint32
  | En_Uint32_ptr
  | En_Const_oid_ptr
  | En_Const_oid_ptr_ptr
  | En_Int32
  | En_Int32_ptr
  | En_Int64
  | En_Int64_ptr
  | En_Bool
  | En_Bool_ptr
  | En_Bson_type
  | En_Bson_iter_ptr
  | En_Const_bson_iter_ptr

fun bcon_ensure_declare :: "ensure \<Rightarrow> c_type" where
  "bcon_ensure_declare En_Const_char_ptr = Pointer_to_const C_char"
| "bcon_ensure_declare En_Const_char_ptr_ptr = Pointer_to (Pointer_to_const C_char)"
| "bcon_ensure_declare En_Double = C_double"
| "bcon_ensure_declare En_Double_ptr = Pointer_to C_double"
| "bcon_ensure_declare En_Const_bson_ptr = Pointer_to_const C_bson"
| "bcon_ensure_declare En_Bson_ptr = Pointer_to C_bson"
| "bcon_ensure_declare En_Subtype = C_subtype"
| "bcon_ensure_declare En_Subtype_ptr = Pointer_to C_subtype"
| "bcon_ensure_declare En_Const_uint8_ptr = Pointer_to_const C_uint8"
| "bcon_ensure_declare En_Const_uint8_ptr_ptr = Pointer_to (Pointer_to_const C_uint8)"
| "bcon_ensure_declare En_Uint32 = C_uint32"
| "bcon_ensure_declare En_Uint32_ptr = Pointer_to C_uint32"
| "bcon_ensure_declare En_Const_oid_ptr = Pointer_to_const C_oid"
| "bcon_ensure_declare En_Const_oid_ptr_ptr = Pointer_to (Pointer_to_const C_oid)"
| "bcon_ensure_declare En_Int32 = C_int32"
| "bcon_ensure_declare En_Int32_ptr = Pointer_to C_int32"
| "bcon_ensure_declare En_Int64 = C_int64"
| "bcon_ensure_declare En_Int64_ptr = Pointer_to C_int64"
| "bcon_ensure_declare En_Bool = C_bool"
| "bcon_ensure_declare En_Bool_ptr = Pointer_to C_bool"
| "bcon_ensure_declare En_Bson_type = C_bson_type"
| "bcon_ensure_declare En_Bson_iter_ptr = Pointer_to C_iter"
| "bcon_ensure_declare En_Const_bson_iter_ptr = Pointer_to_const C_iter"

text \<open>A pointer converts to one to the same type, with \<^verbatim>\<open>const\<close> added; one to
  \<^verbatim>\<open>void\<close> to any.\<close>

fun assignable :: "c_type \<Rightarrow> c_type \<Rightarrow> bool" where
  "assignable (Pointer_to t) (Pointer_to u) = (t = u \<or> t = C_void)"
| "assignable (Pointer_to t) (Pointer_to_const u) = (t = u \<or> t = C_void)"
| "assignable (Pointer_to_const t) (Pointer_to_const u) = (t = u \<or> t = C_void)"
| "assignable t u = False"

definition bool_arg :: "bool \<Rightarrow> 'p vararg" where
  "bool_arg b = A_int (if b then 1 else 0)"

fun pass_integer :: "'p c_env \<Rightarrow> c_type \<Rightarrow> int \<Rightarrow> 'p vararg option" where
  "pass_integer env C_double i = Some (A_double (double_of_int env i))"
| "pass_integer env C_bool i = Some (bool_arg (i \<noteq> 0))"
| "pass_integer env C_int32 i = Some (A_int (word_of_int i))"
| "pass_integer env C_uint32 i = Some (A_unsigned (word_of_int i))"
| "pass_integer env C_int64 i = Some (A_long (word_of_int i))"
| "pass_integer env C_subtype i = Some (A_enum (word_of_int i))"
| "pass_integer env C_bson_type i = Some (A_enum (word_of_int i))"
| "pass_integer env t i = None"

text \<open>A double is true unless it is one of the two zeros.\<close>

fun pass :: "'p c_env \<Rightarrow> c_type \<Rightarrow> 'p c_expr \<Rightarrow> 'p vararg option" where
  "pass env t (E_integer i) = pass_integer env t i"
| "pass env t (E_double d) =
     (if t = C_double then Some (A_double d)
      else if t = C_bool then Some (bool_arg (d \<noteq> 0 \<and> d \<noteq> 2 ^ 63))
      else pass_integer env t (int_of_double env d))"
| "pass env t (E_pointer u p) =
     (if assignable u t then Some (A_pointer p)
      else if t = C_bool then Some (bool_arg (p \<noteq> None))
      else None)"

definition BCON_ENSURE :: "'p c_env \<Rightarrow> ensure \<Rightarrow> 'p c_expr \<Rightarrow> 'p vararg option" where
  "BCON_ENSURE env f val = pass env (bcon_ensure_declare f) val"

definition BCON_ENSURE_STORAGE :: "'p c_env \<Rightarrow> ensure \<Rightarrow> 'p lvalue \<Rightarrow> 'p vararg option" where
  "BCON_ENSURE_STORAGE env f val =
     (case val of (t, address) \<Rightarrow> pass env (bcon_ensure_declare f) (E_pointer (Pointer_to t) (Some address)))"

definition magic_arg :: "'p c_env \<Rightarrow> 'p vararg" where
  "magic_arg env = A_pointer (Some (bson_bcon_magic env))"

definition magice_arg :: "'p c_env \<Rightarrow> 'p vararg" where
  "magice_arg env = A_pointer (Some (bson_bcone_magic env))"

section \<open>The value macros\<close>

definition BCON_UTF8 :: "'p c_env \<Rightarrow> 'p c_expr \<Rightarrow> 'p vararg list option" where
  "BCON_UTF8 env val = those [Some (magic_arg env), Some (A_tag BCON_TYPE_UTF8),
    BCON_ENSURE env En_Const_char_ptr val]"

definition BCON_DOUBLE :: "'p c_env \<Rightarrow> 'p c_expr \<Rightarrow> 'p vararg list option" where
  "BCON_DOUBLE env val = those [Some (magic_arg env), Some (A_tag BCON_TYPE_DOUBLE),
    BCON_ENSURE env En_Double val]"

definition BCON_DOCUMENT :: "'p c_env \<Rightarrow> 'p c_expr \<Rightarrow> 'p vararg list option" where
  "BCON_DOCUMENT env val = those [Some (magic_arg env), Some (A_tag BCON_TYPE_DOCUMENT),
    BCON_ENSURE env En_Const_bson_ptr val]"

definition BCON_ARRAY :: "'p c_env \<Rightarrow> 'p c_expr \<Rightarrow> 'p vararg list option" where
  "BCON_ARRAY env val = those [Some (magic_arg env), Some (A_tag BCON_TYPE_ARRAY),
    BCON_ENSURE env En_Const_bson_ptr val]"

definition BCON_BIN :: "'p c_env \<Rightarrow> 'p c_expr \<Rightarrow> 'p c_expr \<Rightarrow> 'p c_expr \<Rightarrow> 'p vararg list option" where
  "BCON_BIN env subtype binary len = those [Some (magic_arg env), Some (A_tag BCON_TYPE_BIN),
    BCON_ENSURE env En_Subtype subtype, BCON_ENSURE env En_Const_uint8_ptr binary,
    BCON_ENSURE env En_Uint32 len]"

definition BCON_UNDEFINED :: "'p c_env \<Rightarrow> 'p vararg list option" where
  "BCON_UNDEFINED env = those [Some (magic_arg env), Some (A_tag BCON_TYPE_UNDEFINED)]"

definition BCON_OID :: "'p c_env \<Rightarrow> 'p c_expr \<Rightarrow> 'p vararg list option" where
  "BCON_OID env val = those [Some (magic_arg env), Some (A_tag BCON_TYPE_OID),
    BCON_ENSURE env En_Const_oid_ptr val]"

definition BCON_BOOL :: "'p c_env \<Rightarrow> 'p c_expr \<Rightarrow> 'p vararg list option" where
  "BCON_BOOL env val = those [Some (magic_arg env), Some (A_tag BCON_TYPE_BOOL), BCON_ENSURE env En_Bool val]"

definition BCON_DATE_TIME :: "'p c_env \<Rightarrow> 'p c_expr \<Rightarrow> 'p vararg list option" where
  "BCON_DATE_TIME env val = those [Some (magic_arg env), Some (A_tag BCON_TYPE_DATE_TIME),
    BCON_ENSURE env En_Int64 val]"

definition BCON_NULL :: "'p c_env \<Rightarrow> 'p vararg list option" where
  "BCON_NULL env = those [Some (magic_arg env), Some (A_tag BCON_TYPE_NULL)]"

definition BCON_REGEX :: "'p c_env \<Rightarrow> 'p c_expr \<Rightarrow> 'p c_expr \<Rightarrow> 'p vararg list option" where
  "BCON_REGEX env regex flags = those [Some (magic_arg env), Some (A_tag BCON_TYPE_REGEX),
    BCON_ENSURE env En_Const_char_ptr regex, BCON_ENSURE env En_Const_char_ptr flags]"

definition BCON_DBPOINTER :: "'p c_env \<Rightarrow> 'p c_expr \<Rightarrow> 'p c_expr \<Rightarrow> 'p vararg list option" where
  "BCON_DBPOINTER env collection oid = those [Some (magic_arg env), Some (A_tag BCON_TYPE_DBPOINTER),
    BCON_ENSURE env En_Const_char_ptr collection, BCON_ENSURE env En_Const_oid_ptr oid]"

definition BCON_CODE :: "'p c_env \<Rightarrow> 'p c_expr \<Rightarrow> 'p vararg list option" where
  "BCON_CODE env val = those [Some (magic_arg env), Some (A_tag BCON_TYPE_CODE),
    BCON_ENSURE env En_Const_char_ptr val]"

definition BCON_SYMBOL :: "'p c_env \<Rightarrow> 'p c_expr \<Rightarrow> 'p vararg list option" where
  "BCON_SYMBOL env val = those [Some (magic_arg env), Some (A_tag BCON_TYPE_SYMBOL),
    BCON_ENSURE env En_Const_char_ptr val]"

definition BCON_CODEWSCOPE :: "'p c_env \<Rightarrow> 'p c_expr \<Rightarrow> 'p c_expr \<Rightarrow> 'p vararg list option" where
  "BCON_CODEWSCOPE env js scope = those [Some (magic_arg env), Some (A_tag BCON_TYPE_CODEWSCOPE),
    BCON_ENSURE env En_Const_char_ptr js, BCON_ENSURE env En_Const_bson_ptr scope]"

definition BCON_INT32 :: "'p c_env \<Rightarrow> 'p c_expr \<Rightarrow> 'p vararg list option" where
  "BCON_INT32 env val = those [Some (magic_arg env), Some (A_tag BCON_TYPE_INT32),
    BCON_ENSURE env En_Int32 val]"

definition BCON_TIMESTAMP :: "'p c_env \<Rightarrow> 'p c_expr \<Rightarrow> 'p c_expr \<Rightarrow> 'p vararg list option" where
  "BCON_TIMESTAMP env timestamp increment = those [Some (magic_arg env), Some (A_tag BCON_TYPE_TIMESTAMP),
    BCON_ENSURE env En_Int32 timestamp, BCON_ENSURE env En_Int32 increment]"

definition BCON_INT64 :: "'p c_env \<Rightarrow> 'p c_expr \<Rightarrow> 'p vararg list option" where
  "BCON_INT64 env val = those [Some (magic_arg env), Some (A_tag BCON_TYPE_INT64),
    BCON_ENSURE env En_Int64 val]"

definition BCON_MAXKEY :: "'p c_env \<Rightarrow> 'p vararg list option" where
  "BCON_MAXKEY env = those [Some (magic_arg env), Some (A_tag BCON_TYPE_MAXKEY)]"

definition BCON_MINKEY :: "'p c_env \<Rightarrow> 'p vararg list option" where
  "BCON_MINKEY env = those [Some (magic_arg env), Some (A_tag BCON_TYPE_MINKEY)]"

definition BCON :: "'p c_env \<Rightarrow> 'p c_expr \<Rightarrow> 'p vararg list option" where
  "BCON env val = those [Some (magic_arg env), Some (A_tag BCON_TYPE_BCON),
    BCON_ENSURE env En_Const_bson_ptr val]"

definition BCON_ITER :: "'p c_env \<Rightarrow> 'p c_expr \<Rightarrow> 'p vararg list option" where
  "BCON_ITER env val = those [Some (magic_arg env), Some (A_tag BCON_TYPE_ITER),
    BCON_ENSURE env En_Const_bson_iter_ptr val]"

definition BCONE_UTF8 :: "'p c_env \<Rightarrow> 'p lvalue \<Rightarrow> 'p vararg list option" where
  "BCONE_UTF8 env val = those [Some (magice_arg env), Some (A_tag BCON_TYPE_UTF8),
    BCON_ENSURE_STORAGE env En_Const_char_ptr_ptr val]"

definition BCONE_DOUBLE :: "'p c_env \<Rightarrow> 'p lvalue \<Rightarrow> 'p vararg list option" where
  "BCONE_DOUBLE env val = those [Some (magice_arg env), Some (A_tag BCON_TYPE_DOUBLE),
    BCON_ENSURE_STORAGE env En_Double_ptr val]"

definition BCONE_DOCUMENT :: "'p c_env \<Rightarrow> 'p lvalue \<Rightarrow> 'p vararg list option" where
  "BCONE_DOCUMENT env val = those [Some (magice_arg env), Some (A_tag BCON_TYPE_DOCUMENT),
    BCON_ENSURE_STORAGE env En_Bson_ptr val]"

definition BCONE_ARRAY :: "'p c_env \<Rightarrow> 'p lvalue \<Rightarrow> 'p vararg list option" where
  "BCONE_ARRAY env val = those [Some (magice_arg env), Some (A_tag BCON_TYPE_ARRAY),
    BCON_ENSURE_STORAGE env En_Bson_ptr val]"

definition BCONE_BIN :: "'p c_env \<Rightarrow> 'p lvalue \<Rightarrow> 'p lvalue \<Rightarrow> 'p lvalue \<Rightarrow> 'p vararg list option" where
  "BCONE_BIN env subtype binary len = those [Some (magice_arg env), Some (A_tag BCON_TYPE_BIN),
    BCON_ENSURE_STORAGE env En_Subtype_ptr subtype, BCON_ENSURE_STORAGE env En_Const_uint8_ptr_ptr binary,
    BCON_ENSURE_STORAGE env En_Uint32_ptr len]"

definition BCONE_UNDEFINED :: "'p c_env \<Rightarrow> 'p vararg list option" where
  "BCONE_UNDEFINED env = those [Some (magice_arg env), Some (A_tag BCON_TYPE_UNDEFINED)]"

definition BCONE_OID :: "'p c_env \<Rightarrow> 'p lvalue \<Rightarrow> 'p vararg list option" where
  "BCONE_OID env val = those [Some (magice_arg env), Some (A_tag BCON_TYPE_OID),
    BCON_ENSURE_STORAGE env En_Const_oid_ptr_ptr val]"

definition BCONE_BOOL :: "'p c_env \<Rightarrow> 'p lvalue \<Rightarrow> 'p vararg list option" where
  "BCONE_BOOL env val = those [Some (magice_arg env), Some (A_tag BCON_TYPE_BOOL),
    BCON_ENSURE_STORAGE env En_Bool_ptr val]"

definition BCONE_DATE_TIME :: "'p c_env \<Rightarrow> 'p lvalue \<Rightarrow> 'p vararg list option" where
  "BCONE_DATE_TIME env val = those [Some (magice_arg env), Some (A_tag BCON_TYPE_DATE_TIME),
    BCON_ENSURE_STORAGE env En_Int64_ptr val]"

definition BCONE_NULL :: "'p c_env \<Rightarrow> 'p vararg list option" where
  "BCONE_NULL env = those [Some (magice_arg env), Some (A_tag BCON_TYPE_NULL)]"

definition BCONE_REGEX :: "'p c_env \<Rightarrow> 'p lvalue \<Rightarrow> 'p lvalue \<Rightarrow> 'p vararg list option" where
  "BCONE_REGEX env regex flags = those [Some (magice_arg env), Some (A_tag BCON_TYPE_REGEX),
    BCON_ENSURE_STORAGE env En_Const_char_ptr_ptr regex, BCON_ENSURE_STORAGE env En_Const_char_ptr_ptr flags]"

definition BCONE_DBPOINTER :: "'p c_env \<Rightarrow> 'p lvalue \<Rightarrow> 'p lvalue \<Rightarrow> 'p vararg list option" where
  "BCONE_DBPOINTER env collection oid = those [Some (magice_arg env), Some (A_tag BCON_TYPE_DBPOINTER),
    BCON_ENSURE_STORAGE env En_Const_char_ptr_ptr collection,
    BCON_ENSURE_STORAGE env En_Const_oid_ptr_ptr oid]"

definition BCONE_CODE :: "'p c_env \<Rightarrow> 'p lvalue \<Rightarrow> 'p vararg list option" where
  "BCONE_CODE env val = those [Some (magice_arg env), Some (A_tag BCON_TYPE_CODE),
    BCON_ENSURE_STORAGE env En_Const_char_ptr_ptr val]"

definition BCONE_SYMBOL :: "'p c_env \<Rightarrow> 'p lvalue \<Rightarrow> 'p vararg list option" where
  "BCONE_SYMBOL env val = those [Some (magice_arg env), Some (A_tag BCON_TYPE_SYMBOL),
    BCON_ENSURE_STORAGE env En_Const_char_ptr_ptr val]"

definition BCONE_CODEWSCOPE :: "'p c_env \<Rightarrow> 'p lvalue \<Rightarrow> 'p lvalue \<Rightarrow> 'p vararg list option" where
  "BCONE_CODEWSCOPE env js scope = those [Some (magice_arg env), Some (A_tag BCON_TYPE_CODEWSCOPE),
    BCON_ENSURE_STORAGE env En_Const_char_ptr_ptr js, BCON_ENSURE_STORAGE env En_Bson_ptr scope]"

definition BCONE_INT32 :: "'p c_env \<Rightarrow> 'p lvalue \<Rightarrow> 'p vararg list option" where
  "BCONE_INT32 env val = those [Some (magice_arg env), Some (A_tag BCON_TYPE_INT32),
    BCON_ENSURE_STORAGE env En_Int32_ptr val]"

definition BCONE_TIMESTAMP :: "'p c_env \<Rightarrow> 'p lvalue \<Rightarrow> 'p lvalue \<Rightarrow> 'p vararg list option" where
  "BCONE_TIMESTAMP env timestamp increment = those [Some (magice_arg env),
    Some (A_tag BCON_TYPE_TIMESTAMP), BCON_ENSURE_STORAGE env En_Int32_ptr timestamp,
    BCON_ENSURE_STORAGE env En_Int32_ptr increment]"

definition BCONE_INT64 :: "'p c_env \<Rightarrow> 'p lvalue \<Rightarrow> 'p vararg list option" where
  "BCONE_INT64 env val = those [Some (magice_arg env), Some (A_tag BCON_TYPE_INT64),
    BCON_ENSURE_STORAGE env En_Int64_ptr val]"

definition BCONE_MAXKEY :: "'p c_env \<Rightarrow> 'p vararg list option" where
  "BCONE_MAXKEY env = those [Some (magice_arg env), Some (A_tag BCON_TYPE_MAXKEY)]"

definition BCONE_MINKEY :: "'p c_env \<Rightarrow> 'p vararg list option" where
  "BCONE_MINKEY env = those [Some (magice_arg env), Some (A_tag BCON_TYPE_MINKEY)]"

definition BCONE_SKIP :: "'p c_env \<Rightarrow> 'p c_expr \<Rightarrow> 'p vararg list option" where
  "BCONE_SKIP env val = those [Some (magice_arg env), Some (A_tag BCON_TYPE_SKIP),
    BCON_ENSURE env En_Bson_type val]"

definition BCONE_ITER :: "'p c_env \<Rightarrow> 'p lvalue \<Rightarrow> 'p vararg list option" where
  "BCONE_ITER env val = those [Some (magice_arg env), Some (A_tag BCON_TYPE_ITER),
    BCON_ENSURE_STORAGE env En_Bson_iter_ptr val]"

section \<open>The calls\<close>

text \<open>A call of a variadic function: its name, its named arguments, the others.\<close>

record 'p variadic_call =
  callee :: string
  named :: "'p option list"
  others :: "'p vararg list"

definition sentinel :: "'p vararg" where
  "sentinel = A_pointer None"

definition BCON_APPEND :: "'p option \<Rightarrow> 'p vararg list \<Rightarrow> 'p variadic_call" where
  "BCON_APPEND bson args = \<lparr>callee = ''bcon_append'', named = [bson], others = args @ [sentinel]\<rparr>"

definition BCON_APPEND_CTX :: "'p option \<Rightarrow> 'p option \<Rightarrow> 'p vararg list \<Rightarrow> 'p variadic_call" where
  "BCON_APPEND_CTX bson ctx args =
     \<lparr>callee = ''bcon_append_ctx'', named = [bson, ctx], others = args @ [sentinel]\<rparr>"

definition BCON_EXTRACT :: "'p option \<Rightarrow> 'p vararg list \<Rightarrow> 'p variadic_call" where
  "BCON_EXTRACT bson args = \<lparr>callee = ''bcon_extract'', named = [bson], others = args @ [sentinel]\<rparr>"

text \<open>The macro names \<^verbatim>\<open>bcon_extract\<close>, which has one named parameter, so that the context
  is the first of the others.\<close>

definition BCON_EXTRACT_CTX :: "'p option \<Rightarrow> 'p option \<Rightarrow> 'p vararg list \<Rightarrow> 'p variadic_call" where
  "BCON_EXTRACT_CTX bson ctx args =
     \<lparr>callee = ''bcon_extract'', named = [bson], others = A_pointer ctx # args @ [sentinel]\<rparr>"

definition BCON_NEW :: "'p vararg list \<Rightarrow> 'p variadic_call" where
  "BCON_NEW args = \<lparr>callee = ''bcon_new'', named = [None], others = args @ [sentinel]\<rparr>"

section \<open>Reading a list of arguments\<close>

text \<open>An item is a string, such as a key or a brace, or a tag with its operands.\<close>

datatype 'p item = Plain_string 'p | Typed bool bcon_type_t "'p vararg list"

fun operands :: "bcon_type_t \<Rightarrow> nat" where
  "operands BCON_TYPE_BIN = 3"
| "operands BCON_TYPE_REGEX = 2"
| "operands BCON_TYPE_DBPOINTER = 2"
| "operands BCON_TYPE_CODEWSCOPE = 2"
| "operands BCON_TYPE_TIMESTAMP = 2"
| "operands BCON_TYPE_UNDEFINED = 0"
| "operands BCON_TYPE_NULL = 0"
| "operands BCON_TYPE_MAXKEY = 0"
| "operands BCON_TYPE_MINKEY = 0"
| "operands t = 1"

function read_args :: "'p c_env \<Rightarrow> 'p vararg list \<Rightarrow> 'p item list option" where
  "read_args env args =
     (case args of
        A_pointer None # rest \<Rightarrow> Some []
      | A_pointer (Some p) # rest \<Rightarrow>
          if p = bson_bcon_magic env \<or> p = bson_bcone_magic env
          then case rest of
                 A_tag t # ops \<Rightarrow>
                   if length ops < operands t then None
                   else map_option (Cons (Typed (p = bson_bcone_magic env) t (take (operands t) ops)))
                          (read_args env (drop (operands t) ops))
               | _ \<Rightarrow> None
          else map_option (Cons (Plain_string p)) (read_args env rest)
      | _ \<Rightarrow> None)"
  by pat_completeness auto
termination
  by (relation "measure (\<lambda>(env, args). length args)") auto

declare read_args.simps [simp del]

fun print_item :: "'p c_env \<Rightarrow> 'p item \<Rightarrow> 'p vararg list" where
  "print_item env (Plain_string p) = [A_pointer (Some p)]"
| "print_item env (Typed ext t ops) =
     (if ext then magice_arg env else magic_arg env) # A_tag t # ops"

fun item_ok :: "'p c_env \<Rightarrow> 'p item \<Rightarrow> bool" where
  "item_ok env (Plain_string p) = (p \<noteq> bson_bcon_magic env \<and> p \<noteq> bson_bcone_magic env)"
| "item_ok env (Typed ext t ops) = (length ops = operands t)"

lemma read_print_item:
  assumes "item_ok env x" and "bson_bcon_magic env \<noteq> bson_bcone_magic env"
  shows "read_args env (print_item env x @ rest) = map_option (Cons x) (read_args env rest)"
proof (cases x)
  case (Plain_string p)
  with assms show ?thesis by (subst read_args.simps) auto
next
  case (Typed ext t ops)
  with assms show ?thesis
    by (subst read_args.simps) (auto simp: magic_arg_def magice_arg_def)
qed

lemma read_print_items:
  assumes "list_all (item_ok env) xs" and "bson_bcon_magic env \<noteq> bson_bcone_magic env"
  shows "read_args env (concat (map (print_item env) xs) @ [sentinel]) = Some xs"
  using assms(1)
proof (induction xs)
  case Nil
  then show ?case by (subst read_args.simps) (simp add: sentinel_def)
next
  case (Cons x xs)
  then show ?case using read_print_item [OF _ assms(2), of x] by simp
qed

section \<open>What the macros print\<close>

text \<open>The arguments a user of the header writes: strings other than the magic values, and the macros
  on operands that compile.\<close>

inductive bcon_args :: "'p c_env \<Rightarrow> 'p vararg list \<Rightarrow> bool" for env :: "'p c_env" where
  string_arg: "p \<noteq> bson_bcon_magic env \<Longrightarrow> p \<noteq> bson_bcone_magic env \<Longrightarrow> bcon_args env [A_pointer (Some p)]"
| bcon_utf8_args: "BCON_UTF8 env val = Some xs \<Longrightarrow> bcon_args env xs"
| bcon_double_args: "BCON_DOUBLE env val = Some xs \<Longrightarrow> bcon_args env xs"
| bcon_document_args: "BCON_DOCUMENT env val = Some xs \<Longrightarrow> bcon_args env xs"
| bcon_array_args: "BCON_ARRAY env val = Some xs \<Longrightarrow> bcon_args env xs"
| bcon_bin_args: "BCON_BIN env subtype binary len = Some xs \<Longrightarrow> bcon_args env xs"
| bcon_undefined_args: "BCON_UNDEFINED env = Some xs \<Longrightarrow> bcon_args env xs"
| bcon_oid_args: "BCON_OID env val = Some xs \<Longrightarrow> bcon_args env xs"
| bcon_bool_args: "BCON_BOOL env val = Some xs \<Longrightarrow> bcon_args env xs"
| bcon_date_time_args: "BCON_DATE_TIME env val = Some xs \<Longrightarrow> bcon_args env xs"
| bcon_null_args: "BCON_NULL env = Some xs \<Longrightarrow> bcon_args env xs"
| bcon_regex_args: "BCON_REGEX env regex flags = Some xs \<Longrightarrow> bcon_args env xs"
| bcon_dbpointer_args: "BCON_DBPOINTER env collection oid = Some xs \<Longrightarrow> bcon_args env xs"
| bcon_code_args: "BCON_CODE env val = Some xs \<Longrightarrow> bcon_args env xs"
| bcon_symbol_args: "BCON_SYMBOL env val = Some xs \<Longrightarrow> bcon_args env xs"
| bcon_codewscope_args: "BCON_CODEWSCOPE env js scope = Some xs \<Longrightarrow> bcon_args env xs"
| bcon_int32_args: "BCON_INT32 env val = Some xs \<Longrightarrow> bcon_args env xs"
| bcon_timestamp_args: "BCON_TIMESTAMP env timestamp increment = Some xs \<Longrightarrow> bcon_args env xs"
| bcon_int64_args: "BCON_INT64 env val = Some xs \<Longrightarrow> bcon_args env xs"
| bcon_maxkey_args: "BCON_MAXKEY env = Some xs \<Longrightarrow> bcon_args env xs"
| bcon_minkey_args: "BCON_MINKEY env = Some xs \<Longrightarrow> bcon_args env xs"
| bcon_args: "BCON env val = Some xs \<Longrightarrow> bcon_args env xs"
| bcon_iter_args: "BCON_ITER env val = Some xs \<Longrightarrow> bcon_args env xs"
| bcone_utf8_args: "BCONE_UTF8 env val = Some xs \<Longrightarrow> bcon_args env xs"
| bcone_double_args: "BCONE_DOUBLE env val = Some xs \<Longrightarrow> bcon_args env xs"
| bcone_document_args: "BCONE_DOCUMENT env val = Some xs \<Longrightarrow> bcon_args env xs"
| bcone_array_args: "BCONE_ARRAY env val = Some xs \<Longrightarrow> bcon_args env xs"
| bcone_bin_args: "BCONE_BIN env subtype binary len = Some xs \<Longrightarrow> bcon_args env xs"
| bcone_undefined_args: "BCONE_UNDEFINED env = Some xs \<Longrightarrow> bcon_args env xs"
| bcone_oid_args: "BCONE_OID env val = Some xs \<Longrightarrow> bcon_args env xs"
| bcone_bool_args: "BCONE_BOOL env val = Some xs \<Longrightarrow> bcon_args env xs"
| bcone_date_time_args: "BCONE_DATE_TIME env val = Some xs \<Longrightarrow> bcon_args env xs"
| bcone_null_args: "BCONE_NULL env = Some xs \<Longrightarrow> bcon_args env xs"
| bcone_regex_args: "BCONE_REGEX env regex flags = Some xs \<Longrightarrow> bcon_args env xs"
| bcone_dbpointer_args: "BCONE_DBPOINTER env collection oid = Some xs \<Longrightarrow> bcon_args env xs"
| bcone_code_args: "BCONE_CODE env val = Some xs \<Longrightarrow> bcon_args env xs"
| bcone_symbol_args: "BCONE_SYMBOL env val = Some xs \<Longrightarrow> bcon_args env xs"
| bcone_codewscope_args: "BCONE_CODEWSCOPE env js scope = Some xs \<Longrightarrow> bcon_args env xs"
| bcone_int32_args: "BCONE_INT32 env val = Some xs \<Longrightarrow> bcon_args env xs"
| bcone_timestamp_args: "BCONE_TIMESTAMP env timestamp increment = Some xs \<Longrightarrow> bcon_args env xs"
| bcone_int64_args: "BCONE_INT64 env val = Some xs \<Longrightarrow> bcon_args env xs"
| bcone_maxkey_args: "BCONE_MAXKEY env = Some xs \<Longrightarrow> bcon_args env xs"
| bcone_minkey_args: "BCONE_MINKEY env = Some xs \<Longrightarrow> bcon_args env xs"
| bcone_skip_args: "BCONE_SKIP env val = Some xs \<Longrightarrow> bcon_args env xs"
| bcone_iter_args: "BCONE_ITER env val = Some xs \<Longrightarrow> bcon_args env xs"

lemma those_Cons: "those (x # xs) = Some ys \<longleftrightarrow> (\<exists>y zs. x = Some y \<and> those xs = Some zs \<and> ys = y # zs)"
  by (cases x; cases "those xs") auto

lemma those_Nil: "those [] = Some ys \<longleftrightarrow> ys = []"
  by auto

lemmas bcon_macro_defs = BCON_UTF8_def BCON_DOUBLE_def BCON_DOCUMENT_def BCON_ARRAY_def
    BCON_BIN_def BCON_UNDEFINED_def BCON_OID_def BCON_BOOL_def
    BCON_DATE_TIME_def BCON_NULL_def BCON_REGEX_def BCON_DBPOINTER_def
    BCON_CODE_def BCON_SYMBOL_def BCON_CODEWSCOPE_def BCON_INT32_def
    BCON_TIMESTAMP_def BCON_INT64_def BCON_MAXKEY_def BCON_MINKEY_def
    BCON_def BCON_ITER_def BCONE_UTF8_def BCONE_DOUBLE_def
    BCONE_DOCUMENT_def BCONE_ARRAY_def BCONE_BIN_def BCONE_UNDEFINED_def
    BCONE_OID_def BCONE_BOOL_def BCONE_DATE_TIME_def BCONE_NULL_def
    BCONE_REGEX_def BCONE_DBPOINTER_def BCONE_CODE_def BCONE_SYMBOL_def
    BCONE_CODEWSCOPE_def BCONE_INT32_def BCONE_TIMESTAMP_def BCONE_INT64_def
    BCONE_MAXKEY_def BCONE_MINKEY_def BCONE_SKIP_def BCONE_ITER_def

definition prints_item :: "'p c_env \<Rightarrow> 'p vararg list \<Rightarrow> bool" where
  "prints_item env xs \<longleftrightarrow> (\<exists>x. item_ok env x \<and> print_item env x = xs)"

lemma prints_string: "p \<noteq> bson_bcon_magic env \<Longrightarrow> p \<noteq> bson_bcone_magic env \<Longrightarrow> prints_item env [A_pointer (Some p)]"
  unfolding prints_item_def by (intro exI [of _ "Plain_string p"]) simp

lemma prints_typed:
  "length ops = operands t \<Longrightarrow> prints_item env (magic_arg env # A_tag t # ops)"
  "length ops = operands t \<Longrightarrow> prints_item env (magice_arg env # A_tag t # ops)"
  unfolding prints_item_def
  by (rule exI [of _ "Typed False t ops"], simp) (rule exI [of _ "Typed True t ops"], simp)

lemma bcon_args_item:
  assumes "bcon_args env xs"
  shows "prints_item env xs"
  using assms
proof cases
  case (string_arg p)
  then show ?thesis by (simp add: prints_string)
qed (auto simp: bcon_macro_defs those_Cons those_Nil prints_typed simp del: those.simps)

lemma bcon_args_items:
  "list_all (bcon_args env) xss \<Longrightarrow>
   \<exists>items. list_all (item_ok env) items \<and> map (print_item env) items = xss"
proof (induction xss)
  case Nil
  then show ?case by (intro exI [of _ "[]"]) simp
next
  case (Cons xs xss)
  then obtain x items where "item_ok env x" "print_item env x = xs"
      "list_all (item_ok env) items" "map (print_item env) items = xss"
    using bcon_args_item by (fastforce simp: prints_item_def)
  then show ?case by (intro exI [of _ "x # items"]) simp
qed

section \<open>Properties\<close>


definition numbered_env :: "nat c_env" where
  "numbered_env = \<lparr>bson_bcon_magic = 1, bson_bcone_magic = 2, double_of_int = (\<lambda>i. 0), int_of_double = (\<lambda>d. 0)\<rparr>"


text \<open>
  What happens to operands. An integer keeps its value through \<^verbatim>\<open>BCON_INT32\<close> and
  \<^verbatim>\<open>BCON_INT64\<close> exactly if it is in the range of the type, and is silently reduced
  otherwise; \<^verbatim>\<open>BCON_BOOL\<close> passes 0 or 1; both operands of
  \<^verbatim>\<open>BCON_TIMESTAMP\<close>, although converted to signed integers, give every unsigned 32-bit
  value back when read as unsigned. A pointer operand compiles exactly if its type converts to the
  declared one.
\<close>

theorem bcon_operands_keep_values:
  "BCON_INT32 env (E_integer i) = Some [magic_arg env, A_tag BCON_TYPE_INT32, A_int (word_of_int i)] \<and>
   (sint (word_of_int i :: i32) = i \<longleftrightarrow> - (2 ^ 31) \<le> i \<and> i < 2 ^ 31) \<and>
   BCON_INT64 env (E_integer j) = Some [magic_arg env, A_tag BCON_TYPE_INT64, A_long (word_of_int j)] \<and>
   (sint (word_of_int j :: 64 word) = j \<longleftrightarrow> - (2 ^ 63) \<le> j \<and> j < 2 ^ 63) \<and>
   BCON_BOOL env (E_integer i) = Some [magic_arg env, A_tag BCON_TYPE_BOOL, A_int (if i = 0 then 0 else 1)] \<and>
   BCON_TIMESTAMP env (E_integer i) (E_integer j) =
     Some [magic_arg env, A_tag BCON_TYPE_TIMESTAMP, A_int (word_of_int i), A_int (word_of_int j)] \<and>
   (uint (word_of_int i :: i32) = i \<longleftrightarrow> 0 \<le> i \<and> i < 2 ^ 32) \<and>
   (BCON_DOCUMENT env (E_pointer t p) \<noteq> None \<longleftrightarrow> assignable t (Pointer_to_const C_bson)) \<and>
   (BCONE_UTF8 env (t, a) \<noteq> None \<longleftrightarrow> t = Pointer_to_const C_char \<or> t = C_void)"
proof (intro conjI)
  show "sint (word_of_int i :: i32) = i \<longleftrightarrow> - (2 ^ 31) \<le> i \<and> i < 2 ^ 31"
    using sint_range_size [of "word_of_int i :: i32"]
    by (auto simp: word_size signed_of_int signed_take_bit_int_eq_self_iff)
  show "sint (word_of_int j :: 64 word) = j \<longleftrightarrow> - (2 ^ 63) \<le> j \<and> j < 2 ^ 63"
    using sint_range_size [of "word_of_int j :: 64 word"]
    by (auto simp: word_size signed_of_int signed_take_bit_int_eq_self_iff)
  show "uint (word_of_int i :: i32) = i \<longleftrightarrow> 0 \<le> i \<and> i < 2 ^ 32"
    by (simp add: uint_word_of_int_eq take_bit_int_eq_self_iff)
qed (simp_all add: BCON_INT32_def BCON_INT64_def BCON_BOOL_def BCON_TIMESTAMP_def BCON_DOCUMENT_def
    BCONE_UTF8_def BCON_ENSURE_def BCON_ENSURE_STORAGE_def bool_arg_def)

end
