(* ===== verification/Bson_Append.thy ===== *)
theory Bson_Append
  imports Prelude Bson_Types
begin

text \<open>
  The macros of libbson-1.0/bson.h: the shorthands for the functions that append an element, which
  measure the key and, for strings, the value; the tests for an empty document; the release of a
  document. The functions are compiled in the library: a call of one is a value of
  \<open>bson_append_call\<close>, a constructor per prototype with the parameters after \<^verbatim>\<open>bson\<close>.

  A C string is the list of its bytes up to the NUL. \<open>c_strlen\<close> is \<^verbatim>\<open>strlen\<close>, a 64-bit
  size; the macros cast it to \<^verbatim>\<open>int\<close>. What a length means to the functions is in their
  comments: the number of bytes, or -1 for a NUL-terminated string. The lemmas say for which strings
  the cast length denotes the string.
\<close>

section \<open>The functions\<close>

text \<open>Documents, sub-documents and times of day are handed over by pointer: \<open>'b\<close> and \<open>'t\<close>.\<close>

datatype ('b, 't) bson_append_call =
    Bson_append_value (call_key: string) (key_length: i32) bson_value_t
  | Bson_append_array (call_key: string) (key_length: i32) 'b
  | Bson_append_binary (call_key: string) (key_length: i32) bson_subtype_t "byte list" u32
  | Bson_append_bool (call_key: string) (key_length: i32) bool
  | Bson_append_code (call_key: string) (key_length: i32) string
  | Bson_append_code_with_scope (call_key: string) (key_length: i32) string 'b
  | Bson_append_dbpointer (call_key: string) (key_length: i32) string bson_oid_t
  | Bson_append_double (call_key: string) (key_length: i32) f64
  | Bson_append_document (call_key: string) (key_length: i32) 'b
  | Bson_append_document_begin (call_key: string) (key_length: i32) 'b
  | Bson_append_array_begin (call_key: string) (key_length: i32) 'b
  | Bson_append_int32 (call_key: string) (key_length: i32) i32
  | Bson_append_int64 (call_key: string) (key_length: i32) "64 word"
  | Bson_append_minkey (call_key: string) (key_length: i32)
  | Bson_append_maxkey (call_key: string) (key_length: i32)
  | Bson_append_null (call_key: string) (key_length: i32)
  | Bson_append_oid (call_key: string) (key_length: i32) bson_oid_t
  | Bson_append_regex (call_key: string) (key_length: i32) string string
  | Bson_append_utf8 (call_key: string) (key_length: i32) string i32
  | Bson_append_symbol (call_key: string) (key_length: i32) string i32
  | Bson_append_time_t (call_key: string) (key_length: i32) "64 word"
  | Bson_append_timeval (call_key: string) (key_length: i32) 't
  | Bson_append_date_time (call_key: string) (key_length: i32) "64 word"
  | Bson_append_timestamp (call_key: string) (key_length: i32) u32 u32
  | Bson_append_undefined (call_key: string) (key_length: i32)

definition c_strlen :: "string \<Rightarrow> u64" where
  "c_strlen s = word_of_nat (length s)"

text \<open>\<^verbatim>\<open>(int)strlen (s)\<close>\<close>

definition int_strlen :: "string \<Rightarrow> i32" where
  "int_strlen s = ucast (c_strlen s)"

section \<open>The append macros\<close>

definition BSON_APPEND_ARRAY :: "string \<Rightarrow> 'b \<Rightarrow> ('b, 't) bson_append_call" where
  "BSON_APPEND_ARRAY key val = Bson_append_array key (int_strlen key) val"

definition BSON_APPEND_ARRAY_BEGIN :: "string \<Rightarrow> 'b \<Rightarrow> ('b, 't) bson_append_call" where
  "BSON_APPEND_ARRAY_BEGIN key child = Bson_append_array_begin key (int_strlen key) child"

definition BSON_APPEND_BINARY ::
    "string \<Rightarrow> bson_subtype_t \<Rightarrow> byte list \<Rightarrow> u32 \<Rightarrow> ('b, 't) bson_append_call" where
  "BSON_APPEND_BINARY key subtyp val len = Bson_append_binary key (int_strlen key) subtyp val len"

definition BSON_APPEND_BOOL :: "string \<Rightarrow> bool \<Rightarrow> ('b, 't) bson_append_call" where
  "BSON_APPEND_BOOL key val = Bson_append_bool key (int_strlen key) val"

definition BSON_APPEND_CODE :: "string \<Rightarrow> string \<Rightarrow> ('b, 't) bson_append_call" where
  "BSON_APPEND_CODE key val = Bson_append_code key (int_strlen key) val"

definition BSON_APPEND_CODE_WITH_SCOPE :: "string \<Rightarrow> string \<Rightarrow> 'b \<Rightarrow> ('b, 't) bson_append_call" where
  "BSON_APPEND_CODE_WITH_SCOPE key val scope = Bson_append_code_with_scope key (int_strlen key) val scope"

definition BSON_APPEND_DBPOINTER :: "string \<Rightarrow> string \<Rightarrow> bson_oid_t \<Rightarrow> ('b, 't) bson_append_call" where
  "BSON_APPEND_DBPOINTER key coll oid = Bson_append_dbpointer key (int_strlen key) coll oid"

definition BSON_APPEND_DOCUMENT_BEGIN :: "string \<Rightarrow> 'b \<Rightarrow> ('b, 't) bson_append_call" where
  "BSON_APPEND_DOCUMENT_BEGIN key child = Bson_append_document_begin key (int_strlen key) child"

definition BSON_APPEND_DOUBLE :: "string \<Rightarrow> f64 \<Rightarrow> ('b, 't) bson_append_call" where
  "BSON_APPEND_DOUBLE key val = Bson_append_double key (int_strlen key) val"

definition BSON_APPEND_DOCUMENT :: "string \<Rightarrow> 'b \<Rightarrow> ('b, 't) bson_append_call" where
  "BSON_APPEND_DOCUMENT key val = Bson_append_document key (int_strlen key) val"

definition BSON_APPEND_INT32 :: "string \<Rightarrow> i32 \<Rightarrow> ('b, 't) bson_append_call" where
  "BSON_APPEND_INT32 key val = Bson_append_int32 key (int_strlen key) val"

definition BSON_APPEND_INT64 :: "string \<Rightarrow> 64 word \<Rightarrow> ('b, 't) bson_append_call" where
  "BSON_APPEND_INT64 key val = Bson_append_int64 key (int_strlen key) val"

definition BSON_APPEND_MINKEY :: "string \<Rightarrow> ('b, 't) bson_append_call" where
  "BSON_APPEND_MINKEY key = Bson_append_minkey key (int_strlen key)"

definition BSON_APPEND_MAXKEY :: "string \<Rightarrow> ('b, 't) bson_append_call" where
  "BSON_APPEND_MAXKEY key = Bson_append_maxkey key (int_strlen key)"

definition BSON_APPEND_NULL :: "string \<Rightarrow> ('b, 't) bson_append_call" where
  "BSON_APPEND_NULL key = Bson_append_null key (int_strlen key)"

definition BSON_APPEND_OID :: "string \<Rightarrow> bson_oid_t \<Rightarrow> ('b, 't) bson_append_call" where
  "BSON_APPEND_OID key val = Bson_append_oid key (int_strlen key) val"

definition BSON_APPEND_REGEX :: "string \<Rightarrow> string \<Rightarrow> string \<Rightarrow> ('b, 't) bson_append_call" where
  "BSON_APPEND_REGEX key val opt = Bson_append_regex key (int_strlen key) val opt"

definition BSON_APPEND_UTF8 :: "string \<Rightarrow> string \<Rightarrow> ('b, 't) bson_append_call" where
  "BSON_APPEND_UTF8 key val = Bson_append_utf8 key (int_strlen key) val (int_strlen val)"

definition BSON_APPEND_SYMBOL :: "string \<Rightarrow> string \<Rightarrow> ('b, 't) bson_append_call" where
  "BSON_APPEND_SYMBOL key val = Bson_append_symbol key (int_strlen key) val (int_strlen val)"

definition BSON_APPEND_TIME_T :: "string \<Rightarrow> 64 word \<Rightarrow> ('b, 't) bson_append_call" where
  "BSON_APPEND_TIME_T key val = Bson_append_time_t key (int_strlen key) val"

definition BSON_APPEND_TIMEVAL :: "string \<Rightarrow> 't \<Rightarrow> ('b, 't) bson_append_call" where
  "BSON_APPEND_TIMEVAL key val = Bson_append_timeval key (int_strlen key) val"

definition BSON_APPEND_DATE_TIME :: "string \<Rightarrow> 64 word \<Rightarrow> ('b, 't) bson_append_call" where
  "BSON_APPEND_DATE_TIME key val = Bson_append_date_time key (int_strlen key) val"

definition BSON_APPEND_TIMESTAMP :: "string \<Rightarrow> u32 \<Rightarrow> u32 \<Rightarrow> ('b, 't) bson_append_call" where
  "BSON_APPEND_TIMESTAMP key val inc = Bson_append_timestamp key (int_strlen key) val inc"

definition BSON_APPEND_UNDEFINED :: "string \<Rightarrow> ('b, 't) bson_append_call" where
  "BSON_APPEND_UNDEFINED key = Bson_append_undefined key (int_strlen key)"

definition BSON_APPEND_VALUE :: "string \<Rightarrow> bson_value_t \<Rightarrow> ('b, 't) bson_append_call" where
  "BSON_APPEND_VALUE key val = Bson_append_value key (int_strlen key) val"

lemmas append_macro_defs = BSON_APPEND_ARRAY_def BSON_APPEND_ARRAY_BEGIN_def BSON_APPEND_BINARY_def
    BSON_APPEND_BOOL_def BSON_APPEND_CODE_def BSON_APPEND_CODE_WITH_SCOPE_def BSON_APPEND_DBPOINTER_def
    BSON_APPEND_DOCUMENT_BEGIN_def BSON_APPEND_DOUBLE_def BSON_APPEND_DOCUMENT_def BSON_APPEND_INT32_def
    BSON_APPEND_INT64_def BSON_APPEND_MINKEY_def BSON_APPEND_MAXKEY_def BSON_APPEND_NULL_def
    BSON_APPEND_OID_def BSON_APPEND_REGEX_def BSON_APPEND_UTF8_def BSON_APPEND_SYMBOL_def
    BSON_APPEND_TIME_T_def BSON_APPEND_TIMEVAL_def BSON_APPEND_DATE_TIME_def BSON_APPEND_TIMESTAMP_def
    BSON_APPEND_UNDEFINED_def BSON_APPEND_VALUE_def

text \<open>The calls that the macros make.\<close>

inductive append_macro :: "string \<Rightarrow> ('b, 't) bson_append_call \<Rightarrow> bool" for key :: string where
  "append_macro key (BSON_APPEND_ARRAY key doc)"
| "append_macro key (BSON_APPEND_ARRAY_BEGIN key doc)"
| "append_macro key (BSON_APPEND_BINARY key sub bytes len)"
| "append_macro key (BSON_APPEND_BOOL key b)"
| "append_macro key (BSON_APPEND_CODE key s)"
| "append_macro key (BSON_APPEND_CODE_WITH_SCOPE key s doc)"
| "append_macro key (BSON_APPEND_DBPOINTER key s oid)"
| "append_macro key (BSON_APPEND_DOCUMENT_BEGIN key doc)"
| "append_macro key (BSON_APPEND_DOUBLE key d)"
| "append_macro key (BSON_APPEND_DOCUMENT key doc)"
| "append_macro key (BSON_APPEND_INT32 key i)"
| "append_macro key (BSON_APPEND_INT64 key j)"
| "append_macro key (BSON_APPEND_MINKEY key)"
| "append_macro key (BSON_APPEND_MAXKEY key)"
| "append_macro key (BSON_APPEND_NULL key)"
| "append_macro key (BSON_APPEND_OID key oid)"
| "append_macro key (BSON_APPEND_REGEX key s opt)"
| "append_macro key (BSON_APPEND_UTF8 key s)"
| "append_macro key (BSON_APPEND_SYMBOL key s)"
| "append_macro key (BSON_APPEND_TIME_T key j)"
| "append_macro key (BSON_APPEND_TIMEVAL key tv)"
| "append_macro key (BSON_APPEND_DATE_TIME key j)"
| "append_macro key (BSON_APPEND_TIMESTAMP key sec inc)"
| "append_macro key (BSON_APPEND_UNDEFINED key)"
| "append_macro key (BSON_APPEND_VALUE key v)"

lemma append_macro_key:
  "append_macro key c \<Longrightarrow> call_key c = key \<and> key_length c = int_strlen key"
  by (induction rule: append_macro.induct) (simp_all add: append_macro_defs)

section \<open>What a length denotes\<close>

text \<open>The comments define lengths that are not negative, and -1.\<close>

definition denotes :: "string \<Rightarrow> i32 \<Rightarrow> string option" where
  "denotes s len =
     (if len = -1 then Some s
      else if sint len < 0 \<or> length s < unat len then None
      else Some (take (unat len) s))"

lemma unat_int_strlen: "unat (int_strlen s) = length s mod 2 ^ 32"
proof -
  have "unat (int_strlen s) = take_bit 32 (take_bit 64 (length s))"
    by (simp add: int_strlen_def c_strlen_def unsigned_ucast_eq unsigned_of_nat)
  also have "\<dots> = take_bit 32 (length s)" by simp
  finally show ?thesis by (simp add: take_bit_eq_mod)
qed

lemma sint_negative: "sint (w :: i32) < 0 \<longleftrightarrow> 2 ^ 31 \<le> unat w"
proof -
  have sint: "sint w = (uint w + 2147483648) mod 4294967296 - 2147483648"
    by (simp add: sint_uint signed_take_bit_eq_take_bit_shift take_bit_eq_mod)
  have range: "0 \<le> uint w" "uint w < 4294967296"
    using uint_lt2p [of w] by simp_all
  have a: "sint w < 0 \<longleftrightarrow> 2147483648 \<le> uint w"
  proof (cases "uint w < 2147483648")
    case True
    then have "sint w = uint w" using range unfolding sint by (subst mod_pos_pos_trivial) simp_all
    with True range show ?thesis by simp
  next
    case False
    have "(uint w + 2147483648) mod 4294967296 = (uint w - 2147483648 + 4294967296) mod 4294967296"
      by (simp add: algebra_simps)
    also have "\<dots> = uint w - 2147483648"
      using False range by (subst mod_add_self2, subst mod_pos_pos_trivial) simp_all
    finally have "sint w = uint w - 4294967296" unfolding sint by simp
    with False range show ?thesis by simp
  qed
  have b: "uint w = int (unat w)" by simp
  have c: "2147483648 \<le> int (unat w) \<longleftrightarrow> 2147483648 \<le> unat w"
    using of_nat_le_iff [of 2147483648 "unat w", where 'a = int] by (simp only: of_nat_numeral)
  show ?thesis unfolding a b c by simp
qed

lemma unat_minus_one: "(w :: i32) = -1 \<longleftrightarrow> unat w = 2 ^ 32 - 1"
proof -
  have "unat (-1 :: i32) = 2 ^ 32 - 1" by (simp add: unsigned_minus_1_eq_mask mask_eq_exp_minus_1)
  then show ?thesis by (metis word_unat_eq_iff)
qed

lemma denotes_int_strlen:
  "denotes s (int_strlen s) = Some s \<longleftrightarrow> length s < 2 ^ 31 \<or> length s mod 2 ^ 32 = 2 ^ 32 - 1"
proof -
  note n = unat_int_strlen [of s]
  have "length s mod 2 ^ 32 \<le> length s" by simp
  then show ?thesis
    unfolding denotes_def unat_minus_one sint_negative n
    by (auto simp: take_all_iff)
qed

section \<open>Empty documents\<close>

text \<open>
  \<^verbatim>\<open>bson_get_data\<close> is compiled: \<open>get_data\<close>. A null pointer is \<open>None\<close>. A document's
  bytes are its length, its elements, each starting with its type, and a zero byte.
\<close>

definition bson_empty :: "(bson_t \<Rightarrow> byte list) \<Rightarrow> bson_t \<Rightarrow> bool" where
  "bson_empty get_data b \<longleftrightarrow> doc_len b = 5 \<or> get_data b ! 4 = 0"

definition bson_empty0 :: "(bson_t \<Rightarrow> byte list) \<Rightarrow> bson_t option \<Rightarrow> bool" where
  "bson_empty0 get_data b = (case b of None \<Rightarrow> True | Some d \<Rightarrow> bson_empty get_data d)"

definition document_bytes :: "byte list \<Rightarrow> byte list list \<Rightarrow> byte list" where
  "document_bytes len elements = len @ concat elements @ [0]"

definition element_ok :: "byte list \<Rightarrow> bool" where
  "element_ok el \<longleftrightarrow> el \<noteq> [] \<and> hd el \<noteq> type_code BSON_TYPE_EOD"

lemma document_byte_4:
  assumes "length len = 4" and "list_all element_ok elements"
  shows "document_bytes len elements ! 4 = 0 \<longleftrightarrow> elements = []"
  using assms by (cases elements) (auto simp: document_bytes_def nth_append element_ok_def hd_conv_nth)

lemma length_document_bytes:
  "length (document_bytes len elements) = length len + length (concat elements) + 1"
  by (simp add: document_bytes_def)

text \<open>\<^verbatim>\<open>bson_clear\<close> on the variable that points to the document: the documents destroyed
  so far, and the variable.\<close>

definition bson_clear :: "'p list \<times> 'p option \<Rightarrow> 'p list \<times> 'p option" where
  "bson_clear st = (case st of (destroyed, None) \<Rightarrow> (destroyed, None) | (destroyed, Some b) \<Rightarrow> (destroyed @ [b], None))"

definition BSON_MAX_SIZE :: u64 where
  "BSON_MAX_SIZE = ucast (push_bit 31 1 - 1 :: u32)"

lemma BSON_MAX_SIZE_value: "BSON_MAX_SIZE = 2 ^ 31 - 1"
  by (simp add: BSON_MAX_SIZE_def)

section \<open>Properties\<close>

text \<open>
  C31. Every append macro passes the key and its length cast to \<^verbatim>\<open>int\<close>; that length denotes
  the key, by the documentation of the functions, exactly for keys shorter than 2 to the 31, the largest
  document, and for the few whose length happens to be cast to -1. A longer key is misread: one of 2 to
  the 32 bytes counts as empty. The same holds of the values of \<^verbatim>\<open>BSON_APPEND_UTF8\<close> and
  \<^verbatim>\<open>BSON_APPEND_SYMBOL\<close>.
\<close>

theorem append_macros_denote_key_iff:
  fixes c :: "('b, 't) bson_append_call"
  assumes "append_macro key c"
  shows "call_key c = key \<and>
    (denotes (call_key c) (key_length c) = Some key \<longleftrightarrow>
       length key \<le> unat BSON_MAX_SIZE \<or> length key mod 2 ^ 32 = 2 ^ 32 - 1) \<and>
    (length key = 2 ^ 32 \<longrightarrow> denotes (call_key c) (key_length c) = Some []) \<and>
    (BSON_APPEND_UTF8 key val :: ('b, 't) bson_append_call) = Bson_append_utf8 key (int_strlen key) val (int_strlen val) \<and>
    (denotes val (int_strlen val) = Some val \<longleftrightarrow>
       length val \<le> unat BSON_MAX_SIZE \<or> length val mod 2 ^ 32 = 2 ^ 32 - 1)"
proof -
  have max: "length s \<le> unat BSON_MAX_SIZE \<longleftrightarrow> length s < 2 ^ 31" for s :: string
    by (simp add: BSON_MAX_SIZE_value less_Suc_eq_le [symmetric])
  have "denotes key (int_strlen key) = Some []" if "length key = 2 ^ 32"
  proof -
    have "unat (int_strlen key) = 0" using that by (simp add: unat_int_strlen)
    then have "int_strlen key = 0" by (simp add: unat_eq_zero)
    then show ?thesis by (simp add: denotes_def)
  qed
  with append_macro_key [OF assms] show ?thesis
    by (simp only: max denotes_int_strlen BSON_APPEND_UTF8_def) simp
qed

theorem append_macros_denote_key_iff_witness:
  "denotes ''price'' (key_length (BSON_APPEND_INT32 ''price'' 5 :: (nat, nat) bson_append_call)) = Some ''price''"
proof -
  have "append_macro ''price'' (BSON_APPEND_INT32 ''price'' 5 :: (nat, nat) bson_append_call)"
    by (rule append_macro.intros)
  from append_macros_denote_key_iff [OF this, of "[]"] show ?thesis
    by (simp add: BSON_MAX_SIZE_value) metis
qed

text \<open>
  \<^verbatim>\<open>bson_empty\<close> tells exactly the documents without elements, although it looks at one
  byte only, and \<^verbatim>\<open>bson_empty0\<close> a null pointer as well. \<^verbatim>\<open>bson_clear\<close>
  destroys a document once, however often it is called.
\<close>

theorem bson_empty_iff:
  assumes "get_data b = document_bytes len elements" and "length len = 4" and "list_all element_ok elements"
    and "unat (doc_len b) = length (get_data b)"
  shows "(bson_empty get_data b \<longleftrightarrow> elements = []) \<and>
    (bson_empty0 get_data (Some b) \<longleftrightarrow> elements = []) \<and> bson_empty0 get_data None \<and>
    bson_clear (destroyed, Some p) = (destroyed @ [p], None) \<and>
    bson_clear (bson_clear (destroyed, q)) = bson_clear (destroyed, q)"
proof -
  have "elements = []" if "doc_len b = 5"
  proof -
    have "length (get_data b) = 5" using that assms(4) by simp
    then have "concat elements = []" using assms(1,2) by (simp add: length_document_bytes)
    with assms(3) show ?thesis by (cases elements) (auto simp: element_ok_def)
  qed
  then have "bson_empty get_data b \<longleftrightarrow> elements = []"
    using document_byte_4 [OF assms(2,3)] by (auto simp: bson_empty_def assms(1))
  then show ?thesis
    by (cases q) (auto simp: bson_empty0_def bson_clear_def)
qed

theorem bson_empty_iff_witness:
  "bson_empty (\<lambda>b. [5, 0, 0, 0, 0]) BSON_INITIALIZER"
  using bson_empty_iff [of "\<lambda>b. [5, 0, 0, 0, 0]" BSON_INITIALIZER "[5, 0, 0, 0]" "[]" "[]" "0 :: nat" None]
  by (simp add: document_bytes_def BSON_INITIALIZER_def)

end
