(* ===== verification/Platform.thy ===== *)
theory Platform
  imports Prelude Bson_Bytes
begin

text \<open>
  What the preprocessor of libbson and libmongoc chooses: bson-macros.h, bson-config.h, bson-compat.h,
  bson-atomic.h, the swaps of bson-endian.h, the version headers, and the processor count and the
  condition variables of mongoc-counters-private.h and mongoc-thread-private.h.

  A \<open>platform\<close> is the set of macros the compiler and the configuration define; a chain of
  \<^verbatim>\<open>#if\<close> is a function of it. A primitive of a compiler or an operating system is a
  constructor, and a separate function says what the primitive is documented to do. The lemmas compare
  the branches: which choices are visible to a caller.
\<close>

section \<open>Configurations\<close>

record platform =
  gnuc :: "(nat \<times> nat) option"
  clang :: "(nat \<times> nat) option"
  clang_builtin_bswap :: "nat \<Rightarrow> bool"
  msc_ver :: bool
  sunpro :: bool
  xlc :: bool
  win32 :: bool
  win64 :: bool
  sun :: bool
  svr4 :: bool
  linux :: bool
  bsd :: bool
  apple :: bool
  lp64 :: bool
  x86 :: bool
  cplusplus :: bool
  stdc_version :: "nat option"
  bson_compilation :: bool
  configured :: "string \<Rightarrow> bool"

text \<open>bson-config.h: a macro whose value is not 1 is undefined again.\<close>

definition bson_config :: "(string \<times> nat) list" where
  "bson_config =
     [(''BSON_OS'', 1),
      (''BSON_HAVE_ATOMIC_32_ADD_AND_FETCH'', 1),
      (''BSON_HAVE_ATOMIC_64_ADD_AND_FETCH'', 1),
      (''BSON_PTHREAD_ONCE_INIT_NEEDS_BRACES'', 0),
      (''BSON_HAVE_CLOCK_GETTIME'', 1),
      (''BSON_HAVE_STRNLEN'', 1),
      (''BSON_HAVE_SNPRINTF'', 1),
      (''BSON_NEEDS_SET_OUTPUT_FORMAT'', 0),
      (''BSON_HAVE_TIMESPEC'', 1),
      (''BSON_EXTRA_ALIGN'', 1)]"

definition bson_configured :: "string \<Rightarrow> bool" where
  "bson_configured m \<longleftrightarrow> map_of bson_config m = Some 1"

definition BSON_OS_UNIX :: "nat \<Rightarrow> bool option" where
  "BSON_OS_UNIX os = (if os = 1 then Some True else if os = 2 then Some False else None)"

section \<open>Compiler versions\<close>

definition BSON_GNUC_CHECK_VERSION :: "platform \<Rightarrow> nat \<Rightarrow> nat \<Rightarrow> bool" where
  "BSON_GNUC_CHECK_VERSION p major minor =
     (case gnuc p of
        None \<Rightarrow> False
      | Some (gmajor, gminor) \<Rightarrow> gmajor > major \<or> (gmajor = major \<and> gminor \<ge> minor))"

definition BSON_GNUC_IS_VERSION :: "platform \<Rightarrow> nat \<Rightarrow> nat \<Rightarrow> bool" where
  "BSON_GNUC_IS_VERSION p major minor =
     (case gnuc p of None \<Rightarrow> False | Some (gmajor, gminor) \<Rightarrow> gmajor = major \<and> gminor = minor)"

section \<open>Attributes and keywords\<close>

datatype attribute =
    Dllexport
  | Dllimport
  | Attr_const
  | Attr_warn_unused_result
  | Attr_sentinel
  | Attr_hidden
  | Attr_format_printf nat nat
  | Attr_format_gnu_printf nat nat
  | Attr_deprecated
  | Attr_deprecated_message string
  | Declspec_align nat
  | Attr_aligned nat

definition BSON_API :: "platform \<Rightarrow> attribute option" where
  "BSON_API p = (if msc_ver p then if bson_compilation p then Some Dllexport else Some Dllimport else None)"

definition BSON_ALIGN_OF_PTR :: "platform \<Rightarrow> nat \<Rightarrow> nat" where
  "BSON_ALIGN_OF_PTR p sizeof_ptr = (if msc_ver p then if win64 p then 8 else 4 else sizeof_ptr)"

definition BSON_ALIGNED_BEGIN :: "platform \<Rightarrow> nat \<Rightarrow> nat \<Rightarrow> attribute option" where
  "BSON_ALIGNED_BEGIN p sizeof_ptr n =
     (if configured p ''BSON_EXTRA_ALIGN''
      then if msc_ver p then Some (Declspec_align n) else None
      else if msc_ver p
      then Some (Declspec_align (if n > BSON_ALIGN_OF_PTR p sizeof_ptr then BSON_ALIGN_OF_PTR p sizeof_ptr else n))
      else None)"

definition BSON_ALIGNED_END :: "platform \<Rightarrow> nat \<Rightarrow> nat \<Rightarrow> attribute option" where
  "BSON_ALIGNED_END p sizeof_ptr n =
     (if configured p ''BSON_EXTRA_ALIGN''
      then if msc_ver p then None else Some (Attr_aligned n)
      else if msc_ver p then None
      else Some (Attr_aligned (if n > BSON_ALIGN_OF_PTR p sizeof_ptr then BSON_ALIGN_OF_PTR p sizeof_ptr else n)))"

definition BSON_GNUC_CONST :: "platform \<Rightarrow> attribute option" where
  "BSON_GNUC_CONST p = (if gnuc p \<noteq> None then Some Attr_const else None)"

definition BSON_GNUC_WARN_UNUSED_RESULT :: "platform \<Rightarrow> attribute option" where
  "BSON_GNUC_WARN_UNUSED_RESULT p = (if gnuc p \<noteq> None then Some Attr_warn_unused_result else None)"

definition BSON_GNUC_NULL_TERMINATED :: "platform \<Rightarrow> attribute option" where
  "BSON_GNUC_NULL_TERMINATED p =
     (if BSON_GNUC_CHECK_VERSION p 4 0 \<and> \<not> win32 p then Some Attr_sentinel else None)"

definition BSON_GNUC_INTERNAL :: "platform \<Rightarrow> attribute option" where
  "BSON_GNUC_INTERNAL p =
     (if BSON_GNUC_CHECK_VERSION p 4 0 \<and> \<not> win32 p then Some Attr_hidden else None)"

definition BSON_GNUC_PRINTF :: "platform \<Rightarrow> nat \<Rightarrow> nat \<Rightarrow> attribute option" where
  "BSON_GNUC_PRINTF p f v =
     (if clang p \<noteq> None then Some (Attr_format_printf f v)
      else if BSON_GNUC_CHECK_VERSION p 4 4 then Some (Attr_format_gnu_printf f v)
      else None)"

definition BSON_GNUC_DEPRECATED :: "platform \<Rightarrow> attribute option" where
  "BSON_GNUC_DEPRECATED p = (if BSON_GNUC_CHECK_VERSION p 3 1 then Some Attr_deprecated else None)"

definition BSON_GNUC_DEPRECATED_FOR :: "platform \<Rightarrow> string \<Rightarrow> attribute option" where
  "BSON_GNUC_DEPRECATED_FOR p f =
     (if BSON_GNUC_CHECK_VERSION p 4 5 then Some (Attr_deprecated_message (''Use '' @ f @ '' instead''))
      else BSON_GNUC_DEPRECATED p)"

definition BSON_FUNC :: "platform \<Rightarrow> string" where
  "BSON_FUNC p =
     (if win32 p then ''__FUNCTION__''
      else case stdc_version p of
             Some v \<Rightarrow> if v < 199901 then ''__FUNCTION__'' else ''__func__''
           | None \<Rightarrow> ''__func__'')"

definition BSON_INLINE :: "platform \<Rightarrow> string" where
  "BSON_INLINE p = (if msc_ver p then ''__inline'' else ''__inline__'')"

definition BSON_TYPEOF :: "platform \<Rightarrow> string" where
  "BSON_TYPEOF p = (if msc_ver p then ''decltype'' else ''typeof'')"

definition BSON_WORD_SIZE :: "platform \<Rightarrow> nat" where
  "BSON_WORD_SIZE p = (if lp64 p then 64 else 32)"

text \<open>On GNU compilers the hint also turns a number into 0 or 1.\<close>

definition BSON_LIKELY :: "platform \<Rightarrow> int \<Rightarrow> int" where
  "BSON_LIKELY p x = (if gnuc p \<noteq> None then if x \<noteq> 0 then 1 else 0 else x)"

definition BSON_UNLIKELY :: "platform \<Rightarrow> int \<Rightarrow> int" where
  "BSON_UNLIKELY p x = (if gnuc p \<noteq> None then if x \<noteq> 0 then 1 else 0 else x)"

text \<open>Returns, or prints a line and aborts.\<close>

definition BSON_ASSERT :: "platform \<Rightarrow> string \<Rightarrow> nat \<Rightarrow> string \<Rightarrow> string \<Rightarrow> int \<Rightarrow> string option" where
  "BSON_ASSERT p file line func txt test =
     (if BSON_LIKELY p test = 0
      then Some (file @ '':'' @ dec line @ '' '' @ func @ ''(): precondition failed: '' @ txt)
      else None)"

text \<open>A type definition of an array that has 1 or -1 elements; named after the line.\<close>

definition BSON_STATIC_ASSERT :: "nat \<Rightarrow> bool \<Rightarrow> (string \<times> int) option" where
  "BSON_STATIC_ASSERT line s =
     (let elements = (if s then 1 else - 1)
      in if elements > 0 then Some (''static_assert_test_'' @ dec line, elements) else None)"

text \<open>A C string in memory: the bytes from the pointer on, with a NUL among them.\<close>

definition bson_str_empty :: "string \<Rightarrow> bool" where
  "bson_str_empty mem \<longleftrightarrow> mem ! 0 = CHR 0x00"

definition bson_str_empty0 :: "string option \<Rightarrow> bool" where
  "bson_str_empty0 s = (case s of None \<Rightarrow> True | Some mem \<Rightarrow> bson_str_empty mem)"

section \<open>Versions\<close>

definition BSON_VERSION :: "nat \<times> nat \<times> nat" where
  "BSON_VERSION = (1, 3, 3)"

definition BSON_VERSION_S :: string where
  "BSON_VERSION_S = ''1.3.3''"

definition BSON_VERSION_HEX :: i32 where
  "BSON_VERSION_HEX =
     (case BSON_VERSION of (major, minor, micro) \<Rightarrow>
        push_bit 24 (of_nat major) OR push_bit 16 (of_nat minor) OR push_bit 8 (of_nat micro))"

definition BSON_CHECK_VERSION :: "nat \<Rightarrow> nat \<Rightarrow> nat \<Rightarrow> bool" where
  "BSON_CHECK_VERSION major minor micro =
     (case BSON_VERSION of (bmajor, bminor, bmicro) \<Rightarrow>
        bmajor > major \<or>
        (bmajor = major \<and> bminor > minor) \<or>
        (bmajor = major \<and> bminor = minor \<and> bmicro \<ge> micro))"

definition MONGOC_VERSION :: "nat \<times> nat \<times> nat" where
  "MONGOC_VERSION = (1, 3, 3)"

definition MONGOC_VERSION_S :: string where
  "MONGOC_VERSION_S = ''1.3.3''"

definition MONGOC_VERSION_HEX :: i32 where
  "MONGOC_VERSION_HEX =
     (case MONGOC_VERSION of (major, minor, micro) \<Rightarrow>
        push_bit 24 (of_nat major) OR push_bit 16 (of_nat minor) OR push_bit 8 (of_nat micro))"

definition MONGOC_CHECK_VERSION :: "nat \<Rightarrow> nat \<Rightarrow> nat \<Rightarrow> bool" where
  "MONGOC_CHECK_VERSION major minor micro =
     (case MONGOC_VERSION of (mmajor, mminor, mmicro) \<Rightarrow>
        mmajor > major \<or>
        (mmajor = major \<and> mminor > minor) \<or>
        (mmajor = major \<and> mminor = minor \<and> mmicro \<ge> micro))"

section \<open>Atomic addition and barriers\<close>

datatype atomic_add =
    Atomic_add_nv
  | Interlocked_exchange_add
  | Sync_add_and_fetch
  | Library_add

definition bson_atomic_int_add :: "platform \<Rightarrow> atomic_add" where
  "bson_atomic_int_add p =
     (if sun p \<and> svr4 p then Atomic_add_nv
      else if win32 p then Interlocked_exchange_add
      else if configured p ''BSON_HAVE_ATOMIC_32_ADD_AND_FETCH'' then Sync_add_and_fetch
      else Library_add)"

definition bson_atomic_int64_add :: "platform \<Rightarrow> atomic_add" where
  "bson_atomic_int64_add p =
     (if sun p \<and> svr4 p then Atomic_add_nv
      else if win32 p then Interlocked_exchange_add
      else if configured p ''BSON_HAVE_ATOMIC_64_ADD_AND_FETCH''
      then if BSON_GNUC_IS_VERSION p 4 1 then Library_add else Sync_add_and_fetch
      else Library_add)"

text \<open>The memory cell afterwards and the value of the macro. Microsoft's primitive returns the old
  value, and the macro adds the operand again. The library's fallback is compiled: \<open>lib\<close>.\<close>

fun atomic_add_effect ::
    "('a::len word \<Rightarrow> 'a word \<Rightarrow> 'a word \<times> 'a word) \<Rightarrow> atomic_add \<Rightarrow> 'a word \<Rightarrow> 'a word \<Rightarrow> 'a word \<times> 'a word" where
  "atomic_add_effect lib Atomic_add_nv cell v = (cell + v, cell + v)"
| "atomic_add_effect lib Interlocked_exchange_add cell v = (case (cell + v, cell) of (new, old) \<Rightarrow> (new, old + v))"
| "atomic_add_effect lib Sync_add_and_fetch cell v = (cell + v, cell + v)"
| "atomic_add_effect lib Library_add cell v = lib cell v"

datatype barrier =
    Memory_barrier
  | Sync_synchronize
  | Compiler_barrier
  | Machine_rw_barrier
  | Xlc_sync
  | Mfence
  | Ppc_sync
  | Library_barrier

definition bson_memory_barrier :: "platform \<Rightarrow> barrier" where
  "bson_memory_barrier p =
     (if win32 p then Memory_barrier
      else if gnuc p \<noteq> None then if BSON_GNUC_CHECK_VERSION p 4 1 then Sync_synchronize else Compiler_barrier
      else if sunpro p then Machine_rw_barrier
      else if xlc p then Xlc_sync
      else Library_barrier)"

definition bson_sync_synchronize :: "platform \<Rightarrow> barrier option" where
  "bson_sync_synchronize p =
     (case gnuc p of
        Some (major, minor) \<Rightarrow>
          if major > 4 \<or> (major = 4 \<and> minor \<ge> 1) then Some Sync_synchronize
          else if x86 p then Some Mfence
          else Some Ppc_sync
      | None \<Rightarrow> if msc_ver p then Some Memory_barrier else None)"

text \<open>Whether the processor, too, keeps the order.\<close>

fun orders_memory :: "barrier \<Rightarrow> bool" where
  "orders_memory Compiler_barrier = False"
| "orders_memory _ = True"

section \<open>Byte swaps\<close>

datatype swap = Sun_bswap | Builtin_bswap | Slow_swap

text \<open>The width is 16, 32 or 64.\<close>

definition choose_swap :: "platform \<Rightarrow> nat \<Rightarrow> swap" where
  "choose_swap p width =
     (if sun p then Sun_bswap
      else if (case clang p of Some (major, minor) \<Rightarrow> major \<ge> 3 \<and> minor \<ge> 1 | None \<Rightarrow> False)
      then if clang_builtin_bswap p width then Builtin_bswap else Slow_swap
      else case gnuc p of
             None \<Rightarrow> Slow_swap
           | Some (major, minor) \<Rightarrow>
               if major \<ge> 4 \<and> (width = 32 \<or> width = 64) \<and> minor \<ge> 3 then Builtin_bswap
               else if major \<ge> 4 \<and> width = 16 \<and> minor \<ge> 8 then Builtin_bswap
               else Slow_swap)"

text \<open>The built-in and Solaris's macro reverse the bytes of their operand.\<close>

definition reverse_bytes16 :: "16 word \<Rightarrow> 16 word" where
  "reverse_bytes16 v = push_bit 8 v OR drop_bit 8 v"

definition BSON_UINT16_SWAP_LE_BE :: "platform \<Rightarrow> 16 word \<Rightarrow> 16 word" where
  "BSON_UINT16_SWAP_LE_BE p v =
     (if choose_swap p 16 = Slow_swap then bson_uint16_swap_slow v else reverse_bytes16 v)"

definition BSON_UINT32_SWAP_LE_BE :: "platform \<Rightarrow> 32 word \<Rightarrow> 32 word" where
  "BSON_UINT32_SWAP_LE_BE p v =
     (if choose_swap p 32 = Slow_swap then bson_uint32_swap_slow v else le32 (rev (encode32 v)))"

definition BSON_UINT64_SWAP_LE_BE :: "platform \<Rightarrow> 64 word \<Rightarrow> 64 word" where
  "BSON_UINT64_SWAP_LE_BE p v =
     (if choose_swap p 64 = Slow_swap then bson_uint64_swap_slow v else le64 (rev (encode64 v)))"

text \<open>The macros as each byte order of the host defines them.\<close>

record endian_macros =
  uint16_from_le :: "16 word \<Rightarrow> 16 word"
  uint16_to_le :: "16 word \<Rightarrow> 16 word"
  uint16_from_be :: "16 word \<Rightarrow> 16 word"
  uint16_to_be :: "16 word \<Rightarrow> 16 word"
  uint32_from_le :: "32 word \<Rightarrow> 32 word"
  uint32_to_le :: "32 word \<Rightarrow> 32 word"
  uint32_from_be :: "32 word \<Rightarrow> 32 word"
  uint32_to_be :: "32 word \<Rightarrow> 32 word"
  uint64_from_le :: "64 word \<Rightarrow> 64 word"
  uint64_to_le :: "64 word \<Rightarrow> 64 word"
  uint64_from_be :: "64 word \<Rightarrow> 64 word"
  uint64_to_be :: "64 word \<Rightarrow> 64 word"
  double_from_le :: "64 word \<Rightarrow> 64 word"
  double_to_le :: "64 word \<Rightarrow> 64 word"

definition endian_macros_of :: "platform \<Rightarrow> byte_order \<Rightarrow> endian_macros" where
  "endian_macros_of p host =
     (case host of
        BSON_LITTLE_ENDIAN \<Rightarrow>
          \<lparr>uint16_from_le = (\<lambda>v. v), uint16_to_le = (\<lambda>v. v),
           uint16_from_be = BSON_UINT16_SWAP_LE_BE p, uint16_to_be = BSON_UINT16_SWAP_LE_BE p,
           uint32_from_le = (\<lambda>v. v), uint32_to_le = (\<lambda>v. v),
           uint32_from_be = BSON_UINT32_SWAP_LE_BE p, uint32_to_be = BSON_UINT32_SWAP_LE_BE p,
           uint64_from_le = (\<lambda>v. v), uint64_to_le = (\<lambda>v. v),
           uint64_from_be = BSON_UINT64_SWAP_LE_BE p, uint64_to_be = BSON_UINT64_SWAP_LE_BE p,
           double_from_le = (\<lambda>v. v), double_to_le = (\<lambda>v. v)\<rparr>
      | BSON_BIG_ENDIAN \<Rightarrow>
          \<lparr>uint16_from_le = BSON_UINT16_SWAP_LE_BE p, uint16_to_le = BSON_UINT16_SWAP_LE_BE p,
           uint16_from_be = (\<lambda>v. v), uint16_to_be = (\<lambda>v. v),
           uint32_from_le = BSON_UINT32_SWAP_LE_BE p, uint32_to_le = BSON_UINT32_SWAP_LE_BE p,
           uint32_from_be = (\<lambda>v. v), uint32_to_be = (\<lambda>v. v),
           uint64_from_le = BSON_UINT64_SWAP_LE_BE p, uint64_to_le = BSON_UINT64_SWAP_LE_BE p,
           uint64_from_be = (\<lambda>v. v), uint64_to_be = (\<lambda>v. v),
           double_from_le = BSON_UINT64_SWAP_LE_BE p, double_to_le = BSON_UINT64_SWAP_LE_BE p\<rparr>)"

lemma bits16: "bit (v :: 16 word) n \<Longrightarrow> n < 16"
  by (drule bit_imp_le_length) simp

lemma reverse_bytes16_slow: "reverse_bytes16 v = bson_uint16_swap_slow v"
  by (rule bit_word_eqI) (auto simp: reverse_bytes16_def bit_swap16 bit_simps add.commute dest: bits16)

lemma swaps_slow [simp]:
  "BSON_UINT16_SWAP_LE_BE p = bson_uint16_swap_slow"
  "BSON_UINT32_SWAP_LE_BE p = bson_uint32_swap_slow"
  "BSON_UINT64_SWAP_LE_BE p = bson_uint64_swap_slow"
  using swap32_le32 [of "encode32 _"] swap64_le64 [of "encode64 _"]
  by (simp_all add: fun_eq_iff BSON_UINT16_SWAP_LE_BE_def BSON_UINT32_SWAP_LE_BE_def
      BSON_UINT64_SWAP_LE_BE_def reverse_bytes16_slow le32_encode le64_encode)

lemma endian_macros_same: "endian_macros_of p host = endian_macros_of q host"
  by (cases host) (simp_all add: endian_macros_of_def)

section \<open>Processors\<close>

text \<open>What the operating systems answer.\<close>

record cpu_answers =
  nprocs :: u32
  sysctl_result :: int
  maxproc :: i32
  sysctl_len :: u64
  online_processors :: i32
  number_of_processors :: u32

text \<open>On the BSDs the function returns the size of the answer, which the kernel left in
  \<^verbatim>\<open>len\<close>.\<close>

definition mongoc_get_cpu_count :: "platform \<Rightarrow> cpu_answers \<Rightarrow> u32" where
  "mongoc_get_cpu_count p a =
     (if linux p then nprocs a
      else if bsd p then if sysctl_result a = -1 then 1 else ucast (sysctl_len a)
      else if apple p \<or> sun p then if 0 < sint (online_processors a) then online_processors a else 1
      else if msc_ver p \<or> win32 p then number_of_processors a
      else 1)"

section \<open>Condition variables\<close>

datatype wait_result = Wait_ok | Wait_error int

text \<open>
  With POSIX threads: the time of day, a deadline for \<^verbatim>\<open>pthread_cond_timedwait\<close>. All
  the arithmetic is on signed 64-bit numbers; division truncates.
\<close>

definition posix_deadline :: "int \<Rightarrow> int \<Rightarrow> int \<Rightarrow> int \<times> int" where
  "posix_deadline tv_sec tv_usec timeout_msec =
     (let msec = tv_sec * 1000 + tv_usec sdiv 1000 + timeout_msec
      in (msec sdiv 1000, msec smod 1000 * 1000 * 1000))"

text \<open>On Windows: the low 32 bits of the time-out are handed over, and all ones mean forever.\<close>

datatype windows_wait = Wait_milliseconds u32 | Wait_forever

definition SleepConditionVariable :: "u32 \<Rightarrow> windows_wait" where
  "SleepConditionVariable msec = (if msec = -1 then Wait_forever else Wait_milliseconds msec)"

definition windows_timeout :: "64 word \<Rightarrow> windows_wait" where
  "windows_timeout timeout_msec = SleepConditionVariable (ucast timeout_msec)"

definition INFINITE :: "64 word" where
  "INFINITE = 0xFFFFFFFF"

definition windows_cond_wait :: windows_wait where
  "windows_cond_wait = windows_timeout INFINITE"

definition windows_cond_timedwait :: "bool \<Rightarrow> int \<Rightarrow> wait_result" where
  "windows_cond_timedwait succeeded last_error =
     (if succeeded then Wait_ok
      else if last_error = 258 \<or> last_error = 1460 then Wait_error 10060
      else Wait_error 22)"

text \<open>Thread creation on Windows: the handle may be null, the result is 0 all the same.\<close>

definition windows_thread_create :: "'h option \<Rightarrow> 'h option \<times> int" where
  "windows_thread_create created = (created, 0)"

definition windows_cond_destroy :: int where
  "windows_cond_destroy = 0"

lemma truncating_nonneg:
  "(0::int) \<le> a \<Longrightarrow> a sdiv 1000 = a div 1000" "(0::int) \<le> a \<Longrightarrow> a smod 1000 = a mod 1000"
  by (cases "a = 0"; simp add: signed_divide_int_def signed_modulo_int_def)+

lemma posix_deadline_nonneg:
  assumes "0 \<le> tv_sec" "0 \<le> tv_usec" "0 \<le> timeout_msec"
  shows "posix_deadline tv_sec tv_usec timeout_msec =
    ((tv_sec * 1000 + tv_usec div 1000 + timeout_msec) div 1000,
     (tv_sec * 1000 + tv_usec div 1000 + timeout_msec) mod 1000 * 1000000)"
proof -
  have "0 \<le> tv_usec div 1000" using assms by simp
  then have "0 \<le> tv_sec * 1000 + tv_usec div 1000 + timeout_msec" using assms by simp
  then show ?thesis
    by (simp add: posix_deadline_def Let_def truncating_nonneg assms)
qed

section \<open>Properties\<close>


definition modern_gcc :: platform where
  "modern_gcc = \<lparr>gnuc = Some (4, 8), clang = None, clang_builtin_bswap = (\<lambda>w. False), msc_ver = False,
     sunpro = False, xlc = False, win32 = False, win64 = False, sun = False, svr4 = False, linux = True,
     bsd = False, apple = False, lp64 = True, x86 = True, cplusplus = True, stdc_version = None,
     bson_compilation = False, configured = bson_configured\<rparr>"


text \<open>
  The version macros compare: \<^verbatim>\<open>BSON_CHECK_VERSION\<close> and
  \<^verbatim>\<open>MONGOC_CHECK_VERSION\<close> hold exactly when the library's version is the required one or
  later in lexicographic order, and for components below 256 that is the comparison of the numbers
  encoded like \<^verbatim>\<open>BSON_VERSION_HEX\<close>. The comments say "greater than"; the library's own
  version passes.
\<close>

definition version_at_least :: "nat \<times> nat \<times> nat \<Rightarrow> nat \<times> nat \<times> nat \<Rightarrow> bool" where
  "version_at_least v r =
     (case (v, r) of ((a, b, c), (a', b', c')) \<Rightarrow>
        a' < a \<or> (a' = a \<and> (b' < b \<or> (b' = b \<and> c' \<le> c))))"

definition version_number :: "nat \<Rightarrow> nat \<Rightarrow> nat \<Rightarrow> nat" where
  "version_number major minor micro = major * 2 ^ 24 + minor * 2 ^ 16 + micro * 2 ^ 8"

lemma version_hex: "unat BSON_VERSION_HEX = version_number 1 3 3" "MONGOC_VERSION_HEX = BSON_VERSION_HEX"
  by (simp_all add: BSON_VERSION_HEX_def MONGOC_VERSION_HEX_def BSON_VERSION_def MONGOC_VERSION_def
      version_number_def push_bit_eq_mult)

lemma version_numbers_compare:
  assumes "b < 256" "c < 256"
  shows "(1 > a \<or> (1 = a \<and> 3 > b) \<or> (1 = a \<and> 3 = b \<and> 3 \<ge> c)) =
    (version_number a b c \<le> version_number 1 3 3)"
proof -
  consider "a = 0" | "a = 1" "b < 3" | "a = 1" "b = 3" | "a = 1" "b > 3" | "a > 1" by linarith
  then show ?thesis
    using assms by cases (simp_all add: version_number_def)
qed

theorem version_checks_compare:
  "BSON_CHECK_VERSION a b c = version_at_least BSON_VERSION (a, b, c) \<and>
   MONGOC_CHECK_VERSION a b c = version_at_least MONGOC_VERSION (a, b, c) \<and>
   (a < 256 \<and> b < 256 \<and> c < 256 \<longrightarrow>
     BSON_CHECK_VERSION a b c = (version_number a b c \<le> unat BSON_VERSION_HEX) \<and>
     MONGOC_CHECK_VERSION a b c = (version_number a b c \<le> unat MONGOC_VERSION_HEX)) \<and>
   BSON_CHECK_VERSION 1 3 3 \<and> \<not> BSON_CHECK_VERSION 1 3 4 \<and> \<not> BSON_CHECK_VERSION 1 4 0"
proof -
  have "(1 > a \<or> (1 = a \<and> 3 > b) \<or> (1 = a \<and> 3 = b \<and> 3 \<ge> c)) = (version_number a b c \<le> version_number 1 3 3)"
    if "a < 256" "b < 256" "c < 256"
    by (rule version_numbers_compare) (use that in simp_all)
  then show ?thesis
    by (simp add: BSON_CHECK_VERSION_def MONGOC_CHECK_VERSION_def version_at_least_def version_hex
        BSON_VERSION_def MONGOC_VERSION_def) blast
qed

theorem version_checks_compare_witness:
  "BSON_CHECK_VERSION 1 2 200 \<longleftrightarrow> version_number 1 2 200 \<le> unat BSON_VERSION_HEX"
proof -
  have "(1 :: nat) < 256 \<and> (2 :: nat) < 256 \<and> (200 :: nat) < 256" by simp
  then show ?thesis using version_checks_compare [of 1 2 200] by blast
qed



end
