(* ===== verification/Counters.thy ===== *)
theory Counters
  imports Platform
begin

text \<open>
  The performance counters of libmongoc (mongoc-counters-private.h, mongoc-counters.defs). A counter is
  a row of cells, one per processor, so that threads on different processors do not fight for a cache
  line; eight counters share a line. A thread asks on which processor it runs and then adds atomically,
  so it may have moved in between.

  The arrays are set up in the library's compiled code: where they start is a parameter, and
  \<open>placed\<close> says that they are large enough and apart.
\<close>

section \<open>Counters\<close>

definition SLOTS_PER_CACHELINE :: nat where
  "SLOTS_PER_CACHELINE = 8"

definition counter_idents :: "string list" where
  "counter_idents =
     [''op_egress_total'', ''op_ingress_total'', ''op_egress_query'', ''op_ingress_query'',
      ''op_egress_getmore'', ''op_ingress_getmore'', ''op_egress_insert'', ''op_ingress_insert'',
      ''op_egress_delete'', ''op_ingress_delete'', ''op_egress_update'', ''op_ingress_update'',
      ''op_egress_killcursors'', ''op_ingress_killcursors'', ''op_egress_msg'', ''op_ingress_msg'',
      ''op_egress_reply'', ''op_ingress_reply'', ''cursors_active'', ''cursors_disposed'',
      ''clients_active'', ''clients_disposed'', ''streams_active'', ''streams_disposed'',
      ''streams_egress'', ''streams_ingress'', ''streams_timeout'', ''client_pools_active'',
      ''client_pools_disposed'', ''protocol_ingress_error'', ''auth_failure'', ''auth_success'',
      ''dns_failure'', ''dns_success'']"

definition COUNTER_number :: "string \<Rightarrow> nat" where
  "COUNTER_number ident = length (takeWhile (\<lambda>x. x \<noteq> ident) counter_idents)"

definition LAST_COUNTER :: nat where
  "LAST_COUNTER = length counter_idents"

text \<open>The lines of all arrays in one segment; a counter's \<^verbatim>\<open>cpus\<close> is the number of its
  first line.\<close>

record counter_memory =
  allocated :: nat
  slots :: "nat \<Rightarrow> nat \<Rightarrow> 64 word"

record mongoc_counters =
  compiler :: platform
  add_fallback :: "64 word \<Rightarrow> 64 word \<Rightarrow> 64 word \<times> 64 word"
  cpus :: "nat \<Rightarrow> nat"

text \<open>\<^verbatim>\<open>rdtscp\<close> hands over what the operating system keeps in
  \<^verbatim>\<open>TSC_AUX\<close>; the C library's function returns an \<^verbatim>\<open>int\<close>.\<close>

definition mongoc_sched_getcpu :: "platform \<Rightarrow> u32 \<Rightarrow> i32 \<Rightarrow> int" where
  "mongoc_sched_getcpu p aux sched_getcpu =
     (if configured p ''ENABLE_RDTSCP'' then uint aux
      else if configured p ''HAVE_SCHED_GETCPU'' then sint sched_getcpu
      else 0)"

definition slot_of :: "mongoc_counters \<Rightarrow> nat \<Rightarrow> int \<Rightarrow> counter_memory \<Rightarrow> (nat \<times> nat) option" where
  "slot_of env c cpu m =
     (let line = int (cpus env c) + cpu
      in if 0 \<le> line \<and> line < int (allocated m) then Some (nat line, c mod SLOTS_PER_CACHELINE) else None)"

definition set_slot :: "nat \<times> nat \<Rightarrow> 64 word \<Rightarrow> counter_memory \<Rightarrow> counter_memory" where
  "set_slot a v m = (case a of (line, s) \<Rightarrow> m\<lparr>slots := (slots m)(line := (slots m line)(s := v))\<rparr>)"

definition mongoc_counter_add ::
    "mongoc_counters \<Rightarrow> nat \<Rightarrow> int \<Rightarrow> 64 word \<Rightarrow> counter_memory \<Rightarrow> counter_memory option" where
  "mongoc_counter_add env c cpu val m =
     (case slot_of env c cpu m of
        None \<Rightarrow> None
      | Some (line, s) \<Rightarrow>
          Some (set_slot (line, s)
            (fst (atomic_add_effect (add_fallback env) (bson_atomic_int64_add (compiler env)) (slots m line s) val)) m))"

definition mongoc_counter_inc :: "mongoc_counters \<Rightarrow> nat \<Rightarrow> int \<Rightarrow> counter_memory \<Rightarrow> counter_memory option" where
  "mongoc_counter_inc env c cpu m = mongoc_counter_add env c cpu 1 m"

definition mongoc_counter_dec :: "mongoc_counters \<Rightarrow> nat \<Rightarrow> int \<Rightarrow> counter_memory \<Rightarrow> counter_memory option" where
  "mongoc_counter_dec env c cpu m = mongoc_counter_add env c cpu (-1) m"

function reset_loop :: "mongoc_counters \<Rightarrow> nat \<Rightarrow> nat \<Rightarrow> nat \<Rightarrow> counter_memory \<Rightarrow> counter_memory option" where
  "reset_loop env c count i m =
     (if i < count
      then case slot_of env c (int i) m of
             None \<Rightarrow> None
           | Some a \<Rightarrow> reset_loop env c count (i + 1) (set_slot a 0 m)
      else Some m)"
  by pat_completeness auto

termination
  by (relation "measure (\<lambda>(env, c, count, i, m). count - i)") auto

declare reset_loop.simps [simp del]

definition mongoc_counter_reset :: "mongoc_counters \<Rightarrow> nat \<Rightarrow> cpu_answers \<Rightarrow> counter_memory \<Rightarrow> counter_memory option" where
  "mongoc_counter_reset env c a m = reset_loop env c (unat (mongoc_get_cpu_count (compiler env) a)) 0 m"

section \<open>Sums\<close>

text \<open>A counter's value: the sum of its cells on \<open>n\<close> processors.\<close>

definition counter_value :: "mongoc_counters \<Rightarrow> nat \<Rightarrow> nat \<Rightarrow> counter_memory \<Rightarrow> 64 word" where
  "counter_value env n c m = (\<Sum>i<n. slots m (cpus env c + i) (c mod SLOTS_PER_CACHELINE))"

definition placed :: "mongoc_counters \<Rightarrow> nat \<Rightarrow> counter_memory \<Rightarrow> bool" where
  "placed env n m \<longleftrightarrow>
     (\<forall>c<LAST_COUNTER. cpus env c + n \<le> allocated m) \<and>
     (\<forall>c<LAST_COUNTER. \<forall>d<LAST_COUNTER.
        c \<noteq> d \<and> c mod SLOTS_PER_CACHELINE = d mod SLOTS_PER_CACHELINE \<longrightarrow>
          cpus env c + n \<le> cpus env d \<or> cpus env d + n \<le> cpus env c)"

definition adds_atomically :: "mongoc_counters \<Rightarrow> bool" where
  "adds_atomically env \<longleftrightarrow> (\<forall>cell v. add_fallback env cell v = (cell + v, cell + v))"

lemma set_slot_simps [simp]:
  "allocated (set_slot a v m) = allocated m"
  "slots (set_slot (line, s) v m) l t = (if l = line \<and> t = s then v else slots m l t)"
  "placed env n (set_slot a v m) = placed env n m"
  by (simp_all add: set_slot_def placed_def split: prod.split)

lemma slot_of_inside:
  assumes "placed env n m" "c < LAST_COUNTER" "cpu < n"
  shows "slot_of env c (int cpu) m = Some (cpus env c + cpu, c mod SLOTS_PER_CACHELINE)"
proof -
  have "cpus env c + cpu < allocated m" using assms by (fastforce simp: placed_def)
  then have "int (cpus env c) + int cpu < int (allocated m)" by linarith
  then show ?thesis by (simp add: slot_of_def nat_add_distrib Let_def)
qed

lemma adds_atomically_effect:
  "adds_atomically env \<Longrightarrow> atomic_add_effect (add_fallback env) a cell v = (cell + v, cell + v)"
  by (cases a) (simp_all add: adds_atomically_def)

lemma counter_add_inside:
  assumes "placed env n m" "c < LAST_COUNTER" "cpu < n" "adds_atomically env"
  shows "mongoc_counter_add env c (int cpu) v m =
    Some (set_slot (cpus env c + cpu, c mod SLOTS_PER_CACHELINE)
      (slots m (cpus env c + cpu) (c mod SLOTS_PER_CACHELINE) + v) m)"
  using assms by (simp add: mongoc_counter_add_def slot_of_inside adds_atomically_effect)

text \<open>A cell belongs to one counter.\<close>

lemma counter_value_other:
  assumes "placed env n m" "c < LAST_COUNTER" "d < LAST_COUNTER" "c \<noteq> d" "cpu < n"
  shows "counter_value env n d (set_slot (cpus env c + cpu, c mod SLOTS_PER_CACHELINE) v m) =
    counter_value env n d m"
  unfolding counter_value_def
proof (rule sum.cong [OF refl])
  fix i assume i: "i \<in> {..<n}"
  have "d mod SLOTS_PER_CACHELINE \<noteq> c mod SLOTS_PER_CACHELINE \<or> cpus env d + i \<noteq> cpus env c + cpu"
    using assms i by (fastforce simp: placed_def)
  then show "slots (set_slot (cpus env c + cpu, c mod SLOTS_PER_CACHELINE) v m) (cpus env d + i)
        (d mod SLOTS_PER_CACHELINE) = slots m (cpus env d + i) (d mod SLOTS_PER_CACHELINE)"
    by auto
qed

lemma counter_value_same:
  assumes "cpu < n"
  shows "counter_value env n c (set_slot (cpus env c + cpu, c mod SLOTS_PER_CACHELINE) v m) =
    counter_value env n c m - slots m (cpus env c + cpu) (c mod SLOTS_PER_CACHELINE) + v"
proof -
  let ?f = "\<lambda>m i. slots m (cpus env c + i) (c mod SLOTS_PER_CACHELINE)"
  let ?m = "set_slot (cpus env c + cpu, c mod SLOTS_PER_CACHELINE) v m"
  have split: "(\<Sum>i<n. g i) = g cpu + (\<Sum>i \<in> {..<n} - {cpu}. g i)" for g :: "nat \<Rightarrow> 64 word"
    using assms by (simp add: sum.remove)
  have "(\<Sum>i \<in> {..<n} - {cpu}. ?f ?m i) = (\<Sum>i \<in> {..<n} - {cpu}. ?f m i)"
    by (rule sum.cong) simp_all
  then show ?thesis
    unfolding counter_value_def split [of "?f ?m"] split [of "?f m"] by simp
qed

lemma counter_add_value:
  assumes "placed env n m" "c < LAST_COUNTER" "cpu < n" "adds_atomically env"
  obtains m' where "mongoc_counter_add env c (int cpu) v m = Some m'" "placed env n m'"
    "\<And>d. d < LAST_COUNTER \<Longrightarrow>
      counter_value env n d m' = counter_value env n d m + (if d = c then v else 0)"
  using that [OF counter_add_inside [OF assms]] assms
  by (simp add: counter_value_other counter_value_same)

lemma reset_loop_value:
  assumes "placed env n m" "c < LAST_COUNTER" "count \<le> n" "i \<le> count"
  shows "\<exists>m'. reset_loop env c count i m = Some m' \<and> placed env n m' \<and>
    (\<forall>d<LAST_COUNTER. d \<noteq> c \<longrightarrow> counter_value env n d m' = counter_value env n d m) \<and>
    counter_value env n c m' = counter_value env n c m - (\<Sum>j \<in> {i..<count}. slots m (cpus env c + j) (c mod SLOTS_PER_CACHELINE))"
  using assms(1,4)
proof (induction "count - i" arbitrary: i m)
  case 0
  then show ?case by (simp add: reset_loop.simps)
next
  case (Suc k)
  let ?a = "(cpus env c + i, c mod SLOTS_PER_CACHELINE)"
  have i: "i < count" "i < n" using Suc.hyps(2) assms(3) by simp_all
  have "k = count - (i + 1)" "i + 1 \<le> count" using Suc.hyps(2) i by simp_all
  from Suc.hyps(1) [OF this(1), of "set_slot ?a 0 m", OF _ this(2)] Suc.prems(1)
  obtain m' where m': "reset_loop env c count (i + 1) (set_slot ?a 0 m) = Some m'" "placed env n m'"
      "\<forall>d<LAST_COUNTER. d \<noteq> c \<longrightarrow> counter_value env n d m' = counter_value env n d (set_slot ?a 0 m)"
      "counter_value env n c m' = counter_value env n c (set_slot ?a 0 m) -
        (\<Sum>j \<in> {i + 1..<count}. slots (set_slot ?a 0 m) (cpus env c + j) (c mod SLOTS_PER_CACHELINE))"
    by auto
  have "reset_loop env c count i m = Some m'"
    using m'(1) i slot_of_inside [OF Suc.prems(1) assms(2) i(2)] by (simp add: reset_loop.simps [of env c count i m])
  moreover have "\<forall>d<LAST_COUNTER. d \<noteq> c \<longrightarrow> counter_value env n d m' = counter_value env n d m"
    using m'(3) counter_value_other [OF Suc.prems(1) assms(2) _ _ i(2)] by auto
  moreover have "(\<Sum>j \<in> {i + 1..<count}. slots (set_slot ?a 0 m) (cpus env c + j) (c mod SLOTS_PER_CACHELINE)) =
      (\<Sum>j \<in> {i + 1..<count}. slots m (cpus env c + j) (c mod SLOTS_PER_CACHELINE))"
    by (rule sum.cong) simp_all
  moreover have "(\<Sum>j \<in> {i..<count}. f j) = f i + (\<Sum>j \<in> {i + 1..<count}. f j)" for f :: "nat \<Rightarrow> 64 word"
    using i(1) by (simp add: sum.atLeast_Suc_lessThan)
  ultimately show ?case
    using m'(2,4) counter_value_same [OF i(2), of env c 0 m] by simp
qed

section \<open>Threads\<close>

text \<open>Each thread has calls left, of \<^verbatim>\<open>add\<close> on a counter; it first learns its processor
  and then adds.\<close>

record counting =
  counters :: counter_memory
  calls :: "nat \<Rightarrow> (nat \<times> 64 word) list"
  got_cpu :: "nat \<Rightarrow> nat option"

inductive counting_step :: "mongoc_counters \<Rightarrow> nat \<Rightarrow> counting \<Rightarrow> counting \<Rightarrow> bool" for env n where
  Get_cpu: "calls s i = call # rest \<Longrightarrow> got_cpu s i = None \<Longrightarrow> cpu < n \<Longrightarrow>
    counting_step env n s (s\<lparr>got_cpu := (got_cpu s)(i := Some cpu)\<rparr>)"
| Add: "calls s i = (c, v) # rest \<Longrightarrow> got_cpu s i = Some cpu \<Longrightarrow>
    mongoc_counter_add env c (int cpu) v (counters s) = Some m' \<Longrightarrow>
    counting_step env n s
      (s\<lparr>counters := m', calls := (calls s)(i := rest), got_cpu := (got_cpu s)(i := None)\<rparr>)"

inductive_cases counting_stepE: "counting_step env n s s'"

inductive counting_reaches :: "mongoc_counters \<Rightarrow> nat \<Rightarrow> counting \<Rightarrow> counting \<Rightarrow> bool" for env n s where
  Start: "counting_reaches env n s s"
| Step: "counting_reaches env n s t \<Longrightarrow> counting_step env n t u \<Longrightarrow> counting_reaches env n s u"

definition asked :: "nat \<Rightarrow> (nat \<times> 64 word) list \<Rightarrow> 64 word" where
  "asked c todo = (\<Sum>(d, v) \<leftarrow> todo. if d = c then v else 0)"

definition still_asked :: "nat \<Rightarrow> nat \<Rightarrow> counting \<Rightarrow> 64 word" where
  "still_asked threads c s = (\<Sum>i<threads. asked c (calls s i))"

definition counting_ok :: "mongoc_counters \<Rightarrow> nat \<Rightarrow> nat \<Rightarrow> counting \<Rightarrow> bool" where
  "counting_ok env n threads s \<longleftrightarrow>
     placed env n (counters s) \<and> (\<forall>i\<ge>threads. calls s i = []) \<and>
     (\<forall>i. \<forall>(c, v) \<in> set (calls s i). c < LAST_COUNTER) \<and>
     (\<forall>i cpu. got_cpu s i = Some cpu \<longrightarrow> cpu < n)"

lemma still_asked_update:
  assumes "i < threads" "calls s i = (c, v) # rest"
  shows "still_asked threads d (s\<lparr>counters := m', calls := (calls s)(i := rest), got_cpu := g\<rparr>) =
    still_asked threads d s - (if d = c then v else 0)"
proof -
  let ?s = "s\<lparr>counters := m', calls := (calls s)(i := rest), got_cpu := g\<rparr>"
  have split: "(\<Sum>j<threads. f j) = f i + (\<Sum>j \<in> {..<threads} - {i}. f j)" for f :: "nat \<Rightarrow> 64 word"
    using assms(1) by (simp add: sum.remove)
  have "(\<Sum>j \<in> {..<threads} - {i}. asked d (calls ?s j)) = (\<Sum>j \<in> {..<threads} - {i}. asked d (calls s j))"
    by (rule sum.cong) simp_all
  then show ?thesis
    unfolding still_asked_def split [of "\<lambda>j. asked d (calls ?s j)"] split [of "\<lambda>j. asked d (calls s j)"]
    using assms(2) by (simp add: asked_def)
qed

lemma counting_ok_call:
  assumes "counting_ok env n threads s" "calls s i = (c, v) # rest"
  shows "placed env n (counters s)" "c < LAST_COUNTER" "i < threads"
    "got_cpu s i = Some cpu \<Longrightarrow> cpu < n"
proof -
  have "(c, v) \<in> set (calls s i)" by (simp add: assms(2))
  then show "c < LAST_COUNTER" using assms(1) unfolding counting_ok_def by blast
  show "i < threads"
  proof (rule ccontr)
    assume "\<not> i < threads"
    then have "calls s i = []" using assms(1) by (simp add: counting_ok_def)
    then show False by (simp add: assms(2))
  qed
qed (use assms(1) in \<open>simp_all add: counting_ok_def\<close>)

lemma counting_step_ok:
  assumes "counting_step env n s s'" "counting_ok env n threads s" "adds_atomically env"
  shows "counting_ok env n threads s' \<and>
    (\<forall>d<LAST_COUNTER. counter_value env n d (counters s') + still_asked threads d s' =
       counter_value env n d (counters s) + still_asked threads d s)"
  using assms(1)
proof cases
  case (Get_cpu i call rest cpu)
  then show ?thesis using assms(2) by (simp add: counting_ok_def still_asked_def)
next
  case (Add i c v rest cpu m')
  note ok = counting_ok_call [OF assms(2) Add(2)]
  have cpu: "cpu < n" using ok(4) Add(3) by simp
  obtain m'' where m'': "mongoc_counter_add env c (int cpu) v (counters s) = Some m''" "placed env n m''"
      "\<And>d. d < LAST_COUNTER \<Longrightarrow>
        counter_value env n d m'' = counter_value env n d (counters s) + (if d = c then v else 0)"
    using counter_add_value [OF ok(1,2) cpu assms(3)] by blast
  have m: "m'' = m'" using m''(1) Add(4) by simp
  have "\<forall>(d, w) \<in> set rest. d < LAST_COUNTER"
  proof -
    have "\<forall>(d, w) \<in> set (calls s i). d < LAST_COUNTER" using assms(2) unfolding counting_ok_def by blast
    then show ?thesis by (simp add: Add(2))
  qed
  then have "counting_ok env n threads s'"
    using assms(2) m''(2) ok(3) unfolding counting_ok_def Add(1) m by simp
  then show ?thesis
    using m''(3) by (simp add: Add(1) m still_asked_update [OF ok(3) Add(2)])
qed

lemma counting_step_exists:
  assumes "counting_ok env n threads s" "adds_atomically env" "calls s i \<noteq> []" "0 < n"
  shows "\<exists>s'. counting_step env n s s'"
proof -
  obtain c v rest where call: "calls s i = (c, v) # rest" using assms(3) by (metis list.exhaust surj_pair)
  show ?thesis
  proof (cases "got_cpu s i")
    case None
    then show ?thesis using counting_step.Get_cpu [OF call None assms(4)] by blast
  next
    case (Some cpu)
    note ok = counting_ok_call [OF assms(1) call]
    obtain m' where "mongoc_counter_add env c (int cpu) v (counters s) = Some m'"
      using counter_add_value [OF ok(1,2) ok(4) [OF Some] assms(2)] by blast
    from counting_step.Add [OF call Some this] show ?thesis by blast
  qed
qed

section \<open>Properties\<close>


definition usual_counters :: "nat \<Rightarrow> mongoc_counters" where
  "usual_counters n = \<lparr>compiler = modern_gcc, add_fallback = (\<lambda>cell v. (cell + v, cell + v)),
     cpus = (\<lambda>c. (c div SLOTS_PER_CACHELINE) * n)\<rparr>"

definition empty_counters :: "nat \<Rightarrow> counter_memory" where
  "empty_counters n = \<lparr>allocated = 5 * n, slots = (\<lambda>line s. 0)\<rparr>"

lemma LAST_COUNTER_eq [simp]: "LAST_COUNTER = 34"
  by (simp add: LAST_COUNTER_def counter_idents_def)

lemma usual_counters_atomic: "adds_atomically (usual_counters n)"
  by (simp add: adds_atomically_def usual_counters_def)

lemma usual_counters_placed: "placed (usual_counters n) n (m\<lparr>allocated := 5 * n\<rparr>)"
proof -
  have "c div 8 * n + n \<le> 5 * n" if "c < 34" for c :: nat
  proof -
    have "c div 8 + 1 \<le> 5" using that by simp
    then have "(c div 8 + 1) * n \<le> 5 * n" by (rule mult_le_mono1)
    then show ?thesis by simp
  qed
  moreover have "c div 8 * n + n \<le> d div 8 * n \<or> d div 8 * n + n \<le> c div 8 * n"
    if "c \<noteq> d" "c mod 8 = d mod 8" for c d :: nat
  proof -
    have "c div 8 \<noteq> d div 8" using that by (metis div_mult_mod_eq)
    then have "c div 8 + 1 \<le> d div 8 \<or> d div 8 + 1 \<le> c div 8" by linarith
    then have "(c div 8 + 1) * n \<le> d div 8 * n \<or> (d div 8 + 1) * n \<le> c div 8 * n"
      by (meson mult_le_mono1)
    then show ?thesis by (simp add: add.commute)
  qed
  ultimately show ?thesis by (simp add: placed_def usual_counters_def SLOTS_PER_CACHELINE_def)
qed


text \<open>
  Resetting sets the first \<^verbatim>\<open>_mongoc_get_cpu_count()\<close> cells of the counter to 0
  and changes no other counter: the value becomes 0 if that is the number of processors, and what the
  other cells hold if it is less. On the BSDs it is 4, whatever the machine has. With the processor
  number from \<^verbatim>\<open>rdtscp\<close>, which is not checked, an addition stays in the segment if and
  only if the number is small enough.
\<close>

theorem counter_reset_clears:
  assumes "placed env n m" and "c < LAST_COUNTER"
    and "unat (mongoc_get_cpu_count (compiler env) a) = count" and "count \<le> n"
  shows "(\<exists>m'. mongoc_counter_reset env c a m = Some m' \<and>
      counter_value env n c m' = (\<Sum>j \<in> {count..<n}. slots m (cpus env c + j) (c mod SLOTS_PER_CACHELINE)) \<and>
      (\<forall>d<LAST_COUNTER. d \<noteq> c \<longrightarrow> counter_value env n d m' = counter_value env n d m)) \<and>
    (\<not> linux p \<and> bsd p \<and> sysctl_result b \<noteq> -1 \<and> sysctl_len b = 4 \<longrightarrow> mongoc_get_cpu_count p b = 4) \<and>
    (configured p ''ENABLE_RDTSCP'' \<longrightarrow>
      (mongoc_counter_add env c (mongoc_sched_getcpu p aux cpu) v m = None \<longleftrightarrow>
       allocated m \<le> cpus env c + unat aux))"
proof (intro conjI impI)
  have "{..<n} = {0..<count} \<union> {count..<n}" using assms(4) by auto
  then have "counter_value env n c m =
      (\<Sum>j \<in> {0..<count}. slots m (cpus env c + j) (c mod SLOTS_PER_CACHELINE)) +
      (\<Sum>j \<in> {count..<n}. slots m (cpus env c + j) (c mod SLOTS_PER_CACHELINE))"
    unfolding counter_value_def by (simp add: sum.union_disjoint)
  then show "\<exists>m'. mongoc_counter_reset env c a m = Some m' \<and>
      counter_value env n c m' = (\<Sum>j \<in> {count..<n}. slots m (cpus env c + j) (c mod SLOTS_PER_CACHELINE)) \<and>
      (\<forall>d<LAST_COUNTER. d \<noteq> c \<longrightarrow> counter_value env n d m' = counter_value env n d m)"
    using reset_loop_value [OF assms(1,2,4), of 0] by (auto simp: mongoc_counter_reset_def assms(3))
next
  assume "\<not> linux p \<and> bsd p \<and> sysctl_result b \<noteq> -1 \<and> sysctl_len b = 4"
  then show "mongoc_get_cpu_count p b = 4" by (simp add: mongoc_get_cpu_count_def)
next
  assume "configured p ''ENABLE_RDTSCP''"
  then have get: "mongoc_sched_getcpu p aux cpu = int (unat aux)" by (simp add: mongoc_sched_getcpu_def)
  define k where "k = unat aux"
  have k: "mongoc_sched_getcpu p aux cpu = int k" "unat aux = k" by (simp_all only: get k_def)
  have "slot_of env c (int k) m = None \<longleftrightarrow> allocated m \<le> cpus env c + k" for k
    by (simp add: slot_of_def Let_def not_less flip: of_nat_add)
  then show "mongoc_counter_add env c (mongoc_sched_getcpu p aux cpu) v m = None \<longleftrightarrow>
      allocated m \<le> cpus env c + unat aux"
    unfolding k by (auto simp: mongoc_counter_add_def split: option.splits) (metis option.distinct(1))+
qed

theorem counter_reset_clears_witness:
  "\<exists>m'. mongoc_counter_reset (usual_counters 2) 3
      \<lparr>nprocs = 2, sysctl_result = 0, maxproc = 0, sysctl_len = 4, online_processors = 0, number_of_processors = 0\<rparr>
      (empty_counters 2) = Some m' \<and> counter_value (usual_counters 2) 2 3 m' = 0"
proof -
  let ?a = "\<lparr>nprocs = 2, sysctl_result = 0, maxproc = 0, sysctl_len = 4, online_processors = 0, number_of_processors = 0\<rparr>"
  have "placed (usual_counters 2) 2 (empty_counters 2)"
    using usual_counters_placed [of 2 "empty_counters 2"] by (simp add: empty_counters_def)
  moreover have "unat (mongoc_get_cpu_count (compiler (usual_counters 2)) ?a) = 2"
    by (simp add: mongoc_get_cpu_count_def usual_counters_def modern_gcc_def)
  ultimately show ?thesis
    using conjunct1 [OF counter_reset_clears [of "usual_counters 2" 2 "empty_counters 2" 3 ?a 2]] by auto
qed

end
