(* ===== verification/C_Layout.thy ===== *)
theory C_Layout
  imports Platform
begin

text \<open>
  How compilers lay out the structures that the headers declare: sizes, alignments and offsets, for the
  data models and the two ways of asking for an alignment that the macros of bson-macros.h expand to.
  The general lemmas say that fields are aligned, lie inside their structure, and do not overlap.
\<close>

section \<open>Types\<close>

text \<open>
  A scalar has a size and an alignment. GNU compilers attach the attribute after a type definition to
  the new name: the alignment is that number and the size stays. Microsoft's specifier is part of the
  structure: it can only raise the alignment, and the size is padded to it.
\<close>

datatype c_data =
    Scalar_type nat nat
  | Array_of nat c_data
  | Struct "c_field list"
  | Union "c_field list"
  | Attr_typedef nat c_data
  | Declspec_struct nat c_data
and c_field = Field (field_name: string) (field_type: c_data)

definition round_up :: "nat \<Rightarrow> nat \<Rightarrow> nat" where
  "round_up n a = (n + a - 1) div a * a"

fun calign :: "c_data \<Rightarrow> nat" and calign_fields :: "c_field list \<Rightarrow> nat" where
  "calign (Scalar_type s a) = a"
| "calign (Array_of n t) = calign t"
| "calign (Struct fs) = calign_fields fs"
| "calign (Union fs) = calign_fields fs"
| "calign (Attr_typedef k t) = k"
| "calign (Declspec_struct k t) = max k (calign t)"
| "calign_fields [] = 1"
| "calign_fields (Field n t # fs) = max (calign t) (calign_fields fs)"

fun csize :: "c_data \<Rightarrow> nat"
  and struct_end :: "nat \<Rightarrow> c_field list \<Rightarrow> nat"
  and largest :: "c_field list \<Rightarrow> nat" where
  "csize (Scalar_type s a) = s"
| "csize (Array_of n t) = n * csize t"
| "csize (Struct fs) = round_up (struct_end 0 fs) (calign_fields fs)"
| "csize (Union fs) = round_up (largest fs) (calign_fields fs)"
| "csize (Attr_typedef k t) = csize t"
| "csize (Declspec_struct k t) = round_up (csize t) (max k (calign t))"
| "struct_end off [] = off"
| "struct_end off (Field n t # fs) = struct_end (round_up off (calign t) + csize t) fs"
| "largest [] = 0"
| "largest (Field n t # fs) = max (csize t) (largest fs)"

fun layout :: "nat \<Rightarrow> c_field list \<Rightarrow> (string \<times> nat \<times> c_data) list" where
  "layout off [] = []"
| "layout off (Field n t # fs) =
     (n, round_up off (calign t), t) # layout (round_up off (calign t) + csize t) fs"

fun members :: "c_data \<Rightarrow> (string \<times> nat \<times> c_data) list" where
  "members (Struct fs) = layout 0 fs"
| "members (Union fs) = map (\<lambda>f. (field_name f, 0, field_type f)) fs"
| "members (Attr_typedef k t) = members t"
| "members (Declspec_struct k t) = members t"
| "members t = []"

definition offsetof :: "c_data \<Rightarrow> string \<Rightarrow> nat option" where
  "offsetof t n = map_option fst (map_of (members t) n)"

definition member_type :: "c_data \<Rightarrow> string \<Rightarrow> c_data option" where
  "member_type t n = map_option snd (map_of (members t) n)"

text \<open>Arrays whose elements would not all be aligned are refused by the compiler; alignments are
  positive.\<close>

fun compiles :: "c_data \<Rightarrow> bool" and compiles_fields :: "c_field list \<Rightarrow> bool" where
  "compiles (Scalar_type s a) = (0 < a)"
| "compiles (Array_of n t) = (compiles t \<and> csize t mod calign t = 0)"
| "compiles (Struct fs) = compiles_fields fs"
| "compiles (Union fs) = compiles_fields fs"
| "compiles (Attr_typedef k t) = (0 < k \<and> compiles t)"
| "compiles (Declspec_struct k t) = (0 < k \<and> compiles t)"
| "compiles_fields [] = True"
| "compiles_fields (Field n t # fs) = (compiles t \<and> compiles_fields fs)"

section \<open>Data models\<close>

record data_model =
  target :: platform
  sizeof_pointer :: nat
  sizeof_long :: nat
  alignof_8_bytes :: nat
  host_name_max :: nat

definition BSON_ALIGNED :: "data_model \<Rightarrow> nat \<Rightarrow> c_data \<Rightarrow> c_data" where
  "BSON_ALIGNED dm n t =
     (let t' = (case BSON_ALIGNED_END (target dm) (sizeof_pointer dm) n of
                  Some (Attr_aligned k) \<Rightarrow> Attr_typedef k t | _ \<Rightarrow> t)
      in case BSON_ALIGNED_BEGIN (target dm) (sizeof_pointer dm) n of
           Some (Declspec_align k) \<Rightarrow> Declspec_struct k t' | _ \<Rightarrow> t')"

definition ty_char :: c_data where "ty_char = Scalar_type 1 1"
definition ty_uint8 :: c_data where "ty_uint8 = Scalar_type 1 1"
definition ty_int8 :: c_data where "ty_int8 = Scalar_type 1 1"
definition ty_bool :: c_data where "ty_bool = Scalar_type 1 1"
definition ty_uint16 :: c_data where "ty_uint16 = Scalar_type 2 2"
definition ty_int :: c_data where "ty_int = Scalar_type 4 4"
definition ty_unsigned :: c_data where "ty_unsigned = Scalar_type 4 4"
definition ty_enum :: c_data where "ty_enum = Scalar_type 4 4"
definition ty_int32 :: c_data where "ty_int32 = Scalar_type 4 4"
definition ty_uint32 :: c_data where "ty_uint32 = Scalar_type 4 4"

definition ty_int64 :: "data_model \<Rightarrow> c_data" where
  "ty_int64 dm = Scalar_type 8 (alignof_8_bytes dm)"

definition ty_uint64 :: "data_model \<Rightarrow> c_data" where
  "ty_uint64 dm = Scalar_type 8 (alignof_8_bytes dm)"

definition ty_double :: "data_model \<Rightarrow> c_data" where
  "ty_double dm = Scalar_type 8 (alignof_8_bytes dm)"

definition ty_pointer :: "data_model \<Rightarrow> c_data" where
  "ty_pointer dm = Scalar_type (sizeof_pointer dm) (sizeof_pointer dm)"

definition ty_size_t :: "data_model \<Rightarrow> c_data" where
  "ty_size_t dm = Scalar_type (sizeof_pointer dm) (sizeof_pointer dm)"

definition ty_long :: "data_model \<Rightarrow> c_data" where
  "ty_long dm = Scalar_type (sizeof_long dm) (sizeof_long dm)"

lemmas c_scalars = ty_char_def ty_uint8_def ty_int8_def ty_bool_def ty_uint16_def ty_int_def ty_unsigned_def
  ty_enum_def ty_int32_def ty_uint32_def ty_int64_def ty_uint64_def ty_double_def ty_pointer_def ty_size_t_def
  ty_long_def

text \<open>Linux on x86-64 and on i386, Windows with 64 and with 32 bits; with the extra alignment or not.\<close>

definition gnu_linux :: "bool \<Rightarrow> platform" where
  "gnu_linux extra = \<lparr>gnuc = Some (4, 8), clang = None, clang_builtin_bswap = (\<lambda>w. False), msc_ver = False,
     sunpro = False, xlc = False, win32 = False, win64 = False, sun = False, svr4 = False, linux = True,
     bsd = False, apple = False, lp64 = True, x86 = True, cplusplus = False, stdc_version = Some 199901,
     bson_compilation = False, configured = (\<lambda>m. m = ''BSON_EXTRA_ALIGN'' \<and> extra)\<rparr>"

definition microsoft :: "bool \<Rightarrow> bool \<Rightarrow> platform" where
  "microsoft bits64 extra = (gnu_linux extra)\<lparr>gnuc := None, msc_ver := True, win32 := True, win64 := bits64,
     linux := False, lp64 := False\<rparr>"

definition data_models :: "bool \<Rightarrow> data_model list" where
  "data_models extra =
     [\<lparr>target = gnu_linux extra, sizeof_pointer = 8, sizeof_long = 8, alignof_8_bytes = 8, host_name_max = 64\<rparr>,
      \<lparr>target = (gnu_linux extra)\<lparr>lp64 := False\<rparr>, sizeof_pointer = 4, sizeof_long = 4, alignof_8_bytes = 4, host_name_max = 64\<rparr>,
      \<lparr>target = microsoft True extra, sizeof_pointer = 8, sizeof_long = 4, alignof_8_bytes = 8, host_name_max = 255\<rparr>,
      \<lparr>target = microsoft False extra, sizeof_pointer = 4, sizeof_long = 4, alignof_8_bytes = 8, host_name_max = 255\<rparr>]"

lemma BSON_ALIGNED_gnu:
  "\<not> msc_ver (target dm) \<Longrightarrow> BSON_ALIGNED dm n t =
     Attr_typedef (if configured (target dm) ''BSON_EXTRA_ALIGN'' then n else min n (sizeof_pointer dm)) t"
  by (simp add: BSON_ALIGNED_def BSON_ALIGNED_BEGIN_def BSON_ALIGNED_END_def BSON_ALIGN_OF_PTR_def min_def)

lemma BSON_ALIGNED_msc:
  "msc_ver (target dm) \<Longrightarrow> BSON_ALIGNED dm n t =
     Declspec_struct (if configured (target dm) ''BSON_EXTRA_ALIGN'' then n
       else min n (if win64 (target dm) then 8 else 4)) t"
  by (simp add: BSON_ALIGNED_def BSON_ALIGNED_BEGIN_def BSON_ALIGNED_END_def BSON_ALIGN_OF_PTR_def min_def)

lemma BSON_ALIGNED_members [simp]: "members (BSON_ALIGNED dm n t) = members t"
  by (cases "msc_ver (target dm)") (simp_all add: BSON_ALIGNED_gnu BSON_ALIGNED_msc)

section \<open>Offsets\<close>

lemma round_up_least: "0 < a \<Longrightarrow> n \<le> round_up n a"
proof -
  assume a: "0 < a"
  have "n + a - 1 < ((n + a - 1) div a + 1) * a"
    using a by (metis Suc_eq_plus1 dividend_less_times_div mult.commute mult_Suc_right add.commute)
  then show ?thesis using a by (simp add: round_up_def)
qed

lemma round_up_mod [simp]: "round_up n a mod a = 0"
  by (simp add: round_up_def)

lemma round_up_0 [simp]: "round_up 0 a = 0"
  by (cases "a = 0") (simp_all add: round_up_def)

lemma calign_positive:
  "compiles t \<Longrightarrow> 0 < calign t"
  "0 < calign_fields fs"
  by (induction t and fs rule: calign_calign_fields.induct) auto

lemma struct_end_least: "compiles_fields fs \<Longrightarrow> off \<le> struct_end off fs"
proof (induction fs arbitrary: off)
  case (Cons f fs)
  obtain n t where f: "f = Field n t" by (cases f)
  have "off \<le> round_up off (calign t)" using Cons.prems calign_positive(1) by (simp add: f round_up_least)
  also have "\<dots> \<le> struct_end (round_up off (calign t) + csize t) fs"
    using Cons.IH [of "round_up off (calign t) + csize t"] Cons.prems by (simp add: f)
  finally show ?case by (simp add: f)
qed simp

lemma layout_bounds:
  assumes "compiles_fields fs" "(n, off', t) \<in> set (layout off fs)"
  shows "off \<le> off' \<and> off' + csize t \<le> struct_end off fs \<and> off' mod calign t = 0 \<and>
    calign t \<le> calign_fields fs"
  using assms
proof (induction fs arbitrary: off)
  case (Cons f fs)
  obtain m u where f: "f = Field m u" by (cases f)
  let ?next = "round_up off (calign u) + csize u"
  have "off \<le> round_up off (calign u)" using Cons.prems(1) calign_positive(1) by (simp add: f round_up_least)
  then show ?case
    using Cons.IH [of ?next] Cons.prems struct_end_least [of fs ?next] by (auto simp: f)
qed simp

lemma layout_ordered:
  assumes "compiles_fields fs"
  shows "sorted_wrt (\<lambda>(m, off1, t1) (n, off2, t2). off1 + csize t1 \<le> off2) (layout off fs)"
  using assms
proof (induction fs arbitrary: off)
  case (Cons f fs)
  obtain m u where f: "f = Field m u" by (cases f)
  show ?case
    using Cons.IH [of "round_up off (calign u) + csize u"] Cons.prems layout_bounds [of fs]
    by (fastforce simp: f)
qed simp

lemma struct_end_append: "struct_end off (xs @ ys) = struct_end (struct_end off xs) ys"
proof (induction xs arbitrary: off)
  case (Cons f fs)
  obtain n t where "f = Field n t" by (cases f)
  then show ?case using Cons.IH by simp
qed simp

lemma layout_names: "map fst (layout off fs) = map field_name fs"
  by (induction fs arbitrary: off) (auto, metis c_field.exhaust layout.simps(2) list.simps(9) fst_conv c_field.sel(1))

lemma largest_bounds: "Field n t \<in> set fs \<Longrightarrow> csize t \<le> largest fs"
  by (induction fs) (auto, metis c_field.exhaust largest.simps(2) le_max_iff_disj c_field.inject)

lemma csize_mod_struct: "csize (Struct fs) mod calign (Struct fs) = 0" "csize (Union fs) mod calign (Union fs) = 0"
  by simp_all

end
