(* ===== verification/Bson_Layout.thy ===== *)
theory Bson_Layout
  imports C_Layout
begin

text \<open>
  The structures of libbson's headers (bson-types.h, bson-string.h, bson-memory.h, bson-md5.h, bcon.h),
  field by field, as a function of the data model.
\<close>

definition BCON_STACK_MAX :: nat where
  "BCON_STACK_MAX = 100"

definition bson_layout :: "data_model \<Rightarrow> c_data" where
  "bson_layout dm =
     BSON_ALIGNED dm 128 (Struct
       [Field ''flags'' ty_uint32, Field ''len'' ty_uint32,
        Field ''padding'' (Array_of 120 ty_uint8)])"

definition bson_oid_layout :: "data_model \<Rightarrow> c_data" where
  "bson_oid_layout dm =
     Struct
       [Field ''bytes'' (Array_of 12 ty_uint8)]"

definition bson_value_layout :: "data_model \<Rightarrow> c_data" where
  "bson_value_layout dm =
     BSON_ALIGNED dm 8 (Struct
       [Field ''value_type'' ty_enum, Field ''padding'' ty_int32,
        Field ''value'' (Union
          [Field ''v_oid'' (bson_oid_layout dm), Field ''v_int64'' (ty_int64 dm),
           Field ''v_int32'' ty_int32, Field ''v_int8'' ty_int8, Field ''v_double'' (ty_double dm),
           Field ''v_bool'' ty_bool, Field ''v_datetime'' (ty_int64 dm),
           Field ''v_timestamp'' (Struct
             [Field ''timestamp'' ty_uint32, Field ''increment'' ty_uint32]),
           Field ''v_utf8'' (Struct
             [Field ''str'' (ty_pointer dm), Field ''len'' ty_uint32]),
           Field ''v_doc'' (Struct
             [Field ''data'' (ty_pointer dm), Field ''data_len'' ty_uint32]),
           Field ''v_binary'' (Struct
             [Field ''data'' (ty_pointer dm), Field ''data_len'' ty_uint32,
              Field ''subtype'' ty_enum]),
           Field ''v_regex'' (Struct
             [Field ''regex'' (ty_pointer dm), Field ''options'' (ty_pointer dm)]),
           Field ''v_dbpointer'' (Struct
             [Field ''collection'' (ty_pointer dm), Field ''collection_len'' ty_uint32,
              Field ''oid'' (bson_oid_layout dm)]),
           Field ''v_code'' (Struct
             [Field ''code'' (ty_pointer dm), Field ''code_len'' ty_uint32]),
           Field ''v_codewscope'' (Struct
             [Field ''code'' (ty_pointer dm), Field ''scope_data'' (ty_pointer dm),
              Field ''code_len'' ty_uint32, Field ''scope_len'' ty_uint32]),
           Field ''v_symbol'' (Struct
             [Field ''symbol'' (ty_pointer dm), Field ''len'' ty_uint32])])])"

definition bson_iter_layout :: "data_model \<Rightarrow> c_data" where
  "bson_iter_layout dm =
     BSON_ALIGNED dm 128 (Struct
       [Field ''raw'' (ty_pointer dm), Field ''len'' ty_uint32, Field ''off'' ty_uint32,
        Field ''type'' ty_uint32, Field ''key'' ty_uint32, Field ''d1'' ty_uint32,
        Field ''d2'' ty_uint32, Field ''d3'' ty_uint32, Field ''d4'' ty_uint32,
        Field ''next_off'' ty_uint32, Field ''err_off'' ty_uint32,
        Field ''value'' (bson_value_layout dm)])"

definition bson_reader_layout :: "data_model \<Rightarrow> c_data" where
  "bson_reader_layout dm =
     BSON_ALIGNED dm (BSON_ALIGN_OF_PTR (target dm) (sizeof_pointer dm)) (Struct
       [Field ''type'' ty_uint32])"

definition bson_visitor_layout :: "data_model \<Rightarrow> c_data" where
  "bson_visitor_layout dm =
     BSON_ALIGNED dm 8 (Struct
       [Field ''visit_before'' (ty_pointer dm), Field ''visit_after'' (ty_pointer dm),
        Field ''visit_corrupt'' (ty_pointer dm), Field ''visit_double'' (ty_pointer dm),
        Field ''visit_utf8'' (ty_pointer dm), Field ''visit_document'' (ty_pointer dm),
        Field ''visit_array'' (ty_pointer dm), Field ''visit_binary'' (ty_pointer dm),
        Field ''visit_undefined'' (ty_pointer dm), Field ''visit_oid'' (ty_pointer dm),
        Field ''visit_bool'' (ty_pointer dm), Field ''visit_date_time'' (ty_pointer dm),
        Field ''visit_null'' (ty_pointer dm), Field ''visit_regex'' (ty_pointer dm),
        Field ''visit_dbpointer'' (ty_pointer dm), Field ''visit_code'' (ty_pointer dm),
        Field ''visit_symbol'' (ty_pointer dm), Field ''visit_codewscope'' (ty_pointer dm),
        Field ''visit_int32'' (ty_pointer dm), Field ''visit_timestamp'' (ty_pointer dm),
        Field ''visit_int64'' (ty_pointer dm), Field ''visit_maxkey'' (ty_pointer dm),
        Field ''visit_minkey'' (ty_pointer dm), Field ''padding'' (Array_of 9 (ty_pointer dm))])"

definition bson_error_layout :: "data_model \<Rightarrow> c_data" where
  "bson_error_layout dm =
     BSON_ALIGNED dm 8 (Struct
       [Field ''domain'' ty_uint32, Field ''code'' ty_uint32,
        Field ''message'' (Array_of 504 ty_char)])"

definition bson_string_layout :: "data_model \<Rightarrow> c_data" where
  "bson_string_layout dm =
     Struct
       [Field ''str'' (ty_pointer dm), Field ''len'' ty_uint32, Field ''alloc'' ty_uint32]"

definition bson_mem_vtable_layout :: "data_model \<Rightarrow> c_data" where
  "bson_mem_vtable_layout dm =
     Struct
       [Field ''malloc'' (ty_pointer dm), Field ''calloc'' (ty_pointer dm),
        Field ''realloc'' (ty_pointer dm), Field ''free'' (ty_pointer dm),
        Field ''padding'' (Array_of 4 (ty_pointer dm))]"

definition bson_md5_layout :: "data_model \<Rightarrow> c_data" where
  "bson_md5_layout dm =
     Struct
       [Field ''count'' (Array_of 2 ty_uint32), Field ''abcd'' (Array_of 4 ty_uint32),
        Field ''buf'' (Array_of 64 ty_uint8)]"

definition bcon_append_ctx_frame_layout :: "data_model \<Rightarrow> c_data" where
  "bcon_append_ctx_frame_layout dm =
     Struct
       [Field ''i'' ty_int, Field ''is_array'' ty_bool, Field ''bson'' (bson_layout dm)]"

definition bcon_extract_ctx_frame_layout :: "data_model \<Rightarrow> c_data" where
  "bcon_extract_ctx_frame_layout dm =
     Struct
       [Field ''i'' ty_int, Field ''is_array'' ty_bool, Field ''iter'' (bson_iter_layout dm)]"

definition bcon_append_ctx_layout :: "data_model \<Rightarrow> c_data" where
  "bcon_append_ctx_layout dm =
     Struct
       [Field ''stack'' (Array_of BCON_STACK_MAX (bcon_append_ctx_frame_layout dm)),
        Field ''n'' ty_int]"

definition bcon_extract_ctx_layout :: "data_model \<Rightarrow> c_data" where
  "bcon_extract_ctx_layout dm =
     Struct
       [Field ''stack'' (Array_of BCON_STACK_MAX (bcon_extract_ctx_frame_layout dm)),
        Field ''n'' ty_int]"

definition bson_structs :: "data_model \<Rightarrow> c_data list" where
  "bson_structs dm =
     [bson_layout dm, bson_oid_layout dm, bson_value_layout dm,
      bson_iter_layout dm, bson_reader_layout dm, bson_visitor_layout dm,
      bson_error_layout dm, bson_string_layout dm, bson_mem_vtable_layout dm,
      bson_md5_layout dm, bcon_append_ctx_frame_layout dm, bcon_extract_ctx_frame_layout dm,
      bcon_append_ctx_layout dm, bcon_extract_ctx_layout dm]"

lemmas bson_layout_defs = bson_layout_def bson_oid_layout_def bson_value_layout_def
  bson_iter_layout_def bson_reader_layout_def bson_visitor_layout_def
  bson_error_layout_def bson_string_layout_def bson_mem_vtable_layout_def
  bson_md5_layout_def bcon_append_ctx_frame_layout_def bcon_extract_ctx_frame_layout_def
  bcon_append_ctx_layout_def bcon_extract_ctx_layout_def

section \<open>Every structure is well laid out\<close>

definition well_laid_out :: "c_data \<Rightarrow> bool" where
  "well_laid_out t \<longleftrightarrow>
     sorted_wrt (\<lambda>(m, off1, t1) (n, off2, t2). off1 + csize t1 \<le> off2) (members t) \<and>
     list_all (\<lambda>(n, off, u). off mod calign u = 0 \<and> off + csize u \<le> csize t) (members t)"

definition data_model_ok :: "data_model \<Rightarrow> bool" where
  "data_model_ok dm \<longleftrightarrow> 0 < sizeof_pointer dm \<and> 0 < sizeof_long dm \<and> 0 < alignof_8_bytes dm \<and>
     8 mod alignof_8_bytes dm = 0"

lemma struct_well_laid_out:
  assumes "compiles (Struct fs)"
  shows "well_laid_out (Struct fs)"
proof -
  have "struct_end 0 fs \<le> csize (Struct fs)"
    by (simp add: round_up_least calign_positive)
  then show ?thesis
    using layout_ordered [of fs 0] layout_bounds [of fs _ _ _ 0] assms
    unfolding well_laid_out_def list_all_iff by (fastforce intro: order_trans)
qed

lemma BSON_ALIGNED_csize: "compiles t \<Longrightarrow> csize t \<le> csize (BSON_ALIGNED dm n t)"
  using calign_positive(1) [of t]
  by (cases "msc_ver (target dm)") (simp_all add: BSON_ALIGNED_gnu BSON_ALIGNED_msc round_up_least max_def)

lemma aligned_well_laid_out:
  assumes "compiles t" "well_laid_out t"
  shows "well_laid_out (BSON_ALIGNED dm n t)"
  using assms(2) BSON_ALIGNED_csize [OF assms(1), of dm n]
  unfolding well_laid_out_def list_all_iff by fastforce

lemma BSON_ALIGNED_compiles:
  "0 < n \<Longrightarrow> data_model_ok dm \<Longrightarrow> compiles t \<Longrightarrow> compiles (BSON_ALIGNED dm n t)"
  by (cases "msc_ver (target dm)") (simp_all add: BSON_ALIGNED_gnu BSON_ALIGNED_msc data_model_ok_def)

lemma ALIGN_OF_PTR_positive: "data_model_ok dm \<Longrightarrow> 0 < BSON_ALIGN_OF_PTR (target dm) (sizeof_pointer dm)"
  by (simp add: BSON_ALIGN_OF_PTR_def data_model_ok_def)

lemmas scalars_compile = c_scalars data_model_ok_def

lemma bson_structs_compile:
  assumes "data_model_ok dm"
  shows "list_all compiles (bson_structs dm)"
proof -
  note ok = assms [unfolded data_model_ok_def]
  have frames: "csize (bcon_append_ctx_frame_layout dm) mod calign (bcon_append_ctx_frame_layout dm) = 0"
      "csize (bcon_extract_ctx_frame_layout dm) mod calign (bcon_extract_ctx_frame_layout dm) = 0"
    unfolding bcon_append_ctx_frame_layout_def bcon_extract_ctx_frame_layout_def by (rule csize_mod_struct)+
  have bson_layout: "compiles (bson_layout dm)"
    unfolding bson_layout_def by (simp add: c_scalars ok BSON_ALIGNED_compiles ALIGN_OF_PTR_positive assms frames)
  have bson_oid_layout: "compiles (bson_oid_layout dm)"
    unfolding bson_oid_layout_def by (simp add: c_scalars ok BSON_ALIGNED_compiles ALIGN_OF_PTR_positive assms frames)
  have bson_value_layout: "compiles (bson_value_layout dm)"
    unfolding bson_value_layout_def by (simp add: c_scalars ok BSON_ALIGNED_compiles ALIGN_OF_PTR_positive assms frames bson_oid_layout)
  have bson_iter_layout: "compiles (bson_iter_layout dm)"
    unfolding bson_iter_layout_def by (simp add: c_scalars ok BSON_ALIGNED_compiles ALIGN_OF_PTR_positive assms frames bson_value_layout)
  have bson_reader_layout: "compiles (bson_reader_layout dm)"
    unfolding bson_reader_layout_def by (simp add: c_scalars ok BSON_ALIGNED_compiles ALIGN_OF_PTR_positive assms frames)
  have bson_visitor_layout: "compiles (bson_visitor_layout dm)"
    unfolding bson_visitor_layout_def by (simp add: c_scalars ok BSON_ALIGNED_compiles ALIGN_OF_PTR_positive assms frames)
  have bson_error_layout: "compiles (bson_error_layout dm)"
    unfolding bson_error_layout_def by (simp add: c_scalars ok BSON_ALIGNED_compiles ALIGN_OF_PTR_positive assms frames)
  have bson_string_layout: "compiles (bson_string_layout dm)"
    unfolding bson_string_layout_def by (simp add: c_scalars ok BSON_ALIGNED_compiles ALIGN_OF_PTR_positive assms frames)
  have bson_mem_vtable_layout: "compiles (bson_mem_vtable_layout dm)"
    unfolding bson_mem_vtable_layout_def by (simp add: c_scalars ok BSON_ALIGNED_compiles ALIGN_OF_PTR_positive assms frames)
  have bson_md5_layout: "compiles (bson_md5_layout dm)"
    unfolding bson_md5_layout_def by (simp add: c_scalars ok BSON_ALIGNED_compiles ALIGN_OF_PTR_positive assms frames)
  have bcon_append_ctx_frame_layout: "compiles (bcon_append_ctx_frame_layout dm)"
    unfolding bcon_append_ctx_frame_layout_def by (simp add: c_scalars ok BSON_ALIGNED_compiles ALIGN_OF_PTR_positive assms frames bson_layout)
  have bcon_extract_ctx_frame_layout: "compiles (bcon_extract_ctx_frame_layout dm)"
    unfolding bcon_extract_ctx_frame_layout_def by (simp add: c_scalars ok BSON_ALIGNED_compiles ALIGN_OF_PTR_positive assms frames bson_iter_layout)
  have bcon_append_ctx_layout: "compiles (bcon_append_ctx_layout dm)"
    unfolding bcon_append_ctx_layout_def by (simp add: c_scalars ok BSON_ALIGNED_compiles ALIGN_OF_PTR_positive assms frames bcon_append_ctx_frame_layout)
  have bcon_extract_ctx_layout: "compiles (bcon_extract_ctx_layout dm)"
    unfolding bcon_extract_ctx_layout_def by (simp add: c_scalars ok BSON_ALIGNED_compiles ALIGN_OF_PTR_positive assms frames bcon_extract_ctx_frame_layout)
  show ?thesis
    by (simp add: bson_structs_def bson_layout bson_oid_layout bson_value_layout bson_iter_layout
        bson_reader_layout bson_visitor_layout bson_error_layout bson_string_layout
        bson_mem_vtable_layout bson_md5_layout bcon_append_ctx_frame_layout bcon_extract_ctx_frame_layout
        bcon_append_ctx_layout bcon_extract_ctx_layout)
qed

end
