(* ===== verification/Mongoc_Layout.thy ===== *)
theory Mongoc_Layout
  imports Bson_Layout Counters
begin

text \<open>
  The structures of libmongoc's headers, field by field, and the messages of the wire protocol: the
  field macros of mongoc-rpc-private.h with the message definitions (op-*.def) it includes.

  A group of bit fields is one unit of \<^verbatim>\<open>unsigned\<close>, since what follows is aligned to
  at least a unit.
\<close>

definition MONGOC_SCRAM_HASH_SIZE :: nat where
  "MONGOC_SCRAM_HASH_SIZE = 20"

definition MONGOC_NAMESPACE_MAX :: nat where
  "MONGOC_NAMESPACE_MAX = 128"

definition BSON_HOST_NAME_MAX :: "nat option \<Rightarrow> nat option \<Rightarrow> nat" where
  "BSON_HOST_NAME_MAX host_max posix_host_max =
     (case host_max of
        None \<Rightarrow> (case posix_host_max of Some n \<Rightarrow> n | None \<Rightarrow> 255)
      | Some n \<Rightarrow> n)"

text \<open>On Windows a structure of its own; elsewhere the system's \<^verbatim>\<open>struct iovec\<close>.\<close>

definition mongoc_iovec_layout :: "data_model \<Rightarrow> c_data" where
  "mongoc_iovec_layout dm =
     (if win32 (target dm)
      then Struct [Field ''iov_len'' (ty_long dm), Field ''iov_base'' (ty_pointer dm)]
      else Struct [Field ''iov_base'' (ty_pointer dm), Field ''iov_len'' (ty_size_t dm)])"

text \<open>Windows documents \<^verbatim>\<open>WSABUF\<close> with these fields.\<close>

definition WSABUF :: "data_model \<Rightarrow> c_data" where
  "WSABUF dm = Struct [Field ''len'' (ty_long dm), Field ''buf'' (ty_pointer dm)]"

section \<open>Structures\<close>

definition mongoc_array_layout :: "data_model \<Rightarrow> c_data" where
  "mongoc_array_layout dm =
     Struct
       [Field ''len'' (ty_size_t dm), Field ''element_size'' (ty_size_t dm),
        Field ''allocated'' (ty_size_t dm), Field ''data'' (ty_pointer dm)]"

definition mongoc_buffer_layout :: "data_model \<Rightarrow> c_data" where
  "mongoc_buffer_layout dm =
     Struct
       [Field ''data'' (ty_pointer dm), Field ''datalen'' (ty_size_t dm),
        Field ''off'' (ty_long dm), Field ''len'' (ty_size_t dm),
        Field ''realloc_func'' (ty_pointer dm), Field ''realloc_data'' (ty_pointer dm)]"

definition mongoc_list_layout :: "data_model \<Rightarrow> c_data" where
  "mongoc_list_layout dm =
     Struct
       [Field ''next'' (ty_pointer dm), Field ''data'' (ty_pointer dm)]"

definition mongoc_queue_layout :: "data_model \<Rightarrow> c_data" where
  "mongoc_queue_layout dm =
     Struct
       [Field ''head'' (ty_pointer dm), Field ''tail'' (ty_pointer dm)]"

definition mongoc_queue_item_layout :: "data_model \<Rightarrow> c_data" where
  "mongoc_queue_item_layout dm =
     Struct
       [Field ''next'' (ty_pointer dm), Field ''data'' (ty_pointer dm)]"

definition mongoc_set_item_layout :: "data_model \<Rightarrow> c_data" where
  "mongoc_set_item_layout dm =
     Struct
       [Field ''id'' ty_uint32, Field ''item'' (ty_pointer dm)]"

definition mongoc_set_layout :: "data_model \<Rightarrow> c_data" where
  "mongoc_set_layout dm =
     Struct
       [Field ''items'' (ty_pointer dm), Field ''items_len'' (ty_size_t dm),
        Field ''items_allocated'' (ty_size_t dm), Field ''dtor'' (ty_pointer dm),
        Field ''dtor_ctx'' (ty_pointer dm)]"

definition mongoc_host_list_layout :: "data_model \<Rightarrow> c_data" where
  "mongoc_host_list_layout dm =
     Struct
       [Field ''next'' (ty_pointer dm), Field ''host'' (Array_of (host_name_max dm + 1) ty_char),
        Field ''host_and_port'' (Array_of (host_name_max dm + 7) ty_char),
        Field ''port'' ty_uint16, Field ''family'' ty_int,
        Field ''padding'' (Array_of 4 (ty_pointer dm))]"

definition mongoc_stream_poll_layout :: "data_model \<Rightarrow> c_data" where
  "mongoc_stream_poll_layout dm =
     Struct
       [Field ''stream'' (ty_pointer dm), Field ''events'' ty_int, Field ''revents'' ty_int]"

definition mongoc_stream_layout :: "data_model \<Rightarrow> c_data" where
  "mongoc_stream_layout dm =
     Struct
       [Field ''type'' ty_int, Field ''destroy'' (ty_pointer dm), Field ''close'' (ty_pointer dm),
        Field ''flush'' (ty_pointer dm), Field ''writev'' (ty_pointer dm),
        Field ''readv'' (ty_pointer dm), Field ''setsockopt'' (ty_pointer dm),
        Field ''get_base_stream'' (ty_pointer dm), Field ''check_closed'' (ty_pointer dm),
        Field ''poll'' (ty_pointer dm), Field ''failed'' (ty_pointer dm),
        Field ''padding'' (Array_of 5 (ty_pointer dm))]"

definition mongoc_socket_poll_layout :: "data_model \<Rightarrow> c_data" where
  "mongoc_socket_poll_layout dm =
     Struct
       [Field ''socket'' (ty_pointer dm), Field ''events'' ty_int, Field ''revents'' ty_int]"

definition mongoc_ssl_opt_layout :: "data_model \<Rightarrow> c_data" where
  "mongoc_ssl_opt_layout dm =
     Struct
       [Field ''pem_file'' (ty_pointer dm), Field ''pem_pwd'' (ty_pointer dm),
        Field ''ca_file'' (ty_pointer dm), Field ''ca_dir'' (ty_pointer dm),
        Field ''crl_file'' (ty_pointer dm), Field ''weak_cert_validation'' ty_bool,
        Field ''padding'' (Array_of 8 (ty_pointer dm))]"

definition mongoc_scram_layout :: "data_model \<Rightarrow> c_data" where
  "mongoc_scram_layout dm =
     Struct
       [Field ''done'' ty_bool, Field ''step'' ty_int, Field ''user'' (ty_pointer dm),
        Field ''pass'' (ty_pointer dm),
        Field ''salted_password'' (Array_of MONGOC_SCRAM_HASH_SIZE ty_uint8),
        Field ''encoded_nonce'' (Array_of 48 ty_char), Field ''encoded_nonce_len'' ty_int32,
        Field ''auth_message'' (ty_pointer dm), Field ''auth_messagemax'' ty_uint32,
        Field ''auth_messagelen'' ty_uint32]"

definition mongoc_server_description_layout :: "data_model \<Rightarrow> c_data" where
  "mongoc_server_description_layout dm =
     Struct
       [Field ''id'' ty_uint32, Field ''host'' (mongoc_host_list_layout dm),
        Field ''round_trip_time'' (ty_int64 dm), Field ''last_is_master'' (bson_layout dm),
        Field ''has_is_master'' ty_bool, Field ''connection_address'' (ty_pointer dm),
        Field ''me'' (ty_pointer dm), Field ''set_name'' (ty_pointer dm),
        Field ''error'' (bson_error_layout dm), Field ''type'' ty_enum,
        Field ''min_wire_version'' ty_int32, Field ''max_wire_version'' ty_int32,
        Field ''max_msg_size'' ty_int32, Field ''max_bson_obj_size'' ty_int32,
        Field ''max_write_batch_size'' ty_int32, Field ''hosts'' (bson_layout dm),
        Field ''passives'' (bson_layout dm), Field ''arbiters'' (bson_layout dm),
        Field ''tags'' (bson_layout dm), Field ''current_primary'' (ty_pointer dm),
        Field ''set_version'' (ty_int64 dm), Field ''election_id'' (bson_oid_layout dm)]"

definition mongoc_server_stream_layout :: "data_model \<Rightarrow> c_data" where
  "mongoc_server_stream_layout dm =
     Struct
       [Field ''topology_type'' ty_enum, Field ''sd'' (ty_pointer dm),
        Field ''stream'' (ty_pointer dm)]"

definition mongoc_topology_description_layout :: "data_model \<Rightarrow> c_data" where
  "mongoc_topology_description_layout dm =
     Struct
       [Field ''type'' ty_enum, Field ''servers'' (ty_pointer dm),
        Field ''set_name'' (ty_pointer dm), Field ''max_set_version'' (ty_int64 dm),
        Field ''max_election_id'' (bson_oid_layout dm), Field ''compatible'' ty_bool,
        Field ''compatibility_error'' (ty_pointer dm), Field ''max_server_id'' ty_uint32,
        Field ''stale'' ty_bool]"

definition mongoc_topology_scanner_node_layout :: "data_model \<Rightarrow> c_data" where
  "mongoc_topology_scanner_node_layout dm =
     Struct
       [Field ''id'' ty_uint32, Field ''cmd'' (ty_pointer dm), Field ''stream'' (ty_pointer dm),
        Field ''timestamp'' (ty_int64 dm), Field ''last_used'' (ty_int64 dm),
        Field ''last_failed'' (ty_int64 dm), Field ''has_auth'' ty_bool,
        Field ''host'' (mongoc_host_list_layout dm), Field ''dns_results'' (ty_pointer dm),
        Field ''current_dns_result'' (ty_pointer dm), Field ''ts'' (ty_pointer dm),
        Field ''next'' (ty_pointer dm), Field ''prev'' (ty_pointer dm), Field ''retired'' ty_bool,
        Field ''last_error'' (bson_error_layout dm)]"

definition mongoc_topology_scanner_layout :: "data_model \<Rightarrow> c_data" where
  "mongoc_topology_scanner_layout dm =
     Struct
       [Field ''async'' (ty_pointer dm), Field ''nodes'' (ty_pointer dm), Field ''seq'' ty_uint32,
        Field ''ismaster_cmd'' (bson_layout dm), Field ''cb'' (ty_pointer dm),
        Field ''cb_data'' (ty_pointer dm), Field ''in_progress'' ty_bool,
        Field ''uri'' (ty_pointer dm), Field ''setup'' (ty_pointer dm),
        Field ''initiator'' (ty_pointer dm), Field ''initiator_context'' (ty_pointer dm),
        Field ''ssl_opts'' (ty_pointer dm)]"

definition mongoc_async_layout :: "data_model \<Rightarrow> c_data" where
  "mongoc_async_layout dm =
     Struct
       [Field ''cmds'' (ty_pointer dm), Field ''ncmds'' (ty_size_t dm),
        Field ''request_id'' ty_uint32]"

definition mongoc_bulk_write_flags_layout :: "data_model \<Rightarrow> c_data" where
  "mongoc_bulk_write_flags_layout dm =
     Struct
       [Field ''ordered'' ty_bool, Field ''bypass_document_validation'' ty_enum]"

definition mongoc_write_command_layout :: "data_model \<Rightarrow> c_data" where
  "mongoc_write_command_layout dm =
     Struct
       [Field ''type'' ty_int, Field ''hint'' ty_uint32, Field ''documents'' (ty_pointer dm),
        Field ''n_documents'' ty_uint32, Field ''flags'' (mongoc_bulk_write_flags_layout dm),
        Field ''u'' (Union
          [Field ''delete_'' (Struct
             [Field ''multi'' ty_bool]),
           Field ''insert'' (Struct
             [Field ''allow_bulk_op_insert'' ty_bool])])]"

definition mongoc_write_result_layout :: "data_model \<Rightarrow> c_data" where
  "mongoc_write_result_layout dm =
     Struct
       [Field ''omit_nModified'' ty_bool, Field ''nInserted'' ty_uint32,
        Field ''nMatched'' ty_uint32, Field ''nModified'' ty_uint32, Field ''nRemoved'' ty_uint32,
        Field ''nUpserted'' ty_uint32, Field ''writeErrors'' (bson_layout dm),
        Field ''upserted'' (bson_layout dm), Field ''n_writeConcernErrors'' ty_uint32,
        Field ''writeConcernErrors'' (bson_layout dm), Field ''failed'' ty_bool,
        Field ''error'' (bson_error_layout dm), Field ''upsert_append_count'' ty_uint32]"

definition mongoc_write_concern_layout :: "data_model \<Rightarrow> c_data" where
  "mongoc_write_concern_layout dm =
     Struct
       [Field ''fsync_'' ty_int8, Field ''journal'' ty_int8, Field ''w'' ty_int32,
        Field ''wtimeout'' ty_int32, Field ''wtag'' (ty_pointer dm), Field ''frozen'' ty_bool,
        Field ''compiled'' (bson_layout dm), Field ''compiled_gle'' (bson_layout dm)]"

definition mongoc_read_concern_layout :: "data_model \<Rightarrow> c_data" where
  "mongoc_read_concern_layout dm =
     Struct
       [Field ''level'' (ty_pointer dm), Field ''frozen'' ty_bool,
        Field ''compiled'' (bson_layout dm)]"

definition mongoc_read_prefs_layout :: "data_model \<Rightarrow> c_data" where
  "mongoc_read_prefs_layout dm =
     Struct
       [Field ''mode'' ty_enum, Field ''tags'' (bson_layout dm)]"

definition mongoc_apply_read_prefs_result_layout :: "data_model \<Rightarrow> c_data" where
  "mongoc_apply_read_prefs_result_layout dm =
     Struct
       [Field ''query_with_read_prefs'' (ty_pointer dm), Field ''query_owned'' ty_bool,
        Field ''flags'' ty_enum]"

definition mongoc_matcher_op_base_layout :: "data_model \<Rightarrow> c_data" where
  "mongoc_matcher_op_base_layout dm =
     Struct
       [Field ''opcode'' ty_enum]"

definition mongoc_matcher_op_logical_layout :: "data_model \<Rightarrow> c_data" where
  "mongoc_matcher_op_logical_layout dm =
     Struct
       [Field ''base'' (mongoc_matcher_op_base_layout dm), Field ''left'' (ty_pointer dm),
        Field ''right'' (ty_pointer dm)]"

definition mongoc_matcher_op_compare_layout :: "data_model \<Rightarrow> c_data" where
  "mongoc_matcher_op_compare_layout dm =
     Struct
       [Field ''base'' (mongoc_matcher_op_base_layout dm), Field ''path'' (ty_pointer dm),
        Field ''iter'' (bson_iter_layout dm)]"

definition mongoc_matcher_op_exists_layout :: "data_model \<Rightarrow> c_data" where
  "mongoc_matcher_op_exists_layout dm =
     Struct
       [Field ''base'' (mongoc_matcher_op_base_layout dm), Field ''path'' (ty_pointer dm),
        Field ''exists'' ty_bool]"

definition mongoc_matcher_op_type_layout :: "data_model \<Rightarrow> c_data" where
  "mongoc_matcher_op_type_layout dm =
     Struct
       [Field ''base'' (mongoc_matcher_op_base_layout dm), Field ''type'' ty_enum,
        Field ''path'' (ty_pointer dm)]"

definition mongoc_matcher_op_not_layout :: "data_model \<Rightarrow> c_data" where
  "mongoc_matcher_op_not_layout dm =
     Struct
       [Field ''base'' (mongoc_matcher_op_base_layout dm), Field ''child'' (ty_pointer dm),
        Field ''path'' (ty_pointer dm)]"

definition mongoc_matcher_op_layout :: "data_model \<Rightarrow> c_data" where
  "mongoc_matcher_op_layout dm =
     Union
       [Field ''base'' (mongoc_matcher_op_base_layout dm),
        Field ''logical'' (mongoc_matcher_op_logical_layout dm),
        Field ''compare'' (mongoc_matcher_op_compare_layout dm),
        Field ''exists'' (mongoc_matcher_op_exists_layout dm),
        Field ''type'' (mongoc_matcher_op_type_layout dm),
        Field ''not_'' (mongoc_matcher_op_not_layout dm)]"

definition mongoc_matcher_layout :: "data_model \<Rightarrow> c_data" where
  "mongoc_matcher_layout dm =
     Struct
       [Field ''query'' (bson_layout dm), Field ''optree'' (ty_pointer dm)]"

section \<open>Messages\<close>

datatype rpc_field =
    ENUM_FIELD string
  | INT32_FIELD string
  | INT64_FIELD string
  | INT64_ARRAY_FIELD string string
  | CSTRING_FIELD string
  | BSON_FIELD string
  | BSON_ARRAY_FIELD string
  | IOVEC_ARRAY_FIELD string
  | RAW_BUFFER_FIELD string
  | BSON_OPTIONAL string rpc_field

fun rpc_members :: "data_model \<Rightarrow> rpc_field \<Rightarrow> c_field list" where
  "rpc_members dm (ENUM_FIELD n) = [Field n ty_uint32]"
| "rpc_members dm (INT32_FIELD n) = [Field n ty_int32]"
| "rpc_members dm (INT64_FIELD n) = [Field n (ty_int64 dm)]"
| "rpc_members dm (INT64_ARRAY_FIELD len n) = [Field len ty_int32, Field n (ty_pointer dm)]"
| "rpc_members dm (CSTRING_FIELD n) = [Field n (ty_pointer dm)]"
| "rpc_members dm (BSON_FIELD n) = [Field n (ty_pointer dm)]"
| "rpc_members dm (BSON_ARRAY_FIELD n) = [Field n (ty_pointer dm), Field (n @ ''_len'') ty_int32]"
| "rpc_members dm (IOVEC_ARRAY_FIELD n) =
     [Field n (ty_pointer dm), Field (''n_'' @ n) ty_int32, Field (n @ ''_recv'') (mongoc_iovec_layout dm)]"
| "rpc_members dm (RAW_BUFFER_FIELD n) = [Field n (ty_pointer dm), Field (n @ ''_len'') ty_int32]"
| "rpc_members dm (BSON_OPTIONAL check code) = rpc_members dm code"

definition mongoc_rpc :: "data_model \<Rightarrow> rpc_field list \<Rightarrow> c_data" where
  "mongoc_rpc dm code = Struct (concat (map (rpc_members dm) code))"

definition op_delete :: "rpc_field list" where
  "op_delete =
     [INT32_FIELD ''msg_len'', INT32_FIELD ''request_id'', INT32_FIELD ''response_to'',
      INT32_FIELD ''opcode'', INT32_FIELD ''zero'', CSTRING_FIELD ''collection'',
      ENUM_FIELD ''flags'', BSON_FIELD ''selector'']"

definition op_get_more :: "rpc_field list" where
  "op_get_more =
     [INT32_FIELD ''msg_len'', INT32_FIELD ''request_id'', INT32_FIELD ''response_to'',
      INT32_FIELD ''opcode'', INT32_FIELD ''zero'', CSTRING_FIELD ''collection'',
      INT32_FIELD ''n_return'', INT64_FIELD ''cursor_id'']"

definition op_header :: "rpc_field list" where
  "op_header =
     [INT32_FIELD ''msg_len'', INT32_FIELD ''request_id'', INT32_FIELD ''response_to'',
      INT32_FIELD ''opcode'']"

definition op_insert :: "rpc_field list" where
  "op_insert =
     [INT32_FIELD ''msg_len'', INT32_FIELD ''request_id'', INT32_FIELD ''response_to'',
      INT32_FIELD ''opcode'', ENUM_FIELD ''flags'', CSTRING_FIELD ''collection'',
      IOVEC_ARRAY_FIELD ''documents'']"

definition op_kill_cursors :: "rpc_field list" where
  "op_kill_cursors =
     [INT32_FIELD ''msg_len'', INT32_FIELD ''request_id'', INT32_FIELD ''response_to'',
      INT32_FIELD ''opcode'', INT32_FIELD ''zero'', INT64_ARRAY_FIELD ''n_cursors'' ''cursors'']"

definition op_msg :: "rpc_field list" where
  "op_msg =
     [INT32_FIELD ''msg_len'', INT32_FIELD ''request_id'', INT32_FIELD ''response_to'',
      INT32_FIELD ''opcode'', CSTRING_FIELD ''msg'']"

definition op_query :: "rpc_field list" where
  "op_query =
     [INT32_FIELD ''msg_len'', INT32_FIELD ''request_id'', INT32_FIELD ''response_to'',
      INT32_FIELD ''opcode'', ENUM_FIELD ''flags'', CSTRING_FIELD ''collection'',
      INT32_FIELD ''skip'', INT32_FIELD ''n_return'', BSON_FIELD ''query'',
      BSON_OPTIONAL ''fields'' (BSON_FIELD ''fields'')]"

definition op_reply :: "rpc_field list" where
  "op_reply =
     [INT32_FIELD ''msg_len'', INT32_FIELD ''request_id'', INT32_FIELD ''response_to'',
      INT32_FIELD ''opcode'', ENUM_FIELD ''flags'', INT64_FIELD ''cursor_id'',
      INT32_FIELD ''start_from'', INT32_FIELD ''n_returned'', BSON_ARRAY_FIELD ''documents'']"

definition op_update :: "rpc_field list" where
  "op_update =
     [INT32_FIELD ''msg_len'', INT32_FIELD ''request_id'', INT32_FIELD ''response_to'',
      INT32_FIELD ''opcode'', INT32_FIELD ''zero'', CSTRING_FIELD ''collection'',
      ENUM_FIELD ''flags'', BSON_FIELD ''selector'', BSON_FIELD ''update'']"

definition mongoc_rpc_layout :: "data_model \<Rightarrow> c_data" where
  "mongoc_rpc_layout dm =
     Union
       [Field ''delete_'' (mongoc_rpc dm op_delete),
        Field ''get_more'' (mongoc_rpc dm op_get_more), Field ''header'' (mongoc_rpc dm op_header),
        Field ''insert'' (mongoc_rpc dm op_insert), Field ''kill_cursors'' (mongoc_rpc dm op_kill_cursors),
        Field ''msg'' (mongoc_rpc dm op_msg), Field ''query'' (mongoc_rpc dm op_query),
        Field ''reply'' (mongoc_rpc dm op_reply), Field ''update'' (mongoc_rpc dm op_update)]"

section \<open>Structures with messages\<close>

definition mongoc_cursor_interface_layout :: "data_model \<Rightarrow> c_data" where
  "mongoc_cursor_interface_layout dm =
     Struct
       [Field ''clone'' (ty_pointer dm), Field ''destroy'' (ty_pointer dm),
        Field ''more'' (ty_pointer dm), Field ''next'' (ty_pointer dm),
        Field ''error'' (ty_pointer dm), Field ''get_host'' (ty_pointer dm)]"

definition mongoc_cursor_layout :: "data_model \<Rightarrow> c_data" where
  "mongoc_cursor_layout dm =
     Struct
       [Field ''client'' (ty_pointer dm), Field ''hint'' ty_uint32, Field ''stamp'' ty_uint32,
        Field ''is_command_sent_done_end_of_event_has_fields_in_exhaust'' ty_unsigned,
        Field ''query'' (bson_layout dm), Field ''fields'' (bson_layout dm),
        Field ''read_concern'' (ty_pointer dm), Field ''read_prefs'' (ty_pointer dm),
        Field ''flags'' ty_enum, Field ''skip'' ty_uint32, Field ''limit'' ty_int32,
        Field ''count'' ty_uint32, Field ''batch_size'' ty_uint32,
        Field ''max_await_time_ms'' ty_uint32, Field ''ns'' (Array_of 140 ty_char),
        Field ''nslen'' ty_uint32, Field ''dblen'' ty_uint32,
        Field ''error'' (bson_error_layout dm), Field ''rpc'' (mongoc_rpc_layout dm),
        Field ''buffer'' (mongoc_buffer_layout dm), Field ''reader'' (ty_pointer dm),
        Field ''current'' (ty_pointer dm), Field ''iface'' (mongoc_cursor_interface_layout dm),
        Field ''iface_data'' (ty_pointer dm)]"

definition mongoc_cursor_cursorid_layout :: "data_model \<Rightarrow> c_data" where
  "mongoc_cursor_cursorid_layout dm =
     Struct
       [Field ''in_batch'' ty_bool, Field ''in_reader'' ty_bool,
        Field ''batch_iter'' (bson_iter_layout dm), Field ''current_doc'' (bson_layout dm)]"

definition mongoc_async_cmd_layout :: "data_model \<Rightarrow> c_data" where
  "mongoc_async_cmd_layout dm =
     Struct
       [Field ''stream'' (ty_pointer dm), Field ''async'' (ty_pointer dm), Field ''state'' ty_enum,
        Field ''events'' ty_int, Field ''setup'' (ty_pointer dm),
        Field ''setup_ctx'' (ty_pointer dm), Field ''cb'' (ty_pointer dm),
        Field ''data'' (ty_pointer dm), Field ''error'' (bson_error_layout dm),
        Field ''start_time'' (ty_int64 dm), Field ''expire_at'' (ty_int64 dm),
        Field ''cmd'' (bson_layout dm), Field ''buffer'' (mongoc_buffer_layout dm),
        Field ''array'' (mongoc_array_layout dm), Field ''iovec'' (ty_pointer dm),
        Field ''niovec'' (ty_size_t dm), Field ''bytes_to_read'' (ty_size_t dm),
        Field ''rpc'' (mongoc_rpc_layout dm), Field ''reply'' (bson_layout dm),
        Field ''reply_needs_cleanup'' ty_bool,
        Field ''ns'' (Array_of MONGOC_NAMESPACE_MAX ty_char), Field ''next'' (ty_pointer dm),
        Field ''prev'' (ty_pointer dm)]"

definition mongoc_cluster_node_layout :: "data_model \<Rightarrow> c_data" where
  "mongoc_cluster_node_layout dm =
     Struct
       [Field ''stream'' (ty_pointer dm), Field ''max_wire_version'' ty_int32,
        Field ''min_wire_version'' ty_int32, Field ''max_write_batch_size'' ty_int32,
        Field ''max_bson_obj_size'' ty_int32, Field ''max_msg_size'' ty_int32,
        Field ''timestamp'' (ty_int64 dm)]"

definition mongoc_cluster_layout :: "data_model \<Rightarrow> c_data" where
  "mongoc_cluster_layout dm =
     Struct
       [Field ''request_id'' ty_uint32, Field ''sockettimeoutms'' ty_uint32,
        Field ''socketcheckintervalms'' ty_uint32, Field ''uri'' (ty_pointer dm),
        Field ''requires_auth'' ty_unsigned, Field ''client'' (ty_pointer dm),
        Field ''nodes'' (ty_pointer dm), Field ''iov'' (mongoc_array_layout dm)]"

definition mongoc_client_layout :: "data_model \<Rightarrow> c_data" where
  "mongoc_client_layout dm =
     Struct
       [Field ''request_id'' ty_uint32, Field ''conns'' (ty_pointer dm),
        Field ''uri'' (ty_pointer dm), Field ''cluster'' (mongoc_cluster_layout dm),
        Field ''in_exhaust'' ty_bool, Field ''initiator'' (ty_pointer dm),
        Field ''initiator_data'' (ty_pointer dm), Field ''use_ssl'' ty_bool,
        Field ''ssl_opts'' (mongoc_ssl_opt_layout dm), Field ''pem_subject'' (ty_pointer dm),
        Field ''topology'' (ty_pointer dm), Field ''read_prefs'' (ty_pointer dm),
        Field ''read_concern'' (ty_pointer dm), Field ''write_concern'' (ty_pointer dm)]"

definition mongoc_collection_layout :: "data_model \<Rightarrow> c_data" where
  "mongoc_collection_layout dm =
     Struct
       [Field ''client'' (ty_pointer dm), Field ''ns'' (Array_of 128 ty_char),
        Field ''nslen'' ty_uint32, Field ''db'' (Array_of 128 ty_char),
        Field ''collection'' (Array_of 128 ty_char), Field ''collectionlen'' ty_uint32,
        Field ''buffer'' (mongoc_buffer_layout dm), Field ''read_prefs'' (ty_pointer dm),
        Field ''read_concern'' (ty_pointer dm), Field ''write_concern'' (ty_pointer dm),
        Field ''gle'' (ty_pointer dm)]"

definition mongoc_database_layout :: "data_model \<Rightarrow> c_data" where
  "mongoc_database_layout dm =
     Struct
       [Field ''client'' (ty_pointer dm), Field ''name'' (Array_of 128 ty_char),
        Field ''read_prefs'' (ty_pointer dm), Field ''read_concern'' (ty_pointer dm),
        Field ''write_concern'' (ty_pointer dm)]"

definition mongoc_bulk_operation_layout :: "data_model \<Rightarrow> c_data" where
  "mongoc_bulk_operation_layout dm =
     Struct
       [Field ''database'' (ty_pointer dm), Field ''collection'' (ty_pointer dm),
        Field ''client'' (ty_pointer dm), Field ''write_concern'' (ty_pointer dm),
        Field ''flags'' (mongoc_bulk_write_flags_layout dm), Field ''hint'' ty_uint32,
        Field ''commands'' (mongoc_array_layout dm),
        Field ''result'' (mongoc_write_result_layout dm), Field ''executed'' ty_bool]"

definition mongoc_gridfs_layout :: "data_model \<Rightarrow> c_data" where
  "mongoc_gridfs_layout dm =
     Struct
       [Field ''client'' (ty_pointer dm), Field ''files'' (ty_pointer dm),
        Field ''chunks'' (ty_pointer dm)]"

definition mongoc_gridfs_file_layout :: "data_model \<Rightarrow> c_data" where
  "mongoc_gridfs_file_layout dm =
     Struct
       [Field ''gridfs'' (ty_pointer dm), Field ''bson'' (bson_layout dm),
        Field ''page'' (ty_pointer dm), Field ''pos'' (ty_uint64 dm), Field ''n'' ty_int32,
        Field ''error'' (bson_error_layout dm), Field ''cursor'' (ty_pointer dm),
        Field ''cursor_range'' (Array_of 2 ty_uint32), Field ''is_dirty'' ty_bool,
        Field ''files_id'' (bson_value_layout dm), Field ''length'' (ty_int64 dm),
        Field ''chunk_size'' ty_int32, Field ''upload_date'' (ty_int64 dm),
        Field ''md5'' (ty_pointer dm), Field ''filename'' (ty_pointer dm),
        Field ''content_type'' (ty_pointer dm), Field ''aliases'' (bson_layout dm),
        Field ''metadata'' (bson_layout dm), Field ''bson_md5'' (ty_pointer dm),
        Field ''bson_filename'' (ty_pointer dm), Field ''bson_content_type'' (ty_pointer dm),
        Field ''bson_aliases'' (bson_layout dm), Field ''bson_metadata'' (bson_layout dm)]"

definition mongoc_gridfs_file_list_layout :: "data_model \<Rightarrow> c_data" where
  "mongoc_gridfs_file_list_layout dm =
     Struct
       [Field ''gridfs'' (ty_pointer dm), Field ''cursor'' (ty_pointer dm),
        Field ''error'' (bson_error_layout dm)]"

definition mongoc_gridfs_file_page_layout :: "data_model \<Rightarrow> c_data" where
  "mongoc_gridfs_file_page_layout dm =
     Struct
       [Field ''read_buf'' (ty_pointer dm), Field ''buf'' (ty_pointer dm), Field ''len'' ty_uint32,
        Field ''chunk_size'' ty_uint32, Field ''offset'' ty_uint32]"

definition mongoc_gridfs_file_opt_layout :: "data_model \<Rightarrow> c_data" where
  "mongoc_gridfs_file_opt_layout dm =
     Struct
       [Field ''md5'' (ty_pointer dm), Field ''filename'' (ty_pointer dm),
        Field ''content_type'' (ty_pointer dm), Field ''aliases'' (ty_pointer dm),
        Field ''metadata'' (ty_pointer dm), Field ''chunk_size'' ty_uint32]"

definition mongoc_find_and_modify_opts_layout :: "data_model \<Rightarrow> c_data" where
  "mongoc_find_and_modify_opts_layout dm =
     Struct
       [Field ''sort'' (ty_pointer dm), Field ''update'' (ty_pointer dm),
        Field ''fields'' (ty_pointer dm), Field ''flags'' ty_enum,
        Field ''bypass_document_validation'' ty_enum]"

definition mongoc_index_opt_geo_layout :: "data_model \<Rightarrow> c_data" where
  "mongoc_index_opt_geo_layout dm =
     Struct
       [Field ''twod_sphere_version'' ty_uint8, Field ''twod_bits_precision'' ty_uint8,
        Field ''twod_location_min'' (ty_double dm), Field ''twod_location_max'' (ty_double dm),
        Field ''haystack_bucket_size'' (ty_double dm),
        Field ''padding'' (Array_of 32 (ty_pointer dm))]"

definition mongoc_index_opt_storage_layout :: "data_model \<Rightarrow> c_data" where
  "mongoc_index_opt_storage_layout dm =
     Struct
       [Field ''type'' ty_int]"

definition mongoc_index_opt_wt_layout :: "data_model \<Rightarrow> c_data" where
  "mongoc_index_opt_wt_layout dm =
     Struct
       [Field ''base'' (mongoc_index_opt_storage_layout dm), Field ''config_str'' (ty_pointer dm),
        Field ''padding'' (Array_of 8 (ty_pointer dm))]"

definition mongoc_index_opt_layout :: "data_model \<Rightarrow> c_data" where
  "mongoc_index_opt_layout dm =
     Struct
       [Field ''is_initialized'' ty_bool, Field ''background'' ty_bool, Field ''unique'' ty_bool,
        Field ''name'' (ty_pointer dm), Field ''drop_dups'' ty_bool, Field ''sparse'' ty_bool,
        Field ''expire_after_seconds'' ty_int32, Field ''v'' ty_int32,
        Field ''weights'' (ty_pointer dm), Field ''default_language'' (ty_pointer dm),
        Field ''language_override'' (ty_pointer dm), Field ''geo_options'' (ty_pointer dm),
        Field ''storage_options'' (ty_pointer dm),
        Field ''partial_filter_expression'' (ty_pointer dm),
        Field ''padding'' (Array_of 5 (ty_pointer dm))]"

definition mongoc_counter_slots_layout :: "data_model \<Rightarrow> c_data" where
  "mongoc_counter_slots_layout dm =
     Struct
       [Field ''slots'' (Array_of SLOTS_PER_CACHELINE (ty_int64 dm))]"

definition mongoc_counter_layout :: "data_model \<Rightarrow> c_data" where
  "mongoc_counter_layout dm =
     Struct
       [Field ''cpus'' (ty_pointer dm)]"

text \<open>The static assertions of the headers, with the lines they stand in.\<close>

definition static_assertions :: "data_model \<Rightarrow> (nat \<times> bool) list" where
  "static_assertions dm =
     [(145, csize (bson_layout dm) = 128),
      (161, csize (bson_oid_layout dm) = 12),
      (485, csize (bson_error_layout dm) = 512),
      (215, csize (ty_double dm) = csize (ty_uint64 dm)),
      (74, csize (mongoc_rpc dm op_header) = 16),
      (75, offsetof (mongoc_rpc dm op_header) ''opcode'' = offsetof (mongoc_rpc dm op_reply) ''opcode'')] @
     (if win32 (target dm)
      then [(40, csize (mongoc_iovec_layout dm) = csize (WSABUF dm)),
            (41, offsetof (mongoc_iovec_layout dm) ''iov_base'' = offsetof (WSABUF dm) ''buf''),
            (42, offsetof (mongoc_iovec_layout dm) ''iov_len'' = offsetof (WSABUF dm) ''len'')]
      else [])"

definition mongoc_structs :: "data_model \<Rightarrow> c_data list" where
  "mongoc_structs dm =
     [mongoc_iovec_layout dm, mongoc_array_layout dm,
      mongoc_buffer_layout dm, mongoc_list_layout dm,
      mongoc_queue_layout dm, mongoc_queue_item_layout dm,
      mongoc_set_item_layout dm, mongoc_set_layout dm,
      mongoc_host_list_layout dm, mongoc_stream_poll_layout dm,
      mongoc_stream_layout dm, mongoc_socket_poll_layout dm,
      mongoc_ssl_opt_layout dm, mongoc_scram_layout dm,
      mongoc_server_description_layout dm, mongoc_server_stream_layout dm,
      mongoc_topology_description_layout dm, mongoc_topology_scanner_node_layout dm,
      mongoc_topology_scanner_layout dm, mongoc_async_layout dm,
      mongoc_bulk_write_flags_layout dm, mongoc_write_command_layout dm,
      mongoc_write_result_layout dm, mongoc_write_concern_layout dm,
      mongoc_read_concern_layout dm, mongoc_read_prefs_layout dm,
      mongoc_apply_read_prefs_result_layout dm, mongoc_matcher_op_base_layout dm,
      mongoc_matcher_op_logical_layout dm, mongoc_matcher_op_compare_layout dm,
      mongoc_matcher_op_exists_layout dm, mongoc_matcher_op_type_layout dm,
      mongoc_matcher_op_not_layout dm, mongoc_matcher_layout dm,
      mongoc_cursor_interface_layout dm, mongoc_cursor_layout dm,
      mongoc_cursor_cursorid_layout dm, mongoc_async_cmd_layout dm,
      mongoc_cluster_node_layout dm, mongoc_cluster_layout dm,
      mongoc_client_layout dm, mongoc_collection_layout dm,
      mongoc_database_layout dm, mongoc_bulk_operation_layout dm,
      mongoc_gridfs_layout dm, mongoc_gridfs_file_layout dm,
      mongoc_gridfs_file_list_layout dm, mongoc_gridfs_file_page_layout dm,
      mongoc_gridfs_file_opt_layout dm, mongoc_find_and_modify_opts_layout dm,
      mongoc_index_opt_geo_layout dm, mongoc_index_opt_storage_layout dm,
      mongoc_index_opt_wt_layout dm, mongoc_index_opt_layout dm,
      mongoc_counter_slots_layout dm, mongoc_counter_layout dm]"

definition mongoc_messages :: "data_model \<Rightarrow> c_data list" where
  "mongoc_messages dm = map (mongoc_rpc dm)
     [op_delete, op_get_more, op_header, op_insert, op_kill_cursors, op_msg, op_query, op_reply, op_update]"

lemmas mongoc_layout_defs = mongoc_array_layout_def mongoc_buffer_layout_def
  mongoc_list_layout_def mongoc_queue_layout_def
  mongoc_queue_item_layout_def mongoc_set_item_layout_def
  mongoc_set_layout_def mongoc_host_list_layout_def
  mongoc_stream_poll_layout_def mongoc_stream_layout_def
  mongoc_socket_poll_layout_def mongoc_ssl_opt_layout_def
  mongoc_scram_layout_def mongoc_server_description_layout_def
  mongoc_server_stream_layout_def mongoc_topology_description_layout_def
  mongoc_topology_scanner_node_layout_def mongoc_topology_scanner_layout_def
  mongoc_async_layout_def mongoc_bulk_write_flags_layout_def
  mongoc_write_command_layout_def mongoc_write_result_layout_def
  mongoc_write_concern_layout_def mongoc_read_concern_layout_def
  mongoc_read_prefs_layout_def mongoc_apply_read_prefs_result_layout_def
  mongoc_matcher_op_base_layout_def mongoc_matcher_op_logical_layout_def
  mongoc_matcher_op_compare_layout_def mongoc_matcher_op_exists_layout_def
  mongoc_matcher_op_type_layout_def mongoc_matcher_op_not_layout_def
  mongoc_matcher_op_layout_def mongoc_matcher_layout_def
  mongoc_cursor_interface_layout_def mongoc_cursor_layout_def
  mongoc_cursor_cursorid_layout_def mongoc_async_cmd_layout_def
  mongoc_cluster_node_layout_def mongoc_cluster_layout_def
  mongoc_client_layout_def mongoc_collection_layout_def
  mongoc_database_layout_def mongoc_bulk_operation_layout_def
  mongoc_gridfs_layout_def mongoc_gridfs_file_layout_def
  mongoc_gridfs_file_list_layout_def mongoc_gridfs_file_page_layout_def
  mongoc_gridfs_file_opt_layout_def mongoc_find_and_modify_opts_layout_def
  mongoc_index_opt_geo_layout_def mongoc_index_opt_storage_layout_def
  mongoc_index_opt_wt_layout_def mongoc_index_opt_layout_def
  mongoc_counter_slots_layout_def mongoc_counter_layout_def

lemmas op_defs = op_delete_def op_get_more_def op_header_def op_insert_def op_kill_cursors_def op_msg_def
  op_query_def op_reply_def op_update_def

lemma iovec_compiles: "data_model_ok dm \<Longrightarrow> compiles (mongoc_iovec_layout dm)"
  by (simp add: mongoc_iovec_layout_def c_scalars data_model_ok_def)

lemma messages_compile:
  assumes "data_model_ok dm"
  shows "list_all compiles (mongoc_messages dm)" "compiles (mongoc_rpc_layout dm)"
proof -
  note ok = assms [unfolded data_model_ok_def] iovec_compiles [OF assms]
  show "list_all compiles (mongoc_messages dm)"
    by (simp add: mongoc_messages_def op_defs mongoc_rpc_def c_scalars ok)
  show "compiles (mongoc_rpc_layout dm)"
    by (simp add: mongoc_rpc_layout_def op_defs mongoc_rpc_def c_scalars ok)
qed

lemma list_all_member: "list_all P xs \<Longrightarrow> x \<in> set xs \<Longrightarrow> P x"
  by (simp add: list_all_iff)

lemma mongoc_structs_compile:
  assumes "data_model_ok dm"
  shows "list_all compiles (mongoc_structs dm)" "compiles (mongoc_matcher_op_layout dm)"
proof -
  note ok = assms [unfolded data_model_ok_def]
  have bson_layout: "compiles (bson_layout dm)"
    by (rule list_all_member [OF bson_structs_compile [OF assms]]) (simp add: bson_structs_def)
  have bson_oid_layout: "compiles (bson_oid_layout dm)"
    by (rule list_all_member [OF bson_structs_compile [OF assms]]) (simp add: bson_structs_def)
  have bson_iter_layout: "compiles (bson_iter_layout dm)"
    by (rule list_all_member [OF bson_structs_compile [OF assms]]) (simp add: bson_structs_def)
  have bson_value_layout: "compiles (bson_value_layout dm)"
    by (rule list_all_member [OF bson_structs_compile [OF assms]]) (simp add: bson_structs_def)
  have bson_error_layout: "compiles (bson_error_layout dm)"
    by (rule list_all_member [OF bson_structs_compile [OF assms]]) (simp add: bson_structs_def)
  note mongoc_rpc_layout = messages_compile(2) [OF assms]
  note mongoc_iovec_layout = iovec_compiles [OF assms]
  have mongoc_array_layout: "compiles (mongoc_array_layout dm)"
    unfolding mongoc_array_layout_def by (simp add: c_scalars ok)
  have mongoc_buffer_layout: "compiles (mongoc_buffer_layout dm)"
    unfolding mongoc_buffer_layout_def by (simp add: c_scalars ok)
  have mongoc_list_layout: "compiles (mongoc_list_layout dm)"
    unfolding mongoc_list_layout_def by (simp add: c_scalars ok)
  have mongoc_queue_layout: "compiles (mongoc_queue_layout dm)"
    unfolding mongoc_queue_layout_def by (simp add: c_scalars ok)
  have mongoc_queue_item_layout: "compiles (mongoc_queue_item_layout dm)"
    unfolding mongoc_queue_item_layout_def by (simp add: c_scalars ok)
  have mongoc_set_item_layout: "compiles (mongoc_set_item_layout dm)"
    unfolding mongoc_set_item_layout_def by (simp add: c_scalars ok)
  have mongoc_set_layout: "compiles (mongoc_set_layout dm)"
    unfolding mongoc_set_layout_def by (simp add: c_scalars ok)
  have mongoc_host_list_layout: "compiles (mongoc_host_list_layout dm)"
    unfolding mongoc_host_list_layout_def by (simp add: c_scalars ok)
  have mongoc_stream_poll_layout: "compiles (mongoc_stream_poll_layout dm)"
    unfolding mongoc_stream_poll_layout_def by (simp add: c_scalars ok)
  have mongoc_stream_layout: "compiles (mongoc_stream_layout dm)"
    unfolding mongoc_stream_layout_def by (simp add: c_scalars ok)
  have mongoc_socket_poll_layout: "compiles (mongoc_socket_poll_layout dm)"
    unfolding mongoc_socket_poll_layout_def by (simp add: c_scalars ok)
  have mongoc_ssl_opt_layout: "compiles (mongoc_ssl_opt_layout dm)"
    unfolding mongoc_ssl_opt_layout_def by (simp add: c_scalars ok)
  have mongoc_scram_layout: "compiles (mongoc_scram_layout dm)"
    unfolding mongoc_scram_layout_def by (simp add: c_scalars ok)
  have mongoc_server_description_layout: "compiles (mongoc_server_description_layout dm)"
    unfolding mongoc_server_description_layout_def by (simp add: c_scalars ok bson_layout bson_oid_layout bson_error_layout mongoc_host_list_layout)
  have mongoc_server_stream_layout: "compiles (mongoc_server_stream_layout dm)"
    unfolding mongoc_server_stream_layout_def by (simp add: c_scalars ok)
  have mongoc_topology_description_layout: "compiles (mongoc_topology_description_layout dm)"
    unfolding mongoc_topology_description_layout_def by (simp add: c_scalars ok bson_oid_layout)
  have mongoc_topology_scanner_node_layout: "compiles (mongoc_topology_scanner_node_layout dm)"
    unfolding mongoc_topology_scanner_node_layout_def by (simp add: c_scalars ok bson_error_layout mongoc_host_list_layout)
  have mongoc_topology_scanner_layout: "compiles (mongoc_topology_scanner_layout dm)"
    unfolding mongoc_topology_scanner_layout_def by (simp add: c_scalars ok bson_layout)
  have mongoc_async_layout: "compiles (mongoc_async_layout dm)"
    unfolding mongoc_async_layout_def by (simp add: c_scalars ok)
  have mongoc_bulk_write_flags_layout: "compiles (mongoc_bulk_write_flags_layout dm)"
    unfolding mongoc_bulk_write_flags_layout_def by (simp add: c_scalars ok)
  have mongoc_write_command_layout: "compiles (mongoc_write_command_layout dm)"
    unfolding mongoc_write_command_layout_def by (simp add: c_scalars ok mongoc_bulk_write_flags_layout)
  have mongoc_write_result_layout: "compiles (mongoc_write_result_layout dm)"
    unfolding mongoc_write_result_layout_def by (simp add: c_scalars ok bson_layout bson_error_layout)
  have mongoc_write_concern_layout: "compiles (mongoc_write_concern_layout dm)"
    unfolding mongoc_write_concern_layout_def by (simp add: c_scalars ok bson_layout)
  have mongoc_read_concern_layout: "compiles (mongoc_read_concern_layout dm)"
    unfolding mongoc_read_concern_layout_def by (simp add: c_scalars ok bson_layout)
  have mongoc_read_prefs_layout: "compiles (mongoc_read_prefs_layout dm)"
    unfolding mongoc_read_prefs_layout_def by (simp add: c_scalars ok bson_layout)
  have mongoc_apply_read_prefs_result_layout: "compiles (mongoc_apply_read_prefs_result_layout dm)"
    unfolding mongoc_apply_read_prefs_result_layout_def by (simp add: c_scalars ok)
  have mongoc_matcher_op_base_layout: "compiles (mongoc_matcher_op_base_layout dm)"
    unfolding mongoc_matcher_op_base_layout_def by (simp add: c_scalars ok)
  have mongoc_matcher_op_logical_layout: "compiles (mongoc_matcher_op_logical_layout dm)"
    unfolding mongoc_matcher_op_logical_layout_def by (simp add: c_scalars ok mongoc_matcher_op_base_layout)
  have mongoc_matcher_op_compare_layout: "compiles (mongoc_matcher_op_compare_layout dm)"
    unfolding mongoc_matcher_op_compare_layout_def by (simp add: c_scalars ok bson_iter_layout mongoc_matcher_op_base_layout)
  have mongoc_matcher_op_exists_layout: "compiles (mongoc_matcher_op_exists_layout dm)"
    unfolding mongoc_matcher_op_exists_layout_def by (simp add: c_scalars ok mongoc_matcher_op_base_layout)
  have mongoc_matcher_op_type_layout: "compiles (mongoc_matcher_op_type_layout dm)"
    unfolding mongoc_matcher_op_type_layout_def by (simp add: c_scalars ok mongoc_matcher_op_base_layout)
  have mongoc_matcher_op_not_layout: "compiles (mongoc_matcher_op_not_layout dm)"
    unfolding mongoc_matcher_op_not_layout_def by (simp add: c_scalars ok mongoc_matcher_op_base_layout)
  have mongoc_matcher_op_layout: "compiles (mongoc_matcher_op_layout dm)"
    unfolding mongoc_matcher_op_layout_def by (simp add: c_scalars ok mongoc_matcher_op_base_layout mongoc_matcher_op_logical_layout mongoc_matcher_op_compare_layout mongoc_matcher_op_exists_layout mongoc_matcher_op_type_layout mongoc_matcher_op_not_layout)
  have mongoc_matcher_layout: "compiles (mongoc_matcher_layout dm)"
    unfolding mongoc_matcher_layout_def by (simp add: c_scalars ok bson_layout)
  have mongoc_cursor_interface_layout: "compiles (mongoc_cursor_interface_layout dm)"
    unfolding mongoc_cursor_interface_layout_def by (simp add: c_scalars ok)
  have mongoc_cursor_layout: "compiles (mongoc_cursor_layout dm)"
    unfolding mongoc_cursor_layout_def by (simp add: c_scalars ok bson_layout bson_error_layout mongoc_buffer_layout mongoc_cursor_interface_layout mongoc_rpc_layout)
  have mongoc_cursor_cursorid_layout: "compiles (mongoc_cursor_cursorid_layout dm)"
    unfolding mongoc_cursor_cursorid_layout_def by (simp add: c_scalars ok bson_layout bson_iter_layout)
  have mongoc_async_cmd_layout: "compiles (mongoc_async_cmd_layout dm)"
    unfolding mongoc_async_cmd_layout_def by (simp add: c_scalars ok bson_layout bson_error_layout mongoc_array_layout mongoc_buffer_layout mongoc_rpc_layout)
  have mongoc_cluster_node_layout: "compiles (mongoc_cluster_node_layout dm)"
    unfolding mongoc_cluster_node_layout_def by (simp add: c_scalars ok)
  have mongoc_cluster_layout: "compiles (mongoc_cluster_layout dm)"
    unfolding mongoc_cluster_layout_def by (simp add: c_scalars ok mongoc_array_layout)
  have mongoc_client_layout: "compiles (mongoc_client_layout dm)"
    unfolding mongoc_client_layout_def by (simp add: c_scalars ok mongoc_ssl_opt_layout mongoc_cluster_layout)
  have mongoc_collection_layout: "compiles (mongoc_collection_layout dm)"
    unfolding mongoc_collection_layout_def by (simp add: c_scalars ok mongoc_buffer_layout)
  have mongoc_database_layout: "compiles (mongoc_database_layout dm)"
    unfolding mongoc_database_layout_def by (simp add: c_scalars ok)
  have mongoc_bulk_operation_layout: "compiles (mongoc_bulk_operation_layout dm)"
    unfolding mongoc_bulk_operation_layout_def by (simp add: c_scalars ok mongoc_array_layout mongoc_bulk_write_flags_layout mongoc_write_result_layout)
  have mongoc_gridfs_layout: "compiles (mongoc_gridfs_layout dm)"
    unfolding mongoc_gridfs_layout_def by (simp add: c_scalars ok)
  have mongoc_gridfs_file_layout: "compiles (mongoc_gridfs_file_layout dm)"
    unfolding mongoc_gridfs_file_layout_def by (simp add: c_scalars ok bson_layout bson_value_layout bson_error_layout)
  have mongoc_gridfs_file_list_layout: "compiles (mongoc_gridfs_file_list_layout dm)"
    unfolding mongoc_gridfs_file_list_layout_def by (simp add: c_scalars ok bson_error_layout)
  have mongoc_gridfs_file_page_layout: "compiles (mongoc_gridfs_file_page_layout dm)"
    unfolding mongoc_gridfs_file_page_layout_def by (simp add: c_scalars ok)
  have mongoc_gridfs_file_opt_layout: "compiles (mongoc_gridfs_file_opt_layout dm)"
    unfolding mongoc_gridfs_file_opt_layout_def by (simp add: c_scalars ok)
  have mongoc_find_and_modify_opts_layout: "compiles (mongoc_find_and_modify_opts_layout dm)"
    unfolding mongoc_find_and_modify_opts_layout_def by (simp add: c_scalars ok)
  have mongoc_index_opt_geo_layout: "compiles (mongoc_index_opt_geo_layout dm)"
    unfolding mongoc_index_opt_geo_layout_def by (simp add: c_scalars ok)
  have mongoc_index_opt_storage_layout: "compiles (mongoc_index_opt_storage_layout dm)"
    unfolding mongoc_index_opt_storage_layout_def by (simp add: c_scalars ok)
  have mongoc_index_opt_wt_layout: "compiles (mongoc_index_opt_wt_layout dm)"
    unfolding mongoc_index_opt_wt_layout_def by (simp add: c_scalars ok mongoc_index_opt_storage_layout)
  have mongoc_index_opt_layout: "compiles (mongoc_index_opt_layout dm)"
    unfolding mongoc_index_opt_layout_def by (simp add: c_scalars ok)
  have mongoc_counter_slots_layout: "compiles (mongoc_counter_slots_layout dm)"
    unfolding mongoc_counter_slots_layout_def by (simp add: c_scalars ok)
  have mongoc_counter_layout: "compiles (mongoc_counter_layout dm)"
    unfolding mongoc_counter_layout_def by (simp add: c_scalars ok)
  show "list_all compiles (mongoc_structs dm)"
    by (simp add: mongoc_structs_def mongoc_iovec_layout mongoc_array_layout mongoc_buffer_layout
        mongoc_list_layout mongoc_queue_layout mongoc_queue_item_layout
        mongoc_set_item_layout mongoc_set_layout mongoc_host_list_layout
        mongoc_stream_poll_layout mongoc_stream_layout mongoc_socket_poll_layout
        mongoc_ssl_opt_layout mongoc_scram_layout mongoc_server_description_layout
        mongoc_server_stream_layout mongoc_topology_description_layout mongoc_topology_scanner_node_layout
        mongoc_topology_scanner_layout mongoc_async_layout mongoc_bulk_write_flags_layout
        mongoc_write_command_layout mongoc_write_result_layout mongoc_write_concern_layout
        mongoc_read_concern_layout mongoc_read_prefs_layout mongoc_apply_read_prefs_result_layout
        mongoc_matcher_op_base_layout mongoc_matcher_op_logical_layout mongoc_matcher_op_compare_layout
        mongoc_matcher_op_exists_layout mongoc_matcher_op_type_layout mongoc_matcher_op_not_layout
        mongoc_matcher_layout mongoc_cursor_interface_layout mongoc_cursor_layout
        mongoc_cursor_cursorid_layout mongoc_async_cmd_layout mongoc_cluster_node_layout
        mongoc_cluster_layout mongoc_client_layout mongoc_collection_layout
        mongoc_database_layout mongoc_bulk_operation_layout mongoc_gridfs_layout
        mongoc_gridfs_file_layout mongoc_gridfs_file_list_layout mongoc_gridfs_file_page_layout
        mongoc_gridfs_file_opt_layout mongoc_find_and_modify_opts_layout mongoc_index_opt_geo_layout
        mongoc_index_opt_storage_layout mongoc_index_opt_wt_layout mongoc_index_opt_layout
        mongoc_counter_slots_layout mongoc_counter_layout)
  show "compiles (mongoc_matcher_op_layout dm)" by (rule mongoc_matcher_op_layout)
qed

section \<open>Structures with members of the system's types\<close>

text \<open>The types of POSIX threads, of Windows sockets and of SASL are parameters.\<close>

record system_types =
  mutex_type :: c_data
  cond_type :: c_data
  thread_type :: c_data
  socket_type :: c_data
  sasl_callback_type :: c_data

definition system_types_ok :: "system_types \<Rightarrow> bool" where
  "system_types_ok sys \<longleftrightarrow>
     list_all compiles [mutex_type sys, cond_type sys, thread_type sys, socket_type sys, sasl_callback_type sys,
       Array_of 4 (sasl_callback_type sys)]"

definition mongoc_topology_layout :: "system_types \<Rightarrow> data_model \<Rightarrow> c_data" where
  "mongoc_topology_layout sys dm =
     Struct
       [Field ''description'' (mongoc_topology_description_layout dm), Field ''uri'' (ty_pointer dm),
        Field ''scanner'' (ty_pointer dm), Field ''server_selection_try_once'' ty_bool,
        Field ''last_scan'' (ty_int64 dm), Field ''connect_timeout_msec'' (ty_int64 dm),
        Field ''server_selection_timeout_msec'' (ty_int64 dm), Field ''heartbeat_msec'' (ty_int64 dm),
        Field ''mutex'' (mutex_type sys), Field ''cond_client'' (cond_type sys),
        Field ''cond_server'' (cond_type sys), Field ''thread'' (thread_type sys),
        Field ''bg_thread_state'' ty_enum, Field ''scan_requested'' ty_bool, Field ''scanning'' ty_bool,
        Field ''got_ismaster'' ty_bool, Field ''shutdown_requested'' ty_bool,
        Field ''single_threaded'' ty_bool, Field ''stale'' ty_bool]"

definition mongoc_socket_layout :: "system_types \<Rightarrow> data_model \<Rightarrow> c_data" where
  "mongoc_socket_layout sys dm =
     Struct
       [Field ''sd'' (if win32 (target dm) then socket_type sys else ty_int), Field ''errno_'' ty_int,
        Field ''domain'' ty_int]"

definition mongoc_sasl_layout :: "system_types \<Rightarrow> data_model \<Rightarrow> c_data" where
  "mongoc_sasl_layout sys dm =
     Struct
       [Field ''callbacks'' (Array_of 4 (sasl_callback_type sys)), Field ''conn'' (ty_pointer dm),
        Field ''done'' ty_bool, Field ''step'' ty_int, Field ''mechanism'' (ty_pointer dm),
        Field ''user'' (ty_pointer dm), Field ''pass'' (ty_pointer dm), Field ''service_name'' (ty_pointer dm),
        Field ''service_host'' (ty_pointer dm), Field ''interact'' (ty_pointer dm)]"

definition system_structs :: "system_types \<Rightarrow> data_model \<Rightarrow> c_data list" where
  "system_structs sys dm = [mongoc_topology_layout sys dm, mongoc_socket_layout sys dm, mongoc_sasl_layout sys dm]"

lemma system_structs_compile:
  assumes "data_model_ok dm" "system_types_ok sys"
  shows "list_all compiles (system_structs sys dm)"
proof -
  have "compiles (mongoc_topology_description_layout dm)"
    by (rule list_all_member [OF mongoc_structs_compile(1) [OF assms(1)]]) (simp add: mongoc_structs_def)
  then show ?thesis
    using assms by (auto simp: system_structs_def mongoc_topology_layout_def mongoc_socket_layout_def mongoc_sasl_layout_def
        system_types_ok_def data_model_ok_def c_scalars)
qed

end
