(* ===== verification/Layout_Properties.thy ===== *)
theory Layout_Properties
  imports Mongoc_Layout
begin

text \<open>
  What holds of the layouts: the structures are well formed on every data model, the headers' static
  assertions hold on the usual ones, and the places where the library looks at one structure through
  another, or clears a part of one, are laid out as it expects.
\<close>

section \<open>Lemmas\<close>

fun is_struct :: "c_data \<Rightarrow> bool" where
  "is_struct (Struct fs) = True"
| "is_struct (Attr_typedef k t) = is_struct t"
| "is_struct (Declspec_struct k t) = is_struct t"
| "is_struct t = False"

lemma BSON_ALIGNED_is_struct [simp]: "is_struct (BSON_ALIGNED dm n t) = is_struct t"
  by (cases "msc_ver (target dm)") (simp_all add: BSON_ALIGNED_gnu BSON_ALIGNED_msc)

lemma compiles_well_laid_out: "compiles t \<Longrightarrow> is_struct t \<Longrightarrow> well_laid_out t"
proof (induction t rule: is_struct.induct)
  case (1 fs)
  then show ?case by (simp add: struct_well_laid_out)
next
  case (2 k t)
  then show ?case by (simp add: well_laid_out_def)
next
  case (3 k t)
  then have "well_laid_out t" "csize t \<le> csize (Declspec_struct k t)"
    by (simp_all add: round_up_least calign_positive max_def)
  then show ?case by (fastforce simp: well_laid_out_def list_all_iff)
qed simp_all

lemma bson_structs_are: "list_all is_struct (bson_structs dm)"
  by (simp add: bson_structs_def bson_layout_defs)

lemma mongoc_structs_are: "list_all is_struct (mongoc_structs dm)"
  by (simp add: mongoc_structs_def mongoc_layout_defs mongoc_iovec_layout_def)

lemma system_structs_are: "list_all is_struct (system_structs sys dm)"
  by (simp add: system_structs_def mongoc_topology_layout_def mongoc_socket_layout_def mongoc_sasl_layout_def)

lemma system_structs_laid_out:
  "data_model_ok dm \<Longrightarrow> system_types_ok sys \<Longrightarrow> list_all well_laid_out (system_structs sys dm)"
  using system_structs_compile [of dm sys] system_structs_are [of sys dm]
  by (simp add: list_all_iff compiles_well_laid_out)

lemma mongoc_messages_are: "list_all is_struct (mongoc_messages dm)"
  by (simp add: mongoc_messages_def mongoc_rpc_def)

lemma layout_append: "layout off (xs @ ys) = layout off xs @ layout (struct_end off xs) ys"
proof (induction xs arbitrary: off)
  case (Cons f fs)
  obtain n t where "f = Field n t" by (cases f)
  then show ?case using Cons.IH by simp
qed simp

lemma compiles_fields_append: "compiles_fields (xs @ ys) = (compiles_fields xs \<and> compiles_fields ys)"
proof (induction xs)
  case (Cons f fs)
  obtain n t where "f = Field n t" by (cases f)
  then show ?case using Cons.IH by simp
qed simp

text \<open>Splitting a structure at a field: what stands before ends before it, the rest fills the end.\<close>

lemma split_at_field:
  assumes t: "t = Struct (before @ Field m u # after)" and "compiles t"
    and "m \<notin> set (map field_name before)"
  obtains off where "offsetof t m = Some off"
    "list_all (\<lambda>(n, p, v). p + csize v \<le> off) (take (length before) (members t))"
    "list_all (\<lambda>(n, p, v). off \<le> p \<and> p + csize v \<le> csize t) (drop (length before) (members t))"
    "map fst (members t) = map field_name before @ m # map field_name after"
proof -
  let ?stop = "struct_end 0 before"
  let ?off = "round_up ?stop (calign u)"
  have ok: "compiles_fields before" "compiles_fields (Field m u # after)"
    using assms(2) by (simp_all add: t compiles_fields_append)
  have len: "length (layout off xs) = length xs" for off xs
    using layout_names [of off xs] by (metis length_map)
  have members: "members t = layout 0 before @ (m, ?off, u) # layout (?off + csize u) after"
    by (simp add: t layout_append)
  have "m \<notin> fst ` set (layout 0 before)"
    using assms(3) layout_names [of 0 before] by (metis set_map)
  then have "map_of (layout 0 before) m = None" by (simp add: map_of_eq_None_iff)
  then have "offsetof t m = Some ?off" by (simp add: offsetof_def members map_add_def)
  moreover have "?stop \<le> ?off" using ok(2) calign_positive(1) [of u] by (simp add: round_up_least)
  then have "list_all (\<lambda>(n, p, v). p + csize v \<le> ?off) (layout 0 before)"
    using layout_bounds [OF ok(1)] by (fastforce simp: list_all_iff)
  then have "list_all (\<lambda>(n, p, v). p + csize v \<le> ?off) (take (length before) (members t))"
    by (simp add: members len)
  moreover have "list_all (\<lambda>(n, p, v). ?off \<le> p \<and> p + csize v \<le> csize t) (drop (length before) (members t))"
  proof -
    have after: "compiles_fields after" using ok(2) by simp
    have "struct_end 0 (before @ Field m u # after) \<le> csize t"
      by (simp add: t round_up_least calign_positive)
    moreover have "struct_end 0 (before @ Field m u # after) = struct_end (?off + csize u) after"
      by (simp add: struct_end_append)
    ultimately have "struct_end (?off + csize u) after \<le> csize t" by simp
    then show ?thesis
      using layout_bounds [OF after] struct_end_least [OF after, of "?off + csize u"]
      by (fastforce simp: members len list_all_iff)
  qed
  moreover have "map fst (members t) = map field_name before @ m # map field_name after"
    by (simp add: members layout_names)
  ultimately show ?thesis using that by blast
qed

section \<open>Properties\<close>



text \<open>
  The static assertions hold on Linux and on Windows, with 32 and 64 bits, with the extra alignment
  or without. With it GNU compilers refuse an array of iterators: an iterator has 80 bytes and is
  aligned to 128. A line of counters is a cache line.
\<close>

theorem static_assertions_hold:
  "list_all (\<lambda>dm. list_all (\<lambda>(line, holds). BSON_STATIC_ASSERT line holds \<noteq> None) (static_assertions dm))
     (data_models True @ data_models False) \<and>
   map (\<lambda>dm. (csize (bson_iter_layout dm), calign (bson_iter_layout dm), compiles (Array_of 2 (bson_iter_layout dm))))
     (data_models True) = [(80, 128, False), (80, 128, False), (128, 128, True), (128, 128, True)] \<and>
   map (\<lambda>dm. (csize (bson_iter_layout dm), calign (bson_iter_layout dm), compiles (Array_of 2 (bson_iter_layout dm))))
     (data_models False) = [(80, 8, True), (72, 4, True), (80, 8, True), (80, 8, True)] \<and>
   list_all (\<lambda>dm. csize (mongoc_counter_slots_layout dm) = 64) (data_models True)"
proof (intro conjI)
  have sizes: "csize (bson_layout dm) = 128" "csize (bson_oid_layout dm) = 12" "csize (bson_error_layout dm) = 512"
      "csize (mongoc_rpc dm op_header) = 16" "csize (ty_double dm) = csize (ty_uint64 dm)"
      "offsetof (mongoc_rpc dm op_header) ''opcode'' = offsetof (mongoc_rpc dm op_reply) ''opcode''"
    if "dm \<in> set (data_models True @ data_models False)" for dm
    using that unfolding data_models_def
    by (auto simp: bson_layout_def bson_oid_layout_def bson_error_layout_def BSON_ALIGNED_gnu BSON_ALIGNED_msc
        gnu_linux_def microsoft_def c_scalars round_up_def mongoc_rpc_def op_defs offsetof_def)
  have iovec: "csize (mongoc_iovec_layout dm) = csize (WSABUF dm)"
      "offsetof (mongoc_iovec_layout dm) ''iov_base'' = offsetof (WSABUF dm) ''buf''"
      "offsetof (mongoc_iovec_layout dm) ''iov_len'' = offsetof (WSABUF dm) ''len''" if "win32 (target dm)" for dm
    using that by (simp_all add: mongoc_iovec_layout_def WSABUF_def offsetof_def)
  show "list_all (\<lambda>dm. list_all (\<lambda>(line, holds). BSON_STATIC_ASSERT line holds \<noteq> None) (static_assertions dm))
     (data_models True @ data_models False)"
    unfolding list_all_iff [of _ "data_models True @ data_models False"]
    by (intro ballI) (simp add: static_assertions_def sizes iovec BSON_STATIC_ASSERT_def)
qed (simp_all add: data_models_def bson_iter_layout_def bson_value_layout_def bson_oid_layout_def BSON_ALIGNED_gnu
    BSON_ALIGNED_msc gnu_linux_def microsoft_def c_scalars round_up_def mongoc_counter_slots_layout_def
    SLOTS_PER_CACHELINE_def)


text \<open>
  Looking at a structure through another. Every message starts with the fields of the header, at the
  same offsets and with the same types, and every kind of matcher operation with its opcode, so that both
  can be read before the kind is known. Resetting a server description, which clears it from
  \<^verbatim>\<open>set_name\<close> to its end, clears exactly the fields the comment says.
\<close>

theorem prefixes_shared:
  assumes "data_model_ok dm"
  shows "list_all (\<lambda>t. take 4 (members t) = members (mongoc_rpc dm op_header)) (mongoc_messages dm) \<and>
    list_all (\<lambda>(n, off, t). off = 0 \<and> map_of (members t) ''base'' = Some (0, mongoc_matcher_op_base_layout dm))
      (tl (members (mongoc_matcher_op_layout dm))) \<and>
    (\<exists>off. offsetof (mongoc_server_description_layout dm) ''set_name'' = Some off \<and>
      list_all (\<lambda>(n, p, t). p + csize t \<le> off) (take 7 (members (mongoc_server_description_layout dm))) \<and>
      list_all (\<lambda>(n, p, t). off \<le> p \<and> p + csize t \<le> csize (mongoc_server_description_layout dm))
        (drop 7 (members (mongoc_server_description_layout dm))) \<and>
      map fst (take 7 (members (mongoc_server_description_layout dm))) =
        [''id'', ''host'', ''round_trip_time'', ''last_is_master'', ''has_is_master'', ''connection_address'', ''me''])"
proof (intro conjI)
  show "list_all (\<lambda>t. take 4 (members t) = members (mongoc_rpc dm op_header)) (mongoc_messages dm)"
    by (simp add: mongoc_messages_def mongoc_rpc_def op_defs numeral_eq_Suc)
  show "list_all (\<lambda>(n, off, t). off = 0 \<and> map_of (members t) ''base'' = Some (0, mongoc_matcher_op_base_layout dm))
      (tl (members (mongoc_matcher_op_layout dm)))"
    by (simp add: mongoc_matcher_op_layout_def mongoc_matcher_op_logical_layout_def mongoc_matcher_op_compare_layout_def
        mongoc_matcher_op_exists_layout_def mongoc_matcher_op_type_layout_def mongoc_matcher_op_not_layout_def)
  let ?t = "mongoc_server_description_layout dm"
  have "compiles ?t"
    by (rule list_all_member [OF mongoc_structs_compile(1) [OF assms]]) (simp add: mongoc_structs_def)
  moreover have "\<exists>after. ?t = Struct ([Field ''id'' ty_uint32, Field ''host'' (mongoc_host_list_layout dm),
        Field ''round_trip_time'' (ty_int64 dm), Field ''last_is_master'' (bson_layout dm),
        Field ''has_is_master'' ty_bool, Field ''connection_address'' (ty_pointer dm),
        Field ''me'' (ty_pointer dm)] @ Field ''set_name'' (ty_pointer dm) # after)"
    unfolding mongoc_server_description_layout_def by simp
  then obtain before u after where t: "?t = Struct (before @ Field ''set_name'' u # after)"
      and names: "map field_name before =
        [''id'', ''host'', ''round_trip_time'', ''last_is_master'', ''has_is_master'', ''connection_address'', ''me'']"
    by (elim exE) (rule that, assumption, simp)
  have len: "length before = 7" using arg_cong [OF names, of length] by simp
  ultimately show "\<exists>off. offsetof ?t ''set_name'' = Some off \<and>
      list_all (\<lambda>(n, p, t). p + csize t \<le> off) (take 7 (members ?t)) \<and>
      list_all (\<lambda>(n, p, t). off \<le> p \<and> p + csize t \<le> csize ?t) (drop 7 (members ?t)) \<and>
      map fst (take 7 (members ?t)) =
        [''id'', ''host'', ''round_trip_time'', ''last_is_master'', ''has_is_master'', ''connection_address'', ''me'']"
    by - (rule split_at_field [OF t], simp_all add: names len take_map [symmetric])
qed

theorem prefixes_shared_witness:
  "take 4 (members (mongoc_rpc (data_models True ! 0) op_query)) = members (mongoc_rpc (data_models True ! 0) op_header)"
proof -
  have "data_model_ok (data_models True ! 0)" by (simp add: data_models_def data_model_ok_def)
  from prefixes_shared [OF this] show ?thesis by (simp add: mongoc_messages_def)
qed


end
