(* ===== verification/Codes.thy ===== *)
theory Codes
  imports Platform
begin

text \<open>
  The numbers of the libraries: the enumerations of libbson, libmongoc, bsoncxx and mongocxx that the
  other theories do not need as types, with C's rule for the enumerators that have no value of their
  own, the flags among them and their combinations, and the error numbers that mean "try again".
\<close>

unbundle bit_operations_syntax

section \<open>Enumerations\<close>

type_synonym enum_declaration = "(string \<times> int option) list"

fun enumerators :: "int \<Rightarrow> enum_declaration \<Rightarrow> (string \<times> int) list" where
  "enumerators k [] = []"
| "enumerators k ((n, e) # ds) =
     (let v = (case e of Some v \<Rightarrow> v | None \<Rightarrow> k) in (n, v) # enumerators (v + 1) ds)"

definition enum_values :: "enum_declaration \<Rightarrow> (string \<times> int) list" where
  "enum_values d = enumerators 0 d"

definition enum_value :: "enum_declaration \<Rightarrow> string \<Rightarrow> int option" where
  "enum_value d n = map_of (enum_values d) n"

text \<open>The names of the element types, which bsoncxx includes in several enumerations.\<close>

definition bsoncxx_types :: "string list" where
  "bsoncxx_types =
     [''double'', ''utf8'', ''document'', ''array'', ''binary'', ''undefined'', ''oid'', ''bool'', ''date'',
      ''null'', ''regex'', ''dbpointer'', ''code'', ''symbol'', ''codewscope'', ''int32'', ''timestamp'',
      ''int64'', ''maxkey'', ''minkey'']"

definition bson_context_flags :: "platform \<Rightarrow> enum_declaration" where
  "bson_context_flags p =
     [(''BSON_CONTEXT_NONE'', Some 0), (''BSON_CONTEXT_THREAD_SAFE'', Some (push_bit 0 1)),
      (''BSON_CONTEXT_DISABLE_HOST_CACHE'', Some (push_bit 1 1)),
      (''BSON_CONTEXT_DISABLE_PID_CACHE'', Some (push_bit 2 1))] @
     (if linux p then [(''BSON_CONTEXT_USE_TASK_ID'', Some (push_bit 3 1))] else [])"

definition bson_validate_flags :: enum_declaration where
  "bson_validate_flags =
     [(''BSON_VALIDATE_NONE'', Some 0), (''BSON_VALIDATE_UTF8'', Some (push_bit 0 1)),
      (''BSON_VALIDATE_DOLLAR_KEYS'', Some (push_bit 1 1)),
      (''BSON_VALIDATE_DOT_KEYS'', Some (push_bit 2 1)),
      (''BSON_VALIDATE_UTF8_ALLOW_NULL'', Some (push_bit 3 1))]"

definition bson_json_error_code :: enum_declaration where
  "bson_json_error_code =
     [(''BSON_JSON_ERROR_READ_CORRUPT_JS'', Some 1),
      (''BSON_JSON_ERROR_READ_INVALID_PARAM'', None), (''BSON_JSON_ERROR_READ_CB_FAILURE'', None)]"

definition mongoc_delete_flags :: enum_declaration where
  "mongoc_delete_flags =
     [(''MONGOC_DELETE_NONE'', Some 0), (''MONGOC_DELETE_SINGLE_REMOVE'', Some (push_bit 0 1))]"

definition mongoc_remove_flags :: enum_declaration where
  "mongoc_remove_flags =
     [(''MONGOC_REMOVE_NONE'', Some 0), (''MONGOC_REMOVE_SINGLE_REMOVE'', Some (push_bit 0 1))]"

definition mongoc_insert_flags :: enum_declaration where
  "mongoc_insert_flags =
     [(''MONGOC_INSERT_NONE'', Some 0), (''MONGOC_INSERT_CONTINUE_ON_ERROR'', Some (push_bit 0 1))]"

definition mongoc_query_flags :: enum_declaration where
  "mongoc_query_flags =
     [(''MONGOC_QUERY_NONE'', Some 0), (''MONGOC_QUERY_TAILABLE_CURSOR'', Some (push_bit 1 1)),
      (''MONGOC_QUERY_SLAVE_OK'', Some (push_bit 2 1)),
      (''MONGOC_QUERY_OPLOG_REPLAY'', Some (push_bit 3 1)),
      (''MONGOC_QUERY_NO_CURSOR_TIMEOUT'', Some (push_bit 4 1)),
      (''MONGOC_QUERY_AWAIT_DATA'', Some (push_bit 5 1)),
      (''MONGOC_QUERY_EXHAUST'', Some (push_bit 6 1)),
      (''MONGOC_QUERY_PARTIAL'', Some (push_bit 7 1))]"

definition mongoc_reply_flags :: enum_declaration where
  "mongoc_reply_flags =
     [(''MONGOC_REPLY_NONE'', Some 0), (''MONGOC_REPLY_CURSOR_NOT_FOUND'', Some (push_bit 0 1)),
      (''MONGOC_REPLY_QUERY_FAILURE'', Some (push_bit 1 1)),
      (''MONGOC_REPLY_SHARD_CONFIG_STALE'', Some (push_bit 2 1)),
      (''MONGOC_REPLY_AWAIT_CAPABLE'', Some (push_bit 3 1))]"

definition mongoc_update_flags :: enum_declaration where
  "mongoc_update_flags =
     [(''MONGOC_UPDATE_NONE'', Some 0), (''MONGOC_UPDATE_UPSERT'', Some (push_bit 0 1)),
      (''MONGOC_UPDATE_MULTI_UPDATE'', Some (push_bit 1 1))]"

definition mongoc_find_and_modify_flags :: enum_declaration where
  "mongoc_find_and_modify_flags =
     [(''MONGOC_FIND_AND_MODIFY_NONE'', Some 0),
      (''MONGOC_FIND_AND_MODIFY_REMOVE'', Some (push_bit 0 1)),
      (''MONGOC_FIND_AND_MODIFY_UPSERT'', Some (push_bit 1 1)),
      (''MONGOC_FIND_AND_MODIFY_RETURN_NEW'', Some (push_bit 2 1))]"

definition mongoc_write_bypass_document_validation :: enum_declaration where
  "mongoc_write_bypass_document_validation =
     [(''MONGOC_BYPASS_DOCUMENT_VALIDATION_FALSE'', Some 0),
      (''MONGOC_BYPASS_DOCUMENT_VALIDATION_TRUE'', Some (push_bit 0 1)),
      (''MONGOC_BYPASS_DOCUMENT_VALIDATION_DEFAULT'', Some (push_bit 1 1))]"

definition mongoc_error_domain :: enum_declaration where
  "mongoc_error_domain =
     [(''MONGOC_ERROR_CLIENT'', Some 1), (''MONGOC_ERROR_STREAM'', None),
      (''MONGOC_ERROR_PROTOCOL'', None), (''MONGOC_ERROR_CURSOR'', None),
      (''MONGOC_ERROR_QUERY'', None), (''MONGOC_ERROR_INSERT'', None),
      (''MONGOC_ERROR_SASL'', None), (''MONGOC_ERROR_BSON'', None),
      (''MONGOC_ERROR_MATCHER'', None), (''MONGOC_ERROR_NAMESPACE'', None),
      (''MONGOC_ERROR_COMMAND'', None), (''MONGOC_ERROR_COLLECTION'', None),
      (''MONGOC_ERROR_GRIDFS'', None), (''MONGOC_ERROR_SCRAM'', None),
      (''MONGOC_ERROR_SERVER_SELECTION'', None), (''MONGOC_ERROR_WRITE_CONCERN'', None)]"

definition mongoc_error_code :: enum_declaration where
  "mongoc_error_code =
     [(''MONGOC_ERROR_STREAM_INVALID_TYPE'', Some 1),
      (''MONGOC_ERROR_STREAM_INVALID_STATE'', None),
      (''MONGOC_ERROR_STREAM_NAME_RESOLUTION'', None), (''MONGOC_ERROR_STREAM_SOCKET'', None),
      (''MONGOC_ERROR_STREAM_CONNECT'', None), (''MONGOC_ERROR_STREAM_NOT_ESTABLISHED'', None),
      (''MONGOC_ERROR_CLIENT_NOT_READY'', None), (''MONGOC_ERROR_CLIENT_TOO_BIG'', None),
      (''MONGOC_ERROR_CLIENT_TOO_SMALL'', None), (''MONGOC_ERROR_CLIENT_GETNONCE'', None),
      (''MONGOC_ERROR_CLIENT_AUTHENTICATE'', None),
      (''MONGOC_ERROR_CLIENT_NO_ACCEPTABLE_PEER'', None),
      (''MONGOC_ERROR_CLIENT_IN_EXHAUST'', None), (''MONGOC_ERROR_PROTOCOL_INVALID_REPLY'', None),
      (''MONGOC_ERROR_PROTOCOL_BAD_WIRE_VERSION'', None),
      (''MONGOC_ERROR_CURSOR_INVALID_CURSOR'', None), (''MONGOC_ERROR_QUERY_FAILURE'', None),
      (''MONGOC_ERROR_BSON_INVALID'', None), (''MONGOC_ERROR_MATCHER_INVALID'', None),
      (''MONGOC_ERROR_NAMESPACE_INVALID'', None),
      (''MONGOC_ERROR_NAMESPACE_INVALID_FILTER_TYPE'', None),
      (''MONGOC_ERROR_COMMAND_INVALID_ARG'', None),
      (''MONGOC_ERROR_COLLECTION_INSERT_FAILED'', None),
      (''MONGOC_ERROR_COLLECTION_UPDATE_FAILED'', None),
      (''MONGOC_ERROR_COLLECTION_DELETE_FAILED'', None),
      (''MONGOC_ERROR_COLLECTION_DOES_NOT_EXIST'', Some 26),
      (''MONGOC_ERROR_GRIDFS_INVALID_FILENAME'', None), (''MONGOC_ERROR_SCRAM_NOT_DONE'', None),
      (''MONGOC_ERROR_SCRAM_PROTOCOL_ERROR'', None),
      (''MONGOC_ERROR_QUERY_COMMAND_NOT_FOUND'', Some 59),
      (''MONGOC_ERROR_QUERY_NOT_TAILABLE'', Some 13051),
      (''MONGOC_ERROR_SERVER_SELECTION_BAD_WIRE_VERSION'', None),
      (''MONGOC_ERROR_SERVER_SELECTION_FAILURE'', None),
      (''MONGOC_ERROR_SERVER_SELECTION_INVALID_ID'', None),
      (''MONGOC_ERROR_GRIDFS_CHUNK_MISSING'', None), (''MONGOC_ERROR_PROTOCOL_ERROR'', Some 17),
      (''MONGOC_ERROR_WRITE_CONCERN_ERROR'', Some 64)]"

definition mongoc_opcode :: enum_declaration where
  "mongoc_opcode =
     [(''MONGOC_OPCODE_REPLY'', Some 1), (''MONGOC_OPCODE_MSG'', Some 1000),
      (''MONGOC_OPCODE_UPDATE'', Some 2001), (''MONGOC_OPCODE_INSERT'', Some 2002),
      (''MONGOC_OPCODE_QUERY'', Some 2004), (''MONGOC_OPCODE_GET_MORE'', Some 2005),
      (''MONGOC_OPCODE_DELETE'', Some 2006), (''MONGOC_OPCODE_KILL_CURSORS'', Some 2007)]"

definition mongoc_matcher_opcode :: enum_declaration where
  "mongoc_matcher_opcode =
     [(''MONGOC_MATCHER_OPCODE_EQ'', None), (''MONGOC_MATCHER_OPCODE_GT'', None),
      (''MONGOC_MATCHER_OPCODE_GTE'', None), (''MONGOC_MATCHER_OPCODE_IN'', None),
      (''MONGOC_MATCHER_OPCODE_LT'', None), (''MONGOC_MATCHER_OPCODE_LTE'', None),
      (''MONGOC_MATCHER_OPCODE_NE'', None), (''MONGOC_MATCHER_OPCODE_NIN'', None),
      (''MONGOC_MATCHER_OPCODE_OR'', None), (''MONGOC_MATCHER_OPCODE_AND'', None),
      (''MONGOC_MATCHER_OPCODE_NOT'', None), (''MONGOC_MATCHER_OPCODE_NOR'', None),
      (''MONGOC_MATCHER_OPCODE_EXISTS'', None), (''MONGOC_MATCHER_OPCODE_TYPE'', None)]"

definition mongoc_log_level :: enum_declaration where
  "mongoc_log_level =
     [(''MONGOC_LOG_LEVEL_ERROR'', None), (''MONGOC_LOG_LEVEL_CRITICAL'', None),
      (''MONGOC_LOG_LEVEL_WARNING'', None), (''MONGOC_LOG_LEVEL_MESSAGE'', None),
      (''MONGOC_LOG_LEVEL_INFO'', None), (''MONGOC_LOG_LEVEL_DEBUG'', None),
      (''MONGOC_LOG_LEVEL_TRACE'', None)]"

definition mongoc_read_mode :: enum_declaration where
  "mongoc_read_mode =
     [(''MONGOC_READ_PRIMARY'', Some (push_bit 0 1)),
      (''MONGOC_READ_SECONDARY'', Some (push_bit 1 1)),
      (''MONGOC_READ_PRIMARY_PREFERRED'', Some (push_bit 2 1 OR push_bit 0 1)),
      (''MONGOC_READ_SECONDARY_PREFERRED'', Some (push_bit 2 1 OR push_bit 1 1)),
      (''MONGOC_READ_NEAREST'', Some (push_bit 3 1 OR push_bit 1 1))]"

definition mongoc_topology_bg_state :: enum_declaration where
  "mongoc_topology_bg_state =
     [(''MONGOC_TOPOLOGY_BG_OFF'', None), (''MONGOC_TOPOLOGY_BG_RUNNING'', None),
      (''MONGOC_TOPOLOGY_BG_SHUTTING_DOWN'', None)]"

definition mongoc_topology_description_type :: enum_declaration where
  "mongoc_topology_description_type =
     [(''MONGOC_TOPOLOGY_UNKNOWN'', None), (''MONGOC_TOPOLOGY_SHARDED'', None),
      (''MONGOC_TOPOLOGY_RS_NO_PRIMARY'', None), (''MONGOC_TOPOLOGY_RS_WITH_PRIMARY'', None),
      (''MONGOC_TOPOLOGY_SINGLE'', None), (''MONGOC_TOPOLOGY_DESCRIPTION_TYPES'', None)]"

definition mongoc_ss_optype :: enum_declaration where
  "mongoc_ss_optype =
     [(''MONGOC_SS_READ'', None), (''MONGOC_SS_WRITE'', None)]"

definition mongoc_server_description_type :: enum_declaration where
  "mongoc_server_description_type =
     [(''MONGOC_SERVER_UNKNOWN'', None), (''MONGOC_SERVER_STANDALONE'', None),
      (''MONGOC_SERVER_MONGOS'', None), (''MONGOC_SERVER_POSSIBLE_PRIMARY'', None),
      (''MONGOC_SERVER_RS_PRIMARY'', None), (''MONGOC_SERVER_RS_SECONDARY'', None),
      (''MONGOC_SERVER_RS_ARBITER'', None), (''MONGOC_SERVER_RS_OTHER'', None),
      (''MONGOC_SERVER_RS_GHOST'', None), (''MONGOC_SERVER_DESCRIPTION_TYPES'', None)]"

definition mongoc_async_cmd_state :: enum_declaration where
  "mongoc_async_cmd_state =
     [(''MONGOC_ASYNC_CMD_SETUP'', None), (''MONGOC_ASYNC_CMD_SEND'', None),
      (''MONGOC_ASYNC_CMD_RECV_LEN'', None), (''MONGOC_ASYNC_CMD_RECV_RPC'', None),
      (''MONGOC_ASYNC_CMD_ERROR_STATE'', None), (''MONGOC_ASYNC_CMD_CANCELED_STATE'', None)]"

definition mongoc_async_cmd_result :: enum_declaration where
  "mongoc_async_cmd_result =
     [(''MONGOC_ASYNC_CMD_IN_PROGRESS'', None), (''MONGOC_ASYNC_CMD_SUCCESS'', None),
      (''MONGOC_ASYNC_CMD_ERROR'', None), (''MONGOC_ASYNC_CMD_TIMEOUT'', None)]"

definition mongoc_cursor_transform_mode :: enum_declaration where
  "mongoc_cursor_transform_mode =
     [(''MONGO_CURSOR_TRANSFORM_DROP'', None), (''MONGO_CURSOR_TRANSFORM_PASS'', None),
      (''MONGO_CURSOR_TRANSFORM_MUTATE'', None)]"

definition mongoc_index_storage_opt_type :: enum_declaration where
  "mongoc_index_storage_opt_type =
     [(''MONGOC_INDEX_STORAGE_OPT_MMAPV1'', None), (''MONGOC_INDEX_STORAGE_OPT_WIREDTIGER'', None)]"

definition mongocxx_error_code :: enum_declaration where
  "mongocxx_error_code =
     [(''k_instance_already_exists'', Some 1), (''k_invalid_client_object'', None),
      (''k_invalid_collection_object'', None), (''k_invalid_database_object'', None),
      (''k_invalid_parameter'', None), (''k_ssl_not_supported'', None),
      (''k_unknown_read_concern'', None), (''k_unknown_write_concern'', None)]"

definition mongocxx_log_level :: enum_declaration where
  "mongocxx_log_level =
     [(''k_error'', None), (''k_critical'', None), (''k_warning'', None), (''k_message'', None),
      (''k_info'', None), (''k_debug'', None), (''k_trace'', None)]"

definition mongocxx_write_type :: enum_declaration where
  "mongocxx_write_type =
     [(''k_insert_one'', None), (''k_delete_one'', None), (''k_delete_many'', None),
      (''k_update_one'', None), (''k_update_many'', None), (''k_replace_one'', None)]"

definition mongocxx_read_mode :: enum_declaration where
  "mongocxx_read_mode =
     [(''k_primary'', Some 0x01), (''k_primary_preferred'', Some 0x05),
      (''k_secondary'', Some 0x02), (''k_secondary_preferred'', Some 0x06),
      (''k_nearest'', Some 0x0A)]"

definition read_concern_level :: enum_declaration where
  "read_concern_level =
     [(''k_local'', None), (''k_majority'', None), (''k_server_default'', None),
      (''k_unknown'', None)]"

definition write_concern_level :: enum_declaration where
  "write_concern_level =
     [(''k_default'', None), (''k_majority'', None), (''k_tag'', None),
      (''k_unacknowledged'', None), (''k_unknown'', None)]"

definition validation_level :: enum_declaration where
  "validation_level =
     [(''k_off'', None), (''k_moderate'', None), (''k_strict'', None)]"

definition validation_action :: enum_declaration where
  "validation_action =
     [(''k_error'', None), (''k_warn'', None)]"

definition return_document :: enum_declaration where
  "return_document =
     [(''k_before'', None), (''k_after'', None)]"

definition cursor_type :: enum_declaration where
  "cursor_type =
     [(''k_non_tailable'', None), (''k_tailable'', None), (''k_tailable_await'', None)]"

definition bsoncxx_error_code :: enum_declaration where
  "bsoncxx_error_code =
     [(''k_cannot_append_key_in_sub_array'', Some 1),
      (''k_cannot_close_array_in_sub_document'', None),
      (''k_cannot_close_document_in_sub_array'', None),
      (''k_cannot_perform_array_operation_on_document'', None),
      (''k_cannot_perform_document_operation_on_array'', None)] @
     map (\<lambda>n. (''k_need_element_type_k_'' @ n, None)) bsoncxx_types @
     [(''k_need_key'', None), (''k_no_array_to_close'', None), (''k_no_document_to_close'', None),
      (''k_unmatched_key_in_builder'', None), (''k_unset_element'', None),
      (''k_json_parse_failure'', None)]"

definition MONGOC_INSERT_NO_VALIDATE :: u32 where
  "MONGOC_INSERT_NO_VALIDATE = push_bit 31 1"

definition MONGOC_UPDATE_NO_VALIDATE :: u32 where
  "MONGOC_UPDATE_NO_VALIDATE = push_bit 31 1"

definition make_error_code :: "'c \<Rightarrow> enum_declaration \<Rightarrow> string \<Rightarrow> (int \<times> 'c) option" where
  "make_error_code category d n = map_option (\<lambda>v. (v, category)) (enum_value d n)"

section \<open>Wire versions\<close>

text \<open>The versions of the protocol that the client speaks, and the one each feature needs.\<close>

definition WIRE_VERSION_MIN :: nat where "WIRE_VERSION_MIN = 0"
definition WIRE_VERSION_MAX :: nat where "WIRE_VERSION_MAX = 4"
definition WIRE_VERSION_AGG_CURSOR :: nat where "WIRE_VERSION_AGG_CURSOR = 1"
definition WIRE_VERSION_WRITE_CMD :: nat where "WIRE_VERSION_WRITE_CMD = 2"
definition WIRE_VERSION_SCRAM_DEFAULT :: nat where "WIRE_VERSION_SCRAM_DEFAULT = 3"
definition WIRE_VERSION_FIND_CMD :: nat where "WIRE_VERSION_FIND_CMD = 4"
definition WIRE_VERSION_KILLCURSORS_CMD :: nat where "WIRE_VERSION_KILLCURSORS_CMD = 4"
definition WIRE_VERSION_FAM_WRITE_CONCERN :: nat where "WIRE_VERSION_FAM_WRITE_CONCERN = 4"
definition WIRE_VERSION_READ_CONCERN :: nat where "WIRE_VERSION_READ_CONCERN = 4"

text \<open>A server whose newest version is the client's has every feature.\<close>

lemma newest_version_has_all:
  "list_all (\<lambda>v. WIRE_VERSION_MIN \<le> v \<and> v \<le> WIRE_VERSION_MAX)
     [WIRE_VERSION_AGG_CURSOR, WIRE_VERSION_WRITE_CMD, WIRE_VERSION_SCRAM_DEFAULT, WIRE_VERSION_FIND_CMD,
      WIRE_VERSION_KILLCURSORS_CMD, WIRE_VERSION_FAM_WRITE_CONCERN, WIRE_VERSION_READ_CONCERN]"
  by (simp add: WIRE_VERSION_MIN_def WIRE_VERSION_MAX_def WIRE_VERSION_AGG_CURSOR_def WIRE_VERSION_WRITE_CMD_def
      WIRE_VERSION_SCRAM_DEFAULT_def WIRE_VERSION_FIND_CMD_def WIRE_VERSION_KILLCURSORS_CMD_def
      WIRE_VERSION_FAM_WRITE_CONCERN_def WIRE_VERSION_READ_CONCERN_def)

section \<open>Error numbers\<close>

datatype errno =
    EINTR | EAGAIN | EWOULDBLOCK | EINPROGRESS | WSAEWOULDBLOCK | WSAEINPROGRESS | No_error | Other_errno int

definition MONGOC_ERRNO_IS_AGAIN :: "platform \<Rightarrow> errno \<Rightarrow> bool" where
  "MONGOC_ERRNO_IS_AGAIN p e =
     (if win32 p then e = EAGAIN \<or> e = WSAEWOULDBLOCK \<or> e = WSAEINPROGRESS
      else if sun p then e = EINTR \<or> e = EAGAIN \<or> e = EWOULDBLOCK \<or> e = EINPROGRESS \<or> e = No_error
      else e = EINTR \<or> e = EAGAIN \<or> e = EWOULDBLOCK \<or> e = EINPROGRESS)"

section \<open>Flags\<close>

text \<open>Flags combined with \<^verbatim>\<open>|\<close> and asked for with \<^verbatim>\<open>&\<close>.\<close>

definition flag_bits :: "(string \<times> int) list \<Rightarrow> string \<Rightarrow> u32" where
  "flag_bits flags n = (case map_of flags n of Some v \<Rightarrow> word_of_int v | None \<Rightarrow> 0)"

definition combine :: "(string \<times> int) list \<Rightarrow> string list \<Rightarrow> u32" where
  "combine flags ns = foldr (\<lambda>n w. flag_bits flags n OR w) ns 0"

definition has_flag :: "(string \<times> int) list \<Rightarrow> u32 \<Rightarrow> string \<Rightarrow> bool" where
  "has_flag flags w n \<longleftrightarrow> w AND flag_bits flags n \<noteq> 0"

lemma bit_combine: "bit (combine flags ns) j = (\<exists>n \<in> set ns. bit (flag_bits flags n) j)"
  by (induction ns) (auto simp: combine_def bit_simps)

definition is_flag :: "int \<Rightarrow> bool" where
  "is_flag v \<longleftrightarrow> v = 0 \<or> (\<exists>k<31. v = 2 ^ k)"

lemma is_flag_power: "k < 31 \<Longrightarrow> is_flag (2 ^ k)"
  by (auto simp: is_flag_def)

lemma is_flag_numbers [simp]:
  "is_flag 0" "is_flag 1" "is_flag 2" "is_flag 4" "is_flag 8" "is_flag 16" "is_flag 32" "is_flag 64" "is_flag 128"
  using is_flag_power [of 0] is_flag_power [of 1] is_flag_power [of 2] is_flag_power [of 3] is_flag_power [of 4]
    is_flag_power [of 5] is_flag_power [of 6] is_flag_power [of 7]
  by (simp_all add: is_flag_def)

lemma bits_apart: "j \<noteq> k \<Longrightarrow> push_bit j 1 AND push_bit k 1 = (0 :: 'a::len word)"
  by (rule bit_word_eqI) (auto simp: bit_simps)

lemma bit_absent: "\<not> bit w k \<Longrightarrow> w AND push_bit k 1 = (0 :: 'a::len word)"
  by (rule bit_word_eqI) (auto simp: bit_simps)

locale flag_set =
  fixes flags :: "(string \<times> int) list"
  assumes names: "distinct (map fst flags)"
    and numbers: "distinct (map snd flags)"
    and bits: "list_all (\<lambda>(n, v). is_flag v) flags"
begin

lemma flag_number:
  assumes "(n, v) \<in> set flags" "v \<noteq> 0"
  obtains k where "k < 31" "v = 2 ^ k" "flag_bits flags n = push_bit k 1"
proof -
  obtain k where k: "k < 31" "v = 2 ^ k" using bits assms by (auto simp: list_all_iff is_flag_def)
  have "map_of flags n = Some v" using assms(1) names by simp
  then have "flag_bits flags n = push_bit k 1" by (simp add: flag_bits_def k push_bit_eq_mult)
  with k that show ?thesis by blast
qed

lemma flag_bits_at:
  assumes "(n, 2 ^ k) \<in> set flags" "k < 31" "m \<in> fst ` set flags"
  shows "bit (flag_bits flags m) k = (m = n)"
proof -
  obtain v where m: "(m, v) \<in> set flags" using assms(3) by auto
  show ?thesis
  proof (cases "v = 0")
    case True
    then have "map_of flags m = Some 0" using m names by simp
    moreover have "m \<noteq> n" using True m assms(1) names by (auto dest: eq_key_imp_eq_value)
    ultimately show ?thesis by (simp add: flag_bits_def)
  next
    case False
    from flag_number [OF m this] obtain j where j: "j < 31" "v = 2 ^ j" "flag_bits flags m = push_bit j 1" .
    have "m = n \<longleftrightarrow> v = 2 ^ k"
    proof
      assume "m = n"
      then show "v = 2 ^ k" using m assms(1) names by (auto dest: eq_key_imp_eq_value)
    next
      assume "v = 2 ^ k"
      then have "(m, 2 ^ k) \<in> set flags" using m by simp
      with assms(1) numbers show "m = n"
        using inj_onD [of snd "set flags" "(m, 2 ^ k)" "(n, 2 ^ k)"] by (simp add: distinct_map)
    qed
    moreover have "bit (push_bit j 1 :: u32) k \<longleftrightarrow> k = j"
      using assms(2) j(1) by (auto simp: bit_simps)
    ultimately show ?thesis by (auto simp: j)
  qed
qed

lemma has_flag_combine:
  assumes "set ns \<subseteq> fst ` set flags" "(n, v) \<in> set flags" "v \<noteq> 0"
  shows "has_flag flags (combine flags ns) n \<longleftrightarrow> n \<in> set ns"
proof -
  from flag_number [OF assms(2,3)] obtain k where k: "k < 31" "v = 2 ^ k" "flag_bits flags n = push_bit k 1" .
  have "has_flag flags (combine flags ns) n \<longleftrightarrow> bit (combine flags ns) k"
    by (simp add: has_flag_def k push_bit_eq_mult and_exp_eq_0_iff_not_bit)
  also have "\<dots> \<longleftrightarrow> (\<exists>m \<in> set ns. m = n)"
    using flag_bits_at [of n k] assms(1,2) k(1,2) by (auto simp: bit_combine subset_iff)
  finally show ?thesis by simp
qed

lemma combine_small:
  assumes "set ns \<subseteq> fst ` set flags"
  shows "\<not> bit (combine flags ns) 31"
proof -
  have "\<not> bit (flag_bits flags m) 31" if member: "m \<in> fst ` set flags" for m
  proof -
    obtain v where m: "(m, v) \<in> set flags" using member by auto
    then have here: "map_of flags m = Some v" using names by simp
    show ?thesis
    proof (cases "v = 0")
      case False
      from flag_number [OF m this] obtain k where "k < 31" "flag_bits flags m = push_bit k 1" by metis
      then show ?thesis by (simp add: bit_exp_iff)
    qed (simp add: flag_bits_def here)
  qed
  then show ?thesis using assms unfolding bit_combine by blast
qed

end

definition flag_enums :: "(string \<times> int) list list" where
  "flag_enums = map enum_values
     [bson_validate_flags, mongoc_delete_flags, mongoc_remove_flags, mongoc_insert_flags,
      mongoc_query_flags, mongoc_reply_flags, mongoc_update_flags, mongoc_find_and_modify_flags,
      mongoc_write_bypass_document_validation]"

lemmas enum_simps = enum_values_def Let_def push_bit_eq_mult

interpretation bson_validate_flags_set: flag_set "enum_values bson_validate_flags"
  by unfold_locales (simp_all add: bson_validate_flags_def enum_simps)

interpretation mongoc_delete_flags_set: flag_set "enum_values mongoc_delete_flags"
  by unfold_locales (simp_all add: mongoc_delete_flags_def enum_simps)

interpretation mongoc_remove_flags_set: flag_set "enum_values mongoc_remove_flags"
  by unfold_locales (simp_all add: mongoc_remove_flags_def enum_simps)

interpretation mongoc_insert_flags_set: flag_set "enum_values mongoc_insert_flags"
  by unfold_locales (simp_all add: mongoc_insert_flags_def enum_simps)

interpretation mongoc_query_flags_set: flag_set "enum_values mongoc_query_flags"
  by unfold_locales (simp_all add: mongoc_query_flags_def enum_simps)

interpretation mongoc_reply_flags_set: flag_set "enum_values mongoc_reply_flags"
  by unfold_locales (simp_all add: mongoc_reply_flags_def enum_simps)

interpretation mongoc_update_flags_set: flag_set "enum_values mongoc_update_flags"
  by unfold_locales (simp_all add: mongoc_update_flags_def enum_simps)

interpretation mongoc_find_and_modify_flags_set: flag_set "enum_values mongoc_find_and_modify_flags"
  by unfold_locales (simp_all add: mongoc_find_and_modify_flags_def enum_simps)

interpretation mongoc_write_bypass_document_validation_set: flag_set "enum_values mongoc_write_bypass_document_validation"
  by unfold_locales (simp_all add: mongoc_write_bypass_document_validation_def enum_simps)

interpretation bson_context_flags_set: flag_set "enum_values (bson_context_flags p)" for p
  by unfold_locales (simp_all add: bson_context_flags_def enum_simps)

lemmas flag_combinations = bson_validate_flags_set.has_flag_combine mongoc_delete_flags_set.has_flag_combine
  mongoc_remove_flags_set.has_flag_combine mongoc_insert_flags_set.has_flag_combine
  mongoc_query_flags_set.has_flag_combine mongoc_reply_flags_set.has_flag_combine
  mongoc_update_flags_set.has_flag_combine mongoc_find_and_modify_flags_set.has_flag_combine
  mongoc_write_bypass_document_validation_set.has_flag_combine

section \<open>Properties\<close>

text \<open>
  C36. Flags read back: in each of the flag enumerations, and in that of the contexts on every platform,
  a flag is found in a combination if and only if it was put in; and the two flags that are macros, with
  the highest bit, collide with none.
\<close>

theorem flags_read_back:
  assumes "flags \<in> set (enum_values (bson_context_flags p) # flag_enums)"
    and "set ns \<subseteq> fst ` set flags" and "(n, v) \<in> set flags" and "v \<noteq> 0"
  shows "(has_flag flags (combine flags ns) n \<longleftrightarrow> n \<in> set ns) \<and>
    (has_flag flags (combine flags ns OR MONGOC_INSERT_NO_VALIDATE) n \<longleftrightarrow> n \<in> set ns) \<and>
    combine flags ns AND MONGOC_INSERT_NO_VALIDATE = 0 \<and>
    MONGOC_UPDATE_NO_VALIDATE = MONGOC_INSERT_NO_VALIDATE"
proof -
  have "flag_set flags"
    using assms(1) unfolding flag_enums_def
    by (auto intro: bson_context_flags_set.flag_set_axioms
        bson_validate_flags_set.flag_set_axioms mongoc_delete_flags_set.flag_set_axioms
        mongoc_remove_flags_set.flag_set_axioms mongoc_insert_flags_set.flag_set_axioms
        mongoc_query_flags_set.flag_set_axioms mongoc_reply_flags_set.flag_set_axioms
        mongoc_update_flags_set.flag_set_axioms mongoc_find_and_modify_flags_set.flag_set_axioms
        mongoc_write_bypass_document_validation_set.flag_set_axioms)
  note here = flag_set.has_flag_combine [OF this assms(2-4)] flag_set.combine_small [OF this assms(2)]
  from flag_set.flag_number [OF \<open>flag_set flags\<close> assms(3,4)] obtain k
    where k: "k < 31" "flag_bits flags n = push_bit k 1" by metis
  have "push_bit 31 1 AND (push_bit k 1 :: u32) = 0"
    using k(1) by (intro bits_apart) simp
  then have "has_flag flags (combine flags ns OR MONGOC_INSERT_NO_VALIDATE) n = has_flag flags (combine flags ns) n"
    by (simp add: has_flag_def k(2) MONGOC_INSERT_NO_VALIDATE_def bit.conj_disj_distrib2)
  moreover have "combine flags ns AND MONGOC_INSERT_NO_VALIDATE = 0"
    unfolding MONGOC_INSERT_NO_VALIDATE_def by (rule bit_absent [OF here(2)])
  ultimately show ?thesis
    using here(1) by (simp add: MONGOC_UPDATE_NO_VALIDATE_def MONGOC_INSERT_NO_VALIDATE_def)
qed

theorem flags_read_back_witness:
  "\<not> has_flag (enum_values mongoc_query_flags)
     (combine (enum_values mongoc_query_flags) [''MONGOC_QUERY_SLAVE_OK'', ''MONGOC_QUERY_EXHAUST'']) ''MONGOC_QUERY_PARTIAL''"
proof -
  have "enum_values mongoc_query_flags \<in> set (enum_values (bson_context_flags modern_gcc) # flag_enums)"
    by (simp add: flag_enums_def)
  from flags_read_back [OF this, of "[''MONGOC_QUERY_SLAVE_OK'', ''MONGOC_QUERY_EXHAUST'']" "''MONGOC_QUERY_PARTIAL''" 128]
  show ?thesis by (simp add: mongoc_query_flags_def enum_simps)
qed

text \<open>
  The numbers are the ones the other library means: no two enumerators of an enumeration share a
  number, except the two the comment in mongoc-error.h names; mongocxx's read modes and log levels have
  the numbers of libmongoc's; bsoncxx's error for a missing element type is 5 after the type's place;
  and, apart from Windows, an interrupted call is to be tried again.
\<close>

theorem codes_agree:
  "list_all (\<lambda>d. distinct (map snd (enum_values d)))
     [bson_json_error_code, mongoc_error_domain, mongoc_opcode, mongoc_matcher_opcode,
      mongoc_log_level, mongoc_read_mode, mongoc_topology_bg_state, mongoc_topology_description_type,
      mongoc_ss_optype, mongoc_server_description_type, mongoc_async_cmd_state, mongoc_async_cmd_result,
      mongoc_cursor_transform_mode, mongoc_index_storage_opt_type, mongocxx_error_code, mongocxx_log_level,
      mongocxx_write_type, mongocxx_read_mode, read_concern_level, write_concern_level,
      validation_level, validation_action, return_document, cursor_type,
      bsoncxx_error_code] \<and>
   distinct (map snd (filter (\<lambda>(n, v). n \<noteq> ''MONGOC_ERROR_PROTOCOL_ERROR'') (enum_values mongoc_error_code))) \<and>
   enum_value mongoc_error_code ''MONGOC_ERROR_PROTOCOL_ERROR'' = enum_value mongoc_error_code ''MONGOC_ERROR_QUERY_FAILURE'' \<and>
   map (enum_value mongocxx_read_mode)
       [''k_primary'', ''k_primary_preferred'', ''k_secondary'', ''k_secondary_preferred'', ''k_nearest''] =
     map (enum_value mongoc_read_mode)
       [''MONGOC_READ_PRIMARY'', ''MONGOC_READ_PRIMARY_PREFERRED'', ''MONGOC_READ_SECONDARY'',
        ''MONGOC_READ_SECONDARY_PREFERRED'', ''MONGOC_READ_NEAREST''] \<and>
   map snd (enum_values mongocxx_log_level) = map snd (enum_values mongoc_log_level) \<and>
   map (\<lambda>t. make_error_code c bsoncxx_error_code (''k_need_element_type_k_'' @ t)) bsoncxx_types =
     map (\<lambda>k. Some (k, c)) [6..25] \<and>
   (MONGOC_ERRNO_IS_AGAIN p EINTR \<longleftrightarrow> \<not> win32 p) \<and> MONGOC_ERRNO_IS_AGAIN p EAGAIN \<and>
   (MONGOC_ERRNO_IS_AGAIN p No_error \<longleftrightarrow> sun p \<and> \<not> win32 p)"
proof (intro conjI)
  show "map (\<lambda>t. make_error_code c bsoncxx_error_code (''k_need_element_type_k_'' @ t)) bsoncxx_types =
     map (\<lambda>k. Some (k, c)) [6..25]"
    by (simp add: make_error_code_def enum_value_def enum_values_def bsoncxx_error_code_def bsoncxx_types_def
        upto_rec1)
  show "list_all (\<lambda>d. distinct (map snd (enum_values d)))
     [bson_json_error_code, mongoc_error_domain, mongoc_opcode, mongoc_matcher_opcode,
      mongoc_log_level, mongoc_read_mode, mongoc_topology_bg_state, mongoc_topology_description_type,
      mongoc_ss_optype, mongoc_server_description_type, mongoc_async_cmd_state, mongoc_async_cmd_result,
      mongoc_cursor_transform_mode, mongoc_index_storage_opt_type, mongocxx_error_code, mongocxx_log_level,
      mongocxx_write_type, mongocxx_read_mode, read_concern_level, write_concern_level,
      validation_level, validation_action, return_document, cursor_type,
      bsoncxx_error_code]"
    by (simp add: enum_simps bsoncxx_types_def bson_json_error_code_def mongoc_error_domain_def mongoc_opcode_def
        mongoc_matcher_opcode_def mongoc_log_level_def mongoc_read_mode_def
        mongoc_topology_bg_state_def mongoc_topology_description_type_def mongoc_ss_optype_def
        mongoc_server_description_type_def mongoc_async_cmd_state_def mongoc_async_cmd_result_def
        mongoc_cursor_transform_mode_def mongoc_index_storage_opt_type_def mongocxx_error_code_def
        mongocxx_log_level_def mongocxx_write_type_def mongocxx_read_mode_def
        read_concern_level_def write_concern_level_def validation_level_def
        validation_action_def return_document_def cursor_type_def
        bsoncxx_error_code_def)
qed (simp_all add: enum_simps enum_value_def mongoc_error_code_def mongocxx_read_mode_def mongoc_read_mode_def
    mongocxx_log_level_def mongoc_log_level_def MONGOC_ERRNO_IS_AGAIN_def)

end
