(* ===== verification/Bson_Owned.thy ===== *)
theory Bson_Owned
  imports Main "HOL-Library.Multiset"
begin

text \<open>
  The values of bsoncxx that own their bytes (bsoncxx/document/value.hpp, array/value.hpp): a
  \<^verbatim>\<open>std::unique_ptr\<close> with a deleter of the user's and a length. Moving is the default of
  the compiler, member by member. Objects have numbers, buffers addresses, deleters names; the state
  writes down which deleter was called on which buffer. Copying and releasing are compiled elsewhere.
\<close>

section \<open>The classes\<close>

type_synonym buffer = "nat \<times> nat"

record owner =
  buf :: "nat option"
  dtor :: nat
  bytes_len :: nat

record bson_view =
  view_data :: "nat option"
  view_length :: nat

text \<open>The document and the array have the same text.\<close>

definition document_value_view :: "owner \<Rightarrow> bson_view" where
  "document_value_view v = \<lparr>view_data = buf v, view_length = bytes_len v\<rparr>"

definition document_value_to_view :: "owner \<Rightarrow> bson_view" where
  "document_value_to_view v = document_value_view v"

definition array_value_view :: "owner \<Rightarrow> bson_view" where
  "array_value_view v = \<lparr>view_data = buf v, view_length = bytes_len v\<rparr>"

definition array_value_to_view :: "owner \<Rightarrow> bson_view" where
  "array_value_to_view v = array_value_view v"

text \<open>Moving from a \<^verbatim>\<open>unique_ptr\<close> leaves it empty; a number stays.\<close>

definition moved_from :: "owner \<Rightarrow> owner" where
  "moved_from v = v\<lparr>buf := None\<rparr>"

text \<open>What resetting or destroying a \<^verbatim>\<open>unique_ptr\<close> frees.\<close>

definition frees :: "owner \<Rightarrow> buffer list" where
  "frees v = (case buf v of None \<Rightarrow> [] | Some a \<Rightarrow> [(a, dtor v)])"

section \<open>Programs that use them\<close>

text \<open>Construction of a new object from a buffer, from another object that is moved, assignment of a moved
  object, destruction. \<open>None\<close> is the use of an object that does not exist.\<close>

datatype value_op =
    Construct nat nat nat
  | Move_construct nat
  | Move_assign nat nat
  | Destroy nat

record values_state =
  value_objects :: "owner option list"
  freed :: "buffer list"

definition live_value :: "values_state \<Rightarrow> nat \<Rightarrow> owner option" where
  "live_value s i = (if i < length (value_objects s) then value_objects s ! i else None)"

text \<open>
  \<^verbatim>\<open>unique_ptr\<close> takes the pointer out of the other one before it frees its own, so that
  assigning an object to itself changes nothing.
\<close>

definition value_move_assign :: "nat \<Rightarrow> nat \<Rightarrow> owner \<Rightarrow> owner \<Rightarrow> values_state \<Rightarrow> values_state" where
  "value_move_assign i j lhs rhs s =
     (if i = j then s
      else s\<lparr>value_objects := (value_objects s)[j := Some (moved_from rhs), i := Some rhs], freed := freed s @ frees lhs\<rparr>)"

fun value_step :: "value_op \<Rightarrow> values_state \<Rightarrow> values_state option" where
  "value_step (Construct a d n) s = Some (s\<lparr>value_objects := value_objects s @ [Some \<lparr>buf = Some a, dtor = d, bytes_len = n\<rparr>]\<rparr>)"
| "value_step (Move_construct j) s =
     (case live_value s j of
        None \<Rightarrow> None
      | Some v \<Rightarrow> Some (s\<lparr>value_objects := (value_objects s)[j := Some (moved_from v)] @ [Some v]\<rparr>))"
| "value_step (Move_assign i j) s =
     (case (live_value s i, live_value s j) of
        (Some lhs, Some rhs) \<Rightarrow> Some (value_move_assign i j lhs rhs s)
      | _ \<Rightarrow> None)"
| "value_step (Destroy i) s =
     (case live_value s i of
        None \<Rightarrow> None
      | Some v \<Rightarrow> Some (s\<lparr>value_objects := (value_objects s)[i := None], freed := freed s @ frees v\<rparr>))"

fun value_run :: "value_op list \<Rightarrow> values_state \<Rightarrow> values_state option" where
  "value_run [] s = Some s"
| "value_run (op # ops) s = (case value_step op s of None \<Rightarrow> None | Some t \<Rightarrow> value_run ops t)"

definition no_values :: values_state where
  "no_values = \<lparr>value_objects = [], freed = []\<rparr>"

section \<open>Who owns what\<close>

definition owned_by :: "owner option \<Rightarrow> buffer multiset" where
  "owned_by w = (case w of None \<Rightarrow> {#} | Some v \<Rightarrow> mset (frees v))"

definition owned_buffers :: "values_state \<Rightarrow> buffer multiset" where
  "owned_buffers s = sum_list (map owned_by (value_objects s))"

primrec given :: "value_op \<Rightarrow> buffer list" where
  "given (Construct a d n) = [(a, d)]"
| "given (Move_construct j) = []"
| "given (Move_assign i j) = []"
| "given (Destroy i) = []"

definition given_all :: "value_op list \<Rightarrow> buffer list" where
  "given_all ops = concat (map given ops)"

lemma given_all_simps [simp]:
  "given_all [] = []" "given_all (op # ops) = given op @ given_all ops"
  by (simp_all add: given_all_def)

lemma owned_update:
  "i < length xs \<Longrightarrow> sum_list (map f (xs[i := y])) + f (xs ! i) = sum_list (map f xs) + (f y :: 'a multiset)"
  by (induction xs arbitrary: i) (auto simp: add_ac split: nat.split)

lemma frees_moved_from [simp]: "frees (moved_from v) = []"
  by (simp add: frees_def moved_from_def)

lemma owned_by_simps [simp]:
  "owned_by None = {#}" "owned_by (Some v) = mset (frees v)"
  by (simp_all add: owned_by_def)

lemma live_value_Some: "live_value s i = Some v \<longleftrightarrow> i < length (value_objects s) \<and> value_objects s ! i = Some v"
  by (simp add: live_value_def)

lemma step_owned:
  assumes "value_step op s = Some t"
  shows "owned_buffers t + mset (freed t) = owned_buffers s + mset (freed s) + mset (given op)"
proof (cases op)
  case (Construct a d n)
  with assms show ?thesis by (auto simp: owned_buffers_def frees_def)
next
  case (Move_construct j)
  with assms obtain v where v: "j < length (value_objects s)" "value_objects s ! j = Some v"
      "t = s\<lparr>value_objects := (value_objects s)[j := Some (moved_from v)] @ [Some v]\<rparr>"
    by (auto simp: live_value_Some split: option.splits)
  with owned_update [OF v(1), of owned_by "Some (moved_from v)"] Move_construct show ?thesis
    by (simp add: owned_buffers_def add_ac)
next
  case (Move_assign i j)
  with assms obtain lhs rhs where v: "i < length (value_objects s)" "value_objects s ! i = Some lhs"
      "j < length (value_objects s)" "value_objects s ! j = Some rhs" "t = value_move_assign i j lhs rhs s"
    by (auto simp: live_value_Some split: option.splits)
  show ?thesis
  proof (cases "i = j")
    case False
    with v owned_update [OF v(3), of owned_by "Some (moved_from rhs)"]
      owned_update [of i "(value_objects s)[j := Some (moved_from rhs)]" owned_by "Some rhs"] Move_assign
    show ?thesis by (auto simp: value_move_assign_def owned_buffers_def add_ac)
  qed (use v Move_assign in \<open>simp add: value_move_assign_def\<close>)
next
  case (Destroy i)
  with assms obtain v where v: "i < length (value_objects s)" "value_objects s ! i = Some v"
      "t = s\<lparr>value_objects := (value_objects s)[i := None], freed := freed s @ frees v\<rparr>"
    by (auto simp: live_value_Some split: option.splits)
  with owned_update [OF v(1), of owned_by None] Destroy show ?thesis
    by (simp add: owned_buffers_def add_ac)
qed

lemma run_owned:
  "value_run ops s = Some t \<Longrightarrow> owned_buffers t + mset (freed t) = owned_buffers s + mset (freed s) + mset (given_all ops)"
proof (induction ops arbitrary: s)
  case (Cons op ops)
  then obtain u where u: "value_step op s = Some u" "value_run ops u = Some t"
    by (auto split: option.splits)
  from Cons.IH [OF u(2)] step_owned [OF u(1)] show ?case by (simp add: add_ac)
qed simp

section \<open>Where an owner's members come from\<close>

definition origins :: "value_op set \<Rightarrow> values_state \<Rightarrow> bool" where
  "origins K s \<longleftrightarrow>
     (\<forall>v a. Some v \<in> set (value_objects s) \<longrightarrow> buf v = Some a \<longrightarrow> Construct a (dtor v) (bytes_len v) \<in> K)"

lemma origins_update:
  assumes "origins K s" "\<And>v a. w = Some v \<Longrightarrow> buf v = Some a \<Longrightarrow> Construct a (dtor v) (bytes_len v) \<in> K"
  shows "origins K (s\<lparr>value_objects := (value_objects s)[i := w]\<rparr>)"
  using assms set_update_subset_insert [of "value_objects s" i w] by (fastforce simp: origins_def)

lemma origins_freed [simp]: "origins K (s\<lparr>value_objects := ws, freed := fs\<rparr>) = origins K (s\<lparr>value_objects := ws\<rparr>)"
  by (simp add: origins_def)

lemma origins_append:
  "origins K (s\<lparr>value_objects := ws @ [Some v]\<rparr>) \<longleftrightarrow>
   origins K (s\<lparr>value_objects := ws\<rparr>) \<and> (\<forall>a. buf v = Some a \<longrightarrow> Construct a (dtor v) (bytes_len v) \<in> K)"
  by (auto simp: origins_def)

lemma origins_live: "origins K s \<Longrightarrow> live_value s i = Some v \<Longrightarrow> buf v = Some a \<Longrightarrow> Construct a (dtor v) (bytes_len v) \<in> K"
  unfolding origins_def live_value_Some by (metis nth_mem)

lemma step_origins:
  assumes "value_step op s = Some t" "origins K s" "op \<in> K"
  shows "origins K t"
proof -
  have moved: "origins K (u\<lparr>value_objects := (value_objects u)[j := Some (moved_from v)]\<rparr>)" if "origins K u" for u j v
    using that by (rule origins_update) (auto simp: moved_from_def)
  show ?thesis
  proof (cases op)
    case (Construct a d n)
    with assms show ?thesis by (auto simp: origins_append)
  next
    case (Move_construct j)
    with assms moved [OF assms(2)] show ?thesis
      by (auto simp: origins_append origins_live split: option.splits)
  next
    case (Move_assign i j)
    then obtain lhs rhs where live_value: "live_value s i = Some lhs" "live_value s j = Some rhs" "t = value_move_assign i j lhs rhs s"
      using assms(1) by (auto split: option.splits)
    have "origins K (s\<lparr>value_objects := (value_objects s)[j := Some (moved_from rhs)]\<rparr>\<lparr>value_objects :=
        (value_objects (s\<lparr>value_objects := (value_objects s)[j := Some (moved_from rhs)]\<rparr>))[i := Some rhs]\<rparr>)"
      using moved [OF assms(2)] by (rule origins_update) (use origins_live [OF assms(2) live_value(2)] in simp)
    with live_value(3) assms(2) show ?thesis by (simp add: value_move_assign_def)
  next
    case (Destroy i)
    with assms origins_update [OF assms(2), of None i] show ?thesis by (auto split: option.splits)
  qed
qed

lemma run_origins: "value_run ops s = Some t \<Longrightarrow> origins K s \<Longrightarrow> set ops \<subseteq> K \<Longrightarrow> origins K t"
  by (induction ops arbitrary: s) (auto split: option.splits dest: step_origins)

text \<open>A moved value has no data but still the length of what it had.\<close>

lemma moved_value_view:
  "document_value_view (moved_from v) = \<lparr>view_data = None, view_length = bytes_len v\<rparr>"
  "array_value_view (moved_from v) = \<lparr>view_data = None, view_length = bytes_len v\<rparr>"
  by (simp_all add: document_value_view_def array_value_view_def moved_from_def)

section \<open>Properties\<close>

lemma owned_member: "live_value s i = Some v \<Longrightarrow> buf v = Some a \<Longrightarrow> (a, dtor v) \<in># owned_buffers s"
  by (force simp: live_value_Some owned_buffers_def frees_def in_set_conv_nth)

text \<open>
  C37. Values of documents and arrays, constructed from buffers of the user's, moved in any way and destroyed:
  no buffer is freed twice, each that is freed is freed by its own deleter, and all of them are once
  no value is left. A value that has data shows, by \<^verbatim>\<open>view\<close> or by the conversion, the
  buffer it was given and its length, and that buffer has not been freed.
\<close>

theorem buffers_freed_once:
  assumes "value_run ops no_values = Some t" and "distinct (map fst (given_all ops))"
  shows "distinct (map fst (freed t)) \<and> set (freed t) \<subseteq> set (given_all ops) \<and>
         (set (value_objects t) \<subseteq> {None} \<longrightarrow> mset (freed t) = mset (given_all ops)) \<and>
         (\<forall>i v a. live_value t i = Some v \<longrightarrow> buf v = Some a \<longrightarrow> a \<notin> fst ` set (freed t) \<and>
            (\<exists>n. Construct a (dtor v) n \<in> set ops \<and>
               document_value_to_view v = \<lparr>view_data = Some a, view_length = n\<rparr> \<and>
               array_value_to_view v = \<lparr>view_data = Some a, view_length = n\<rparr>))"
proof -
  have all: "owned_buffers t + mset (freed t) = mset (given_all ops)"
    using run_owned [OF assms(1)] by (simp add: no_values_def owned_buffers_def)
  obtain held where held: "mset held = owned_buffers t" by (rule exE [OF ex_mset])
  with all have same: "mset (held @ freed t) = mset (given_all ops)" by simp
  then have "mset (map fst (held @ freed t)) = mset (map fst (given_all ops))" by (simp only: mset_map)
  with assms(2) have apart: "distinct (map fst (held @ freed t))"
    by (metis mset_eq_imp_distinct_iff)
  have kept: "a \<notin> fst ` set (freed t)" if "live_value t i = Some v" "buf v = Some a" for i v a
  proof -
    have "(a, dtor v) \<in> set held" using owned_member [OF that] held by (metis set_mset_mset)
    with apart show ?thesis by force
  qed
  have "origins (set ops) no_values" by (simp add: origins_def no_values_def)
  with assms(1) have "origins (set ops) t" by (rule run_origins) simp
  note shown = origins_live [OF this]
  have "set (freed t) \<subseteq> set (given_all ops)" using same by (metis set_mset_mset set_append Un_upper2)
  moreover have "mset (freed t) = mset (given_all ops)" if "set (value_objects t) \<subseteq> {None}"
  proof -
    have "set_mset (owned_buffers t) = {}" using that by (fastforce simp: owned_buffers_def)
    then have "owned_buffers t = {#}" by simp
    with all show ?thesis by simp
  qed
  ultimately show ?thesis
    using apart kept shown
    by (auto simp: document_value_to_view_def array_value_to_view_def document_value_view_def array_value_view_def)
qed

definition two_values :: "value_op list" where
  "two_values = [Construct 7 1 12, Construct 9 2 5, Move_construct 0, Move_assign 1 2, Destroy 2, Destroy 1, Destroy 0]"

theorem buffers_freed_once_witness:
  "\<exists>t. value_run two_values no_values = Some t \<and> mset (freed t) = {#(7, 1), (9, 2)#}"
proof -
  have run: "value_run two_values no_values = Some \<lparr>value_objects = [None, None, None], freed = [(9, 2), (7, 1)]\<rparr>"
    by (simp add: two_values_def no_values_def live_value_def value_move_assign_def moved_from_def frees_def)
  have "mset [(9, 2), (7, 1)] = mset (given_all two_values)"
    using buffers_freed_once [OF run] by (simp add: two_values_def)
  then show ?thesis
    unfolding run by (simp add: two_values_def)
qed

end
