(* ===== verification/Driver_Templates.thy ===== *)
theory Driver_Templates
  imports Codes
begin

text \<open>
  The parts of mongocxx that the program compiles: the templates of collection.hpp that write many documents,
  the subscript operators of the client and the database, and the conversion of a hint. The classes
  they call are compiled elsewhere and are parameters; a call of them that throws is \<open>Inl\<close>.
\<close>

section \<open>std::for_each\<close>

text \<open>The function object is a state that each call changes; a call that throws ends the loop.\<close>

primrec for_each :: "('a \<Rightarrow> 'f \<Rightarrow> 'e + 'f) \<Rightarrow> 'a list \<Rightarrow> 'f \<Rightarrow> 'e + 'f" where
  "for_each call [] f = Inr f"
| "for_each call (x # xs) f = (case call x f of Inl e \<Rightarrow> Inl e | Inr g \<Rightarrow> for_each call xs g)"

lemma for_each_append:
  "for_each call (xs @ ys) f = (case for_each call xs f of Inl e \<Rightarrow> Inl e | Inr g \<Rightarrow> for_each call ys g)"
  by (induction xs arbitrary: f) (simp_all split: sum.split)

section \<open>collection.hpp\<close>

text \<open>A bulk write is made from the options, takes one write after the other, and is executed.\<close>

record ('o, 'w, 'b, 'e, 'r) bulk_api =
  new_bulk :: "'o \<Rightarrow> 'e + 'b"
  append_write :: "'w \<Rightarrow> 'b \<Rightarrow> 'e + 'b"
  execute_bulk :: "'b \<Rightarrow> 'e + 'r"

definition bulk_write_range :: "('o, 'w, 'b, 'e, 'r) bulk_api \<Rightarrow> 'w list \<Rightarrow> 'o \<Rightarrow> 'e + 'r" where
  "bulk_write_range api elems options =
     (case new_bulk api options of
        Inl e \<Rightarrow> Inl e
      | Inr writes \<Rightarrow>
          (case for_each (append_write api) elems writes of
             Inl e \<Rightarrow> Inl e
           | Inr filled \<Rightarrow> execute_bulk api filled))"

definition bulk_write_container ::
    "('c \<Rightarrow> 'w list) \<Rightarrow> ('o, 'w, 'b, 'e, 'r) bulk_api \<Rightarrow> 'c \<Rightarrow> 'o \<Rightarrow> 'e + 'r" where
  "bulk_write_container begin_to_end api requests options =
     bulk_write_range api (begin_to_end requests) options"

text \<open>Inserting many documents is the same with the builder as the function object.\<close>

record ('o, 'd, 'b, 'e, 'r) insert_many_api =
  new_builder :: "'o \<Rightarrow> 'e + 'b"
  call_builder :: "'d \<Rightarrow> 'b \<Rightarrow> 'e + 'b"
  insert_built :: "'b \<Rightarrow> 'e + 'r"

definition insert_many_range :: "('o, 'd, 'b, 'e, 'r) insert_many_api \<Rightarrow> 'd list \<Rightarrow> 'o \<Rightarrow> 'e + 'r" where
  "insert_many_range api elems options =
     (case new_builder api options of
        Inl e \<Rightarrow> Inl e
      | Inr builder \<Rightarrow>
          (case for_each (call_builder api) elems builder of
             Inl e \<Rightarrow> Inl e
           | Inr op \<Rightarrow> insert_built api op))"

definition insert_many_container ::
    "('c \<Rightarrow> 'd list) \<Rightarrow> ('o, 'd, 'b, 'e, 'r) insert_many_api \<Rightarrow> 'c \<Rightarrow> 'o \<Rightarrow> 'e + 'r" where
  "insert_many_container begin_to_end api docs options =
     insert_many_range api (begin_to_end docs) options"

section \<open>client.hpp, database.hpp, hint.hpp\<close>

definition client_subscript :: "('client \<Rightarrow> 'name \<Rightarrow> 'database) \<Rightarrow> 'client \<Rightarrow> 'name \<Rightarrow> 'database" where
  "client_subscript database client name = database client name"

definition database_subscript :: "('database \<Rightarrow> 'name \<Rightarrow> 'collection) \<Rightarrow> 'database \<Rightarrow> 'name \<Rightarrow> 'collection" where
  "database_subscript collection database name = collection database name"

text \<open>The conversions to a document all call \<^verbatim>\<open>to_document\<close>.\<close>

definition hint_to_value :: "('hint \<Rightarrow> 'value) \<Rightarrow> 'hint \<Rightarrow> 'value" where
  "hint_to_value to_document hint = to_document hint"

definition create_collection_to_value :: "('options \<Rightarrow> 'value) \<Rightarrow> 'options \<Rightarrow> 'value" where
  "create_collection_to_value to_document options = to_document options"

definition validation_criteria_to_value :: "('criteria \<Rightarrow> 'value) \<Rightarrow> 'criteria \<Rightarrow> 'value" where
  "validation_criteria_to_value to_document criteria = to_document criteria"

section \<open>Errors\<close>

text \<open>An error code is its number with the category of the library. The errors of the server have no names.\<close>

definition mongocxx_make_error_code :: "'c \<Rightarrow> string \<Rightarrow> (int \<times> 'c) option" where
  "mongocxx_make_error_code error_category n =
     map_option (\<lambda>v. (v, error_category)) (enum_value mongocxx_error_code n)"

definition server_make_error_code :: "'c \<Rightarrow> 32 word \<Rightarrow> int \<times> 'c" where
  "server_make_error_code server_error_category error = (sint error, server_error_category)"

text \<open>The classes of exceptions and what each derives from; the first three are the standard library's.\<close>

datatype exception_class =
    Std_exception | Std_runtime_error | Std_system_error | Bsoncxx_exception
  | Mongocxx_exception | Logic_error | Operation_exception | Authentication_exception
  | Bulk_write_exception | Query_exception | Write_exception

definition bsoncxx_exception_base :: exception_class where
  "bsoncxx_exception_base = Std_system_error"

definition mongocxx_exception_base :: exception_class where
  "mongocxx_exception_base = Std_system_error"

definition logic_error_base :: exception_class where
  "logic_error_base = Mongocxx_exception"

definition operation_exception_base :: exception_class where
  "operation_exception_base = Mongocxx_exception"

definition authentication_exception_base :: exception_class where
  "authentication_exception_base = Operation_exception"

definition bulk_write_exception_base :: exception_class where
  "bulk_write_exception_base = Operation_exception"

definition query_exception_base :: exception_class where
  "query_exception_base = Operation_exception"

definition write_exception_base :: exception_class where
  "write_exception_base = Operation_exception"

fun base_class :: "exception_class \<Rightarrow> exception_class option" where
  "base_class Std_exception = None"
| "base_class Std_runtime_error = Some Std_exception"
| "base_class Std_system_error = Some Std_runtime_error"
| "base_class Bsoncxx_exception = Some bsoncxx_exception_base"
| "base_class Mongocxx_exception = Some mongocxx_exception_base"
| "base_class Logic_error = Some logic_error_base"
| "base_class Operation_exception = Some operation_exception_base"
| "base_class Authentication_exception = Some authentication_exception_base"
| "base_class Bulk_write_exception = Some bulk_write_exception_base"
| "base_class Query_exception = Some query_exception_base"
| "base_class Write_exception = Some write_exception_base"

text \<open>A handler catches the exceptions of its class and of those derived from it.\<close>

inductive caught_by :: "exception_class \<Rightarrow> exception_class \<Rightarrow> bool" where
  same_class: "caught_by c c"
| derived: "base_class c = Some d \<Longrightarrow> caught_by d e \<Longrightarrow> caught_by c e"

lemmas exception_bases =
  bsoncxx_exception_base_def mongocxx_exception_base_def logic_error_base_def operation_exception_base_def
  authentication_exception_base_def bulk_write_exception_base_def query_exception_base_def write_exception_base_def

text \<open>The handlers of the program, for \<^verbatim>\<open>std::exception\<close>, catch all that the drivers throw.\<close>

lemma drivers_throw_std: "caught_by c Std_exception"
  by (cases c) (auto simp: exception_bases intro!: same_class derived [where c = Std_runtime_error]
      derived [where c = Std_system_error] derived [where c = Bsoncxx_exception] derived [where c = Mongocxx_exception]
      derived [where c = Logic_error] derived [where c = Operation_exception] derived [where c = Authentication_exception]
      derived [where c = Bulk_write_exception] derived [where c = Query_exception] derived [where c = Write_exception])

section \<open>Nothing is sent unless every write was taken\<close>

text \<open>The operations as calls: which writes a bulk was given before it was executed.\<close>

lemma bulk_write_all_or_nothing:
  assumes "\<And>w b. append_write api w b = (if ok w then Inr (b @ [w]) else Inl (bad w))"
    and "new_bulk api options = Inr []"
  shows "bulk_write_range api elems options =
     (case find (\<lambda>w. \<not> ok w) elems of None \<Rightarrow> execute_bulk api elems | Some w \<Rightarrow> Inl (bad w))"
proof -
  have "for_each (append_write api) elems b =
      (case find (\<lambda>w. \<not> ok w) elems of None \<Rightarrow> Inr (b @ elems) | Some w \<Rightarrow> Inl (bad w))" for b
    by (induction elems arbitrary: b) (simp_all add: assms(1) split: option.split)
  then show ?thesis
    by (simp add: bulk_write_range_def assms(2) split: option.split)
qed

text \<open>With a builder that does what an array of models does, the two ways are one.\<close>

lemma insert_many_is_bulk_write:
  assumes "\<And>opts. new_builder many opts = new_bulk api opts" "\<And>d b. call_builder many d b = append_write api (model d) b"
    "\<And>b. insert_built many b = execute_bulk api b"
  shows "insert_many_range many docs options = bulk_write_range api (map model docs) options"
proof -
  have "for_each (call_builder many) docs b = for_each (append_write api) (map model docs) b" for b
    by (induction docs arbitrary: b) (simp_all add: assms(2) split: sum.split)
  then show ?thesis by (simp add: insert_many_range_def bulk_write_range_def assms(1,3) split: sum.split)
qed

end
