(* ===== verification/Preprocessor.thy ===== *)
theory Preprocessor
  imports Prelude
begin

text \<open>
  The part of the C preprocessor that the configuration headers use: a header is a list of directives,
  a state holds the macros, the stacks of \<^verbatim>\<open>#pragma push_macro\<close> (GCC, clang and MSVC: the
  pragma saves the definition of one macro, or that it has none, and \<^verbatim>\<open>pop_macro\<close> brings back
  what was saved last, or does nothing if nothing is), the depth of MSVC's stack of warning settings, the
  lines that reach the compiler, the files asked for and the errors. What another file does when it is
  included is a parameter.
\<close>

section \<open>Directives\<close>

datatype macro_body =
    Number nat
  | Expands_to string
  | Takes "string list" string

datatype condition =
    Defined string
  | At_least string nat
  | Neg condition
  | Both condition condition
  | Either condition condition

datatype directive =
    Define string macro_body
  | Undef string
  | Push_macro string
  | Pop_macro string
  | If_group condition "directive list" "directive list"
  | Include_file string
  | Line string
  | Error_line string
  | Static_assert_false string
  | Warnings_push
  | Warnings_pop
  | Pragma string

record pp =
  macro_of :: "string \<Rightarrow> macro_body option"
  pushed :: "string \<Rightarrow> macro_body option list"
  warning_depth :: nat
  lines_out :: "string list"
  included :: "string list"
  errors :: "string list"

type_synonym file_effect = "string \<Rightarrow> pp \<Rightarrow> pp"

section \<open>Running a header\<close>

text \<open>In a condition a name that is no macro counts as 0. Only macros that are numbers are compared.\<close>

definition number_of :: "macro_body option \<Rightarrow> nat" where
  "number_of m = (case m of Some (Number k) \<Rightarrow> k | _ \<Rightarrow> 0)"

primrec holds :: "(string \<Rightarrow> macro_body option) \<Rightarrow> condition \<Rightarrow> bool" where
  "holds m (Defined n) \<longleftrightarrow> m n \<noteq> None"
| "holds m (At_least n k) \<longleftrightarrow> k \<le> number_of (m n)"
| "holds m (Neg c) \<longleftrightarrow> \<not> holds m c"
| "holds m (Both c d) \<longleftrightarrow> holds m c \<and> holds m d"
| "holds m (Either c d) \<longleftrightarrow> holds m c \<or> holds m d"

abbreviation Nonzero :: "string \<Rightarrow> condition" where
  "Nonzero n \<equiv> At_least n 1"

abbreviation Ifdef :: "string \<Rightarrow> directive list \<Rightarrow> directive list \<Rightarrow> directive" where
  "Ifdef n \<equiv> If_group (Defined n)"

abbreviation Ifndef :: "string \<Rightarrow> directive list \<Rightarrow> directive" where
  "Ifndef n ds \<equiv> If_group (Neg (Defined n)) ds []"

definition pop_macro :: "string \<Rightarrow> pp \<Rightarrow> pp" where
  "pop_macro n s =
     (case pushed s n of
        [] \<Rightarrow> s
      | saved # rest \<Rightarrow>
          s\<lparr>macro_of := (macro_of s)(n := saved), pushed := (pushed s)(n := rest)\<rparr>)"

fun exec :: "file_effect \<Rightarrow> directive \<Rightarrow> pp \<Rightarrow> pp"
and run :: "file_effect \<Rightarrow> directive list \<Rightarrow> pp \<Rightarrow> pp" where
  "exec inc (Define n m) s = s\<lparr>macro_of := (macro_of s)(n := Some m)\<rparr>"
| "exec inc (Undef n) s = s\<lparr>macro_of := (macro_of s)(n := None)\<rparr>"
| "exec inc (Push_macro n) s = s\<lparr>pushed := (pushed s)(n := macro_of s n # pushed s n)\<rparr>"
| "exec inc (Pop_macro n) s = pop_macro n s"
| "exec inc (If_group c ds es) s = (if holds (macro_of s) c then run inc ds s else run inc es s)"
| "exec inc (Include_file f) s = inc f (s\<lparr>included := included s @ [f]\<rparr>)"
| "exec inc (Line l) s = s\<lparr>lines_out := lines_out s @ [l]\<rparr>"
| "exec inc (Error_line e) s = s\<lparr>errors := errors s @ [e]\<rparr>"
| "exec inc (Static_assert_false e) s = s\<lparr>errors := errors s @ [e]\<rparr>"
| "exec inc Warnings_push s = s\<lparr>warning_depth := Suc (warning_depth s)\<rparr>"
| "exec inc Warnings_pop s = s\<lparr>warning_depth := warning_depth s - 1\<rparr>"
| "exec inc (Pragma p) s = s"
| "run inc [] s = s"
| "run inc (d # ds) s = run inc ds (exec inc d s)"

lemma run_append: "run inc (ds @ es) s = run inc es (run inc ds s)"
  by (induction ds arbitrary: s) simp_all

section \<open>Saving and restoring a set of macros\<close>

definition save_macros :: "string list \<Rightarrow> directive list" where
  "save_macros ns = concat (map (\<lambda>n. [Push_macro n, Undef n]) ns)"

definition restore_macros :: "string list \<Rightarrow> directive list" where
  "restore_macros ns = concat (map (\<lambda>n. [Undef n, Pop_macro n]) ns)"

lemma save_macros_simps [simp]:
  "save_macros [] = []"
  "save_macros (n # ns) = Push_macro n # Undef n # save_macros ns"
  by (simp_all add: save_macros_def)

lemma restore_macros_simps [simp]:
  "restore_macros [] = []"
  "restore_macros (n # ns) = Undef n # Pop_macro n # restore_macros ns"
  by (simp_all add: restore_macros_def)

lemma run_save:
  "distinct ns \<Longrightarrow>
   run inc (save_macros ns) s =
     s\<lparr>macro_of := (\<lambda>n. if n \<in> set ns then None else macro_of s n),
       pushed := (\<lambda>n. if n \<in> set ns then macro_of s n # pushed s n else pushed s n)\<rparr>"
  by (induction ns arbitrary: s) (auto simp: fun_eq_iff intro!: pp.equality)

text \<open>What restoring does when each of the names has something saved.\<close>

definition saved_top :: "string list \<Rightarrow> pp \<Rightarrow> bool" where
  "saved_top ns s \<longleftrightarrow> (\<forall>n \<in> set ns. pushed s n \<noteq> [])"

definition restored :: "string list \<Rightarrow> pp \<Rightarrow> pp" where
  "restored ns s =
     s\<lparr>macro_of := (\<lambda>n. if n \<in> set ns then hd (pushed s n) else macro_of s n),
       pushed := (\<lambda>n. if n \<in> set ns then tl (pushed s n) else pushed s n)\<rparr>"

lemma restored_simps [simp]:
  "macro_of (restored ns s) = (\<lambda>n. if n \<in> set ns then hd (pushed s n) else macro_of s n)"
  "pushed (restored ns s) = (\<lambda>n. if n \<in> set ns then tl (pushed s n) else pushed s n)"
  "warning_depth (restored ns s) = warning_depth s"
  "errors (restored ns s) = errors s"
  "restored ns (s\<lparr>warning_depth := w\<rparr>) = restored ns s\<lparr>warning_depth := w\<rparr>"
  "restored ns (s\<lparr>errors := es\<rparr>) = restored ns s\<lparr>errors := es\<rparr>"
  by (auto simp: restored_def intro!: pp.equality)

lemma restored_restored:
  "set ns \<inter> set ms = {} \<Longrightarrow> restored ms (restored ns s) = restored (ns @ ms) s"
  by (auto simp: restored_def fun_eq_iff intro!: pp.equality)

lemma saved_top_restored:
  "set ns \<inter> set ms = {} \<Longrightarrow> saved_top ms (restored ns s) = saved_top ms s"
  by (auto simp: saved_top_def)

lemma saved_top_simps [simp]:
  "saved_top [] s"
  "saved_top (n # ns) s \<longleftrightarrow> pushed s n \<noteq> [] \<and> saved_top ns s"
  "saved_top (ns @ ms) s \<longleftrightarrow> saved_top ns s \<and> saved_top ms s"
  "saved_top ns (s\<lparr>warning_depth := w\<rparr>) = saved_top ns s"
  "saved_top ns (s\<lparr>errors := es\<rparr>) = saved_top ns s"
  by (auto simp: saved_top_def)

lemma undef_pop: "pushed s n \<noteq> [] \<Longrightarrow> run inc [Undef n, Pop_macro n] s = restored [n] s"
  by (auto simp: pop_macro_def restored_def fun_eq_iff neq_Nil_conv intro!: pp.equality)

lemma run_restore:
  "distinct ns \<Longrightarrow> saved_top ns s \<Longrightarrow> run inc (restore_macros ns) s = restored ns s"
proof (induction ns arbitrary: s)
  case Nil
  then show ?case by (auto simp: restored_def intro!: pp.equality)
next
  case (Cons n ns)
  have "run inc (restore_macros (n # ns)) s = run inc (restore_macros ns) (restored [n] s)"
    using Cons.prems undef_pop [of s n inc] by simp
  also have "\<dots> = restored ns (restored [n] s)"
    using Cons by (simp add: saved_top_restored)
  also have "\<dots> = restored (n # ns) s"
    using Cons.prems restored_restored [of "[n]" ns s] by simp
  finally show ?case .
qed

section \<open>The macros a header can change\<close>

fun touched :: "directive \<Rightarrow> string list"
and touched_all :: "directive list \<Rightarrow> string list" where
  "touched (Define n m) = [n]"
| "touched (Undef n) = [n]"
| "touched (Push_macro n) = []"
| "touched (Pop_macro n) = [n]"
| "touched (If_group c ds es) = touched_all ds @ touched_all es"
| "touched (Include_file f) = []"
| "touched (Line l) = []"
| "touched (Error_line e) = []"
| "touched (Static_assert_false e) = []"
| "touched Warnings_push = []"
| "touched Warnings_pop = []"
| "touched (Pragma p) = []"
| "touched_all [] = []"
| "touched_all (d # ds) = touched d @ touched_all ds"

definition keeps_macro :: "file_effect \<Rightarrow> string \<Rightarrow> bool" where
  "keeps_macro inc n \<longleftrightarrow> (\<forall>f t. macro_of (inc f t) n = macro_of t n)"

lemma untouched:
  assumes "keeps_macro inc n"
  shows "n \<notin> set (touched d) \<Longrightarrow> macro_of (exec inc d s) n = macro_of s n"
    and "n \<notin> set (touched_all ds) \<Longrightarrow> macro_of (run inc ds s) n = macro_of s n"
  using assms
  by (induction inc d s and inc ds s rule: exec_run.induct)
    (auto simp: keeps_macro_def pop_macro_def split: list.split)

lemma run_split: "run inc (ds @ d # es) s = run inc es (exec inc d (run inc ds s))"
  by (simp add: run_append)

lemma run_ifdef:
  "macro_of s n \<noteq> None \<Longrightarrow> run inc [Ifdef n ds es] s = run inc ds s"
  by simp

text \<open>A header with an include guard does nothing the second time.\<close>

lemma include_guard:
  assumes "h = [Ifndef g (Define g m # ds)]" and "keeps_macro inc g" and "g \<notin> set (touched_all ds)"
  shows "run inc h (run inc h s) = run inc h s"
proof -
  have "macro_of (run inc h s) g \<noteq> None"
  proof (cases "macro_of s g")
    case None
    then have "run inc h s = run inc ds (s\<lparr>macro_of := (macro_of s)(g := Some m)\<rparr>)"
      by (simp add: assms(1))
    then show ?thesis by (simp add: untouched(2) [OF assms(2,3)])
  qed (simp add: assms(1))
  then show ?thesis by (simp add: assms(1))
qed

end
