(* ===== verification/Config_Headers.thy ===== *)
theory Config_Headers
  imports Preprocessor
begin

text \<open>
  The configuration of the C++ drivers (bsoncxx/config, mongocxx/config): every header of theirs starts
  with prelude.hpp, which saves the macros it is about to define, and ends with postlude.hpp, which brings
  them back; the headers of bsoncxx/stdx choose an implementation by them. Each definition is the list
  of directives of the file it is named after, with the other configuration files put in where they
  are included.
\<close>

section \<open>The files\<close>

definition bsoncxx_config_hpp :: "directive list" where
  "bsoncxx_config_hpp =
    [Define ''BSONCXX_POLY_USE_MNMLSTC'' (Expands_to ''''),
     Define ''BSONCXX_INLINE_NAMESPACE_BEGIN'' (Expands_to ''inline namespace v_noabi {''),
     Define ''BSONCXX_INLINE_NAMESPACE_END'' (Expands_to ''}'')]"

definition bsoncxx_version_hpp :: "directive list" where
  "bsoncxx_version_hpp =
    [Define ''BSONCXX_VERSION_MAJOR'' (Number 3), Define ''BSONCXX_VERSION_MINOR'' (Number 0),
     Define ''BSONCXX_VERSION_PATCH'' (Number 1),
     Define ''BSONCXX_VERSION_EXTRA'' (Expands_to ''-rc0-pre'')]"

definition bsoncxx_export_hpp :: "directive list" where
  "bsoncxx_export_hpp =
    [Ifndef ''BSONCXX_API_H''
       [Define ''BSONCXX_API_H'' (Expands_to ''''),
        Ifdef ''BSONCXX_STATIC''
          [Define ''BSONCXX_API'' (Expands_to ''''), Define ''BSONCXX_PRIVATE'' (Expands_to '''')]
          [Ifndef ''BSONCXX_API''
             [Ifdef ''BSONCXX_EXPORT''
                [Define ''BSONCXX_API'' (Expands_to ''__attribute__((visibility(\"default\")))'')]
                [Define ''BSONCXX_API'' (Expands_to ''__attribute__((visibility(\"default\")))'')]],
           Ifndef ''BSONCXX_PRIVATE''
             [Define ''BSONCXX_PRIVATE'' (Expands_to ''__attribute__((visibility(\"hidden\")))'')]],
        Ifndef ''BSONCXX_DEPRECATED''
          [Define ''BSONCXX_DEPRECATED'' (Expands_to ''__attribute__ ((__deprecated__))'')],
        Ifndef ''BSONCXX_DEPRECATED_EXPORT''
          [Define ''BSONCXX_DEPRECATED_EXPORT'' (Expands_to ''BSONCXX_API BSONCXX_DEPRECATED'')],
        Ifndef ''BSONCXX_DEPRECATED_NO_EXPORT''
          [Define ''BSONCXX_DEPRECATED_NO_EXPORT'' (Expands_to ''BSONCXX_PRIVATE BSONCXX_DEPRECATED'')],
        Define ''DEFINE_NO_DEPRECATED'' (Number 0),
        If_group (Nonzero ''DEFINE_NO_DEPRECATED'')
          [Define ''BSONCXX_NO_DEPRECATED'' (Expands_to '''')]
          []]]"

definition bsoncxx_compiler_hpp :: "directive list" where
  "bsoncxx_compiler_hpp =
    [Ifdef ''_MSC_VER''
       [Warnings_push, Pragma ''warning(disable : 4251 4275)'',
        Define ''BSONCXX_INLINE'' (Expands_to ''inline __forceinline BSONCXX_PRIVATE''),
        Define ''BSONCXX_CALL'' (Expands_to ''__cdecl'')]
       [Define ''BSONCXX_INLINE'' (Expands_to ''inline __attribute__((__always_inline__)) BSONCXX_PRIVATE''),
        Define ''BSONCXX_CALL'' (Expands_to '''')]]"

definition bsoncxx_prelude_hpp :: "directive list" where
  "bsoncxx_prelude_hpp =
    [Push_macro ''BSONCXX_INLINE'', Undef ''BSONCXX_INLINE'', Push_macro ''BSONCXX_CALL'',
     Undef ''BSONCXX_CALL'', Push_macro ''BSONCXX_INLINE_NAMESPACE_BEGIN'',
     Undef ''BSONCXX_INLINE_NAMESPACE_BEGIN'', Push_macro ''BSONCXX_INLINE_NAMESPACE_END'',
     Undef ''BSONCXX_INLINE_NAMESPACE_END'', Push_macro ''BSONCXX_POLY_USE_MNMLSTC'',
     Undef ''BSONCXX_POLY_USE_MNMLSTC'', Push_macro ''BSONCXX_POLY_USE_STD_EXPERIMENTAL'',
     Undef ''BSONCXX_POLY_USE_STD_EXPERIMENTAL'', Push_macro ''BSONCXX_POLY_USE_SYSTEM_MNMLSTC'',
     Undef ''BSONCXX_POLY_USE_SYSTEM_MNMLSTC'', Push_macro ''BSONCXX_POLY_USE_BOOST'',
     Undef ''BSONCXX_POLY_USE_BOOST'', Push_macro ''BSONCXX_VERSION_EXTRA'',
     Undef ''BSONCXX_VERSION_EXTRA'', Push_macro ''BSONCXX_VERSION_MAJOR'',
     Undef ''BSONCXX_VERSION_MAJOR'', Push_macro ''BSONCXX_VERSION_MINOR'',
     Undef ''BSONCXX_VERSION_MINOR'', Push_macro ''BSONCXX_VERSION_PATCH'',
     Undef ''BSONCXX_VERSION_PATCH'', Push_macro ''BSONCXX_ENUM'', Undef ''BSONCXX_ENUM'',
     Push_macro ''BSONCXX_API_H'', Undef ''BSONCXX_API_H'', Push_macro ''BSONCXX_API'',
     Undef ''BSONCXX_API'', Push_macro ''BSONCXX_PRIVATE'', Undef ''BSONCXX_PRIVATE'',
     Push_macro ''BSONCXX_DEPRECATED'', Undef ''BSONCXX_DEPRECATED'',
     Push_macro ''BSONCXX_DEPRECATED_EXPORT'', Undef ''BSONCXX_DEPRECATED_EXPORT'',
     Push_macro ''BSONCXX_DEPRECATED_NO_EXPORT'', Undef ''BSONCXX_DEPRECATED_NO_EXPORT'',
     Push_macro ''DEFINE_NO_DEPRECATED'', Undef ''DEFINE_NO_DEPRECATED'',
     Push_macro ''BSONCXX_NO_DEPRECATED'', Undef ''BSONCXX_NO_DEPRECATED''] @
    bsoncxx_config_hpp @
    bsoncxx_version_hpp @
    bsoncxx_export_hpp @
    bsoncxx_compiler_hpp @
    [Push_macro ''BSONCXX_UNREACHABLE'', Undef ''BSONCXX_UNREACHABLE'',
     Define ''BSONCXX_UNREACHABLE'' (Expands_to ''std::abort()'')]"

definition bsoncxx_postlude_hpp :: "directive list" where
  "bsoncxx_postlude_hpp =
    [Undef ''BSONCXX_INLINE'', Pop_macro ''BSONCXX_INLINE'',
     Ifdef ''_MSC_VER''
       [Warnings_pop]
       [],
     Undef ''BSONCXX_CALL'', Pop_macro ''BSONCXX_CALL'', Undef ''BSONCXX_INLINE_NAMESPACE_BEGIN'',
     Pop_macro ''BSONCXX_INLINE_NAMESPACE_BEGIN'', Undef ''BSONCXX_INLINE_NAMESPACE_END'',
     Pop_macro ''BSONCXX_INLINE_NAMESPACE_END'', Undef ''BSONCXX_POLY_USE_MNMLSTC'',
     Pop_macro ''BSONCXX_POLY_USE_MNMLSTC'', Undef ''BSONCXX_POLY_USE_STD_EXPERIMENTAL'',
     Pop_macro ''BSONCXX_POLY_USE_STD_EXPERIMENTAL'', Undef ''BSONCXX_POLY_USE_SYSTEM_MNMLSTC'',
     Pop_macro ''BSONCXX_POLY_USE_SYSTEM_MNMLSTC'', Undef ''BSONCXX_POLY_USE_BOOST'',
     Pop_macro ''BSONCXX_POLY_USE_BOOST'', Undef ''BSONCXX_VERSION_EXTRA'',
     Pop_macro ''BSONCXX_VERSION_EXTRA'', Undef ''BSONCXX_VERSION_MAJOR'',
     Pop_macro ''BSONCXX_VERSION_MAJOR'', Undef ''BSONCXX_VERSION_MINOR'',
     Pop_macro ''BSONCXX_VERSION_MINOR'', Undef ''BSONCXX_VERSION_PATCH'',
     Pop_macro ''BSONCXX_VERSION_PATCH'',
     Ifdef ''BSONCXX_ENUM''
       [Static_assert_false ''BSONCXX_ENUM must be undef'ed'']
       [],
     Pop_macro ''BSONCXX_ENUM'', Undef ''BSONCXX_API_H'', Pop_macro ''BSONCXX_API_H'',
     Undef ''BSONCXX_API'', Pop_macro ''BSONCXX_API'', Undef ''BSONCXX_PRIVATE'',
     Pop_macro ''BSONCXX_PRIVATE'', Undef ''BSONCXX_DEPRECATED'', Pop_macro ''BSONCXX_DEPRECATED'',
     Undef ''BSONCXX_DEPRECATED_EXPORT'', Pop_macro ''BSONCXX_DEPRECATED_EXPORT'',
     Undef ''BSONCXX_DEPRECATED_NO_EXPORT'', Pop_macro ''BSONCXX_DEPRECATED_NO_EXPORT'',
     Undef ''DEFINE_NO_DEPRECATED'', Pop_macro ''DEFINE_NO_DEPRECATED'',
     Undef ''BSONCXX_NO_DEPRECATED'', Pop_macro ''BSONCXX_NO_DEPRECATED'',
     Undef ''BSONCXX_UNREACHABLE'', Pop_macro ''BSONCXX_UNREACHABLE'']"

definition mongocxx_config_hpp :: "directive list" where
  "mongocxx_config_hpp =
    [Define ''MONGOCXX_INLINE_NAMESPACE_BEGIN'' (Expands_to ''inline namespace v_noabi {''),
     Define ''MONGOCXX_INLINE_NAMESPACE_END'' (Expands_to ''}'')]"

definition mongocxx_version_hpp :: "directive list" where
  "mongocxx_version_hpp =
    [Define ''MONGOCXX_VERSION_MAJOR'' (Number 3), Define ''MONGOCXX_VERSION_MINOR'' (Number 0),
     Define ''MONGOCXX_VERSION_PATCH'' (Number 1),
     Define ''MONGOCXX_VERSION_EXTRA'' (Expands_to ''-rc0-pre'')]"

definition mongocxx_export_hpp :: "directive list" where
  "mongocxx_export_hpp =
    [Ifndef ''MONGOCXX_API_H''
       [Define ''MONGOCXX_API_H'' (Expands_to ''''),
        Ifdef ''MONGOCXX_STATIC''
          [Define ''MONGOCXX_API'' (Expands_to ''''), Define ''MONGOCXX_PRIVATE'' (Expands_to '''')]
          [Ifndef ''MONGOCXX_API''
             [Ifdef ''MONGOCXX_EXPORTS''
                [Define ''MONGOCXX_API'' (Expands_to ''__attribute__((visibility(\"default\")))'')]
                [Define ''MONGOCXX_API'' (Expands_to ''__attribute__((visibility(\"default\")))'')]],
           Ifndef ''MONGOCXX_PRIVATE''
             [Define ''MONGOCXX_PRIVATE'' (Expands_to ''__attribute__((visibility(\"hidden\")))'')]],
        Ifndef ''MONGOCXX_DEPRECATED''
          [Define ''MONGOCXX_DEPRECATED'' (Expands_to ''__attribute__ ((__deprecated__))'')],
        Ifndef ''MONGOCXX_DEPRECATED_EXPORT''
          [Define ''MONGOCXX_DEPRECATED_EXPORT'' (Expands_to ''MONGOCXX_API MONGOCXX_DEPRECATED'')],
        Ifndef ''MONGOCXX_DEPRECATED_NO_EXPORT''
          [Define ''MONGOCXX_DEPRECATED_NO_EXPORT'' (Expands_to ''MONGOCXX_PRIVATE MONGOCXX_DEPRECATED'')],
        Define ''DEFINE_NO_DEPRECATED'' (Number 0),
        If_group (Nonzero ''DEFINE_NO_DEPRECATED'')
          [Define ''MONGOCXX_NO_DEPRECATED'' (Expands_to '''')]
          []]]"

definition mongocxx_compiler_hpp :: "directive list" where
  "mongocxx_compiler_hpp =
    [Ifdef ''_MSC_VER''
       [Warnings_push, Pragma ''warning(disable : 4251 4275)'',
        Define ''MONGOCXX_INLINE'' (Expands_to ''inline __forceinline MONGOCXX_PRIVATE''),
        Define ''MONGOCXX_CALL'' (Expands_to ''__cdecl'')]
       [Define ''MONGOCXX_INLINE'' (Expands_to ''inline __attribute__((__always_inline__)) MONGOCXX_PRIVATE''),
        Define ''MONGOCXX_CALL'' (Expands_to '''')]]"

definition mongocxx_prelude_hpp :: "directive list" where
  "mongocxx_prelude_hpp =
    [Push_macro ''MONGOCXX_INLINE'', Undef ''MONGOCXX_INLINE'', Push_macro ''MONGOCXX_CALL'',
     Undef ''MONGOCXX_CALL'', Push_macro ''MONGOCXX_INLINE_NAMESPACE_BEGIN'',
     Undef ''MONGOCXX_INLINE_NAMESPACE_BEGIN'', Push_macro ''MONGOCXX_INLINE_NAMESPACE_END'',
     Undef ''MONGOCXX_INLINE_NAMESPACE_END'', Push_macro ''MONGOCXX_VERSION_EXTRA'',
     Undef ''MONGOCXX_VERSION_EXTRA'', Push_macro ''MONGOCXX_VERSION_MAJOR'',
     Undef ''MONGOCXX_VERSION_MAJOR'', Push_macro ''MONGOCXX_VERSION_MINOR'',
     Undef ''MONGOCXX_VERSION_MINOR'', Push_macro ''MONGOCXX_VERSION_PATCH'',
     Undef ''MONGOCXX_VERSION_PATCH'', Push_macro ''MONGOCXX_API_H'', Undef ''MONGOCXX_API_H'',
     Push_macro ''MONGOCXX_API'', Undef ''MONGOCXX_API'', Push_macro ''MONGOCXX_PRIVATE'',
     Undef ''MONGOCXX_PRIVATE'', Push_macro ''MONGOCXX_DEPRECATED'', Undef ''MONGOCXX_DEPRECATED'',
     Push_macro ''MONGOCXX_DEPRECATED_EXPORT'', Undef ''MONGOCXX_DEPRECATED_EXPORT'',
     Push_macro ''MONGOCXX_DEPRECATED_NO_EXPORT'', Undef ''MONGOCXX_DEPRECATED_NO_EXPORT'',
     Push_macro ''DEFINE_NO_DEPRECATED'', Undef ''DEFINE_NO_DEPRECATED'',
     Push_macro ''MONGOCXX_NO_DEPRECATED'', Undef ''MONGOCXX_NO_DEPRECATED''] @
    mongocxx_config_hpp @
    mongocxx_version_hpp @
    mongocxx_export_hpp @
    mongocxx_compiler_hpp @
    [Push_macro ''MONGOCXX_UNREACHABLE'', Undef ''MONGOCXX_UNREACHABLE'',
     Define ''MONGOCXX_UNREACHABLE'' (Expands_to ''std::abort()'')]"

definition mongocxx_postlude_hpp :: "directive list" where
  "mongocxx_postlude_hpp =
    [Undef ''MONGOCXX_INLINE'', Pop_macro ''MONGOCXX_INLINE'',
     Ifdef ''_MSC_VER''
       [Warnings_pop]
       [],
     Undef ''MONGOCXX_CALL'', Pop_macro ''MONGOCXX_CALL'', Undef ''MONGOCXX_INLINE_NAMESPACE_BEGIN'',
     Pop_macro ''MONGOCXX_INLINE_NAMESPACE_BEGIN'', Undef ''MONGOCXX_INLINE_NAMESPACE_END'',
     Pop_macro ''MONGOCXX_INLINE_NAMESPACE_END'', Undef ''MONGOCXX_VERSION_EXTRA'',
     Pop_macro ''MONGOCXX_VERSION_EXTRA'', Undef ''MONGOCXX_VERSION_MAJOR'',
     Pop_macro ''MONGOCXX_VERSION_MAJOR'', Undef ''MONGOCXX_VERSION_MINOR'',
     Pop_macro ''MONGOCXX_VERSION_MINOR'', Undef ''MONGOCXX_VERSION_PATCH'',
     Pop_macro ''MONGOCXX_VERSION_PATCH'', Undef ''MONGOCXX_API_H'', Pop_macro ''MONGOCXX_API_H'',
     Undef ''MONGOCXX_API'', Pop_macro ''MONGOCXX_API'', Undef ''MONGOCXX_PRIVATE'',
     Pop_macro ''MONGOCXX_PRIVATE'', Undef ''MONGOCXX_DEPRECATED'',
     Pop_macro ''MONGOCXX_DEPRECATED'', Undef ''MONGOCXX_DEPRECATED_EXPORT'',
     Pop_macro ''MONGOCXX_DEPRECATED_EXPORT'', Undef ''MONGOCXX_DEPRECATED_NO_EXPORT'',
     Pop_macro ''MONGOCXX_DEPRECATED_NO_EXPORT'', Undef ''DEFINE_NO_DEPRECATED'',
     Pop_macro ''DEFINE_NO_DEPRECATED'', Undef ''MONGOCXX_NO_DEPRECATED'',
     Pop_macro ''MONGOCXX_NO_DEPRECATED'', Undef ''MONGOCXX_UNREACHABLE'',
     Pop_macro ''MONGOCXX_UNREACHABLE'']"

definition stdx_optional_hpp :: "directive list" where
  "stdx_optional_hpp =
    [Pragma ''once''] @
    bsoncxx_prelude_hpp @
    [Ifdef ''BSONCXX_POLY_USE_MNMLSTC''
       [If_group (Either (Defined ''MONGO_CXX_DRIVER_COMPILING'') (Defined ''BSONCXX_POLY_USE_SYSTEM_MNMLSTC''))
          [Include_file ''core/optional.hpp'']
          [Include_file ''bsoncxx/third_party/mnmlstc/core/optional.hpp''],
        Line ''namespace bsoncxx {'', Line ''namespace stdx {'', Line ''using ::core::optional;'',
        Line ''using ::core::nullopt;'', Line ''using ::core::make_optional;'', Line ''}'',
        Line ''}'']
       [Ifdef ''BSONCXX_POLY_USE_BOOST''
          [Include_file ''boost/none.hpp'', Include_file ''boost/optional/optional.hpp'',
           Line ''namespace bsoncxx {'', Line ''namespace stdx {'',
           Line ''using ::boost::optional;'', Line ''using nullopt_t = ::boost::none_t;'',
           Line ''const nullopt_t nullopt{::boost::none};'', Line ''using ::boost::make_optional;'',
           Line ''}'', Line ''}'']
          [Ifdef ''BSONCXX_POLY_USE_STD_EXPERIMENTAL''
             [Include_file ''experimental/optional'', Line ''namespace bsoncxx {'',
              Line ''namespace stdx {'', Line ''using ::std::experimental::optional;'',
              Line ''using ::std::experimental::nullopt;'',
              Line ''using ::std::experimental::make_optional;'', Line ''}'', Line ''}'']
             [Error_line ''Cannot find a valid polyfill for optional'']]]] @
    bsoncxx_postlude_hpp"

definition stdx_string_view_hpp :: "directive list" where
  "stdx_string_view_hpp =
    [Pragma ''once''] @
    bsoncxx_prelude_hpp @
    [Ifdef ''BSONCXX_POLY_USE_MNMLSTC''
       [If_group (Either (Defined ''MONGO_CXX_DRIVER_COMPILING'') (Defined ''BSONCXX_POLY_USE_SYSTEM_MNMLSTC''))
          [Include_file ''core/string.hpp'']
          [Include_file ''bsoncxx/third_party/mnmlstc/core/string.hpp''],
        Line ''namespace bsoncxx {'', Line ''namespace stdx {'', Line ''using ::core::string_view;'',
        Line ''}'', Line ''}'']
       [Ifdef ''BSONCXX_POLY_USE_BOOST''
          [Include_file ''boost/utility/string_ref.hpp'', Line ''namespace bsoncxx {'',
           Line ''namespace stdx {'', Line ''using string_view = ::boost::string_ref;'', Line ''}'',
           Line ''}'']
          [Ifdef ''BSONCXX_POLY_USE_STD_EXPERIMENTAL''
             [Include_file ''experimental/string_view'', Line ''namespace bsoncxx {'',
              Line ''namespace stdx {'', Line ''using ::std::experimental::string_view;'',
              Line ''}'', Line ''}'']
             [Error_line ''Cannot find a valid polyfill for string_view'']]]] @
    bsoncxx_postlude_hpp"

definition stdx_make_unique_hpp :: "directive list" where
  "stdx_make_unique_hpp =
    [Pragma ''once''] @
    bsoncxx_prelude_hpp @
    [Ifdef ''BSONCXX_POLY_USE_MNMLSTC''
       [If_group (Either (Defined ''MONGO_CXX_DRIVER_COMPILING'') (Defined ''BSONCXX_POLY_USE_SYSTEM_MNMLSTC''))
          [Include_file ''core/memory.hpp'']
          [Include_file ''bsoncxx/third_party/mnmlstc/core/memory.hpp''],
        Line ''namespace bsoncxx {'', Line ''namespace stdx {'', Line ''using ::core::make_unique;'',
        Line ''}'', Line ''}'']
       [Ifdef ''BSONCXX_POLY_USE_BOOST''
          [Include_file ''boost/smart_ptr/make_unique.hpp'', Line ''namespace bsoncxx {'',
           Line ''namespace stdx {'', Line ''using ::boost::make_unique;'', Line ''}'', Line ''}'']
          [If_group (At_least ''__cplusplus'' 201402)
             [Include_file ''memory'', Line ''namespace bsoncxx {'', Line ''namespace stdx {'',
              Line ''using ::std::make_unique;'', Line ''}'', Line ''}'']
             [Error_line ''Cannot find a valid polyfill for make_unique'']]]] @
    bsoncxx_postlude_hpp"

text \<open>The enumerations of types.hpp and its operators are lists of calls of one macro.\<close>

definition enums_type_hpp :: "directive list" where
  "enums_type_hpp =
    [Ifndef ''BSONCXX_ENUM''
       [Error_line ''This header is only meant to be included as an X-macro over BSONCXX_ENUM''],
     Line ''BSONCXX_ENUM(double, 0x01)'', Line ''BSONCXX_ENUM(utf8, 0x02)'',
     Line ''BSONCXX_ENUM(document, 0x03)'', Line ''BSONCXX_ENUM(array, 0x04)'',
     Line ''BSONCXX_ENUM(binary, 0x05)'', Line ''BSONCXX_ENUM(undefined, 0x06)'',
     Line ''BSONCXX_ENUM(oid, 0x07)'', Line ''BSONCXX_ENUM(bool, 0x08)'',
     Line ''BSONCXX_ENUM(date, 0x09)'', Line ''BSONCXX_ENUM(null, 0x0A)'',
     Line ''BSONCXX_ENUM(regex, 0x0B)'', Line ''BSONCXX_ENUM(dbpointer, 0x0C)'',
     Line ''BSONCXX_ENUM(code, 0x0D)'', Line ''BSONCXX_ENUM(symbol, 0x0E)'',
     Line ''BSONCXX_ENUM(codewscope, 0x0F)'', Line ''BSONCXX_ENUM(int32, 0x10)'',
     Line ''BSONCXX_ENUM(timestamp, 0x11)'', Line ''BSONCXX_ENUM(int64, 0x12)'',
     Line ''BSONCXX_ENUM(maxkey, 0x7F)'', Line ''BSONCXX_ENUM(minkey, 0xFF)'']"

definition enums_binary_sub_type_hpp :: "directive list" where
  "enums_binary_sub_type_hpp =
    [Ifndef ''BSONCXX_ENUM''
       [Error_line ''This header is only meant to be included as an X-macro over BSONCXX_ENUM''],
     Line ''BSONCXX_ENUM(binary, 0x00)'', Line ''BSONCXX_ENUM(function, 0x01)'',
     Line ''BSONCXX_ENUM(binary_deprecated, 0x02)'', Line ''BSONCXX_ENUM(uuid_deprecated, 0x03)'',
     Line ''BSONCXX_ENUM(uuid, 0x04)'', Line ''BSONCXX_ENUM(md5, 0x05)'',
     Line ''BSONCXX_ENUM(user, 0x80)'']"

definition type_enum_directives :: "directive list" where
  "type_enum_directives =
    [Line ''enum class type : std::uint8_t {'',
     Define ''BSONCXX_ENUM'' (Takes [''name'', ''val''] ''k_##name = val,'')] @
    enums_type_hpp @
    [Undef ''BSONCXX_ENUM'', Line ''};'']"

definition sub_type_enum_directives :: "directive list" where
  "sub_type_enum_directives =
    [Line ''enum class binary_sub_type : std::uint8_t {'',
     Define ''BSONCXX_ENUM'' (Takes [''name'', ''val''] ''k_##name = val,'')] @
    enums_binary_sub_type_hpp @
    [Undef ''BSONCXX_ENUM'', Line ''};'']"

definition not_equal_directives :: "directive list" where
  "not_equal_directives =
    [Define ''BSONCXX_ENUM'' (Takes [''name'', ''val'']
       ''BSONCXX_INLINE bool operator!=(const b_##name& lhs, const b_##name& rhs) { return !(lhs == rhs); }'')] @
    enums_type_hpp @
    [Undef ''BSONCXX_ENUM'']"

section \<open>What the prelude leaves\<close>

datatype driver_library = Bsoncxx | Mongocxx

definition prelude :: "driver_library \<Rightarrow> directive list" where
  "prelude l = (case l of Bsoncxx \<Rightarrow> bsoncxx_prelude_hpp | Mongocxx \<Rightarrow> mongocxx_prelude_hpp)"

definition postlude :: "driver_library \<Rightarrow> directive list" where
  "postlude l = (case l of Bsoncxx \<Rightarrow> bsoncxx_postlude_hpp | Mongocxx \<Rightarrow> mongocxx_postlude_hpp)"

text \<open>The macros in the order of the prelude, and those that the postlude restores after the warnings
  and after the check of \<^verbatim>\<open>BSONCXX_ENUM\<close>.\<close>

definition bsoncxx_names1 :: "string list" where
  "bsoncxx_names1 = [''BSONCXX_CALL'', ''BSONCXX_INLINE_NAMESPACE_BEGIN'',
     ''BSONCXX_INLINE_NAMESPACE_END'', ''BSONCXX_POLY_USE_MNMLSTC'', ''BSONCXX_POLY_USE_STD_EXPERIMENTAL'',
     ''BSONCXX_POLY_USE_SYSTEM_MNMLSTC'', ''BSONCXX_POLY_USE_BOOST'', ''BSONCXX_VERSION_EXTRA'',
     ''BSONCXX_VERSION_MAJOR'', ''BSONCXX_VERSION_MINOR'', ''BSONCXX_VERSION_PATCH'']"

definition bsoncxx_names2 :: "string list" where
  "bsoncxx_names2 = [''BSONCXX_API_H'', ''BSONCXX_API'', ''BSONCXX_PRIVATE'', ''BSONCXX_DEPRECATED'',
     ''BSONCXX_DEPRECATED_EXPORT'', ''BSONCXX_DEPRECATED_NO_EXPORT'', ''DEFINE_NO_DEPRECATED'',
     ''BSONCXX_NO_DEPRECATED'']"

definition mongocxx_names1 :: "string list" where
  "mongocxx_names1 = [''MONGOCXX_CALL'', ''MONGOCXX_INLINE_NAMESPACE_BEGIN'',
     ''MONGOCXX_INLINE_NAMESPACE_END'', ''MONGOCXX_VERSION_EXTRA'', ''MONGOCXX_VERSION_MAJOR'',
     ''MONGOCXX_VERSION_MINOR'', ''MONGOCXX_VERSION_PATCH'', ''MONGOCXX_API_H'', ''MONGOCXX_API'',
     ''MONGOCXX_PRIVATE'', ''MONGOCXX_DEPRECATED'', ''MONGOCXX_DEPRECATED_EXPORT'',
     ''MONGOCXX_DEPRECATED_NO_EXPORT'', ''DEFINE_NO_DEPRECATED'', ''MONGOCXX_NO_DEPRECATED'']"

definition file_names :: "driver_library \<Rightarrow> string list" where
  "file_names l =
     (case l of
        Bsoncxx \<Rightarrow> ''BSONCXX_INLINE'' # bsoncxx_names1 @ ''BSONCXX_ENUM'' # bsoncxx_names2
      | Mongocxx \<Rightarrow> ''MONGOCXX_INLINE'' # mongocxx_names1)"

definition unreachable :: "driver_library \<Rightarrow> string" where
  "unreachable l = (case l of Bsoncxx \<Rightarrow> ''BSONCXX_UNREACHABLE'' | Mongocxx \<Rightarrow> ''MONGOCXX_UNREACHABLE'')"

definition config_names :: "driver_library \<Rightarrow> string list" where
  "config_names l = file_names l @ [unreachable l]"

text \<open>The values inside a header, the last definition first. They depend on the compiler and on whether
  the library is linked statically.\<close>

definition config_values :: "driver_library \<Rightarrow> bool \<Rightarrow> bool \<Rightarrow> (string \<times> macro_body) list" where
  "config_values l msc static = (case l of
    Bsoncxx \<Rightarrow>
     [(''BSONCXX_UNREACHABLE'', Expands_to ''std::abort()''),
      (''BSONCXX_CALL'', Expands_to (if msc then ''__cdecl'' else '''')),
      (''BSONCXX_INLINE'', Expands_to (if msc then ''inline __forceinline BSONCXX_PRIVATE''
              else ''inline __attribute__((__always_inline__)) BSONCXX_PRIVATE'')),
      (''DEFINE_NO_DEPRECATED'', Number 0),
      (''BSONCXX_DEPRECATED_NO_EXPORT'', Expands_to ''BSONCXX_PRIVATE BSONCXX_DEPRECATED''),
      (''BSONCXX_DEPRECATED_EXPORT'', Expands_to ''BSONCXX_API BSONCXX_DEPRECATED''),
      (''BSONCXX_DEPRECATED'', Expands_to ''__attribute__ ((__deprecated__))''),
      (''BSONCXX_PRIVATE'', Expands_to (if static then '''' else ''__attribute__((visibility(\"hidden\")))'')),
      (''BSONCXX_API'', Expands_to (if static then '''' else ''__attribute__((visibility(\"default\")))'')),
      (''BSONCXX_API_H'', Expands_to ''''),
      (''BSONCXX_VERSION_EXTRA'', Expands_to ''-rc0-pre''),
      (''BSONCXX_VERSION_PATCH'', Number 1),
      (''BSONCXX_VERSION_MINOR'', Number 0),
      (''BSONCXX_VERSION_MAJOR'', Number 3),
      (''BSONCXX_INLINE_NAMESPACE_END'', Expands_to ''}''),
      (''BSONCXX_INLINE_NAMESPACE_BEGIN'', Expands_to ''inline namespace v_noabi {''),
      (''BSONCXX_POLY_USE_MNMLSTC'', Expands_to '''')]
  | Mongocxx \<Rightarrow>
     [(''MONGOCXX_UNREACHABLE'', Expands_to ''std::abort()''),
      (''MONGOCXX_CALL'', Expands_to (if msc then ''__cdecl'' else '''')),
      (''MONGOCXX_INLINE'', Expands_to (if msc then ''inline __forceinline MONGOCXX_PRIVATE''
              else ''inline __attribute__((__always_inline__)) MONGOCXX_PRIVATE'')),
      (''DEFINE_NO_DEPRECATED'', Number 0),
      (''MONGOCXX_DEPRECATED_NO_EXPORT'', Expands_to ''MONGOCXX_PRIVATE MONGOCXX_DEPRECATED''),
      (''MONGOCXX_DEPRECATED_EXPORT'', Expands_to ''MONGOCXX_API MONGOCXX_DEPRECATED''),
      (''MONGOCXX_DEPRECATED'', Expands_to ''__attribute__ ((__deprecated__))''),
      (''MONGOCXX_PRIVATE'', Expands_to (if static then '''' else ''__attribute__((visibility(\"hidden\")))'')),
      (''MONGOCXX_API'', Expands_to (if static then '''' else ''__attribute__((visibility(\"default\")))'')),
      (''MONGOCXX_API_H'', Expands_to ''''),
      (''MONGOCXX_VERSION_EXTRA'', Expands_to ''-rc0-pre''),
      (''MONGOCXX_VERSION_PATCH'', Number 1),
      (''MONGOCXX_VERSION_MINOR'', Number 0),
      (''MONGOCXX_VERSION_MAJOR'', Number 3),
      (''MONGOCXX_INLINE_NAMESPACE_END'', Expands_to ''}''),
      (''MONGOCXX_INLINE_NAMESPACE_BEGIN'', Expands_to ''inline namespace v_noabi {'')])"

definition linked_statically :: "driver_library \<Rightarrow> pp \<Rightarrow> bool" where
  "linked_statically l s \<longleftrightarrow>
     macro_of s (case l of Bsoncxx \<Rightarrow> ''BSONCXX_STATIC'' | Mongocxx \<Rightarrow> ''MONGOCXX_STATIC'') \<noteq> None"

definition msvc :: "pp \<Rightarrow> bool" where
  "msvc s \<longleftrightarrow> macro_of s ''_MSC_VER'' \<noteq> None"

lemmas name_lists = config_names_def file_names_def unreachable_def bsoncxx_names1_def bsoncxx_names2_def mongocxx_names1_def

lemma distinct_config_names: "distinct (config_names l)"
  by (cases l) (simp_all add: name_lists)

text \<open>The files that the prelude includes, run where none of their names is a macro.\<close>

definition configuration :: "driver_library \<Rightarrow> directive list" where
  "configuration l =
     (case l of
        Bsoncxx \<Rightarrow> bsoncxx_config_hpp @ bsoncxx_version_hpp @ bsoncxx_export_hpp @ bsoncxx_compiler_hpp
      | Mongocxx \<Rightarrow> mongocxx_config_hpp @ mongocxx_version_hpp @ mongocxx_export_hpp @ mongocxx_compiler_hpp)"

lemmas config_files =
  bsoncxx_config_hpp_def bsoncxx_version_hpp_def bsoncxx_export_hpp_def bsoncxx_compiler_hpp_def
  mongocxx_config_hpp_def mongocxx_version_hpp_def mongocxx_export_hpp_def mongocxx_compiler_hpp_def

lemma run_configuration:
  assumes "\<forall>n \<in> set (file_names l). macro_of s n = None"
  shows "run inc (configuration l) s =
    s\<lparr>macro_of := macro_of s ++ map_of (tl (config_values l (msvc s) (linked_statically l s))),
      warning_depth := warning_depth s + (if msvc s then 1 else 0)\<rparr>"
proof (cases l)
  case Bsoncxx
  then show ?thesis using assms
    by (cases "macro_of s ''_MSC_VER''"; cases "macro_of s ''BSONCXX_STATIC''")
      (simp_all add: configuration_def config_files config_values_def file_names_def bsoncxx_names1_def
        bsoncxx_names2_def number_of_def msvc_def linked_statically_def)
next
  case Mongocxx
  then show ?thesis using assms
    by (cases "macro_of s ''_MSC_VER''"; cases "macro_of s ''MONGOCXX_STATIC''")
      (simp_all add: configuration_def config_files config_values_def file_names_def mongocxx_names1_def
        number_of_def msvc_def linked_statically_def)
qed

lemma prelude_parts:
  "prelude l = save_macros (file_names l) @ configuration l @
     [Push_macro (unreachable l), Undef (unreachable l), Define (unreachable l) (Expands_to ''std::abort()'')]"
  by (cases l) (simp_all add: prelude_def bsoncxx_prelude_hpp_def mongocxx_prelude_hpp_def configuration_def
      file_names_def unreachable_def bsoncxx_names1_def bsoncxx_names2_def mongocxx_names1_def)

text \<open>What the state is inside a header.\<close>

definition inside_header :: "driver_library \<Rightarrow> pp \<Rightarrow> pp" where
  "inside_header l s =
     s\<lparr>macro_of := (\<lambda>n. if n \<in> set (config_names l) then map_of (config_values l (msvc s) (linked_statically l s)) n
                        else macro_of s n),
       pushed := (\<lambda>n. if n \<in> set (config_names l) then macro_of s n # pushed s n else pushed s n),
       warning_depth := warning_depth s + (if msvc s then 1 else 0)\<rparr>"

lemma no_config_names:
  "''_MSC_VER'' \<notin> set (config_names l)" "''BSONCXX_STATIC'' \<notin> set (config_names l)"
  "''MONGOCXX_STATIC'' \<notin> set (config_names l)" "''MONGO_CXX_DRIVER_COMPILING'' \<notin> set (config_names l)"
  by (cases l; simp add: name_lists)+

lemma config_values_Cons:
  "config_values l msc static = (unreachable l, Expands_to ''std::abort()'') # tl (config_values l msc static)"
  by (cases l) (simp_all add: config_values_def unreachable_def)

lemma config_values_files: "fst ` set (tl (config_values l msc static)) \<subseteq> set (file_names l)"
  by (cases l) (simp_all add: config_values_def name_lists)

lemma run_prelude: "run inc (prelude l) s = inside_header l s"
proof -
  let ?cs = "tl (config_values l (msvc s) (linked_statically l s))"
  let ?saved = "s\<lparr>macro_of := (\<lambda>n. if n \<in> set (file_names l) then None else macro_of s n),
        pushed := (\<lambda>n. if n \<in> set (file_names l) then macro_of s n # pushed s n else pushed s n)\<rparr>"
  have apart: "distinct (file_names l)" "unreachable l \<notin> set (file_names l)"
    using distinct_config_names [of l] by (simp_all add: config_names_def)
  have same: "msvc ?saved = msvc s" "linked_statically l ?saved = linked_statically l s"
    using no_config_names [of l] by (cases l; simp add: msvc_def linked_statically_def config_names_def)+
  have none: "map_of ?cs n = None" if "n \<notin> set (file_names l)" for n
    using that config_values_files [of l] by (auto simp: map_of_eq_None_iff)
  have "run inc (configuration l) (run inc (save_macros (file_names l)) s) =
      ?saved\<lparr>macro_of := macro_of ?saved ++ map_of ?cs,
        warning_depth := warning_depth s + (if msvc s then 1 else 0)\<rparr>"
    using run_configuration [of l ?saved inc] by (simp add: run_save [OF apart(1)] same)
  then show ?thesis
    using apart(2) none [of "unreachable l"] none
    by (subst inside_header_def, subst config_values_Cons)
      (auto simp: prelude_parts run_append config_names_def map_add_def fun_eq_iff split: option.split intro!: pp.equality)
qed

section \<open>What the postlude leaves\<close>

lemma postlude_parts:
  "postlude Bsoncxx =
     restore_macros [''BSONCXX_INLINE''] @ [Ifdef ''_MSC_VER'' [Warnings_pop] []] @
     restore_macros bsoncxx_names1 @
     [Ifdef ''BSONCXX_ENUM'' [Static_assert_false ''BSONCXX_ENUM must be undef'ed''] [], Pop_macro ''BSONCXX_ENUM''] @
     restore_macros (bsoncxx_names2 @ [''BSONCXX_UNREACHABLE''])"
  "postlude Mongocxx =
     restore_macros [''MONGOCXX_INLINE''] @ [Ifdef ''_MSC_VER'' [Warnings_pop] []] @
     restore_macros (mongocxx_names1 @ [''MONGOCXX_UNREACHABLE''])"
  by (simp_all add: postlude_def bsoncxx_postlude_hpp_def mongocxx_postlude_hpp_def bsoncxx_names1_def
      bsoncxx_names2_def mongocxx_names1_def)

text \<open>The macro that a header has to undefine itself.\<close>

definition enum_left :: "driver_library \<Rightarrow> pp \<Rightarrow> bool" where
  "enum_left l s \<longleftrightarrow> l = Bsoncxx \<and> macro_of s ''BSONCXX_ENUM'' \<noteq> None"

lemma pop_enum:
  assumes "pushed s ''BSONCXX_ENUM'' \<noteq> []"
  shows "run inc [Ifdef ''BSONCXX_ENUM'' [Static_assert_false ''BSONCXX_ENUM must be undef'ed''] [],
      Pop_macro ''BSONCXX_ENUM''] s =
    restored [''BSONCXX_ENUM'']
      (s\<lparr>errors := errors s @ (if enum_left Bsoncxx s then [''BSONCXX_ENUM must be undef'ed''] else [])\<rparr>)"
  using assms by (auto simp: pop_macro_def restored_def enum_left_def fun_eq_iff neq_Nil_conv intro!: pp.equality)

lemma pop_warnings:
  "run inc [Ifdef ''_MSC_VER'' [Warnings_pop] []] s =
   s\<lparr>warning_depth := warning_depth s - (if msvc s then 1 else 0)\<rparr>"
  by (simp add: msvc_def)

lemma run_postlude:
  assumes "saved_top (config_names l) s"
  shows "run inc (postlude l) s =
    restored (config_names l)
      (s\<lparr>warning_depth := warning_depth s - (if msvc s then 1 else 0),
         errors := errors s @ (if enum_left l s then [''BSONCXX_ENUM must be undef'ed''] else [])\<rparr>)"
proof (cases l)
  case Bsoncxx
  let ?s1 = "restored [''BSONCXX_INLINE''] s\<lparr>warning_depth := warning_depth s - (if msvc s then 1 else 0)\<rparr>"
  let ?s2 = "restored (''BSONCXX_INLINE'' # bsoncxx_names1) s\<lparr>warning_depth := warning_depth ?s1\<rparr>"
  let ?s3 = "restored (''BSONCXX_INLINE'' # bsoncxx_names1 @ [''BSONCXX_ENUM'']) s\<lparr>warning_depth := warning_depth ?s1,
      errors := errors s @ (if enum_left l s then [''BSONCXX_ENUM must be undef'ed''] else [])\<rparr>"
  have names: "config_names l = ''BSONCXX_INLINE'' # bsoncxx_names1 @ ''BSONCXX_ENUM'' # bsoncxx_names2 @ [''BSONCXX_UNREACHABLE'']"
    by (simp add: Bsoncxx config_names_def file_names_def unreachable_def)
  note apart = distinct_config_names [of l, unfolded names] and top = assms [unfolded names]
  have "run inc (restore_macros [''BSONCXX_INLINE'']) s = restored [''BSONCXX_INLINE''] s"
    using top by (intro run_restore) (simp_all add: names)
  then have "run inc [Ifdef ''_MSC_VER'' [Warnings_pop] []] (run inc (restore_macros [''BSONCXX_INLINE'']) s) = ?s1"
    by (simp only: pop_warnings) (simp add: msvc_def)
  moreover have "run inc (restore_macros bsoncxx_names1) ?s1 = ?s2"
    using top apart by (simp add: run_restore saved_top_restored restored_restored)
  moreover have "run inc [Ifdef ''BSONCXX_ENUM'' [Static_assert_false ''BSONCXX_ENUM must be undef'ed''] [],
      Pop_macro ''BSONCXX_ENUM''] ?s2 = ?s3"
    using top apart by (subst pop_enum) (auto simp add: restored_restored enum_left_def Bsoncxx)
  moreover have "run inc (restore_macros (bsoncxx_names2 @ [''BSONCXX_UNREACHABLE''])) ?s3 =
      restored (config_names l) s\<lparr>warning_depth := warning_depth ?s1, errors := errors ?s3\<rparr>"
    using top apart by (simp add: run_restore names saved_top_restored restored_restored)
  ultimately have "run inc (postlude l) s =
      restored (config_names l) s\<lparr>warning_depth := warning_depth ?s1, errors := errors ?s3\<rparr>"
    unfolding Bsoncxx postlude_parts run_append by (simp only:)
  then show ?thesis by simp
next
  case Mongocxx
  have names: "config_names l = ''MONGOCXX_INLINE'' # mongocxx_names1 @ [''MONGOCXX_UNREACHABLE'']"
    by (simp add: Mongocxx config_names_def file_names_def unreachable_def)
  note apart = distinct_config_names [of l, unfolded names] and top = assms [unfolded names]
  show ?thesis
    using top apart
    by (simp add: Mongocxx postlude_parts run_append run_restore names [unfolded Mongocxx] saved_top_restored
        restored_restored pop_warnings enum_left_def msvc_def del: restore_macros_simps)
qed

section \<open>A whole header\<close>

lemma saved_inside: "pushed s' = pushed (inside_header l s) \<Longrightarrow> saved_top (config_names l) s'"
  by (auto simp: saved_top_def inside_header_def)

lemma header_leaves:
  assumes "pushed s' = pushed (inside_header l s)" "warning_depth s' = warning_depth (inside_header l s)" "msvc s' = msvc s"
  shows "run inc (postlude l) s' =
    s'\<lparr>macro_of := (\<lambda>n. if n \<in> set (config_names l) then macro_of s n else macro_of s' n),
       pushed := pushed s, warning_depth := warning_depth s,
       errors := errors s' @ (if enum_left l s' then [''BSONCXX_ENUM must be undef'ed''] else [])\<rparr>"
  unfolding run_postlude [OF saved_inside [OF assms(1)]]
  using assms by (auto simp: restored_def inside_header_def fun_eq_iff intro!: pp.equality)

text \<open>
  C38. A header of the drivers begins with the prelude and ends with the postlude. Inside, each macro of
  the configuration has the value of the configuration files, whatever the program had defined; afterwards
  each has the program's definition again, every other macro is as the header left it, and the stacks of
  saved macros and of warning settings are as before, so that headers can be nested. The header may use the
  stacks as long as it leaves them balanced. There is an error exactly when a header of bsoncxx leaves
  \<^verbatim>\<open>BSONCXX_ENUM\<close> defined.
\<close>

theorem headers_restore_macros:
  fixes body :: "directive list"
  assumes "entered = run inc (prelude l) s" and "left = run inc body entered"
    and "after = run inc (prelude l @ body @ postlude l) s"
    and "pushed left = pushed entered" "warning_depth left = warning_depth entered"
      "macro_of left ''_MSC_VER'' = macro_of s ''_MSC_VER''"
  shows "(\<forall>n. macro_of entered n = (if n \<in> set (config_names l)
              then map_of (config_values l (msvc s) (linked_statically l s)) n else macro_of s n)) \<and>
         (\<forall>n. macro_of after n = macro_of (if n \<in> set (config_names l) then s else left) n) \<and>
         pushed after = pushed s \<and> warning_depth after = warning_depth s \<and>
         (errors after = errors left \<longleftrightarrow> \<not> enum_left l left)"
proof -
  have entered: "entered = inside_header l s" by (simp add: assms(1) run_prelude)
  have "msvc left = msvc s" using assms(6) by (simp add: msvc_def)
  then have "run inc (postlude l) left =
      left\<lparr>macro_of := (\<lambda>n. if n \<in> set (config_names l) then macro_of s n else macro_of left n),
        pushed := pushed s, warning_depth := warning_depth s,
        errors := errors left @ (if enum_left l left then [''BSONCXX_ENUM must be undef'ed''] else [])\<rparr>"
    using assms(4,5) by (intro header_leaves) (simp_all add: entered)
  moreover have "after = run inc (postlude l) left"
    by (simp add: assms(1-3) run_append)
  ultimately show ?thesis by (simp add: entered inside_header_def)
qed

text \<open>A program that has macros of its own with the names of the drivers'.\<close>

definition with_macros :: "(string \<times> macro_body) list \<Rightarrow> pp" where
  "with_macros ms = \<lparr>macro_of = map_of ms, pushed = (\<lambda>n. []), warning_depth = 0, lines_out = [],
     included = [], errors = []\<rparr>"

definition other_poly :: pp where
  "other_poly = with_macros [(''BSONCXX_POLY_USE_BOOST'', Number 1), (''BSONCXX_ENUM'', Number 7)]"

theorem headers_restore_macros_witness:
  "macro_of (run (\<lambda>f t. t) (prelude Bsoncxx @ (type_enum_directives @ sub_type_enum_directives @
       not_equal_directives) @ postlude Bsoncxx) other_poly)
     ''BSONCXX_ENUM'' = Some (Number 7)"
  using headers_restore_macros [OF refl refl refl, where inc = "\<lambda>f t. t" and l = Bsoncxx and s = other_poly
      and body = "type_enum_directives @ sub_type_enum_directives @ not_equal_directives"]
  by (simp add: run_prelude type_enum_directives_def sub_type_enum_directives_def not_equal_directives_def
      enums_type_hpp_def enums_binary_sub_type_hpp_def)
    (simp add: inside_header_def other_poly_def with_macros_def name_lists)

section \<open>The implementations that the drivers choose\<close>

text \<open>The headers of bsoncxx/stdx, the file each takes in a program and when the driver itself is
  compiled, and the names it makes available.\<close>

definition stdx_headers :: "(directive list \<times> string \<times> string \<times> string list) list" where
  "stdx_headers =
     [(stdx_optional_hpp, ''bsoncxx/third_party/mnmlstc/core/optional.hpp'', ''core/optional.hpp'',
         [''using ::core::optional;'', ''using ::core::nullopt;'', ''using ::core::make_optional;'']),
      (stdx_string_view_hpp, ''bsoncxx/third_party/mnmlstc/core/string.hpp'', ''core/string.hpp'',
         [''using ::core::string_view;'']),
      (stdx_make_unique_hpp, ''bsoncxx/third_party/mnmlstc/core/memory.hpp'', ''core/memory.hpp'',
         [''using ::core::make_unique;''])]"

text \<open>What the included files must not touch.\<close>

definition touches_nothing :: "file_effect \<Rightarrow> bool" where
  "touches_nothing inc \<longleftrightarrow>
     (\<forall>f t. pushed (inc f t) = pushed t \<and> warning_depth (inc f t) = warning_depth t \<and>
        lines_out (inc f t) = lines_out t \<and> included (inc f t) = included t \<and> errors (inc f t) = errors t \<and>
        macro_of (inc f t) ''_MSC_VER'' = macro_of t ''_MSC_VER'' \<and>
        macro_of (inc f t) ''BSONCXX_ENUM'' = macro_of t ''BSONCXX_ENUM'')"

lemma inside_polyfill:
  "macro_of (inside_header Bsoncxx s) ''BSONCXX_POLY_USE_MNMLSTC'' = Some (Expands_to '''')"
  "macro_of (inside_header Bsoncxx s) ''BSONCXX_POLY_USE_SYSTEM_MNMLSTC'' = None"
  "macro_of (inside_header Bsoncxx s) ''MONGO_CXX_DRIVER_COMPILING'' = macro_of s ''MONGO_CXX_DRIVER_COMPILING''"
  "macro_of (inside_header Bsoncxx s) ''BSONCXX_ENUM'' = None"
  "macro_of (inside_header Bsoncxx s) ''_MSC_VER'' = macro_of s ''_MSC_VER''"
  by (simp_all add: inside_header_def name_lists config_values_def)

lemma inside_rest [simp]:
  "lines_out (inside_header l s) = lines_out s" "included (inside_header l s) = included s" "errors (inside_header l s) = errors s"
  by (simp_all add: inside_header_def)

text \<open>A header that includes one file and declares what it takes from it.\<close>

definition core_polyfill :: "string \<Rightarrow> string \<Rightarrow> string list \<Rightarrow> directive list \<Rightarrow> directive list" where
  "core_polyfill own system used others =
     [Ifdef ''BSONCXX_POLY_USE_MNMLSTC''
        ([If_group (Either (Defined ''MONGO_CXX_DRIVER_COMPILING'') (Defined ''BSONCXX_POLY_USE_SYSTEM_MNMLSTC''))
            [Include_file system] [Include_file own],
          Line ''namespace bsoncxx {'', Line ''namespace stdx {''] @ map Line used @ [Line ''}'', Line ''}''])
        others]"

lemma stdx_header_parts:
  assumes "(h, own, system, used) \<in> set stdx_headers"
  obtains others where "h = [Pragma ''once''] @ prelude Bsoncxx @ core_polyfill own system used others @ postlude Bsoncxx"
  using assms
  by (auto simp: stdx_headers_def stdx_optional_hpp_def stdx_string_view_hpp_def stdx_make_unique_hpp_def
      core_polyfill_def prelude_def postlude_def)

lemma run_lines: "run inc (map Line ls) s = s\<lparr>lines_out := lines_out s @ ls\<rparr>"
  by (induction ls arbitrary: s) simp_all



end
