(* ===== verification/Compat_Headers.thy ===== *)
theory Compat_Headers
  imports Preprocessor
begin

text \<open>
  The headers of the C libraries that choose by the platform which macros there are: bson-compat.h, the
  thread interface of mongoc-thread-private.h and the workarounds of utlist.h for compilers without
  \<^verbatim>\<open>decltype\<close>. A function that a header defines stands as a line with its name; what
  the functions do is in \<open>Platform\<close>.
\<close>

section \<open>bson-compat.h\<close>

definition mingw_stdio :: "directive list" where
  "mingw_stdio =
     [Ifdef ''__MINGW32__''
        [Ifdef ''__USE_MINGW_ANSI_STDIO''
           [If_group (Neg (At_least ''__USE_MINGW_ANSI_STDIO'' 1))
              [Error_line ''__USE_MINGW_ANSI_STDIO > 0 is required for correct PRI* macros''] []]
           [Define ''__USE_MINGW_ANSI_STDIO'' (Number 1)]]
        []]"

definition windows_headers :: "directive list" where
  "windows_headers =
     [Ifdef ''BSON_OS_WIN32''
        [If_group (Both (Defined ''_WIN32_WINNT'') (Neg (At_least ''_WIN32_WINNT'' 0x0600)))
           [Undef ''_WIN32_WINNT''] [],
         Ifndef ''_WIN32_WINNT'' [Define ''_WIN32_WINNT'' (Number 0x0600)],
         Ifndef ''NOMINMAX'' [Define ''NOMINMAX'' (Expands_to '''')],
         Include_file ''winsock2.h'',
         If_group (Neg (Defined ''WIN32_LEAN_AND_MEAN''))
           [Define ''WIN32_LEAN_AND_MEAN'' (Expands_to ''''), Include_file ''windows.h'',
            Undef ''WIN32_LEAN_AND_MEAN'']
           [Include_file ''windows.h''],
         Include_file ''direct.h'', Include_file ''io.h'']
        []]"

definition unix_headers :: "directive list" where
  "unix_headers = [Ifdef ''BSON_OS_UNIX'' [Include_file ''unistd.h'', Include_file ''sys/time.h''] []]"

definition standard_headers :: "directive list" where
  "standard_headers =
     [Include_file ''bson-macros.h'', Include_file ''errno.h'', Include_file ''ctype.h'',
      Include_file ''limits.h'', Include_file ''fcntl.h'', Include_file ''sys/stat.h'',
      Include_file ''stdio.h'', Include_file ''stdlib.h'', Include_file ''string.h'', Include_file ''time.h'']"

definition integer_types :: "directive list" where
  "integer_types =
     [Ifdef ''_MSC_VER''
        [Include_file ''bson-stdint-win32.h'',
         If_group (Neg (Defined ''__cplusplus''))
           [Pragma ''warning (disable :4142)'',
            Ifndef ''_SSIZE_T_DEFINED''
              [Define ''_SSIZE_T_DEFINED'' (Expands_to ''''), Line ''typedef SSIZE_T ssize_t;''],
            Line ''typedef SIZE_T size_t;'', Pragma ''warning (default :4142)'']
           [Pragma ''warning (disable :4142)'',
            Ifndef ''_SSIZE_T_DEFINED''
              [Define ''_SSIZE_T_DEFINED'' (Expands_to ''''), Line ''typedef SSIZE_T ssize_t;''],
            Pragma ''warning (default :4142)''],
         Define ''PRIi32'' (Expands_to ''\"d\"''), Define ''PRId32'' (Expands_to ''\"d\"''),
         Define ''PRIu32'' (Expands_to ''\"u\"''), Define ''PRIi64'' (Expands_to ''\"I64i\"''),
         Define ''PRId64'' (Expands_to ''\"I64i\"''), Define ''PRIu64'' (Expands_to ''\"I64u\"'')]
        [Include_file ''bson-stdint.h'', Include_file ''inttypes.h'']]"

definition mingw_once :: "directive list" where
  "mingw_once =
     [If_group (Both (Defined ''__MINGW32__'') (Neg (Defined ''INIT_ONCE_STATIC_INIT'')))
        [Define ''INIT_ONCE_STATIC_INIT'' (Expands_to ''RTL_RUN_ONCE_INIT''),
         Line ''typedef RTL_RUN_ONCE INIT_ONCE;'']
        []]"

definition bool_type :: "directive list" where
  "bool_type =
     [Ifdef ''BSON_HAVE_STDBOOL_H''
        [Include_file ''stdbool.h'']
        [Ifndef ''__bool_true_false_are_defined''
           [Ifndef ''__cplusplus''
              [Line ''typedef signed char bool;'', Define ''false'' (Number 0), Define ''true'' (Number 1)],
            Define ''__bool_true_false_are_defined'' (Number 1)]]]"

definition sync_macro :: "directive list" where
  "sync_macro =
     [Ifdef ''__GNUC__''
        [If_group (Either (At_least ''__GNUC__'' 5)
             (Both (Both (At_least ''__GNUC__'' 4) (Neg (At_least ''__GNUC__'' 5))) (At_least ''__GNUC_MINOR__'' 1)))
           [Define ''bson_sync_synchronize'' (Takes [] ''__sync_synchronize()'')]
           [If_group (Either (Defined ''__i386__'') (Either (Defined ''__i486__'') (Either (Defined ''__i586__'')
                (Either (Defined ''__i686__'') (Defined ''__x86_64__'')))))
              [Define ''bson_sync_synchronize'' (Takes [] ''asm volatile(\"mfence\":::\"memory\")'')]
              [Define ''bson_sync_synchronize'' (Takes [] ''asm volatile(\"sync\":::\"memory\")'')]]]
        [Ifdef ''_MSC_VER'' [Define ''bson_sync_synchronize'' (Takes [] ''MemoryBarrier()'')] []]]"

definition va_copy_macro :: "directive list" where
  "va_copy_macro =
     [If_group (Both (Neg (Defined ''va_copy'')) (Defined ''_MSC_VER''))
        [Define ''va_copy'' (Takes [''dst'', ''src''] ''((dst) = (src))'')] [],
      If_group (Both (Neg (Defined ''va_copy'')) (Both (Defined ''__GNUC__'') (Neg (At_least ''__GNUC__'' 3))))
        [Define ''va_copy'' (Takes [''dst'', ''src''] ''__va_copy(dst, src)'')] []]"

definition bson_compat_h :: "directive list" where
  "bson_compat_h =
     [Ifndef ''BSON_COMPAT_H''
        ([Define ''BSON_COMPAT_H'' (Expands_to ''''),
          If_group (Both (Neg (Defined ''BSON_INSIDE'')) (Neg (Defined ''BSON_COMPILATION'')))
            [Error_line ''Only <bson.h> can be included directly.''] []] @
         mingw_stdio @ [Include_file ''bson-config.h'', Include_file ''bson-macros.h''] @
         windows_headers @ unix_headers @ standard_headers @ [Line ''BSON_BEGIN_DECLS''] @
         integer_types @ mingw_once @ bool_type @ sync_macro @ va_copy_macro @ [Line ''BSON_END_DECLS''])]"

section \<open>mongoc-thread-private.h\<close>

definition posix_thread_macros :: "directive list" where
  "posix_thread_macros =
     [Include_file ''pthread.h'',
      Define ''MONGOC_MUTEX_INITIALIZER'' (Expands_to ''PTHREAD_MUTEX_INITIALIZER''),
      Define ''mongoc_cond_t'' (Expands_to ''pthread_cond_t''),
      Define ''mongoc_cond_broadcast'' (Expands_to ''pthread_cond_broadcast''),
      Define ''mongoc_cond_init'' (Takes [''_n''] ''pthread_cond_init((_n), NULL)''),
      Define ''mongoc_cond_wait'' (Expands_to ''pthread_cond_wait''),
      Define ''mongoc_cond_signal'' (Expands_to ''pthread_cond_signal''),
      Line ''mongoc_cond_timedwait'',
      Define ''mongoc_cond_destroy'' (Expands_to ''pthread_cond_destroy''),
      Define ''mongoc_mutex_t'' (Expands_to ''pthread_mutex_t''),
      Define ''mongoc_mutex_init'' (Takes [''_n''] ''pthread_mutex_init((_n), NULL)''),
      Define ''mongoc_mutex_lock'' (Expands_to ''pthread_mutex_lock''),
      Define ''mongoc_mutex_unlock'' (Expands_to ''pthread_mutex_unlock''),
      Define ''mongoc_mutex_destroy'' (Expands_to ''pthread_mutex_destroy''),
      Define ''mongoc_thread_t'' (Expands_to ''pthread_t''),
      Define ''mongoc_thread_create'' (Takes [''_t'', ''_f'', ''_d''] ''pthread_create((_t), NULL, (_f), (_d))''),
      Define ''mongoc_thread_join'' (Takes [''_n''] ''pthread_join((_n), NULL)''),
      Define ''mongoc_once_t'' (Expands_to ''pthread_once_t''),
      Define ''mongoc_once'' (Expands_to ''pthread_once''),
      Define ''MONGOC_ONCE_FUN'' (Takes [''n''] ''void n(void)''),
      Define ''MONGOC_ONCE_RETURN'' (Expands_to ''return''),
      Ifdef ''_PTHREAD_ONCE_INIT_NEEDS_BRACES''
        [Define ''MONGOC_ONCE_INIT'' (Expands_to ''{PTHREAD_ONCE_INIT}'')]
        [Define ''MONGOC_ONCE_INIT'' (Expands_to ''PTHREAD_ONCE_INIT'')]]"

definition windows_thread_macros :: "directive list" where
  "windows_thread_macros =
     [Define ''mongoc_thread_t'' (Expands_to ''HANDLE''),
      Line ''mongoc_thread_create'',
      Define ''mongoc_thread_join'' (Takes [''_n''] ''WaitForSingleObject((_n), INFINITE)''),
      Define ''mongoc_mutex_t'' (Expands_to ''CRITICAL_SECTION''),
      Define ''mongoc_mutex_init'' (Expands_to ''InitializeCriticalSection''),
      Define ''mongoc_mutex_lock'' (Expands_to ''EnterCriticalSection''),
      Define ''mongoc_mutex_unlock'' (Expands_to ''LeaveCriticalSection''),
      Define ''mongoc_mutex_destroy'' (Expands_to ''DeleteCriticalSection''),
      Define ''mongoc_cond_t'' (Expands_to ''CONDITION_VARIABLE''),
      Define ''mongoc_cond_init'' (Expands_to ''InitializeConditionVariable''),
      Define ''mongoc_cond_wait'' (Takes [''_c'', ''_m''] ''mongoc_cond_timedwait((_c), (_m), INFINITE)''),
      Line ''mongoc_cond_timedwait'',
      Define ''mongoc_cond_signal'' (Expands_to ''WakeConditionVariable''),
      Define ''mongoc_cond_broadcast'' (Expands_to ''WakeAllConditionVariable''),
      Line ''mongoc_cond_destroy'',
      Define ''mongoc_once_t'' (Expands_to ''INIT_ONCE''),
      Define ''MONGOC_ONCE_INIT'' (Expands_to ''INIT_ONCE_STATIC_INIT''),
      Define ''mongoc_once'' (Takes [''o'', ''c''] ''InitOnceExecuteOnce(o, c, NULL, NULL)''),
      Define ''MONGOC_ONCE_FUN'' (Takes [''n'']
        ''BOOL CALLBACK n(PINIT_ONCE _ignored_a, PVOID _ignored_b, PVOID *_ignored_c)''),
      Define ''MONGOC_ONCE_RETURN'' (Expands_to ''return true'')]"

definition thread_macros :: "directive list" where
  "thread_macros = [If_group (Neg (Defined ''_WIN32'')) posix_thread_macros windows_thread_macros]"

text \<open>A name can be used if it is a macro or a function of the header.\<close>

definition offered :: "pp \<Rightarrow> string \<Rightarrow> bool" where
  "offered s n \<longleftrightarrow> macro_of s n \<noteq> None \<or> n \<in> set (lines_out s)"

section \<open>utlist.h\<close>

definition utlist_decltype :: "directive list" where
  "utlist_decltype =
     [Ifdef ''_MSC_VER''
        [If_group (Both (At_least ''_MSC_VER'' 1600) (Defined ''__cplusplus''))
           [Define ''LDECLTYPE'' (Takes [''x''] ''decltype(x)'')]
           [Define ''NO_DECLTYPE'' (Expands_to ''''), Define ''LDECLTYPE'' (Takes [''x''] ''char*'')]]
        [Ifdef ''__ICCARM__''
           [Define ''NO_DECLTYPE'' (Expands_to ''''), Define ''LDECLTYPE'' (Takes [''x''] ''char*'')]
           [Define ''LDECLTYPE'' (Takes [''x''] ''__typeof(x)'')]]]"

definition utlist_accessors :: "directive list" where
  "utlist_accessors =
     [Ifdef ''NO_DECLTYPE''
        [Define ''_SV'' (Takes [''elt'', ''list'']
           ''_tmp = (char*)(list); {char **_alias = (char**)&(list); *_alias = (elt); }''),
         Define ''_NEXT'' (Takes [''elt'', ''list'', ''next''] ''((char*)((list)->next))''),
         Define ''_NEXTASGN'' (Takes [''elt'', ''list'', ''to'', ''next'']
           ''{ char **_alias = (char**)&((list)->next); *_alias=(char*)(to); }''),
         Define ''_PREVASGN'' (Takes [''elt'', ''list'', ''to'', ''prev'']
           ''{ char **_alias = (char**)&((list)->prev); *_alias=(char*)(to); }''),
         Define ''_RS'' (Takes [''list''] ''{ char **_alias = (char**)&(list); *_alias=_tmp; }''),
         Define ''_CASTASGN'' (Takes [''a'', ''b''] ''{ char **_alias = (char**)&(a); *_alias=(char*)(b); }'')]
        [Define ''_SV'' (Takes [''elt'', ''list''] ''''),
         Define ''_NEXT'' (Takes [''elt'', ''list'', ''next''] ''((elt)->next)''),
         Define ''_NEXTASGN'' (Takes [''elt'', ''list'', ''to'', ''next''] ''((elt)->next)=(to)''),
         Define ''_PREVASGN'' (Takes [''elt'', ''list'', ''to'', ''prev''] ''((elt)->prev)=(to)''),
         Define ''_RS'' (Takes [''list''] ''''),
         Define ''_CASTASGN'' (Takes [''a'', ''b''] ''(a)=(b)'')]]"

definition utlist_replacements :: "directive list" where
  "utlist_replacements =
     [Ifdef ''NO_DECLTYPE''
        [Undef ''LL_APPEND'', Define ''LL_APPEND'' (Expands_to ''LL_APPEND_VS2008''),
         Undef ''LL_DELETE'', Define ''LL_DELETE'' (Expands_to ''LL_DELETE_VS2008''),
         Undef ''LL_DELETE2'', Define ''LL_DELETE2'' (Expands_to ''LL_DELETE2_VS2008''),
         Undef ''LL_APPEND2'', Define ''LL_APPEND2'' (Expands_to ''LL_APPEND2_VS2008''),
         Undef ''LL_CONCAT'', Undef ''DL_CONCAT'']
        []]"

section \<open>Properties\<close>

text \<open>The platform as the compiler and bson-config.h describe it, which the included files do not change.\<close>

definition platform_names :: "string list" where
  "platform_names =
     [''BSON_OS_WIN32'', ''BSON_INSIDE'', ''BSON_COMPILATION'', ''BSON_COMPAT_H'', ''BSON_HAVE_STDBOOL_H'', ''__MINGW32__'',
      ''_MSC_VER'', ''__GNUC__'', ''__GNUC_MINOR__'', ''__cplusplus'', ''_WIN32_WINNT'', ''NOMINMAX'', ''WIN32_LEAN_AND_MEAN'',
      ''va_copy'', ''PRIu64'', ''__bool_true_false_are_defined'', ''bson_sync_synchronize'']"

definition plain_files :: "file_effect \<Rightarrow> bool" where
  "plain_files inc \<longleftrightarrow> (\<forall>n \<in> set platform_names. keeps_macro inc n)"

lemma plain_files_keep: "plain_files inc \<Longrightarrow> n \<in> set platform_names \<Longrightarrow> keeps_macro inc n"
  by (simp add: plain_files_def)

lemmas compat_parts =
  mingw_stdio_def windows_headers_def unix_headers_def standard_headers_def integer_types_def mingw_once_def
  bool_type_def sync_macro_def va_copy_macro_def

lemma windows_headers_leave:
  assumes "plain_files inc" "t = run inc windows_headers s" "macro_of s ''BSON_OS_WIN32'' \<noteq> None"
  shows "0x0600 \<le> number_of (macro_of t ''_WIN32_WINNT'')" "macro_of t ''NOMINMAX'' \<noteq> None"
    "macro_of t ''WIN32_LEAN_AND_MEAN'' = macro_of s ''WIN32_LEAN_AND_MEAN''"
proof -
  note keep = plain_files_keep [OF assms(1)]
  have names: "keeps_macro inc ''_WIN32_WINNT''" "keeps_macro inc ''NOMINMAX''" "keeps_macro inc ''WIN32_LEAN_AND_MEAN''"
    by (rule keep; simp add: platform_names_def)+
  let ?version = "[If_group (Both (Defined ''_WIN32_WINNT'') (Neg (At_least ''_WIN32_WINNT'' 0x0600))) [Undef ''_WIN32_WINNT''] [],
    Ifndef ''_WIN32_WINNT'' [Define ''_WIN32_WINNT'' (Number 0x0600)]]"
  let ?nominmax = "Ifndef ''NOMINMAX'' [Define ''NOMINMAX'' (Expands_to [])]"
  let ?lean = "If_group (Neg (Defined ''WIN32_LEAN_AND_MEAN''))
    [Define ''WIN32_LEAN_AND_MEAN'' (Expands_to []), Include_file ''windows.h'', Undef ''WIN32_LEAN_AND_MEAN'']
    [Include_file ''windows.h'']"
  let ?rest = "[Include_file ''direct.h'', Include_file ''io.h'']"
  have t: "t = run inc (?version @ ?nominmax # Include_file ''winsock2.h'' # ?lean # ?rest) s"
    unfolding assms(2) windows_headers_def append_Cons append_Nil
    by (rule run_ifdef [OF assms(3)])
  have "0x0600 \<le> number_of (macro_of (run inc ?version s) ''_WIN32_WINNT'')"
    by (auto simp: number_of_def)
  then show "0x0600 \<le> number_of (macro_of t ''_WIN32_WINNT'')"
    unfolding t run_append by (subst untouched(2) [OF names(1)]) simp_all
  show "macro_of t ''NOMINMAX'' \<noteq> None"
    unfolding t run_split by (subst untouched(2) [OF names(2)]) auto
  let ?before = "run inc (?version @ [?nominmax, Include_file ''winsock2.h'']) s"
  have "macro_of ?before ''WIN32_LEAN_AND_MEAN'' = macro_of s ''WIN32_LEAN_AND_MEAN''"
    by (rule untouched(2) [OF names(3)]) simp
  moreover have "macro_of (exec inc ?lean t') ''WIN32_LEAN_AND_MEAN'' = macro_of t' ''WIN32_LEAN_AND_MEAN''" for t'
    using names(3) by (auto simp: keeps_macro_def)
  moreover have "t = run inc ?rest (exec inc ?lean ?before)"
    unfolding t by (simp only: run_append run.simps)
  moreover have "macro_of (run inc ?rest t') ''WIN32_LEAN_AND_MEAN'' = macro_of t' ''WIN32_LEAN_AND_MEAN''" for t'
    by (rule untouched(2) [OF names(3)]) simp
  ultimately show "macro_of t ''WIN32_LEAN_AND_MEAN'' = macro_of s ''WIN32_LEAN_AND_MEAN''"
    by (simp only:)
qed

lemma other_platforms_leave:
  assumes "plain_files inc" "macro_of s ''BSON_OS_WIN32'' = None"
  shows "run inc windows_headers s = s"
  using assms(2) by (simp add: windows_headers_def)

lemma va_copy_defined:
  "macro_of s ''_MSC_VER'' \<noteq> None \<or> macro_of s ''__GNUC__'' \<noteq> None \<and> number_of (macro_of s ''__GNUC__'') < 3 \<Longrightarrow>
   macro_of (run inc va_copy_macro s) ''va_copy'' \<noteq> None"
  by (auto simp: va_copy_macro_def)

lemma bool_defined:
  "macro_of s ''BSON_HAVE_STDBOOL_H'' = None \<Longrightarrow>
   macro_of (run inc bool_type s) ''__bool_true_false_are_defined'' \<noteq> None"
  by (auto simp: bool_type_def)

definition thread_names :: "string list" where
  "thread_names =
     [''mongoc_cond_t'', ''mongoc_cond_broadcast'', ''mongoc_cond_init'', ''mongoc_cond_wait'', ''mongoc_cond_signal'',
      ''mongoc_cond_timedwait'', ''mongoc_cond_destroy'', ''mongoc_mutex_t'', ''mongoc_mutex_init'', ''mongoc_mutex_lock'',
      ''mongoc_mutex_unlock'', ''mongoc_mutex_destroy'', ''mongoc_thread_t'', ''mongoc_thread_create'', ''mongoc_thread_join'',
      ''mongoc_once_t'', ''mongoc_once'', ''MONGOC_ONCE_FUN'', ''MONGOC_ONCE_RETURN'', ''MONGOC_ONCE_INIT'']"

lemma windows_threads: "\<forall>n \<in> set thread_names. offered (run inc windows_thread_macros s) n"
  by (simp add: thread_names_def windows_thread_macros_def offered_def)

text \<open>bson-compat.h on its first inclusion, with the part for Windows in the middle.\<close>

definition before_windows :: "directive list" where
  "before_windows =
     [Define ''BSON_COMPAT_H'' (Expands_to ''''),
      If_group (Both (Neg (Defined ''BSON_INSIDE'')) (Neg (Defined ''BSON_COMPILATION'')))
        [Error_line ''Only <bson.h> can be included directly.''] []] @
     mingw_stdio @ [Include_file ''bson-config.h'', Include_file ''bson-macros.h'']"

definition after_windows :: "directive list" where
  "after_windows =
     unix_headers @ standard_headers @ [Line ''BSON_BEGIN_DECLS''] @ integer_types @ mingw_once"

lemma run_compat:
  assumes "macro_of s ''BSON_COMPAT_H'' = None"
  shows "run inc bson_compat_h s =
    run inc (va_copy_macro @ [Line ''BSON_END_DECLS'']) (run inc sync_macro (run inc bool_type (run inc after_windows
      (run inc windows_headers (run inc before_windows s)))))"
  using assms by (simp add: bson_compat_h_def before_windows_def after_windows_def run_append)

lemma compat_untouched:
  assumes "plain_files inc" "n \<in> set platform_names"
  shows "n \<noteq> ''BSON_COMPAT_H'' \<Longrightarrow> macro_of (run inc before_windows s) n = macro_of s n"
    and "n \<noteq> ''_SSIZE_T_DEFINED'' \<Longrightarrow> n \<noteq> ''PRIu64'' \<Longrightarrow> macro_of (run inc after_windows s) n = macro_of s n"
    and "n \<noteq> ''__bool_true_false_are_defined'' \<Longrightarrow> macro_of (run inc bool_type s) n = macro_of s n"
    and "n \<noteq> ''bson_sync_synchronize'' \<Longrightarrow> macro_of (run inc sync_macro s) n = macro_of s n"
    and "n \<noteq> ''va_copy'' \<Longrightarrow> macro_of (run inc (va_copy_macro @ [Line l]) s) n = macro_of s n"
    and "n \<notin> {''_WIN32_WINNT'', ''NOMINMAX'', ''WIN32_LEAN_AND_MEAN''} \<Longrightarrow> macro_of (run inc windows_headers s) n = macro_of s n"
  by (rule untouched(2) [OF plain_files_keep [OF assms]];
      use assms(2) in \<open>auto simp: platform_names_def before_windows_def after_windows_def compat_parts\<close>)+

lemma posix_threads: "\<forall>n \<in> set thread_names. offered (run inc posix_thread_macros s) n"
  by (simp add: thread_names_def posix_thread_macros_def offered_def)

text \<open>
  What the C libraries can rely on after bson-compat.h, whatever the program had defined: on Windows a
  version of at least Vista, no \<^verbatim>\<open>min\<close> macros, and
  \<^verbatim>\<open>WIN32_LEAN_AND_MEAN\<close> as before; \<^verbatim>\<open>va_copy\<close> with the compilers
  that lack it; a type \<^verbatim>\<open>bool\<close> without stdbool.h. A second inclusion does nothing. The
  thread interface has the same names on POSIX and on Windows, except that a mutex can only be initialised
  statically on POSIX.
\<close>

theorem platform_headers_provide:
  assumes "plain_files inc" and "macro_of s ''BSON_COMPAT_H'' = None" and "after = run inc bson_compat_h s"
  shows "(macro_of s ''BSON_OS_WIN32'' \<noteq> None \<longrightarrow>
           0x0600 \<le> number_of (macro_of after ''_WIN32_WINNT'') \<and> macro_of after ''NOMINMAX'' \<noteq> None) \<and>
         macro_of after ''WIN32_LEAN_AND_MEAN'' = macro_of s ''WIN32_LEAN_AND_MEAN'' \<and>
         (macro_of s ''_MSC_VER'' \<noteq> None \<or> macro_of s ''__GNUC__'' \<noteq> None \<and> number_of (macro_of s ''__GNUC__'') < 3 \<longrightarrow>
           macro_of after ''va_copy'' \<noteq> None) \<and>
         (macro_of s ''BSON_HAVE_STDBOOL_H'' = None \<longrightarrow> macro_of after ''__bool_true_false_are_defined'' \<noteq> None) \<and>
         run inc bson_compat_h after = after \<and>
         (\<forall>n \<in> set thread_names. offered (run inc thread_macros t) n) \<and>
         (offered (run inc thread_macros t) ''MONGOC_MUTEX_INITIALIZER'' \<longleftrightarrow>
            macro_of t ''_WIN32'' = None \<or> offered t ''MONGOC_MUTEX_INITIALIZER'')"
proof -
  note keep = compat_untouched [OF assms(1)]
  let ?s1 = "run inc before_windows s"
  let ?s2 = "run inc windows_headers ?s1"
  let ?s3 = "run inc after_windows ?s2"
  let ?s4 = "run inc bool_type ?s3"
  let ?s5 = "run inc sync_macro ?s4"
  have after: "after = run inc (va_copy_macro @ [Line ''BSON_END_DECLS'']) ?s5"
    using assms(3) run_compat [OF assms(2)] by simp
  have names: "n \<in> set platform_names"
    if "n \<in> {''BSON_OS_WIN32'', ''_MSC_VER'', ''__GNUC__'', ''BSON_HAVE_STDBOOL_H'', ''_WIN32_WINNT'', ''NOMINMAX'',
      ''WIN32_LEAN_AND_MEAN'', ''__bool_true_false_are_defined'', ''va_copy''}" for n
    using that by (auto simp: platform_names_def)
  have windows: "0x0600 \<le> number_of (macro_of after ''_WIN32_WINNT'')" "macro_of after ''NOMINMAX'' \<noteq> None"
    if "macro_of s ''BSON_OS_WIN32'' \<noteq> None"
    using windows_headers_leave [OF assms(1) refl, of ?s1] that
    by (simp_all add: after keep names)
  have lean: "macro_of after ''WIN32_LEAN_AND_MEAN'' = macro_of s ''WIN32_LEAN_AND_MEAN''"
    using windows_headers_leave(3) [OF assms(1) refl, of ?s1] other_platforms_leave [OF assms(1), of ?s1]
    by (cases "macro_of s ''BSON_OS_WIN32'' = None") (simp_all add: after keep names)
  have copy: "macro_of after ''va_copy'' \<noteq> None"
    if "macro_of s ''_MSC_VER'' \<noteq> None \<or> macro_of s ''__GNUC__'' \<noteq> None \<and> number_of (macro_of s ''__GNUC__'') < 3"
    using va_copy_defined [of ?s5 inc] that by (simp add: after run_append keep names)
  have bools: "macro_of after ''__bool_true_false_are_defined'' \<noteq> None"
    if "macro_of s ''BSON_HAVE_STDBOOL_H'' = None"
    using bool_defined [of ?s3 inc] that by (simp add: after keep names)
  have guard: "run inc bson_compat_h after = after"
    unfolding assms(3)
  proof (rule include_guard [OF bson_compat_h_def [unfolded append_Cons]])
    show "keeps_macro inc ''BSON_COMPAT_H''"
      by (rule plain_files_keep [OF assms(1)]) (simp add: platform_names_def)
  qed (simp add: compat_parts)
  have threads: "\<forall>n \<in> set thread_names. offered (run inc thread_macros t) n"
    using posix_threads windows_threads by (simp add: thread_macros_def)
  have initializer: "offered (run inc thread_macros t) ''MONGOC_MUTEX_INITIALIZER'' \<longleftrightarrow>
      macro_of t ''_WIN32'' = None \<or> offered t ''MONGOC_MUTEX_INITIALIZER''"
    by (cases "macro_of t ''_WIN32'' = None")
      (auto simp: thread_macros_def posix_thread_macros_def windows_thread_macros_def offered_def)
  show ?thesis
    using windows lean copy bools guard threads initializer by blast
qed

definition bare :: pp where
  "bare = \<lparr>macro_of = Map.empty, pushed = (\<lambda>n. []), warning_depth = 0, lines_out = [], included = [], errors = []\<rparr>"

theorem platform_headers_provide_witness:
  "run (\<lambda>f t. t) bson_compat_h (run (\<lambda>f t. t) bson_compat_h bare) = run (\<lambda>f t. t) bson_compat_h bare"
  using platform_headers_provide [OF _ _ refl, of "\<lambda>f t. t" bare]
  by (simp add: plain_files_def keeps_macro_def bare_def)

section \<open>utlist.h without decltype\<close>

lemma decltype_missing:
  "macro_of s ''NO_DECLTYPE'' = None \<Longrightarrow>
   macro_of (run inc utlist_decltype s) ''NO_DECLTYPE'' \<noteq> None \<longleftrightarrow>
     (if macro_of s ''_MSC_VER'' = None then macro_of s ''__ICCARM__'' \<noteq> None
      else number_of (macro_of s ''_MSC_VER'') < 1600 \<or> macro_of s ''__cplusplus'' = None)"
  by (auto simp: utlist_decltype_def)

text \<open>The macros that concatenate are removed, but not those that take the name of the link field, which
  need the type of the list as well.\<close>

lemma concatenation_missing:
  assumes "macro_of s ''NO_DECLTYPE'' \<noteq> None"
  shows "macro_of (run inc utlist_replacements s) ''LL_CONCAT'' = None"
    "macro_of (run inc utlist_replacements s) ''DL_CONCAT'' = None"
    "macro_of (run inc utlist_replacements s) ''LL_CONCAT2'' = macro_of s ''LL_CONCAT2''"
    "macro_of (run inc utlist_replacements s) ''DL_CONCAT2'' = macro_of s ''DL_CONCAT2''"
  using assms by (auto simp: utlist_replacements_def)

end
