(* ===== verification/Tracing.thy ===== *)
theory Tracing
  imports Prelude "HOL-Library.Sublist"
begin

text \<open>
  The logging macros of mongoc-log.h and the tracing macros of mongoc-trace.h, which are either calls of
  the logger or nothing but the control transfer. The logger is compiled code: what a call of it does to
  the program's state is a parameter.
\<close>

section \<open>Calls of the logger\<close>

datatype log_level = Level_error | Level_critical | Level_warning | Level_message | Level_info | Level_debug | Level_trace

datatype log_arg = Text_arg string | Int_arg int | Pointer_arg nat

datatype log_call =
    mongoc_log log_level string string "log_arg list"
  | mongoc_log_trace_bytes string nat u64
  | mongoc_log_trace_iovec string nat u64

text \<open>The domain is \<^verbatim>\<open>"mongoc"\<close> unless the source file has defined another before the include.\<close>

definition MONGOC_LOG_DOMAIN :: "string option \<Rightarrow> string" where
  "MONGOC_LOG_DOMAIN own = (case own of None \<Rightarrow> ''mongoc'' | Some d \<Rightarrow> d)"

definition MONGOC_ERROR :: "string option \<Rightarrow> string \<Rightarrow> log_arg list \<Rightarrow> log_call" where
  "MONGOC_ERROR own = mongoc_log Level_error (MONGOC_LOG_DOMAIN own)"

definition MONGOC_CRITICAL :: "string option \<Rightarrow> string \<Rightarrow> log_arg list \<Rightarrow> log_call" where
  "MONGOC_CRITICAL own = mongoc_log Level_critical (MONGOC_LOG_DOMAIN own)"

definition MONGOC_WARNING :: "string option \<Rightarrow> string \<Rightarrow> log_arg list \<Rightarrow> log_call" where
  "MONGOC_WARNING own = mongoc_log Level_warning (MONGOC_LOG_DOMAIN own)"

definition MONGOC_MESSAGE :: "string option \<Rightarrow> string \<Rightarrow> log_arg list \<Rightarrow> log_call" where
  "MONGOC_MESSAGE own = mongoc_log Level_message (MONGOC_LOG_DOMAIN own)"

definition MONGOC_INFO :: "string option \<Rightarrow> string \<Rightarrow> log_arg list \<Rightarrow> log_call" where
  "MONGOC_INFO own = mongoc_log Level_info (MONGOC_LOG_DOMAIN own)"

definition MONGOC_DEBUG :: "string option \<Rightarrow> string \<Rightarrow> log_arg list \<Rightarrow> log_call" where
  "MONGOC_DEBUG own = mongoc_log Level_debug (MONGOC_LOG_DOMAIN own)"

section \<open>Statements\<close>

text \<open>
  An expression has a value and may change the state. A statement changes the state, makes calls of the
  logger, and lets the program go on, return or jump. \<open>env\<close> says whether \<^verbatim>\<open>MONGOC_TRACE\<close>
  is defined, where the statement stands, and what the logger does.
\<close>

type_synonym ('s, 'v) expr = "'s \<Rightarrow> 'v \<times> 's"

datatype 'r stmt_outcome = Goes_on | Returns "'r option" | Jumps_to string

type_synonym ('s, 'r) stmt = "'s \<Rightarrow> 's \<times> log_call list \<times> 'r stmt_outcome"

record 's trace_env =
  traced :: bool
  own_domain :: "string option"
  func_name :: string
  line_number :: int
  logger :: "log_call \<Rightarrow> 's \<Rightarrow> 's"

definition no_statement :: "('s, 'r) stmt" where
  "no_statement s = (s, [], Goes_on)"

definition call_logger :: "'s trace_env \<Rightarrow> log_call \<Rightarrow> ('s, 'r) stmt" where
  "call_logger env c s = (logger env c s, [c], Goes_on)"

definition then_do :: "('s, 'r) stmt \<Rightarrow> ('s, 'r) stmt \<Rightarrow> ('s, 'r) stmt" where
  "then_do a b s =
     (case a s of
        (t, calls, Goes_on) \<Rightarrow> (case b t of (u, more_calls, out) \<Rightarrow> (u, calls @ more_calls, out))
      | stopped \<Rightarrow> stopped)"

definition with_value :: "('s, 'v) expr \<Rightarrow> ('v \<Rightarrow> ('s, 'r) stmt) \<Rightarrow> ('s, 'r) stmt" where
  "with_value e f s = (case e s of (v, t) \<Rightarrow> f v t)"

definition return_void :: "('s, 'r) stmt" where
  "return_void s = (s, [], Returns None)"

definition return_value :: "('s, 'r) expr \<Rightarrow> ('s, 'r) stmt" where
  "return_value e s = (case e s of (v, t) \<Rightarrow> (t, [], Returns (Some v)))"

definition goto_label :: "string \<Rightarrow> ('s, 'r) stmt" where
  "goto_label l s = (s, [], Jumps_to l)"

section \<open>The macros\<close>

text \<open>The call with the function, the line and what follows.\<close>

definition trace_log :: "'s trace_env \<Rightarrow> string \<Rightarrow> log_arg list \<Rightarrow> ('s, 'r) stmt" where
  "trace_log env format args =
     call_logger env (mongoc_log Level_trace (MONGOC_LOG_DOMAIN (own_domain env)) format
       ([Text_arg (func_name env), Int_arg (line_number env)] @ args))"

definition TRACE :: "'s trace_env \<Rightarrow> string \<Rightarrow> ('s, log_arg list) expr \<Rightarrow> ('s, 'r) stmt" where
  "TRACE env msg args =
     (if traced env then with_value args (\<lambda>vs. trace_log env (''TRACE: %s():%d '' @ msg) vs) else no_statement)"

definition ENTRY :: "'s trace_env \<Rightarrow> ('s, 'r) stmt" where
  "ENTRY env = (if traced env then trace_log env ''ENTRY: %s():%d'' [] else no_statement)"

definition EXIT :: "'s trace_env \<Rightarrow> ('s, 'r) stmt" where
  "EXIT env = (if traced env then then_do (trace_log env '' EXIT: %s():%d'' []) return_void else return_void)"

definition RETURN :: "'s trace_env \<Rightarrow> ('s, 'r) expr \<Rightarrow> ('s, 'r) stmt" where
  "RETURN env ret =
     (if traced env then then_do (trace_log env '' EXIT: %s():%d'' []) (return_value ret) else return_value ret)"

definition GOTO :: "'s trace_env \<Rightarrow> string \<Rightarrow> ('s, 'r) stmt" where
  "GOTO env label =
     (if traced env then then_do (trace_log env '' GOTO: %s():%d %s'' [Text_arg label]) (goto_label label)
      else goto_label label)"

text \<open>The address and the size are expressions that the macro repeats; the size is cast to \<^verbatim>\<open>int\<close>
  for the message. C leaves the order in which the arguments of a call are evaluated open; here it is from left
  to right, which makes no difference to arguments without effects.\<close>

definition int_cast :: "u64 \<Rightarrow> int" where
  "int_cast n = sint (ucast n :: i32)"

definition DUMP_BYTES :: "'s trace_env \<Rightarrow> string \<Rightarrow> ('s, nat) expr \<Rightarrow> ('s, u64) expr \<Rightarrow> ('s, 'r) stmt" where
  "DUMP_BYTES env name b l =
     (if traced env then
        then_do
          (with_value b (\<lambda>p. with_value l (\<lambda>n.
             trace_log env ''TRACE: %s():%d %s = %p [%d]'' [Text_arg name, Pointer_arg p, Int_arg (int_cast n)])))
          (with_value b (\<lambda>p. with_value l (\<lambda>n. call_logger env (mongoc_log_trace_bytes (MONGOC_LOG_DOMAIN (own_domain env)) p n))))
      else no_statement)"

definition DUMP_IOVEC :: "'s trace_env \<Rightarrow> string \<Rightarrow> ('s, nat) expr \<Rightarrow> ('s, u64) expr \<Rightarrow> ('s, 'r) stmt" where
  "DUMP_IOVEC env name iov iovcnt =
     (if traced env then
        then_do
          (with_value iov (\<lambda>p. with_value iovcnt (\<lambda>n.
             trace_log env ''TRACE: %s():%d %s = %p [%d]'' [Text_arg name, Pointer_arg p, Int_arg (int_cast n)])))
          (with_value iov (\<lambda>p. with_value iovcnt (\<lambda>n. call_logger env (mongoc_log_trace_iovec (MONGOC_LOG_DOMAIN (own_domain env)) p n))))
      else no_statement)"

section \<open>Functions that use the macros\<close>

text \<open>A function is a list of statements, each on its line: C code of its own or one of the macros.\<close>

datatype ('s, 'r) source_stmt =
    C_code "('s, 'r) stmt"
  | Trace string "('s, log_arg list) expr"
  | Entry
  | Exit
  | Return_macro "('s, 'r) expr"
  | Goto_macro string
  | Dump_bytes string "('s, nat) expr" "('s, u64) expr"
  | Dump_iovec string "('s, nat) expr" "('s, u64) expr"

primrec expansion :: "'s trace_env \<Rightarrow> ('s, 'r) source_stmt \<Rightarrow> ('s, 'r) stmt" where
  "expansion env (C_code c) = c"
| "expansion env (Trace msg args) = TRACE env msg args"
| "expansion env Entry = ENTRY env"
| "expansion env Exit = EXIT env"
| "expansion env (Return_macro e) = RETURN env e"
| "expansion env (Goto_macro l) = GOTO env l"
| "expansion env (Dump_bytes n b l) = DUMP_BYTES env n b l"
| "expansion env (Dump_iovec n b l) = DUMP_IOVEC env n b l"

primrec run_function :: "'s trace_env \<Rightarrow> (int \<times> ('s, 'r) source_stmt) list \<Rightarrow> ('s, 'r) stmt" where
  "run_function env [] = no_statement"
| "run_function env (st # sts) =
     then_do (expansion (env\<lparr>line_number := fst st\<rparr>) (snd st)) (run_function env sts)"

text \<open>A jump ends the list: the code behind a label is a list of its own.\<close>

section \<open>Statements that differ only in what they log\<close>

definition logs_less :: "('s, 'r) stmt \<Rightarrow> ('s, 'r) stmt \<Rightarrow> bool" where
  "logs_less b a \<longleftrightarrow>
     (\<forall>s. fst (b s) = fst (a s) \<and> snd (snd (b s)) = snd (snd (a s)) \<and> subseq (fst (snd (b s))) (fst (snd (a s))))"

lemma logs_less_refl: "logs_less a a"
  by (simp add: logs_less_def)

lemma logs_less_then:
  assumes "logs_less b a" "logs_less d c"
  shows "logs_less (then_do b d) (then_do a c)"
  unfolding logs_less_def
proof
  fix s
  obtain t calls out where a: "a s = (t, calls, out)" by (cases "a s")
  moreover obtain calls' where b: "b s = (t, calls', out)" "subseq calls' calls"
    using assms(1) a unfolding logs_less_def by (metis fst_conv snd_conv prod.collapse)
  moreover obtain u more_calls out' where c: "c t = (u, more_calls, out')" by (cases "c t")
  moreover obtain more_calls' where d: "d t = (u, more_calls', out')" "subseq more_calls' more_calls"
    using assms(2) c unfolding logs_less_def by (metis fst_conv snd_conv prod.collapse)
  ultimately show "fst (then_do b d s) = fst (then_do a c s) \<and>
      snd (snd (then_do b d s)) = snd (snd (then_do a c s)) \<and>
      subseq (fst (snd (then_do b d s))) (fst (snd (then_do a c s)))"
    by (cases out) (simp_all add: then_do_def list_emb_append_mono)
qed

definition quiet_logger :: "'s trace_env \<Rightarrow> bool" where
  "quiet_logger env \<longleftrightarrow> (\<forall>c s. logger env c s = s)"

definition pure :: "('s, 'v) expr \<Rightarrow> bool" where
  "pure e \<longleftrightarrow> (\<forall>s. snd (e s) = s)"

lemma pureE:
  assumes "pure e"
  obtains g where "e = (\<lambda>s. (g s, s))"
proof
  show "e = (\<lambda>s. (fst (e s), s))"
    using assms by (auto simp: pure_def fun_eq_iff prod_eq_iff)
qed

primrec pure_arguments :: "('s, 'r) source_stmt \<Rightarrow> bool" where
  "pure_arguments (C_code c) = True"
| "pure_arguments (Trace msg args) = pure args"
| "pure_arguments Entry = True"
| "pure_arguments Exit = True"
| "pure_arguments (Return_macro e) = True"
| "pure_arguments (Goto_macro l) = True"
| "pure_arguments (Dump_bytes n b l) = (pure b \<and> pure l)"
| "pure_arguments (Dump_iovec n b l) = (pure b \<and> pure l)"

lemmas trace_macros =
  TRACE_def ENTRY_def EXIT_def RETURN_def GOTO_def DUMP_BYTES_def DUMP_IOVEC_def trace_log_def call_logger_def
  no_statement_def then_do_def with_value_def return_void_def return_value_def goto_label_def

lemma expansion_logs_less:
  assumes "quiet_logger env" "pure_arguments st"
  shows "logs_less (expansion (env\<lparr>traced := False\<rparr>) st) (expansion (env\<lparr>traced := True\<rparr>) st)"
  using assms by (cases st) (auto simp: logs_less_def trace_macros quiet_logger_def elim!: pureE split: prod.split)

text \<open>The dump of a traced program evaluates its arguments twice, the other not at all.\<close>

lemma dump_evaluates_twice:
  assumes "quiet_logger env" "\<And>s. b s = (p, f s)" "\<And>s. l s = (n, g s)"
  shows "fst (DUMP_BYTES (env\<lparr>traced := True\<rparr>) name b l s) = g (f (g (f s)))"
    "fst (DUMP_BYTES (env\<lparr>traced := False\<rparr>) name b l s) = s"
  using assms by (simp_all add: trace_macros quiet_logger_def)

section \<open>Properties\<close>

text \<open>The calls that \<^verbatim>\<open>ENTRY\<close> and \<^verbatim>\<open>EXIT\<close> make on a line.\<close>

definition entry_call :: "'s trace_env \<Rightarrow> int \<Rightarrow> log_call" where
  "entry_call env l = mongoc_log Level_trace (MONGOC_LOG_DOMAIN (own_domain env)) ''ENTRY: %s():%d'' [Text_arg (func_name env), Int_arg l]"

definition exit_call :: "'s trace_env \<Rightarrow> int \<Rightarrow> log_call" where
  "exit_call env l = mongoc_log Level_trace (MONGOC_LOG_DOMAIN (own_domain env)) '' EXIT: %s():%d'' [Text_arg (func_name env), Int_arg l]"

text \<open>Statements that neither return nor jump but by the macros for returning.\<close>

primrec returns_by_macro :: "('s, 'r) source_stmt \<Rightarrow> bool" where
  "returns_by_macro (C_code c) = (\<forall>s. snd (snd (c s)) = Goes_on)"
| "returns_by_macro (Trace msg args) = True"
| "returns_by_macro Entry = True"
| "returns_by_macro Exit = True"
| "returns_by_macro (Return_macro e) = True"
| "returns_by_macro (Goto_macro l) = False"
| "returns_by_macro (Dump_bytes n b l) = True"
| "returns_by_macro (Dump_iovec n b l) = True"

lemma stops_with_exit:
  assumes "traced env" "returns_by_macro (snd st)"
    and "expansion (env\<lparr>line_number := fst st\<rparr>) (snd st) s = (t, calls, out)" "out \<noteq> Goes_on"
  shows "calls = [exit_call env (fst st)]"
proof (cases "snd st")
  case (C_code c)
  then have "snd (snd (c s)) = Goes_on" using assms(2) by simp
  with assms(3,4) C_code show ?thesis by simp
qed (use assms in \<open>auto simp: trace_macros exit_call_def split: prod.splits\<close>)

lemma run_ends_with_exit:
  assumes "traced env" "list_all (\<lambda>st. returns_by_macro (snd st)) body"
    and "run_function env body s = (t, calls, out)" "out \<noteq> Goes_on"
  shows "\<exists>l \<in> fst ` set body. calls \<noteq> [] \<and> last calls = exit_call env l"
  using assms
proof (induction body arbitrary: s t calls)
  case Nil
  then show ?case by (simp add: no_statement_def)
next
  case (Cons st body)
  obtain u first_calls first_out where st: "expansion (env\<lparr>line_number := fst st\<rparr>) (snd st) s = (u, first_calls, first_out)"
    by (cases "expansion (env\<lparr>line_number := fst st\<rparr>) (snd st) s")
  show ?case
  proof (cases "first_out = Goes_on")
    case True
    obtain v rest_calls rest_out where rest: "run_function env body u = (v, rest_calls, rest_out)"
      by (cases "run_function env body u")
    with st True Cons.prems(3) have calls: "calls = first_calls @ rest_calls" and out: "rest_out = out"
      by (simp_all add: then_do_def)
    from Cons.IH [OF Cons.prems(1) _ rest [unfolded out] Cons.prems(4)] Cons.prems(2) show ?thesis
      by (auto simp: calls)
  next
    case False
    with st Cons.prems(3) have "calls = first_calls" "out = first_out"
      by (auto simp: then_do_def split: stmt_outcome.splits)
    with stops_with_exit [OF Cons.prems(1) _ st False] Cons.prems(2) show ?thesis by simp
  qed
qed


text \<open>A function that counts its calls, traced.\<close>

definition counting_function :: "(int \<times> (nat, nat) source_stmt) list" where
  "counting_function =
     [(10, Entry), (11, C_code (\<lambda>s. (Suc s, [], Goes_on))), (12, Trace ''count %d'' (\<lambda>s. ([Int_arg (int s)], s))),
      (13, Return_macro (\<lambda>s. (s, s)))]"

definition silent :: "nat trace_env" where
  "silent = \<lparr>traced = False, own_domain = None, func_name = ''count'', line_number = 0, logger = (\<lambda>c s. s)\<rparr>"


end
