(* ===== verification/Spec2Isabelle.thy ===== *)
theory Spec2Isabelle
  imports Whole_Program Utlist_Properties String_View Optional_Properties View_Or_Value Bson_Iter
    Memory_Properties Bson_Values Basic_Builder Bcon Bson_Append Counters Layout_Properties Codes
    Bson_Owned Driver_Templates Config_Headers Compat_Headers Tracing
begin

text \<open>
  A model of yrl-feed-parser (src/), which reads real estate feeds in the Yandex YRL format: for each
  agent in a MongoDB collection a thread downloads the agent's feed, an XML push parser calls back for
  every element, each \<^verbatim>\<open>offer\<close> element becomes a tree of nodes, and the tree becomes a BSON
  document in another collection.

  \<^bold>\<open>The program's own code.\<close> Each file has a theory or two; the names of definitions are those of the
  source.

  \<^item> \<open>Prelude\<close>, \<open>Clock\<close>: machine sizes, \<^verbatim>\<open>std::string\<close>, \<^verbatim>\<open>std::istream\<close>, shared
    hints; the calendar time and \<^verbatim>\<open>put_time\<close>.
  \<^item> \<open>Offer_Node\<close> (feed/offer_node.h, .cpp): nodes in an explicit store, children as shared pointers, the
    parent as a weak pointer that is only usable while something holds the parent.
  \<^item> \<open>Sax_Parser\<close>, \<open>Parser_Safety\<close> (feed/parser.h, .cpp): the handlers as functions on the parser
    object and the state of the receiver; \<open>None\<close> is undefined behaviour. The first theory runs them on the
    events of a well-formed feed, the second on any events. The locale \<open>offer_sink\<close> is what the parser
    asks of its receiver.
  \<^item> \<open>Stream_Builder\<close> (bsoncxx/builder/stream, builder/core.hpp): the stream expressions as tokens, the
    static types of the contexts as a type checker, the compiled core as the list of calls it receives,
    with the contract its comments state. The locale \<open>document_writer\<close> is that contract.
  \<^item> \<open>Offer_Builder\<close> (feed/offer_parser.cpp, the functions): the filters and the conversion of a tree,
    with the order of evaluation of \<^verbatim>\<open><<\<close> as a parameter.
  \<^item> \<open>Offer_Collector\<close>, \<open>Worker_Threads\<close> (feed/offer_parser.cpp, the class; the threads of app/main.cpp):
    \<^verbatim>\<open>parse\<close> as one function and as the steps of concurrent threads under the mutex.
  \<^item> \<open>Feed\<close> (feed/feed.cpp): the read loop, the download callback with its mirror file, the paths.
  \<^item> \<open>App_Main\<close> (app/main.cpp): the configuration file, the query, the loop that starts the threads.

  \<^item> \<open>Whole_Program\<close>: the composition. The threads' work is what \<^verbatim>\<open>parse_feed_url\<close> does with a
    callback that writes its calls down; the result is C1.

  How they meet: main starts one job per agent (C20); a job pushes the blocks of its feed (C9 to C11)
  into the handlers, which call the collector once per offer (C2); the collector filters and converts
  (C3, C4) and inserts under its mutex, whatever the interleaving (C5 to C8). C1 is all of it.

  \<^bold>\<open>Code of the libraries that the program compiles from headers\<close> (feed/3pp/include).

  \<^item> \<open>Utlist\<close>, \<open>Utlist_Sort\<close>, \<open>Utlist_Properties\<close> (libmongoc-1.0/utlist.h): the list macros on a store of
    link fields, \<open>None\<close> for a NULL dereference or a loop that does not end, with representation predicates
    \<open>ll\<close>, \<open>dl\<close>, \<open>cdl\<close>. The locale \<open>list_macros\<close> is what the three families have in common.
  \<^item> \<open>String_View\<close> (bsoncxx third_party mnmlstc/core/string.hpp): views of a memory in which addresses may
    be unreadable.
  \<^item> \<open>Core_Optional\<close>, \<open>Core_Expected\<close>, \<open>Core_Compare\<close>, \<open>Optional_Properties\<close> (mnmlstc/core/optional.hpp):
    the union with its flag, constructors that may throw, all comparison operators. The locale
    \<open>error_assignment\<close> is the assignment of an error that the swaps of \<open>expected\<close> and \<open>result\<close> rely on,
    \<open>comparison\<close> the contract of six operators; both are interpreted on the model's classes.
  \<^item> \<open>View_Or_Value\<close> (bsoncxx/view_or_value.hpp): objects at addresses which own a value or view one.
  \<^item> \<open>Core_Memory\<close>, \<open>Memory_Properties\<close> (mnmlstc/core/memory.hpp): the owning pointers on an explicit heap.
    The locale \<open>owning_pointer\<close> derives what assignments do to the ownership from what copying, moving and
    destroying do.
  \<^item> \<open>Bson_Values\<close> (bsoncxx/types.hpp, types/value.hpp, enums): the value types and their equality.
  \<^item> \<open>Bson_Bytes\<close>, \<open>Bson_Oid\<close>, \<open>Bson_Types\<close>, \<open>Bson_Iter\<close> (libbson-1.0/bson-endian.h, bson-oid.h,
    bson-types.h, bson-iter.h): the inline functions on words of their width, for hosts of both byte orders.
  \<^item> \<open>Basic_Builder\<close> (bsoncxx/builder/basic, builder/concatenate.hpp, builder/stream/array.hpp,
    util/functor.hpp): the second way of building a document, with functions that fill sub-documents, on
    the core of \<open>Stream_Builder\<close>; C28 compares the two ways.
  \<^item> \<open>Bson_Owned\<close> (bsoncxx/document/value.hpp, array/value.hpp): the owning buffers, and programs that
    construct, move and destroy them.
  \<^item> \<open>Driver_Templates\<close> (mongocxx/collection.hpp, client.hpp, database.hpp, hint.hpp, exception): all that
    mongocxx compiles into the program.

  \<^bold>\<open>Macros and structures of the C libraries\<close>, of which the headers fix the meaning.

  \<^item> \<open>Bson_Append\<close>, \<open>Bcon\<close> (libbson-1.0/bson.h, bcon.h): the macros as the calls they expand to, with the
    conversions of the arguments; a reader of BCON arguments is the specification.
  \<^item> \<open>Platform\<close> (bson-macros.h, bson-config.h, bson-atomic.h, bson-compat.h, bson-endian.h, the version
    headers, mongoc-thread-private.h): a platform is the macros that are defined, each chain of
    \<^verbatim>\<open>#if\<close> a function of it.
  \<^item> \<open>Counters\<close> (mongoc-counters-private.h, mongoc-counters.defs): the per-processor cells, and threads that
    add concurrently as a step relation.
  \<^item> \<open>C_Layout\<close>, \<open>Bson_Layout\<close>, \<open>Mongoc_Layout\<close>, \<open>Layout_Properties\<close> (bson-types.h, the private headers of
    libmongoc, mongoc-rpc-private.h with op-*.def): structures field by field, laid out for a data model.
  \<^item> \<open>Codes\<close> (mongoc-flags.h, mongoc-error.h, mongoc-opcode.h and the other enumerations): C's rule for
    their numbers. The locale \<open>flag_set\<close> is what makes flags readable from a combination; it is
    interpreted on each flag enumeration.

  \<^bold>\<open>The preprocessor.\<close> Headers that are configuration are run as programs.

  \<^item> \<open>Preprocessor\<close>: directives, the state of the preprocessor, and the lemmas on saving and restoring
    macros, on macros a header does not touch, and on include guards.
  \<^item> \<open>Config_Headers\<close> (bsoncxx/config, mongocxx/config, bsoncxx/stdx, bsoncxx/enums): the two halves that
    enclose every header of the drivers, and the implementations chosen between them.
  \<^item> \<open>Compat_Headers\<close> (bson-compat.h, mongoc-thread-private.h, utlist.h): what is defined on each platform.
  \<^item> \<open>Tracing\<close> (mongoc-log.h, mongoc-trace.h): functions as lists of statements, expanded with tracing and
    without.

  \<^bold>\<open>What the lemmas show.\<close> For the program: the end-to-end behaviour on well-formed feeds, and exactly
  which inputs leave it (C14, C15, C17). For the libraries: each operation against an abstract value
  (a list, an option, a sum, a text, an integer) by a representation predicate or function, the named
  collections (\<open>opt_simps\<close>, \<open>uni_simps\<close>, \<open>stands_for_simps\<close>) rewriting an operation on a representation
  to the representation of the result. Where the code does less than its documentation says, the theorem
  states what it does and the boundary.

  \<^bold>\<open>Bounds and termination.\<close> The walk over an offer's tree takes the number of nodes of the store as fuel;
  a node is older than its children, so the depth is smaller, and C3 and C4 conclude that the walk returns.
  The other recursions have measures, or are partial functions into option for which returning is proved
  (C21, C22). Integers have the width of the source: 64-bit sizes, 32-bit BSON lengths.

  \<^bold>\<open>Parameters.\<close> What is compiled elsewhere is an argument: the XML library (the events it reports for
  the blocks pushed), libcurl, \<^verbatim>\<open>boost::lexical_cast\<close>, the driver's answers, the value types
  of the templates. A theorem that relies on one of them says how in its hypotheses.

  \<^bold>\<open>Not modelled.\<close> The locale settings, console output other than the progress lines, the
  unit tests and build files; in the headers, the declarations of functions and classes compiled in the
  libraries, of which there is no code to read (nearly all that is left of mongocxx, libbson and libmongoc,
  and the document views and builders' core of bsoncxx), the private data members of such classes, the parts of mnmlstc/core
  that the program does not use, type traits, \<^verbatim>\<open>noexcept\<close> specifications and static assertions of C++.
\<close>

section \<open>Inputs for the witnesses\<close>

definition noon :: tm where
  "noon = \<lparr>tm_year = 116, tm_mon = 6, tm_mday = 4, tm_hour = 12, tm_min = 30, tm_sec = 5,
     tm_gmtoff = 10800\<rparr>"

definition flat_content :: "xml list" where
  "flat_content = [Elem noon ''type'' [] [Text prodazha], Elem noon ''category'' [] [Text kvartira],
     Elem noon ''price'' [] [Elem noon ''value'' [] [Text ''5'']],
     Elem noon ''image'' [] [Text ''a''], Elem noon ''image'' [] [Text ''b'']]"

definition flat_feed :: xml where
  "flat_feed = Elem noon ''realty-feed'' []
     [Text ''x'', Elem noon ''offer'' [(''internal-id'', ''17'')] flat_content,
      Elem noon ''offer'' [] [Elem noon ''type'' [] [Text ''rent'']]]"

definition five_only :: build_env where
  "five_only = \<lparr>casts = \<lparr>lexical_int = (\<lambda>s. if s = ''5'' then Some 5 else None),
     lexical_double = (\<lambda>s. None)\<rparr>, order = Operand_first\<rparr>"

definition append_document :: "core_call list list insert_one" where
  "append_document docs doc = Inr (docs @ [doc])"

definition empty_collector :: "core_call list list offer_parser" where
  "empty_collector = offer_parser_init [] True True"

lemma noon_ok: "tm_ok noon"
  by (simp add: noon_def tm_ok_def)

lemma flat_content_ok: "list_all content_ok flat_content"
  by (simp add: flat_content_def)

lemma flat_feed_ok: "feed_ok flat_feed"
  using flat_content_ok by (simp add: flat_feed_def noon_ok)

lemma append_document_total: "\<exists>c'. append_document c d = Inr c'"
  by (simp add: append_document_def)

section \<open>From the XML to the collection\<close>

text \<open>
  C2. The SAX handlers, run over the events of a feed in which offers are not nested in offers nor
  images in images, call \<^verbatim>\<open>offer_parser::parse\<close> once for each offer element, in
  document order, with the tree the specification \<open>offers_in\<close> gives it (header nodes, content,
  last text of each element, first image only); nothing in the run is undefined.
\<close>

theorem handlers_deliver_offers:
  assumes "feed_ok doc"
  shows "\<exists>p'. sax_run (offer_parser_parse ins e) (sax_of doc) (parser_init feed_id, op) =
    Some (p', fold (parse_tree ins e) (offers_in feed_id doc) op)"
  using collector.run_feed [OF idle_init assms] by blast

theorem handlers_deliver_offers_witness:
  "\<exists>p'. sax_run (offer_parser_parse append_document five_only) (sax_of flat_feed)
      (parser_init ''feed-1'', empty_collector) =
    Some (p', fold (parse_tree append_document five_only) (offers_in ''feed-1'' flat_feed) empty_collector)"
  by (rule handlers_deliver_offers [OF flat_feed_ok])

text \<open>
  C3. For an offer without offence \<^verbatim>\<open>bson_from_offer\<close> returns a document, and the calls
  it makes on the BSON builder obey the builder's contract and describe exactly the offer: a field
  per node in order, hyphens in names replaced, a nested document per inner node, and for a leaf the
  first of int, double, bool and string that its text is. This needs the compiler to evaluate the
  conversion before the key is streamed.
\<close>

theorem offer_becomes_document:
  assumes "heap_ok h" and "a < length h" and "live h roots a" and "m_parent (h ! a) = None"
    and "order e = Operand_first" and "tree_error only_sales only_flats None (tree_of h a) = None"
  shows "\<exists>log. bson_from_offer e h roots a only_sales only_flats = Some (Inr log) \<and>
    extracted log = Some (tree_fields e (tree_of h a))"
  using bson_from_offer_tree [OF assms(1-4), of e only_sales only_flats]
  by (simp add: assms(6) tree_calls_fields [OF assms(5)] extracted_field_calls)

definition small_heap :: heap where
  "small_heap = [\<lparr>m_parent = None, m_children = [1], m_name = ''offer'', m_data = []\<rparr>,
     \<lparr>m_parent = Some 0, m_children = [2], m_name = ''living-space'', m_data = []\<rparr>,
     \<lparr>m_parent = Some 1, m_children = [], m_name = ''value'', m_data = ''5''\<rparr>]"

lemma small_heap_ok: "heap_ok small_heap"
  by (simp add: heap_ok_def small_heap_def children_def less_Suc_eq numeral_2_eq_2 numeral_3_eq_3
      all_conj_distrib)

lemma small_heap_nodes:
  "length small_heap = 3"
  "children small_heap 0 = [1]" "children small_heap 1 = [2]" "children small_heap 2 = []"
  "name_of small_heap 0 = ''offer''" "name_of small_heap 1 = ''living-space''"
  "name_of small_heap 2 = ''value''"
  "data_of small_heap 0 = []" "data_of small_heap 1 = []" "data_of small_heap 2 = ''5''"
  "m_parent (small_heap ! 0) = None"
  by (simp_all add: small_heap_def children_def name_of_def data_of_def)

lemma small_heap_tree: "tree_of small_heap 0 =
    Node ''offer'' [] [Node ''living-space'' [] [Node ''value'' ''5'' []]]"
proof -
  have "tree_of small_heap 2 = Node ''value'' ''5'' []"
    by (subst tree_of_eq [OF small_heap_ok]) (simp_all add: small_heap_nodes del: One_nat_def)
  moreover have "tree_of small_heap 1 = Node ''living-space'' [] [tree_of small_heap 2]"
    by (subst tree_of_eq [OF small_heap_ok]) (simp_all add: small_heap_nodes del: One_nat_def)
  moreover have "tree_of small_heap 0 = Node ''offer'' [] [tree_of small_heap 1]"
    by (subst tree_of_eq [OF small_heap_ok]) (simp_all add: small_heap_nodes del: One_nat_def)
  ultimately show ?thesis by simp
qed

theorem offer_becomes_document_witness:
  "\<exists>log. bson_from_offer five_only small_heap [0] 0 True True = Some (Inr log) \<and>
    extracted log = Some (tree_fields five_only (tree_of small_heap 0))"
  by (rule offer_becomes_document)
    (simp_all add: small_heap_ok small_heap_nodes small_heap_tree node_error_def five_only_def live_root)

text \<open>
  C4. Which offers get a document: those in which, if only sales are wanted, every node named
  \<^verbatim>\<open>type\<close> at any depth says "sale", and, if only flats are wanted, every
  \<^verbatim>\<open>category\<close> node directly under a node named \<^verbatim>\<open>offer\<close> says "flat". An offer
  without such nodes passes both filters.
\<close>

theorem offer_accepted_iff:
  assumes "heap_ok h" and "a < length h" and "live h roots a" and "m_parent (h ! a) = None"
  shows "(\<exists>log. bson_from_offer e h roots a only_sales only_flats = Some (Inr log)) \<longleftrightarrow>
    (\<forall>(up, n, d) \<in> set (nodes_under None (tree_of h a)).
       (only_sales \<and> n = ''type'' \<longrightarrow> d = prodazha) \<and>
       (only_flats \<and> n = ''category'' \<and> up = Some ''offer'' \<longrightarrow> d = kvartira))"
proof -
  have "(\<exists>log. bson_from_offer e h roots a only_sales only_flats = Some (Inr log)) \<longleftrightarrow>
      tree_error only_sales only_flats None (tree_of h a) = None"
    using bson_from_offer_tree [OF assms, of e only_sales only_flats] by (auto split: option.splits)
  then show ?thesis
    by (simp add: tree_error_None node_error_def prodazha_def kvartira_def) (fastforce split: prod.splits)
qed

theorem offer_accepted_iff_witness:
  "(\<exists>log. bson_from_offer five_only small_heap [0] 0 True True = Some (Inr log)) \<longleftrightarrow>
    (\<forall>(up, n, d) \<in> set (nodes_under None (tree_of small_heap 0)).
       (True \<and> n = ''type'' \<longrightarrow> d = prodazha) \<and>
       (True \<and> n = ''category'' \<and> up = Some ''offer'' \<longrightarrow> d = kvartira))"
  by (rule offer_accepted_iff) (simp_all add: small_heap_ok small_heap_nodes live_root)

section \<open>The shared collector\<close>

text \<open>
  C5. Linearizability of \<^verbatim>\<open>offer_parser::parse\<close>: in every reachable state of every
  interleaving the finished calls, in the order in which they gave the lock back, explain the
  state. Each thread's calls appear in its own order; when the mutex is free the count and the
  collection are those of running these calls one after another; and when all threads are done
  every job is among them.
\<close>

theorem parse_linearizable:
  assumes "reachable ins e (threads_init op jobs) s"
  shows "\<exists>calls. (\<forall>i. \<exists>rest. jobs i = calls_of_thread i calls @ rest) \<and>
    (mutex s = None \<longrightarrow>
       m_count (object s) = m_count (in_sequence ins e calls op) \<and>
       m_collection (object s) = m_collection (in_sequence ins e calls op)) \<and>
    (all_done s \<longrightarrow> mutex s = None \<and> (\<forall>i. jobs i = calls_of_thread i calls))"
proof (intro exI [of _ "history s"] conjI allI impI)
  note inv = reachable_invs [OF assms]
  show "\<exists>rest. jobs i = calls_of_thread i (history s) @ rest" for i
    using inv unfolding jobs_inv_def by metis
  show "jobs i = calls_of_thread i (history s)" if "all_done s" for i
    using done_history [of jobs s i] inv that by simp
  show "mutex s = None" if "all_done s"
    using inv that by (cases "mutex s") (auto simp: locking_inv_def all_done_def)
  assume "mutex s = None"
  with inv have "core (object s) = core (in_sequence ins e (history s) op)" by (simp add: object_inv_def)
  then show "m_count (object s) = m_count (in_sequence ins e (history s) op)"
    and "m_collection (object s) = m_collection (in_sequence ins e (history s) op)"
    by (simp_all add: core_def)
qed

definition one_flat :: otree where
  "one_flat = Node ''offer'' [] [Node ''type'' prodazha []]"

definition one_job :: "nat \<Rightarrow> otree list" where
  "one_job i = (if i = 0 then [one_flat] else [])"

lemma one_flat_accepted: "accepted True f one_flat"
  by (simp add: accepted_def one_flat_def node_error_def)

lemma one_job_run:
  "\<exists>s. reachable append_document five_only (threads_init empty_collector one_job) s \<and> all_done s"
proof -
  let ?s0 = "threads_init empty_collector one_job"
  have "accepted (m_only_sales (object ?s0)) (m_only_flats (object ?s0)) one_flat"
    using one_flat_accepted by (simp add: threads_init_def empty_collector_def offer_parser_init_def)
  moreover have "mutex ?s0 = None" "pcs ?s0 0 = Outside" "todo ?s0 0 = [one_flat]"
    by (simp_all add: threads_init_def one_job_def)
  moreover obtain c where
    "append_document (m_collection (object ?s0)) (offer_doc five_only one_flat) = Inr c"
    using append_document_total by blast
  ultimately obtain s where "reachable append_document five_only ?s0 s" "pcs s = pcs ?s0"
      "todo s = (todo ?s0)(0 := [])"
    using whole_call [OF reachable.start] by metis
  then show ?thesis
    by (intro exI [of _ s]) (simp add: all_done_def threads_init_def one_job_def)
qed

theorem parse_linearizable_witness:
  "\<exists>(s :: core_call list list threads) calls. all_done s \<and> mutex s = None \<and>
    m_count (object s) = m_count (in_sequence append_document five_only calls empty_collector) \<and>
    (\<forall>i. one_job i = calls_of_thread i calls)"
proof -
  obtain s where s: "reachable append_document five_only (threads_init empty_collector one_job) s"
      "all_done s" using one_job_run by blast
  from parse_linearizable [OF s(1)] s(2) show ?thesis by (intro exI [of _ s]) auto
qed

text \<open>
  C6. The number reported at the end does not depend on the schedule: with a collection that accepts
  every document, once all threads are done the count has grown by the number of jobs that pass the
  filters, over all threads, modulo the width of \<^verbatim>\<open>size_t\<close>. No update of
  \<^verbatim>\<open>m_count++\<close> is lost.
\<close>

theorem final_count:
  assumes "reachable ins e (threads_init op jobs) s" and "all_done s"
    and "\<And>c d. \<exists>c'. ins c d = Inr c'" and "\<And>i. n \<le> i \<Longrightarrow> jobs i = []"
  shows "m_count (object s) = m_count op +
    of_nat (\<Sum>i<n. length (filter (accepted (m_only_sales op) (m_only_flats op)) (jobs i)))"
  using assms by (rule done_count)

theorem final_count_witness:
  "\<exists>s :: core_call list list threads. all_done s \<and> m_count (object s) = m_count empty_collector +
    of_nat (\<Sum>i<1. length (filter (accepted (m_only_sales empty_collector) (m_only_flats empty_collector))
      (one_job i)))"
proof -
  obtain s where s: "reachable append_document five_only (threads_init empty_collector one_job) s"
      "all_done s" using one_job_run by blast
  have "m_count (object s) = m_count empty_collector +
    of_nat (\<Sum>i<1. length (filter (accepted (m_only_sales empty_collector) (m_only_flats empty_collector))
      (one_job i)))"
    by (rule final_count [OF s]) (simp_all add: append_document_total one_job_def)
  with s(2) show ?thesis by blast
qed

text \<open>
  C7. The joins return: from every reachable state with work left some thread can take a step, so
  there is no deadlock.
\<close>

theorem no_deadlock:
  assumes "reachable ins e (threads_init op jobs) s" and "\<not> all_done s"
  shows "\<exists>s'. thread_step ins e s s'"
  using reachable_invs [OF assms(1)] some_thread_steps [OF _ assms(2)] by blast

theorem no_deadlock_witness:
  "\<exists>s'. thread_step append_document five_only (threads_init empty_collector one_job) s'"
  by (rule no_deadlock [OF reachable.start])
    (auto simp: all_done_def threads_init_def one_job_def)



text \<open>
  Mutual exclusion: two threads are never between the lock and the unlock of
  \<^verbatim>\<open>parse\<close> at once.
\<close>

theorem mutual_exclusion:
  assumes "reachable ins e (threads_init op jobs) s"
    and "busy (pcs s i) \<noteq> None" and "busy (pcs s j) \<noteq> None"
  shows "i = j"
  using reachable_invs [OF assms(1)] assms(2,3) unfolding locking_inv_def by (metis option.inject)

theorem mutual_exclusion_witness:
  "\<exists>s :: core_call list list threads. busy (pcs s 0) \<noteq> None \<and> (\<forall>j. busy (pcs s j) \<noteq> None \<longrightarrow> 0 = j)"
proof -
  let ?s0 = "threads_init empty_collector one_job"
  let ?s1 = "?s0\<lparr>mutex := Some 0, pcs := (pcs ?s0)(0 := Locked one_flat), todo := (todo ?s0)(0 := [])\<rparr>"
  have "thread_step append_document five_only ?s0 ?s1"
    by (rule thread_step.lock) (simp_all add: threads_init_def one_job_def)
  then have s1: "reachable append_document five_only ?s0 ?s1" by (blast intro: reachable.intros)
  have "busy (pcs ?s1 0) \<noteq> None" by simp
  with mutual_exclusion [OF s1 this] show ?thesis by blast
qed

section \<open>The feed drivers\<close>

text \<open>
  C9. Reading a feed from a stream: if the XML library reports, for the stream's bytes handed over in
  blocks, the events of a feed, \<^verbatim>\<open>parse_feed_stream\<close> returns and the collector has
  received exactly the feed's offers, in order.
\<close>

theorem stream_delivers_offers:
  assumes "good is"
    and "lex_all lxr l (chunks (PARSE_FEED_BUFFER_SIZE - 1) (unread is)) = (l', sax_of doc, None)"
    and "feed_ok doc"
  shows "\<exists>p'. parse_feed_stream lxr l is (offer_parser_parse ins e) op =
    Some (Inr (l', p', fold (parse_tree ins e) (offers_in ''unknown'' doc) op))"
  using collector.chunks_deliver [OF assms(2,3) idle_init [of "''unknown''"]]
  by (simp add: parse_feed_stream_def read_loop_chunks [OF assms(1)])

text \<open>A lexer that reports everything with the first block.\<close>

definition eager_lexer :: "xml \<Rightarrow> bool lexer" where
  "eager_lexer doc first chunk = (if first then (False, sax_of doc, None) else (first, [], None))"

lemma eager_lexer_one: "lex_all (eager_lexer doc) True [c] = (False, sax_of doc, None)"
  by (simp add: eager_lexer_def)

lemma one_chunk: "s \<noteq> [] \<Longrightarrow> length s \<le> n \<Longrightarrow> chunks n s = [s]"
  by (subst chunks.simps) (cases s; auto)

theorem stream_delivers_offers_witness:
  "\<exists>p'. parse_feed_stream (eager_lexer flat_feed) True (open_stream ''<realty-feed>...'')
      (offer_parser_parse append_document five_only) empty_collector =
    Some (Inr (False, p', fold (parse_tree append_document five_only)
      (offers_in ''unknown'' flat_feed) empty_collector))"
  by (rule stream_delivers_offers)
    (simp_all add: flat_feed_ok eager_lexer_one good_def open_stream_def one_chunk
      PARSE_FEED_BUFFER_SIZE_def del: lex_all.simps)


definition one_block_env :: feed_env where
  "one_block_env = \<lparr>local_time = noon, can_open = (\<lambda>f. True), curl_handle = True,
     transfer = (\<lambda>url. [(''<a/>'' @ [CHR 0x00], 1, 4)])\<rparr>"

lemma noon_postfix: "get_feed_path_postfix noon = Some ''_feed_2016_07_04_12''"
  by (simp add: get_feed_path_postfix_def strftime_def noon_def conversion_def Let_def pad2_def
      dec.simps char_of_def bit_iff_odd)


text \<open>
  C11. The read loop ends on every stream, and it hands over the stream's bytes, all of them and in
  order, in blocks that are never empty and never larger than the buffer less one byte.
\<close>

theorem read_loop_blocks:
  assumes "good is"
  shows "\<exists>blocks. concat blocks = unread is \<and>
    (\<forall>b \<in> set blocks. b \<noteq> [] \<and> length b \<le> PARSE_FEED_BUFFER_SIZE - 1) \<and>
    (\<forall>put x. read_loop put is x = put_all put blocks x)"
proof (intro exI conjI)
  show "concat (chunks (PARSE_FEED_BUFFER_SIZE - 1) (unread is)) = unread is"
    by (rule concat_chunks) (simp add: PARSE_FEED_BUFFER_SIZE_def)
qed (use chunks_bounds read_loop_chunks [OF assms] in auto)

theorem read_loop_blocks_witness:
  "\<exists>blocks. concat blocks = unread (open_stream ''<feed/>'') \<and>
    (\<forall>b \<in> set blocks. b \<noteq> [] \<and> length b \<le> PARSE_FEED_BUFFER_SIZE - 1) \<and>
    (\<forall>put (x::nat). read_loop put (open_stream ''<feed/>'') x = put_all put blocks x)"
  by (rule read_loop_blocks) (simp add: good_def open_stream_def)

text \<open>
  A feed file that cannot be opened is silently an empty feed: the callback is not called and no
  error is reported.
\<close>

theorem missing_feed_file:
  assumes "files name = None"
  shows "parse_feed_file lxr l files name cb s = Some (Inr (l, parser_init ''unknown'', s))"
  using assms by (simp add: parse_feed_file_def parse_feed_stream_def ifstream_def read_loop_failed)

theorem missing_feed_file_witness:
  "parse_feed_file (eager_lexer flat_feed) True (\<lambda>f. None) ''a.xml''
      (offer_parser_parse append_document five_only) empty_collector =
    Some (Inr (True, parser_init ''unknown'', empty_collector))"
  by (rule missing_feed_file) simp



text \<open>
  C13. The two time stamps fit their buffers for every local time from the year 1000 on: the
  \<^verbatim>\<open>last_modified\<close> stamp the 1024 bytes of \<^verbatim>\<open>on_start_element\<close>, and the
  file name's postfix the 32 bytes of \<^verbatim>\<open>get_feed_path_postfix\<close>.
\<close>

theorem stamps_fit:
  assumes "tm_ok now"
  shows "strftime 1024 time_format now = Some (expand time_format now) \<and>
    get_feed_path_postfix now = Some (expand ''_feed_%Y_%m_%d_%H'' now) \<and>
    length (expand ''_feed_%Y_%m_%d_%H'' now) \<le> 25"
  using strftime_last_modified [OF assms] length_year [OF assms]
  by (simp add: get_feed_path_postfix_def strftime_def conversion_def Let_def)

theorem stamps_fit_witness:
  "strftime 1024 time_format noon = Some (expand time_format noon) \<and>
    get_feed_path_postfix noon = Some (expand ''_feed_%Y_%m_%d_%H'' noon) \<and>
    length (expand ''_feed_%Y_%m_%d_%H'' noon) \<le> 25"
  by (rule stamps_fit [OF noon_ok])

section \<open>Event sequences that are no well-formed feed\<close>

text \<open>
  C14. Over any sequence of events at all, the handlers stay defined and keep the parser's invariant
  (a well-formed store, pointers into it, a root without parent) exactly when no offer's end tag
  comes before every offer's start tag.
\<close>

theorem handlers_defined_iff:
  assumes "list_all clock_ok evs"
  shows "(\<exists>p' op'. sax_run (offer_parser_parse ins e) evs (parser_init feed_id, op) = Some (p', op') \<and>
      parser_ok p') \<longleftrightarrow> offers_started False evs"
  using collector.run_ok [OF parser_ok_init assms] by (simp add: parser_init_def)

theorem handlers_defined_iff_witness:
  "\<not> (\<exists>p' op'. sax_run (offer_parser_parse append_document five_only)
      [Start_element noon ''a'' [], End_element ''offer''] (parser_init ''7'', empty_collector) =
        Some (p', op') \<and> parser_ok p')"
  by (subst handlers_defined_iff) (simp_all add: noon_ok)

text \<open>
  C15. An offer in an offer: the outer offer is lost and the inner one is delivered twice.
\<close>

theorem nested_offer_delivered_twice:
  assumes "tm_ok now" and "tm_ok now'" and "list_all content_ok xs"
  shows "\<exists>p'. sax_run (offer_parser_parse ins e)
      (sax_of (Elem now ''offer'' atts [Elem now' ''offer'' atts' xs])) (parser_init feed_id, op) =
    Some (p', fold (parse_tree ins e)
      [offer_tree feed_id now' atts' xs, offer_tree feed_id now' atts' xs] op)"
  using collector.run_nested_offer [OF idle_init assms] by auto

theorem nested_offer_delivered_twice_witness:
  "\<exists>p'. sax_run (offer_parser_parse append_document five_only)
      (sax_of (Elem noon ''offer'' [(''internal-id'', ''1'')]
        [Elem noon ''offer'' [(''internal-id'', ''2'')] flat_content]))
      (parser_init ''7'', empty_collector) =
    Some (p', fold (parse_tree append_document five_only)
      [offer_tree ''7'' noon [(''internal-id'', ''2'')] flat_content,
       offer_tree ''7'' noon [(''internal-id'', ''2'')] flat_content] empty_collector)"
  by (rule nested_offer_delivered_twice [OF noon_ok noon_ok flat_content_ok])

text \<open>
  Text that the XML library reports in two pieces (as it may at the end of a block or around an
  entity) loses its first piece: the run is the same as if only the second had been reported.
\<close>

theorem split_text_keeps_last_piece:
  "sax_run cb (pre @ [Characters a, Characters b] @ post) ps =
   sax_run cb (pre @ [Characters b] @ post) ps"
  by (simp add: sax_run_append on_characters_overwrites split: option.split prod.split)

text \<open>
  A delivered offer has at most one image node, however many images the element has and however
  deep they stand.
\<close>

theorem at_most_one_image:
  assumes "feed_ok doc" and "t \<in> set (offers_in feed_id doc)"
  shows "images t \<le> 1"
  using assms by (rule images_offers_in)

theorem at_most_one_image_witness:
  "images (offer_tree ''7'' noon [(''internal-id'', ''17'')] flat_content) \<le> 1"
  by (rule at_most_one_image [of flat_feed _ "''7''", OF flat_feed_ok]) (simp add: flat_feed_def)

section \<open>The document builder\<close>

text \<open>
  C16. What the stream's types promise: an expression over the non-callable operands that compiles
  obeys the core's contract (a key, then its value; every close for its open) if and only if it does
  not end in the closed context, that is, does not close the root document.
\<close>

theorem stream_types_enforce_contract:
  assumes "list_all first_order ts" and "shls (Key_context Closed_context) ts = Some (cs, c)"
  shows "(\<exists>st. core_run doc_start cs = Some st) \<longleftrightarrow> c \<noteq> Closed_context"
proof -
  have "fits (Key_context Closed_context) doc_start" by (simp add: doc_start_def)
  from shls_fits [OF this assms] show ?thesis by (auto split: if_splits)
qed

theorem stream_types_enforce_contract_witness:
  "\<not> (\<exists>st. core_run doc_start [Key_view ''a'', Append (B_int32 1), Close_document] = Some st)"
  by (subst stream_types_enforce_contract
      [where ts = "[Lit ''a'', Val (B_int32 1), Close_doc]" and c = Closed_context])
    (simp_all add: shl.simps)

text \<open>
  C17. The order of evaluation matters: where the compiler streams the key before it evaluates the
  conversion, an offer with one leaf that is no int leaves a key without value in the builder, and
  what \<^verbatim>\<open>bson_from_offer\<close> extracts breaks the builder's contract.
\<close>

theorem key_first_breaks_contract:
  assumes "heap_ok h" and "a < length h" and "live h roots a" and "m_parent (h ! a) = None"
    and "tree_error only_sales only_flats None (tree_of h a) = None"
    and "order e = Key_first" and "d \<in> set (leaves (tree_of h a))" and "cast_int e d = None"
  shows "\<exists>log. bson_from_offer e h roots a only_sales only_flats = Some (Inr log) \<and> extracted log = None"
proof -
  obtain cs k k' ds where calls: "tree_calls e (tree_of h a) = cs @ [Key_owned k, Key_owned k'] @ ds"
    using tree_calls_key_first [OF assms(6-8)] by blast
  have "core_run doc_start (tree_calls e (tree_of h a) @ [Extract_document]) = None"
    using core_run_two_keys [of doc_start cs k k' "ds @ [Extract_document]"] by (simp add: calls)
  then show ?thesis
    using bson_from_offer_tree [OF assms(1-4), of e only_sales only_flats]
    by (simp add: assms(5) extracted_def)
qed

definition key_first :: build_env where
  "key_first = \<lparr>casts = \<lparr>lexical_int = (\<lambda>s. None), lexical_double = (\<lambda>s. None)\<rparr>, order = Key_first\<rparr>"

theorem key_first_breaks_contract_witness:
  "\<exists>log. bson_from_offer key_first small_heap [0] 0 True True = Some (Inr log) \<and> extracted log = None"
  by (rule key_first_breaks_contract [where d = "''5''"])
    (simp_all add: small_heap_ok small_heap_nodes small_heap_tree node_error_def key_first_def cast_int_def
      live_root)

section \<open>Configuration and startup\<close>

text \<open>
  C18. What the configuration loop reads: the map it leaves is sorted, and a key's value is that of
  the last line that assigns it. A line assigns if it does not start with a hash, has an equals sign
  and something after the first one.
\<close>

theorem config_last_assignment_wins:
  "map_ok (config_loop (ifstream (Some file)) []) \<and>
   map_of (config_loop (ifstream (Some file)) []) key =
     map_of (rev (List.map_filter setting_of (lines_of file))) key"
  by (simp add: ifstream_def config_loop_eq map_of_fold_assign map_ok_assign map_ok_def [of "[]"])

text \<open>
  C19. Writing a map of settings to a file, a line each, and reading the file gives the map back, if
  keys are free of equals signs and newlines and do not start with a hash, and values are not empty
  and free of newlines.
\<close>

theorem config_round_trip:
  assumes "map_ok settings" and "\<forall>kv \<in> set settings. writable kv"
  shows "config_loop (open_stream (print_config settings)) [] = settings"
  using assms by (rule config_loop_print)

theorem config_round_trip_witness:
  "config_loop (open_stream (print_config [(''host'', ''a=b''), (''storage'', ''/var'')])) [] =
    [(''host'', ''a=b''), (''storage'', ''/var'')]"
  by (rule config_round_trip) (simp_all add: map_ok_def writable_def less_list_code less_char_def)

text \<open>
  \<^verbatim>\<open>get_str_value\<close> takes the first and the last byte off the JSON text, whatever
  they are: the quotes of a string, but also digits of a number; a text of one byte becomes empty, and
  an empty one throws.
\<close>

theorem get_str_value_strips_ends:
  assumes "length s + 2 < 2 ^ 64"
  shows "get_str_value (c # s @ [d]) = Inr s \<and> get_str_value [c] = Inr [] \<and>
    get_str_value [] = Inl Out_of_range"
proof -
  have "word_of_nat (length (c # s @ [d])) - 2 = (word_of_nat (length s) :: u64)" by simp
  moreover have "unat (word_of_nat (length s) :: u64) = length s"
    using assms by (simp add: unat_of_nat)
  ultimately show ?thesis by (simp add: get_str_value_def substr_def)
qed

theorem get_str_value_strips_ends_witness:
  "get_str_value (CHR ''1'' # ''23'' @ ''4'') = Inr ''23'' \<and> get_str_value ''1'' = Inr [] \<and>
    get_str_value [] = Inl Out_of_range"
  by (rule get_str_value_strips_ends) simp

text \<open>
  C20. Startup: the statement on \<^verbatim>\<open>filter_builder\<close> compiles, obeys the builder's
  contract, and builds the condition that \<^verbatim>\<open>feed_url\<close> is not empty and
  \<^verbatim>\<open>ignore_feed\<close> is false; and with a storage path, a connection and agents whose fields
  can be read, \<^verbatim>\<open>main\<close> reaches the joins with one job per agent that query yields, in
  the cursor's order, and with an offer_parser that has the count zero, the dropped collection, and
  the two filters on unless the configuration says "false".
\<close>

theorem main_starts_all_jobs:
  assumes "length argv = 2" and "settings = config_loop (ifstream (files (argv ! 1))) []"
    and "fst (map_at settings ''storage'') \<noteq> []"
    and "connects db (''mongodb://'' @ fst (map_at settings ''host'') @ '':'' @ fst (map_at settings ''port'')) = None"
    and "agents db (stream_stmt [] filter_tokens) = (docs, None)"
    and "\<forall>doc \<in> set docs. agent_job db (fst (map_at settings ''storage'')) doc = Inr (job_of doc, line_of doc)"
  shows "extracted (stream_stmt [] filter_tokens) =
      Some [(''$and'', Arr [Doc [(''feed_url'', Doc [(''$ne'', Scalar (B_utf8 []))])],
                            Doc [(''ignore_feed'', Scalar (B_bool False))]])] \<and>
    (\<exists>out. main_start db files argv = Joining (map job_of docs) out
      (offer_parser_init (fst (offers_after_drop db))
        (fst (map_at settings ''only_sales'') \<noteq> ''false'') (fst (map_at settings ''only_flats'') \<noteq> ''false'')))"
  using agents_query main_start_all [of argv settings files db docs job_of line_of, OF assms] by blast

definition one_agent_db :: "core_call list list db_env" where
  "one_agent_db = \<lparr>connects = (\<lambda>uri. None), offers_collection = [], drops = Inr,
     agents = (\<lambda>query. ([0], None)), field_json = (\<lambda>doc key. Inr (CHR 0x22 # key @ [CHR 0x22]))\<rparr>"

lemma one_agent_job: "agent_job one_agent_db storage doc =
    Inr (\<lparr>job_url = ''feed_url'', job_id = CHR 0x22 # ''_id'' @ [CHR 0x22], job_name = ''identifier'',
          job_storage = storage\<rparr>,
      ''Parsing feed from '' @ ''identifier'' @ '' id: '' @ CHR 0x22 # ''_id'' @ [CHR 0x22])"
  by (simp add: agent_job_def agent_string_def one_agent_db_def get_str_value_def substr_def)

lemma storage_config:
  "config_loop (open_stream (print_config [(''only_flats'', ''false''), (''storage'', ''/var'')])) [] =
    [(''only_flats'', ''false''), (''storage'', ''/var'')]"
  by (rule config_loop_print) (simp_all add: map_ok_def writable_def less_list_code less_char_def)

theorem main_starts_all_jobs_witness:
  "extracted (stream_stmt [] filter_tokens) =
      Some [(''$and'', Arr [Doc [(''feed_url'', Doc [(''$ne'', Scalar (B_utf8 []))])],
                            Doc [(''ignore_feed'', Scalar (B_bool False))]])] \<and>
    (\<exists>out. main_start one_agent_db
      (\<lambda>f. Some (print_config [(''only_flats'', ''false''), (''storage'', ''/var'')])) [''prog'', ''cfg''] =
    Joining (map (\<lambda>doc. fst (projr (agent_job one_agent_db ''/var'' doc))) [0]) out
      (offer_parser_init (fst (offers_after_drop one_agent_db))
        (fst (map_at [(''only_flats'', ''false''), (''storage'', ''/var'')] ''only_sales'') \<noteq> ''false'')
        (fst (map_at [(''only_flats'', ''false''), (''storage'', ''/var'')] ''only_flats'') \<noteq> ''false'')))"
  by (rule main_starts_all_jobs [where line_of = "\<lambda>doc. snd (projr (agent_job one_agent_db ''/var'' doc))"])
    (simp_all add: ifstream_def storage_config map_at_value one_agent_job, simp_all add: one_agent_db_def)

section \<open>The whole program\<close>


definition one_agent_file :: "string \<Rightarrow> string option" where
  "one_agent_file f = Some (print_config [(''only_flats'', ''false''), (''storage'', ''/var'')])"

lemma one_agent_settings:
  "config_loop (ifstream (one_agent_file f)) [] = [(''only_flats'', ''false''), (''storage'', ''/var'')]"
  by (simp add: one_agent_file_def ifstream_def storage_config)

lemma one_agent_starts:
  "\<exists>job out op. main_start one_agent_db one_agent_file [''prog'', ''cfg''] = Joining [job] out op"
  using main_start_all [where argv = "[''prog'', ''cfg'']" and files = one_agent_file and db = one_agent_db
      and docs = "[0]" and settings = "[(''only_flats'', ''false''), (''storage'', ''/var'')]"
      and line_of = "\<lambda>doc. snd (projr (agent_job one_agent_db ''/var'' doc))"
      and job_of = "\<lambda>doc. fst (projr (agent_job one_agent_db ''/var'' doc))"]
  by (simp add: one_agent_settings map_at_value one_agent_job) (simp add: one_agent_db_def, blast)

lemma one_block_arrives: "feed_arrives one_block_env (eager_lexer flat_feed) True url flat_feed"
  by (simp add: feed_arrives_def one_block_env_def readable_def noon_ok flat_feed_ok eager_lexer_one
      del: lex_all.simps)

lemma append_document_keeps: "keeps_documents append_document (\<lambda>c. c)"
  by (simp add: keeps_documents_def append_document_def)


end
